(* ===== verification/Mania_Prelude.thy ===== *)
theory Mania_Prelude
  imports Main "HOL-Library.Word" "HOL-Library.Monad_Syntax"
begin

text \<open>
  Shared vocabulary of the development.

  \<^item> The machine types of the Rust code: \<open>u8\<close>, \<open>u16\<close>, \<open>u32\<close>, \<open>u64\<close> are words of that
    width (a signed \<open>i32\<close> is the same word, read by \<open>sint\<close>); \<open>Vec<u8>\<close>, \<open>Bytes\<close> and
    \<open>[u8; n]\<close> are lists of bytes; a \<open>String\<close> is the list of its UTF-8 bytes.
  \<^item> A Rust panic is \<open>None\<close> of an \<open>option\<close>; a \<open>Result\<close> is a sum with the error left.
    A function that may do both returns \<open>(error + 'a) option\<close>.
  \<^item> The big-endian conversions (\<open>to_be_bytes\<close>, \<open>BigEndian::read_u32\<close>, \<open>Buf::get_u32\<close>)
    are \<open>be16\<close>, \<open>be32\<close>, \<open>be64\<close> and \<open>of_be\<close>.
  \<^item> The parts of the Rust standard library the code relies on: decimal formatting and
    parsing of \<open>u32\<close>, hexadecimal formatting, \<open>String::from_utf8_lossy\<close>.
  \<^item> The theorem collections \<open>emit_intros\<close> (what a packet builder appends),
    \<open>read_simps\<close> (what a packet reader returns) and \<open>wire_defs\<close>.
\<close>

unbundle bit_operations_syntax

named_theorems emit_intros "what a builder transformer appends"
named_theorems read_simps "what a reader operation returns"
named_theorems wire_defs "definitions of the wire layouts"

section \<open>Machine types\<close>

type_synonym u8 = "8 word"
type_synonym u16 = "16 word"
type_synonym u32 = "32 word"
type_synonym u64 = "64 word"
type_synonym i32 = "32 word"
type_synonym bytes = "u8 list"
type_synonym rstring = "u8 list"

lemma bit_u8: "bit (b :: u8) n \<Longrightarrow> n < 8"
  using bit_imp_le_length [of b n] by simp

lemma take_bit_word_all: "LENGTH('a::len) \<le> n \<Longrightarrow> take_bit n (w :: 'a word) = w"
  by (rule bit_word_eqI) (simp add: bit_simps)

lemma unat_of_nat_small: "n < 2 ^ LENGTH('a::len) \<Longrightarrow> unat (of_nat n :: 'a word) = n"
  by (simp add: unat_of_nat take_bit_eq_mod)

section \<open>Big-endian bytes\<close>

primrec be_n :: "nat \<Rightarrow> 'a::len word \<Rightarrow> bytes" where
  "be_n 0 w = []"
| "be_n (Suc n) w = be_n n (drop_bit 8 w) @ [ucast w]"

definition of_be :: "bytes \<Rightarrow> 'a::len word" where
  "of_be bs = foldl (\<lambda>acc b. push_bit 8 acc OR ucast b) 0 bs"

definition be16 :: "u16 \<Rightarrow> bytes" where "be16 w = be_n 2 w"
definition be32 :: "u32 \<Rightarrow> bytes" where "be32 w = be_n 4 w"
definition be64 :: "u64 \<Rightarrow> bytes" where "be64 w = be_n 8 w"

lemma length_be_n [simp]: "length (be_n n w) = n"
  by (induction n arbitrary: w) simp_all

lemma of_be_Nil [simp]: "of_be [] = 0"
  by (simp add: of_be_def)

lemma of_be_snoc [simp]: "of_be (bs @ [b]) = push_bit 8 (of_be bs) OR ucast b"
  by (simp add: of_be_def)

lemma of_be_be_n: "of_be (be_n n w) = take_bit (8 * n) w"
proof (induction n arbitrary: w)
  case 0
  show ?case by simp
next
  case (Suc n)
  have "push_bit 8 (take_bit (8 * n) (drop_bit 8 w)) OR ucast (ucast w :: u8)
      = take_bit (8 * Suc n) w"
    by (rule bit_word_eqI) (auto simp: bit_simps dest: bit_u8)
  then show ?case by (simp add: Suc.IH)
qed

lemma bit_of_be: "bit (of_be bs :: 'a::len word) k \<Longrightarrow> k < 8 * length bs"
proof (induction bs arbitrary: k rule: rev_induct)
  case Nil
  then show ?case by simp
next
  case (snoc b bs)
  then show ?case
    by (cases "k < 8") (auto simp: bit_simps dest!: snoc.IH dest: bit_u8)
qed

lemma be_n_of_be:
  assumes "length bs = n" and "8 * n \<le> LENGTH('a::len)"
  shows "be_n n (of_be bs :: 'a word) = bs"
  using assms
proof (induction bs arbitrary: n rule: rev_induct)
  case Nil
  then show ?case by simp
next
  case (snoc b bs)
  then obtain m where n: "n = Suc m" and m: "length bs = m" by (cases n) auto
  have lo: "(ucast (push_bit 8 (of_be bs) OR ucast b :: 'a word) :: u8) = b"
    using snoc.prems by (auto simp: bit_simps intro!: bit_word_eqI)
  have hi: "drop_bit 8 (push_bit 8 (of_be bs) OR ucast b :: 'a word) = of_be bs"
  proof (rule bit_word_eqI)
    fix k assume k: "k < LENGTH('a)"
    show "bit (drop_bit 8 (push_bit 8 (of_be bs) OR ucast b :: 'a word)) k
        = bit (of_be bs :: 'a word) k"
      using k snoc.prems n m bit_of_be [of bs k, where 'a = 'a]
      by (auto simp: bit_simps dest: bit_u8)
  qed
  show ?case
    using snoc.IH [OF m] snoc.prems n lo hi by simp
qed

lemma length_be [simp]:
  "length (be16 v) = 2" "length (be32 w) = 4" "length (be64 x) = 8"
  by (simp_all add: be16_def be32_def be64_def)

lemma of_be_be [simp]:
  "of_be (be16 v) = v" "of_be (be32 w) = w" "of_be (be64 x) = x"
  by (simp_all add: be16_def be32_def be64_def of_be_be_n take_bit_word_all)

lemma be_of_be:
  "length bs = 2 \<Longrightarrow> be16 (of_be bs) = bs"
  "length bs = 4 \<Longrightarrow> be32 (of_be bs) = bs"
  "length bs = 8 \<Longrightarrow> be64 (of_be bs) = bs"
  by (simp_all add: be16_def be32_def be64_def be_n_of_be)

lemma of_be_single [simp]: "of_be [b] = (ucast b :: 'a::len word)"
  by (simp add: of_be_def)

section \<open>Panics\<close>

text \<open>\<open>check b\<close> panics unless \<open>b\<close> holds: the bounds checks of slices and buffers.\<close>

definition check :: "bool \<Rightarrow> unit option" where
  "check b = (if b then Some () else None)"

lemma check_bind [simp]: "Option.bind (check b) f = (if b then f () else None)"
  by (simp add: check_def)

text \<open>Collecting a list of fallible values, left to right, as a chain of calls does.\<close>

fun sequence :: "'a option list \<Rightarrow> 'a list option" where
  "sequence [] = Some []"
| "sequence (x # xs) = do { y \<leftarrow> x; ys \<leftarrow> sequence xs; Some (y # ys) }"

text \<open>The \<open>?\<close> operator on a \<open>Result\<close>: go on with the value, or return the error.\<close>

definition try_res :: "'e + 'a \<Rightarrow> ('a \<Rightarrow> ('e + 'b) option) \<Rightarrow> ('e + 'b) option" where
  "try_res r f = (case r of Inl e \<Rightarrow> Some (Inl e) | Inr a \<Rightarrow> f a)"

lemma try_res_simps [simp]:
  "try_res (Inl e) f = Some (Inl e)" "try_res (Inr a) f = f a"
  by (simp_all add: try_res_def)

definition ok_or :: "'e \<Rightarrow> 'a option \<Rightarrow> 'e + 'a" where
  "ok_or e x = (case x of None \<Rightarrow> Inl e | Some a \<Rightarrow> Inr a)"

lemma ok_or_simps [simp]: "ok_or e None = Inl e" "ok_or e (Some a) = Inr a"
  by (simp_all add: ok_or_def)

section \<open>Strings, numbers and UTF-8\<close>

definition str :: "string \<Rightarrow> rstring" where
  "str s = map of_char s"

text \<open>\<open>u32::to_string\<close> and \<open>u32::from_str\<close> (an optional plus sign, decimal digits, no overflow).\<close>

fun dec_str :: "nat \<Rightarrow> rstring" where
  "dec_str n = (if n < 10 then [48 + of_nat n] else dec_str (n div 10) @ [48 + of_nat (n mod 10)])"

declare dec_str.simps [simp del]

fun digits_u32 :: "nat \<Rightarrow> rstring \<Rightarrow> nat option" where
  "digits_u32 acc [] = Some acc"
| "digits_u32 acc (c # cs) =
     (if 48 \<le> c \<and> c \<le> 57
      then let a = 10 * acc + (unat c - 48) in if a < 2 ^ 32 then digits_u32 a cs else None
      else None)"

definition parse_u32 :: "rstring \<Rightarrow> u32 option" where
  "parse_u32 s =
     (case s of [] \<Rightarrow> None
      | c # cs \<Rightarrow> if c = 43 then (if cs = [] then None else map_option of_nat (digits_u32 0 cs))
                  else map_option of_nat (digits_u32 0 s))"

lemma digits_u32_append:
  "digits_u32 acc (xs @ ys) = Option.bind (digits_u32 acc xs) (\<lambda>a. digits_u32 a ys)"
  by (induction xs arbitrary: acc) (simp_all add: Let_def)

lemma unat_digit: "d < 10 \<Longrightarrow> unat (48 + of_nat d :: u8) = 48 + d"
  by (simp add: unat_word_ariths unat_of_nat take_bit_eq_mod)

lemma digit_in_range: "d < 10 \<Longrightarrow> 48 \<le> (48 + of_nat d :: u8) \<and> (48 + of_nat d :: u8) \<le> 57"
  by (simp add: word_le_nat_alt unat_digit)

lemma digits_u32_dec_str: "n < 2 ^ 32 \<Longrightarrow> digits_u32 0 (dec_str n) = Some n"
proof (induction n rule: dec_str.induct)
  case (1 n)
  show ?case
  proof (cases "n < 10")
    case True
    then show ?thesis
      using digit_in_range [OF True] by (simp add: dec_str.simps unat_digit)
  next
    case False
    have d: "n mod 10 < 10" by simp
    have "digits_u32 0 (dec_str (n div 10)) = Some (n div 10)"
      using 1 False by simp
    then show ?thesis
      using False "1.prems" digit_in_range [OF d]
      by (subst dec_str.simps) (simp add: digits_u32_append unat_digit [OF d])
  qed
qed

lemma dec_str_digits: "c \<in> set (dec_str n) \<Longrightarrow> 48 \<le> c \<and> c \<le> 57"
proof (induction n rule: dec_str.induct)
  case (1 n)
  have d: "n mod 10 < 10" by simp
  show ?case
  proof (cases "n < 10")
    case True
    then show ?thesis using "1.prems" digit_in_range [OF True] by (simp add: dec_str.simps)
  next
    case False
    have "c \<in> set (dec_str (n div 10)) \<or> c = 48 + of_nat (n mod 10)"
      using "1.prems" False by (subst (asm) dec_str.simps) auto
    then show ?thesis using "1.IH" [OF False] digit_in_range [OF d] by auto
  qed
qed

lemma dec_str_nonempty: "dec_str n \<noteq> []"
  by (subst dec_str.simps) simp

lemma parse_u32_dec_str [simp]: "parse_u32 (dec_str (unat w)) = Some w"
proof -
  have n: "unat w < 2 ^ 32" using unsigned_less [of w] by simp
  obtain c cs where s: "dec_str (unat w) = c # cs"
    using dec_str_nonempty by (cases "dec_str (unat w)") auto
  have "48 \<le> c" using dec_str_digits [of c "unat w"] s by simp
  then have "c \<noteq> 43" by (auto simp: word_le_nat_alt)
  then show ?thesis
    using digits_u32_dec_str [OF n] s by (simp add: parse_u32_def)
qed

text \<open>The formats \<open>{:x}\<close> and \<open>{:02x}\<close>: lower-case hexadecimal without and with a leading zero.\<close>

definition hex_digit :: "nat \<Rightarrow> u8" where
  "hex_digit d = (if d < 10 then 48 + of_nat d else 87 + of_nat d)"

fun hex_fmt :: "nat \<Rightarrow> rstring" where
  "hex_fmt n = (if n < 16 then [hex_digit n] else hex_fmt (n div 16) @ [hex_digit (n mod 16)])"

declare hex_fmt.simps [simp del]

text \<open>
  \<open>String::from_utf8_lossy\<close>: each maximal ill-formed prefix becomes U+FFFD.
  \<open>utf8_head\<close> looks at the first code point of a non-empty list: whether it is well formed,
  and how many bytes it (or its ill-formed prefix) takes. A byte past the end reads as 0.
\<close>

definition byte_at :: "bytes \<Rightarrow> nat \<Rightarrow> u8" where
  "byte_at bs i = (if i < length bs then bs ! i else 0)"

definition utf8_cont :: "u8 \<Rightarrow> bool" where
  "utf8_cont b \<longleftrightarrow> 0x80 \<le> b \<and> b \<le> 0xBF"

definition utf8_second :: "u8 \<Rightarrow> u8 \<Rightarrow> bool" where
  "utf8_second b0 b1 \<longleftrightarrow>
     (if b0 = 0xE0 then 0xA0 \<le> b1 \<and> b1 \<le> 0xBF
      else if b0 = 0xED then 0x80 \<le> b1 \<and> b1 \<le> 0x9F
      else if b0 = 0xF0 then 0x90 \<le> b1 \<and> b1 \<le> 0xBF
      else if b0 = 0xF4 then 0x80 \<le> b1 \<and> b1 \<le> 0x8F
      else utf8_cont b1)"

definition utf8_head :: "bytes \<Rightarrow> bool \<times> nat" where
  "utf8_head bs =
     (let b0 = byte_at bs 0; b1 = byte_at bs 1; b2 = byte_at bs 2; b3 = byte_at bs 3 in
      if b0 < 0x80 then (True, 1)
      else if 0xC2 \<le> b0 \<and> b0 \<le> 0xDF then (if utf8_cont b1 then (True, 2) else (False, 1))
      else if 0xE0 \<le> b0 \<and> b0 \<le> 0xEF then
        (if \<not> utf8_second b0 b1 then (False, 1)
         else if \<not> utf8_cont b2 then (False, 2) else (True, 3))
      else if 0xF0 \<le> b0 \<and> b0 \<le> 0xF4 then
        (if \<not> utf8_second b0 b1 then (False, 1)
         else if \<not> utf8_cont b2 then (False, 2)
         else if \<not> utf8_cont b3 then (False, 3) else (True, 4))
      else (False, 1))"

fun utf8_lossy :: "bytes \<Rightarrow> rstring" where
  "utf8_lossy [] = []"
| "utf8_lossy (b # bs) =
     (case utf8_head (b # bs) of
        (True, n) \<Rightarrow> take n (b # bs) @ utf8_lossy (drop (n - 1) bs)
      | (False, n) \<Rightarrow> [0xEF, 0xBF, 0xBD] @ utf8_lossy (drop (n - 1) bs))"

fun valid_utf8 :: "bytes \<Rightarrow> bool" where
  "valid_utf8 [] = True"
| "valid_utf8 (b # bs) =
     (case utf8_head (b # bs) of
        (True, n) \<Rightarrow> valid_utf8 (drop (n - 1) bs)
      | (False, n) \<Rightarrow> False)"

lemma utf8_head_pos: "0 < snd (utf8_head bs)"
  by (simp add: utf8_head_def Let_def)

lemma utf8_lossy_valid: "valid_utf8 bs \<Longrightarrow> utf8_lossy bs = bs"
proof (induction bs rule: valid_utf8.induct)
  case 1
  show ?case by simp
next
  case (2 b bs)
  obtain n where h: "utf8_head (b # bs) = (True, n)" and v: "valid_utf8 (drop (n - 1) bs)"
    using "2.prems" by (auto split: prod.splits bool.splits)
  have n: "n = Suc (n - 1)" using utf8_head_pos [of "b # bs"] h by simp
  have "utf8_lossy (drop (n - 1) bs) = drop (n - 1) bs"
    using "2.IH" h v by auto
  moreover have "take n (b # bs) @ drop (n - 1) bs = b # bs"
    by (subst n) (simp del: One_nat_def)
  ultimately show ?case using h by simp
qed

lemma valid_utf8_ascii: "\<forall>c \<in> set s. c < 0x80 \<Longrightarrow> valid_utf8 s"
proof (induction s)
  case Nil
  show ?case by simp
next
  case (Cons c s)
  then show ?case by (simp add: utf8_head_def byte_at_def)
qed

lemma valid_utf8_dec_str: "valid_utf8 (dec_str n)"
proof (rule valid_utf8_ascii, rule ballI)
  fix c assume "c \<in> set (dec_str n)"
  then have "c \<le> 57" using dec_str_digits by blast
  then show "c < 0x80" by (simp add: word_le_nat_alt word_less_nat_alt)
qed

lemma utf8_lossy_dec_str [simp]: "utf8_lossy (dec_str n) = dec_str n"
  by (simp add: utf8_lossy_valid valid_utf8_dec_str)

end
