(* ===== verification/Tea.thy ===== *)
theory Tea
  imports Mania_Prelude
begin

text \<open>
  \<open>mania/src/core/crypto/tea.rs\<close>: the 16-round TEA block cipher and the chained mode the
  login packets use. \<open>encrypt\<close> and \<open>decrypt\<close> are the methods of \<open>Tea16\<close>, with the loops of
  16 rounds as recursions; \<open>tea_encrypt\<close> and \<open>tea_decrypt\<close> add the padding and the chaining.
  A slice that is out of range or has the wrong length panics and is \<open>None\<close>. The random
  padding is the argument \<open>fill\<close>: \<open>fill i\<close> is the padding byte at position \<open>i\<close> of the
  plaintext (220 in debug builds, unknown in release builds).

  The locale \<open>block_cipher\<close> holds what the chained mode needs of a cipher; it is interpreted
  on \<open>Tea16\<close>.
\<close>

section \<open>The block cipher Tea16\<close>

definition TEA_DELTA :: u32 where
  "TEA_DELTA = 0x9E3779B9"

record tea16 =
  key0 :: u32
  key1 :: u32
  key2 :: u32
  key3 :: u32

text \<open>\<open>GenericArray::from_slice\<close> panics unless the key has 16 bytes.\<close>

definition tea16_new :: "bytes \<Rightarrow> tea16 option" where
  "tea16_new key =
     (if length key = 16
      then Some \<lparr>key0 = of_be (take 4 key), key1 = of_be (take 4 (drop 4 key)),
                 key2 = of_be (take 4 (drop 8 key)), key3 = of_be (take 4 (drop 12 key))\<rparr>
      else None)"

text \<open>The two half-round functions of \<open>encrypt\<close> and \<open>decrypt\<close>.\<close>

definition mix_x :: "tea16 \<Rightarrow> u32 \<Rightarrow> u32 \<Rightarrow> u32" where
  "mix_x t sm y = (key0 t + push_bit 4 y) XOR (y + sm) XOR (key1 t + drop_bit 5 y)"

definition mix_y :: "tea16 \<Rightarrow> u32 \<Rightarrow> u32 \<Rightarrow> u32" where
  "mix_y t sm x = (key2 t + push_bit 4 x) XOR (x + sm) XOR (key3 t + drop_bit 5 x)"

fun enc_rounds :: "tea16 \<Rightarrow> nat \<Rightarrow> u32 \<Rightarrow> u32 \<Rightarrow> u32 \<Rightarrow> u32 \<times> u32" where
  "enc_rounds t 0 sm x y = (x, y)"
| "enc_rounds t (Suc n) sm x y =
     (let sm = sm + TEA_DELTA;
          x = x + mix_x t sm y;
          y = y + mix_y t sm x
      in enc_rounds t n sm x y)"

fun dec_rounds :: "tea16 \<Rightarrow> nat \<Rightarrow> u32 \<Rightarrow> u32 \<Rightarrow> u32 \<Rightarrow> u32 \<times> u32" where
  "dec_rounds t 0 sm x y = (x, y)"
| "dec_rounds t (Suc n) sm x y =
     (let y = y - mix_y t sm x;
          x = x - mix_x t sm y;
          sm = sm - TEA_DELTA
      in dec_rounds t n sm x y)"

definition join64 :: "u32 \<Rightarrow> u32 \<Rightarrow> u64" where
  "join64 x y = push_bit 32 (ucast x) OR ucast y"

definition encrypt :: "tea16 \<Rightarrow> u64 \<Rightarrow> u64" where
  "encrypt t n =
     (let (x, y) = enc_rounds t 16 0 (ucast (drop_bit 32 n)) (ucast n) in join64 x y)"

definition decrypt :: "tea16 \<Rightarrow> u64 \<Rightarrow> u64" where
  "decrypt t n =
     (let (x, y) = dec_rounds t 16 (push_bit 4 TEA_DELTA) (ucast (drop_bit 32 n)) (ucast n)
      in join64 x y)"

section \<open>One block of bytes: tea16_encrypt and tea16_decrypt\<close>

text \<open>
  \<open>BigEndian::read_u64\<close> and \<open>write_u64\<close> work on the first eight bytes and panic on fewer; the
  rest of the slice is left as it is.
\<close>

definition on_block :: "(tea16 \<Rightarrow> u64 \<Rightarrow> u64) \<Rightarrow> bytes \<Rightarrow> bytes \<Rightarrow> bytes option" where
  "on_block f msg key =
     do { t \<leftarrow> tea16_new key;
          check (8 \<le> length msg);
          Some (be64 (f t (of_be (take 8 msg))) @ drop 8 msg) }"

definition tea16_encrypt :: "bytes \<Rightarrow> bytes \<Rightarrow> bytes option" where
  "tea16_encrypt = on_block encrypt"

definition tea16_decrypt :: "bytes \<Rightarrow> bytes \<Rightarrow> bytes option" where
  "tea16_decrypt = on_block decrypt"

section \<open>The chained mode\<close>

text \<open>The loops over \<open>work_block\<close>, with the locals \<open>iv1\<close> and \<open>iv2\<close> as arguments.\<close>

fun chain_enc :: "(u64 \<Rightarrow> u64) \<Rightarrow> u64 \<Rightarrow> u64 \<Rightarrow> u64 list \<Rightarrow> u64 list" where
  "chain_enc e iv1 iv2 [] = []"
| "chain_enc e iv1 iv2 (block # bs) =
     (let holder = block XOR iv1;
          iv1 = e holder XOR iv2;
          iv2 = holder
      in iv1 # chain_enc e iv1 iv2 bs)"

fun chain_dec :: "(u64 \<Rightarrow> u64) \<Rightarrow> u64 \<Rightarrow> u64 \<Rightarrow> u64 list \<Rightarrow> u64 list" where
  "chain_dec d iv1 iv2 [] = []"
| "chain_dec d iv1 iv2 (block # bs) =
     (let tmp_block = d (block XOR iv2);
          iv2 = tmp_block;
          holder = tmp_block XOR iv1;
          iv1 = block
      in holder # chain_dec d iv1 iv2 bs)"

text \<open>\<open>read_u64_into\<close> and \<open>write_u64_into\<close>: eight bytes per block; a length mismatch panics.\<close>

fun blocks_of :: "nat \<Rightarrow> bytes \<Rightarrow> u64 list" where
  "blocks_of 0 bs = []"
| "blocks_of (Suc n) bs = of_be (take 8 bs) # blocks_of n (drop 8 bs)"

definition read_u64_into :: "bytes \<Rightarrow> nat \<Rightarrow> u64 list option" where
  "read_u64_into bs n = (if length bs = 8 * n then Some (blocks_of n bs) else None)"

definition write_u64_into :: "u64 list \<Rightarrow> bytes" where
  "write_u64_into ws = concat (map be64 ws)"

definition fill_count :: "bytes \<Rightarrow> nat" where
  "fill_count msg = 9 - (length msg + 1) mod 8"

definition padded :: "(nat \<Rightarrow> u8) \<Rightarrow> bytes \<Rightarrow> bytes" where
  "padded fill msg =
     (let n = fill_count msg in
      [of_nat (n - 2) OR 0xF8] @ map fill [1..<n + 1] @ msg @ replicate 7 0)"

definition tea_encrypt :: "(nat \<Rightarrow> u8) \<Rightarrow> bytes \<Rightarrow> bytes \<Rightarrow> bytes option" where
  "tea_encrypt fill msg key =
     do { let plaintext = padded fill msg;
          work_block \<leftarrow> read_u64_into plaintext (length plaintext div 8);
          cipher \<leftarrow> tea16_new key;
          Some (write_u64_into (chain_enc (encrypt cipher) 0 0 work_block)) }"

definition tea_decrypt :: "bytes \<Rightarrow> bytes \<Rightarrow> bytes option" where
  "tea_decrypt msg key =
     do { work_block \<leftarrow> read_u64_into msg (length msg div 8);
          cipher \<leftarrow> tea16_new key;
          let result = write_u64_into (chain_dec (decrypt cipher) 0 0 work_block);
          check (0 < length result);
          let begin_pos = unat (hd result AND 7) + 3;
          check (7 \<le> length result);
          let end_pos = length result - 7;
          check (begin_pos \<le> end_pos);
          Some (take (end_pos - begin_pos) (drop begin_pos result)) }"

section \<open>The cipher inverts\<close>

text \<open>One round of \<open>decrypt\<close> undoes the last round of \<open>encrypt\<close>.\<close>

lemma enc_rounds_Suc_last:
  "enc_rounds t (Suc n) sm x y =
     (let (x', y') = enc_rounds t n sm x y; s = sm + of_nat (Suc n) * TEA_DELTA;
          x'' = x' + mix_x t s y'; y'' = y' + mix_y t s x''
      in (x'', y''))"
proof (induction n arbitrary: sm x y)
  case 0
  show ?case by (simp add: Let_def)
next
  case (Suc n)
  let ?s = "sm + TEA_DELTA"
  let ?x = "x + mix_x t ?s y"
  let ?y = "y + mix_y t ?s ?x"
  have s: "?s + of_nat (Suc n) * TEA_DELTA = sm + of_nat (Suc (Suc n)) * TEA_DELTA"
    by (simp add: algebra_simps)
  have "enc_rounds t (Suc (Suc n)) sm x y = enc_rounds t (Suc n) ?s ?x ?y"
    by (simp add: Let_def)
  moreover have "enc_rounds t (Suc n) sm x y = enc_rounds t n ?s ?x ?y"
    by (simp add: Let_def)
  ultimately show ?case
    using Suc.IH [of ?s ?x ?y] by (simp only: s)
qed

lemma dec_enc_rounds:
  "enc_rounds t n sm x y = (x', y') \<Longrightarrow>
     dec_rounds t n (sm + of_nat n * TEA_DELTA) x' y' = (x, y)"
proof (induction n arbitrary: x' y')
  case 0
  then show ?case by simp
next
  case (Suc n)
  obtain u v where uv: "enc_rounds t n sm x y = (u, v)" by fastforce
  let ?s = "sm + of_nat (Suc n) * TEA_DELTA"
  have x': "x' = u + mix_x t ?s v" and y': "y' = v + mix_y t ?s x'"
    using Suc.prems by (auto simp only: enc_rounds_Suc_last uv Let_def prod.case prod.inject)
  have s: "?s - TEA_DELTA = sm + of_nat n * TEA_DELTA"
    by (simp add: algebra_simps)
  have "dec_rounds t (Suc n) ?s x' y' = dec_rounds t n (?s - TEA_DELTA) u v"
    by (simp only: dec_rounds.simps Let_def) (simp add: x' y')
  then show ?case using Suc.IH [OF uv] by (simp only: s)
qed

lemma join64_hi [simp]: "ucast (drop_bit 32 (join64 x y)) = x"
  by (rule bit_word_eqI) (auto simp: join64_def bit_simps dest: bit_imp_le_length)

lemma join64_lo [simp]: "ucast (join64 x y) = y"
  by (rule bit_word_eqI) (auto simp: join64_def bit_simps)

lemma join64_split: "join64 (ucast (drop_bit 32 n)) (ucast n) = n"
  by (rule bit_word_eqI) (auto simp: join64_def bit_simps)

lemma tea_delta_16: "push_bit 4 TEA_DELTA = 0 + of_nat 16 * TEA_DELTA"
  by (simp add: TEA_DELTA_def)

lemma decrypt_encrypt [simp]: "decrypt t (encrypt t n) = n"
proof -
  let ?h = "ucast (drop_bit 32 n) :: u32" and ?l = "ucast n :: u32"
  obtain x y where xy: "enc_rounds t 16 0 ?h ?l = (x, y)" by fastforce
  then have "dec_rounds t 16 (0 + of_nat 16 * TEA_DELTA) x y = (?h, ?l)"
    by (rule dec_enc_rounds)
  then show ?thesis
    by (simp only: encrypt_def decrypt_def xy Let_def prod.case tea_delta_16 join64_hi join64_lo
        join64_split)
qed

section \<open>The chained mode over any block cipher\<close>

locale block_cipher =
  fixes enc :: "u64 \<Rightarrow> u64" and dec :: "u64 \<Rightarrow> u64"
  assumes dec_enc: "dec (enc n) = n"
begin

text \<open>
  The decryption loop is in step with the encryption loop: its \<open>iv1\<close> is the last cipher
  block and its \<open>iv2\<close> the last value given to the cipher.
\<close>

lemma chain_dec_enc: "chain_dec dec iv1 iv2 (chain_enc enc iv1 iv2 bs) = bs"
  by (induction bs arbitrary: iv1 iv2) (simp_all add: Let_def dec_enc xor.assoc)

lemma chain_enc_inj: "chain_enc enc iv1 iv2 bs = chain_enc enc iv1 iv2 cs \<Longrightarrow> bs = cs"
  using chain_dec_enc by metis

end

interpretation tea16: block_cipher "encrypt t" "decrypt t" for t
  by unfold_locales simp

lemma bij_encrypt: "bij (encrypt t)"
proof -
  have "inj (encrypt t)" by (metis decrypt_encrypt injI)
  then show ?thesis by (simp add: bij_def finite_UNIV_inj_surj)
qed

lemma encrypt_decrypt: "encrypt t (decrypt t n) = n"
  using bij_encrypt [of t] decrypt_encrypt by (metis bij_pointE)

section \<open>Padding and lengths\<close>

lemma fill_count_range: "2 \<le> fill_count msg \<and> fill_count msg \<le> 9"
  unfolding fill_count_def by presburger

lemma length_padded: "length (padded fill msg) = fill_count msg + length msg + 8"
  by (simp add: padded_def Let_def)

lemma padded_dvd: "8 dvd length (padded fill msg)"
  unfolding length_padded fill_count_def by presburger

lemma length_blocks_of [simp]: "length (blocks_of n bs) = n"
  by (induction n arbitrary: bs) simp_all

lemma length_chain [simp]:
  "length (chain_enc e iv1 iv2 ws) = length ws" "length (chain_dec d iv1 iv2 ws) = length ws"
  by (induction ws arbitrary: iv1 iv2) (simp_all add: Let_def)

lemma length_write_u64_into [simp]: "length (write_u64_into ws) = 8 * length ws"
  by (induction ws) (simp_all add: write_u64_into_def)

lemma blocks_of_write: "blocks_of (length ws) (write_u64_into ws) = ws"
  by (induction ws) (simp_all add: write_u64_into_def)

lemma write_blocks_of: "length bs = 8 * n \<Longrightarrow> write_u64_into (blocks_of n bs) = bs"
proof (induction n arbitrary: bs)
  case 0
  then show ?case by (simp add: write_u64_into_def)
next
  case (Suc n)
  have "write_u64_into (blocks_of n (drop 8 bs)) = drop 8 bs"
    using Suc.prems by (intro Suc.IH) simp
  then show ?case
    using Suc.prems by (simp add: write_u64_into_def be_of_be)
qed

lemma read_u64_into_iff:
  "read_u64_into bs (length bs div 8) =
     (if 8 dvd length bs then Some (blocks_of (length bs div 8) bs) else None)"
proof -
  have "length bs = 8 * (length bs div 8) \<longleftrightarrow> 8 dvd length bs" by presburger
  then show ?thesis by (simp add: read_u64_into_def)
qed

text \<open>The first plaintext byte tells the decryption where the msg begins.\<close>

lemma pad_byte_low_bits:
  "unat ((of_nat (fill_count msg - 2) OR 0xF8 :: u8) AND 7) + 3 = fill_count msg + 1"
proof -
  have "fill_count msg - 2 \<in> {0, 1, 2, 3, 4, 5, 6, 7}"
    using fill_count_range [of msg] by auto
  then obtain k where k: "fill_count msg = k + 2" and "k \<in> {0, 1, 2, 3, 4, 5, 6, 7}"
    using fill_count_range [of msg] by (metis add.commute le_Suc_ex add_diff_cancel_left')
  then show ?thesis by (elim insertE) simp_all
qed

lemma hd_padded: "hd (padded fill msg) = of_nat (fill_count msg - 2) OR 0xF8"
  by (simp add: padded_def Let_def)

lemma padded_text:
  "take (length msg) (drop (Suc (fill_count msg)) (padded fill msg)) = msg"
  by (simp add: padded_def Let_def)

lemma tea_encrypt_eq:
  assumes "tea16_new key = Some t"
  shows "tea_encrypt fill msg key =
    Some (write_u64_into (chain_enc (encrypt t) 0 0
      (blocks_of (length (padded fill msg) div 8) (padded fill msg))))"
  using assms padded_dvd [of fill msg] by (simp add: tea_encrypt_def read_u64_into_iff Let_def)

lemma tea_decrypt_eq:
  assumes "tea16_new key = Some t" and "length c = 8 * n" and "0 < n"
    and r: "r = write_u64_into (chain_dec (decrypt t) 0 0 (blocks_of n c))"
  shows "tea_decrypt c key =
    (if unat (hd r AND 7) + 10 \<le> 8 * n
     then Some (take (8 * n - 7 - (unat (hd r AND 7) + 3)) (drop (unat (hd r AND 7) + 3) r))
     else None)"
proof -
  have len: "length r = 8 * n" using r by simp
  have blocks: "read_u64_into c (length c div 8) = Some (blocks_of n c)"
    using assms(2) by (simp add: read_u64_into_def)
  have "r \<noteq> []" using len assms(3) by auto
  then show ?thesis
    using len assms(1,3) by (auto simp: tea_decrypt_def blocks r [symmetric] Let_def)
qed

section \<open>The properties of the chained mode\<close>

lemma tea_round_trip_aux:
  assumes "tea16_new key = Some t"
  shows "\<exists>c. tea_encrypt fill msg key = Some c \<and> length c = length (padded fill msg)
      \<and> tea_decrypt c key = Some msg"
proof -
  let ?p = "padded fill msg"
  define n where "n = length ?p div 8"
  have lp: "length ?p = 8 * n" using padded_dvd [of fill msg] by (simp add: n_def)
  have n: "0 < n" using lp length_padded [of fill msg] by (cases n) auto
  define c where "c = write_u64_into (chain_enc (encrypt t) 0 0 (blocks_of n ?p))"
  have e: "tea_encrypt fill msg key = Some c"
    using tea_encrypt_eq [OF assms] by (simp add: c_def n_def)
  have lc: "length c = 8 * n" by (simp add: c_def)
  have "blocks_of n c = chain_enc (encrypt t) 0 0 (blocks_of n ?p)"
    using blocks_of_write [of "chain_enc (encrypt t) 0 0 (blocks_of n ?p)"] by (simp add: c_def)
  then have r: "?p = write_u64_into (chain_dec (decrypt t) 0 0 (blocks_of n c))"
    by (simp add: tea16.chain_dec_enc write_blocks_of lp)
  have b: "unat (hd ?p AND 7) + 3 = fill_count msg + 1"
    by (simp only: hd_padded pad_byte_low_bits)
  have "8 * n - 7 - (fill_count msg + 1) = length msg"
    using lp length_padded [of fill msg] by simp
  moreover have "unat (hd ?p AND 7) + 10 \<le> 8 * n"
    using b lp length_padded [of fill msg] by simp
  ultimately have "tea_decrypt c key = Some msg"
    using tea_decrypt_eq [OF assms lc n r] b by (simp add: padded_text del: drop_Suc)
  then show ?thesis using e lc lp by auto
qed

lemma tea16_new_iff: "(\<exists>t. tea16_new key = Some t) \<longleftrightarrow> length key = 16"
  by (simp add: tea16_new_def)

lemma tea_decrypt_bad_length:
  assumes "\<not> 8 dvd length c \<or> length c < 16"
  shows "tea_decrypt c key = None"
proof (cases "8 dvd length c \<and> (\<exists>t. tea16_new key = Some t)")
  case False
  then show ?thesis
    by (auto simp: tea_decrypt_def read_u64_into_iff bind_eq_None_conv)
next
  case True
  then obtain n t where n: "length c = 8 * n" and t: "tea16_new key = Some t" by (auto elim: dvdE)
  have "n = 0 \<or> n = 1" using assms n by auto
  then show ?thesis
  proof
    assume "n = 0"
    then show ?thesis using n by (auto simp: tea_decrypt_def read_u64_into_def t write_u64_into_def)
  next
    assume "n = 1"
    then show ?thesis using tea_decrypt_eq [OF t n _ refl] by simp
  qed
qed

lemma tea_decrypt_good_length:
  assumes "length key = 16" and "8 dvd length c" and "24 \<le> length c"
  shows "\<exists>m. tea_decrypt c key = Some m \<and> length m \<le> length c - 10"
proof -
  obtain t where t: "tea16_new key = Some t" using assms(1) by (auto simp: tea16_new_def)
  obtain n where n: "length c = 8 * n" "0 < n" using assms(2,3) by (auto elim!: dvdE)
  define r where "r = write_u64_into (chain_dec (decrypt t) 0 0 (blocks_of n c))"
  have "hd r AND 7 \<le> (7 :: u8)" by (rule word_and_le1)
  then have "unat (hd r AND 7) \<le> 7" by (simp add: word_le_nat_alt)
  then show ?thesis
    using tea_decrypt_eq [OF t n r_def] assms(3) n by auto
qed

lemma tea16_block_round_trip:
  assumes "length key = 16" and "8 \<le> length blk"
  shows "Option.bind (tea16_encrypt blk key) (\<lambda>c. tea16_decrypt c key) = Some blk"
  using assms
  by (auto simp: tea16_encrypt_def tea16_decrypt_def on_block_def tea16_new_def be_of_be)

text \<open>
  C1: Decryption inverts encryption. For every plaintext, every padding and every 16-byte key,
  \<open>tea_encrypt\<close> returns a ciphertext, a positive multiple of eight bytes long and at least ten
  bytes longer than the plaintext, and \<open>tea_decrypt\<close> with the same key gives the plaintext back.
\<close>

theorem tea_round_trip:
  assumes "length key = 16"
  shows "\<exists>c. tea_encrypt fill msg key = Some c \<and> tea_decrypt c key = Some msg
      \<and> 8 dvd length c \<and> length msg + 10 \<le> length c \<and> length c \<le> length msg + 17"
proof -
  obtain t where "tea16_new key = Some t" using assms by (auto simp: tea16_new_def)
  then obtain c where "tea_encrypt fill msg key = Some c" "length c = length (padded fill msg)"
      "tea_decrypt c key = Some msg"
    using tea_round_trip_aux by blast
  then show ?thesis
    using padded_dvd [of fill msg] length_padded [of fill msg] fill_count_range [of msg] by auto
qed

theorem tea_round_trip_witness:
  "\<exists>c. tea_encrypt (\<lambda>_. 220) [1, 2, 3] (replicate 16 7) = Some c
      \<and> tea_decrypt c (replicate 16 7) = Some [1, 2, 3]"
proof -
  have "length (replicate 16 (7 :: u8)) = 16" by simp
  from tea_round_trip [OF this, of "\<lambda>_. 220" "[1, 2, 3]"] show ?thesis by auto
qed

lemma hd_first_block:
  "0 < n \<Longrightarrow> hd (write_u64_into (chain_dec d 0 0 (blocks_of n c))) = hd (be64 (d (of_be (take 8 c))))"
proof (cases n)
  case (Suc m)
  have "be64 w \<noteq> []" for w using length_be(3) [of w] by force
  then show ?thesis by (simp add: Suc write_u64_into_def Let_def)
qed simp

text \<open>
  C2: Exactly when \<open>tea_decrypt\<close> returns. It returns a plaintext if and only if the key has 16
  bytes, the ciphertext is a multiple of eight bytes and at least 16 bytes long, and the low
  three bits of the first byte of the first deciphered block leave room for the padding; on any
  other input it panics (\<open>read_u64_into\<close>, \<open>from_slice\<close>, the index \<open>result[0]\<close> or the slice
  \<open>result[begin_pos..end_pos]\<close>).
\<close>

theorem tea_decrypt_domain:
  "(\<exists>m. tea_decrypt c key = Some m) \<longleftrightarrow>
     (\<exists>t. tea16_new key = Some t \<and> 8 dvd length c \<and> 16 \<le> length c
        \<and> unat (hd (be64 (decrypt t (of_be (take 8 c)))) AND 7) + 10 \<le> length c)"
proof (cases "16 \<le> length c \<and> 8 dvd length c \<and> (\<exists>t. tea16_new key = Some t)")
  case False
  then have "tea_decrypt c key = None"
    using tea_decrypt_bad_length [of c key]
    by (cases "tea16_new key") (auto simp: tea_decrypt_def bind_eq_None_conv)
  then show ?thesis using False by auto
next
  case True
  then obtain n t where n: "length c = 8 * n" "0 < n" and t: "tea16_new key = Some t"
    by (auto elim!: dvdE)
  show ?thesis
    using tea_decrypt_eq [OF t n refl] hd_first_block [OF n(2)] True n t by auto
qed

end
