(* ===== verification/Packet_Builder.thy ===== *)
theory Packet_Builder
  imports Mania_Prelude
begin

text \<open>
  \<open>PacketBuilder\<close> of \<open>mania/src/core/packet.rs\<close>. The builder is its buffer; a method that takes
  \<open>self\<close> and returns \<open>Self\<close> is a function from the buffer to the new buffer, or a panic. The
  length-prefixed sections are modelled as the code runs them: a placeholder is appended, the
  closure runs on the whole buffer, and the length is patched back in place.

  \<open>emits f out\<close> is the specification a caller wants: \<open>f\<close> appends \<open>out\<close> and changes nothing
  else. The lemmas of \<open>emit_intros\<close> derive it for every method, so that what a serializer
  writes is computed from its text.
\<close>

type_synonym builder = "bytes \<Rightarrow> bytes option"

definition PREFIX_NONE :: u8 where "PREFIX_NONE = 0x0"
definition PREFIX_U8 :: u8 where "PREFIX_U8 = 0x1"
definition PREFIX_U16 :: u8 where "PREFIX_U16 = 0x2"
definition PREFIX_U32 :: u8 where "PREFIX_U32 = 0x4"
definition PREFIX_LENGTH_ONLY :: u8 where "PREFIX_LENGTH_ONLY = 0"
definition PREFIX_WITH :: u8 where "PREFIX_WITH = 0x8"

lemmas prefix_defs = PREFIX_NONE_def PREFIX_U8_def PREFIX_U16_def PREFIX_U32_def
  PREFIX_LENGTH_ONLY_def PREFIX_WITH_def

section \<open>The methods\<close>

text \<open>A chain of method calls \<open>p.f().g()\<close> runs the methods in order.\<close>

fun chain :: "builder list \<Rightarrow> builder" where
  "chain [] buf = Some buf"
| "chain (f # fs) buf = Option.bind (f buf) (chain fs)"

definition pb_new :: bytes where "pb_new = []"

definition pb_bytes :: "bytes \<Rightarrow> builder" where
  "pb_bytes bs buf = Some (buf @ bs)"

definition pb_string :: "rstring \<Rightarrow> builder" where
  "pb_string s = pb_bytes s"

definition pb_u8 :: "u8 \<Rightarrow> builder" where
  "pb_u8 v buf = Some (buf @ [v])"

definition pb_u16 :: "u16 \<Rightarrow> builder" where
  "pb_u16 v buf = Some (buf @ be16 v)"

definition pb_u32 :: "u32 \<Rightarrow> builder" where
  "pb_u32 v buf = Some (buf @ be32 v)"

definition pb_u64 :: "u64 \<Rightarrow> builder" where
  "pb_u64 v buf = Some (buf @ be64 v)"

text \<open>The signed writers cast to the unsigned type of the same width.\<close>

definition pb_i8 :: "u8 \<Rightarrow> builder" where "pb_i8 v = pb_u8 v"
definition pb_i16 :: "u16 \<Rightarrow> builder" where "pb_i16 v = pb_u16 v"
definition pb_i32 :: "i32 \<Rightarrow> builder" where "pb_i32 v = pb_u32 v"
definition pb_i64 :: "u64 \<Rightarrow> builder" where "pb_i64 v = pb_u64 v"

definition pb_packet :: "builder \<Rightarrow> builder" where
  "pb_packet f buf = f buf"

definition pb_build :: "builder \<Rightarrow> bytes option" where
  "pb_build f = f pb_new"

text \<open>Writing over part of the buffer, \<open>write_u32(&mut buffer[at..], v)\<close>: panics out of range.\<close>

definition patch :: "nat \<Rightarrow> bytes \<Rightarrow> bytes \<Rightarrow> bytes option" where
  "patch at v buf =
     (if at + length v \<le> length buf
      then Some (take at buf @ v @ drop (at + length v) buf) else None)"

text \<open>
  The const parameters \<open>P\<close> and \<open>A\<close> of \<open>write_with_length\<close>. The closure cannot shrink the
  buffer (no method does), so that the subtraction of lengths does not underflow; the model
  panics there, as a debug build would.
\<close>

definition write_with_length :: "u8 \<Rightarrow> int \<Rightarrow> builder \<Rightarrow> builder" where
  "write_with_length P A f buf =
     (let prefix_length = unat (P AND 0x7) in
      if prefix_length = 0 then f buf
      else do {
        this \<leftarrow> (if prefix_length = 1 then pb_u8 0 buf
                else if prefix_length = 2 then pb_u16 0 buf
                else if prefix_length = 4 then pb_u32 0 buf
                else None);
        let ori_length = length this;
        this \<leftarrow> f this;
        check (ori_length \<le> length this);
        let closure_called_length = length this - ori_length;
        let len = int (if 0 < P AND 0x8 then closure_called_length + prefix_length
                       else closure_called_length) + A;
        if prefix_length = 1 then patch (ori_length - prefix_length) [word_of_int len] this
        else if prefix_length = 2
          then patch (ori_length - prefix_length) (be16 (word_of_int len)) this
        else if prefix_length = 4
          then patch (ori_length - prefix_length) (be32 (word_of_int len)) this
        else None })"

definition section_with_addition :: "int \<Rightarrow> builder \<Rightarrow> builder" where
  "section_with_addition N f buf =
     do { let start = length buf;
          this \<leftarrow> pb_u32 0 buf;
          this \<leftarrow> f this;
          check (start \<le> length this);
          let len = int (length this - start) - 4 + N;
          patch start (be32 (word_of_int len)) this }"

definition pb_section :: "builder \<Rightarrow> builder" where
  "pb_section f = section_with_addition 4 f"

definition section_16_with_addition :: "int \<Rightarrow> builder \<Rightarrow> builder" where
  "section_16_with_addition N f buf =
     do { let start = length buf;
          this \<leftarrow> pb_u16 0 buf;
          this \<leftarrow> f this;
          check (start \<le> length this);
          let len = int (length this - start) - 2 + N;
          check (len \<le> 65535);
          patch start (be16 (word_of_int len)) this }"

definition pb_section_16 :: "builder \<Rightarrow> builder" where
  "pb_section_16 f = section_16_with_addition 2 f"

section \<open>Builders that only append\<close>

text \<open>
  Every method either panics whatever the buffer holds or appends the same bytes to any buffer:
  \<open>writes f r\<close> says which, \<open>r = None\<close> for the panic.
\<close>

definition writes :: "builder \<Rightarrow> bytes option \<Rightarrow> bool" where
  "writes f r \<longleftrightarrow> (\<forall>buf. f buf = map_option (\<lambda>out. buf @ out) r)"

definition appends :: "builder \<Rightarrow> bool" where
  "appends f \<longleftrightarrow> (\<exists>r. writes f r)"

lemma writesD: "writes f r \<Longrightarrow> f buf = map_option (\<lambda>out. buf @ out) r"
  by (simp add: writes_def)

lemma appendsE:
  assumes "appends f" obtains r where "writes f r"
  using assms by (auto simp: appends_def)

section \<open>What a builder appends\<close>

definition emits :: "builder \<Rightarrow> bytes \<Rightarrow> bool" where
  "emits f out \<longleftrightarrow> (\<forall>buf. f buf = Some (buf @ out))"

lemma emits_writes: "emits f out \<longleftrightarrow> writes f (Some out)"
  by (simp add: emits_def writes_def)

lemma emitsD: "emits f out \<Longrightarrow> f buf = Some (buf @ out)"
  by (simp add: emits_def)

text \<open>With this rule the output is computed by resolution with \<open>emit_intros\<close>, then simplified.\<close>

lemma emits_eq: "emits f a \<Longrightarrow> a = b \<Longrightarrow> emits f b"
  by simp

lemma emits_unique: "emits f a \<Longrightarrow> emits f b \<Longrightarrow> a = b"
  using emitsD [of f a "[]"] emitsD [of f b "[]"] by simp

lemma pb_build_emits: "emits f out \<Longrightarrow> pb_build f = Some out"
  by (simp add: pb_build_def pb_new_def emitsD)

lemma emits_atoms [emit_intros]:
  "emits (pb_bytes bs) bs" "emits (pb_string s) s" "emits (pb_u8 b) [b]"
  "emits (pb_u16 h) (be16 h)" "emits (pb_u32 w) (be32 w)" "emits (pb_u64 d) (be64 d)"
  "emits (pb_i8 b) [b]" "emits (pb_i16 h) (be16 h)" "emits (pb_i32 w) (be32 w)"
  "emits (pb_i64 d) (be64 d)"
  by (simp_all add: emits_def pb_bytes_def pb_string_def pb_u8_def pb_u16_def pb_u32_def
      pb_u64_def pb_i8_def pb_i16_def pb_i32_def pb_i64_def)

lemma emits_chain_Nil [emit_intros]: "emits (chain []) []"
  by (simp add: emits_def)

lemma emits_chain_Cons [emit_intros]:
  "emits f a \<Longrightarrow> emits (chain fs) b \<Longrightarrow> emits (chain (f # fs)) (a @ b)"
  by (simp add: emits_def)

lemma emits_packet [emit_intros]: "emits f out \<Longrightarrow> emits (pb_packet f) out"
  by (simp add: emits_def pb_packet_def)

lemma chain_append: "chain (fs @ gs) buf = Option.bind (chain fs buf) (chain gs)"
  by (induction fs arbitrary: buf) (simp_all split: bind_split)

text \<open>Patching the placeholder just after the old contents.\<close>

lemma patch_placeholder:
  "length z = length v \<Longrightarrow> patch (length buf) v (buf @ z @ out) = Some (buf @ v @ out)"
  by (simp add: patch_def)

lemma patch_placeholders [simp]:
  "patch (length buf) [b] (buf @ x # out) = Some (buf @ b # out)"
  "patch (length buf) (be16 h) (buf @ be16 y @ out) = Some (buf @ be16 h @ out)"
  "patch (length buf) (be32 w) (buf @ be32 z @ out) = Some (buf @ be32 w @ out)"
  by (simp_all add: patch_def)

lemma emits_section_with_addition:
  assumes "emits f out"
  shows "emits (section_with_addition N f) (be32 (word_of_int (int (length out) + N)) @ out)"
  unfolding emits_def
proof
  fix buf
  have "f (buf @ be32 0) = Some ((buf @ be32 0) @ out)" by (rule emitsD [OF assms])
  then show "section_with_addition N f buf
      = Some (buf @ be32 (word_of_int (int (length out) + N)) @ out)"
    by (simp add: section_with_addition_def pb_u32_def)
qed

lemma emits_section:
  "emits f out \<Longrightarrow> emits (pb_section f) (be32 (of_nat (length out + 4)) @ out)"
  using emits_section_with_addition [of f out 4] by (simp add: pb_section_def)

lemma section_16_with_addition_eq:
  assumes "emits f out"
  shows "section_16_with_addition N f buf =
    (if int (length out) + N \<le> 65535
     then Some (buf @ be16 (word_of_int (int (length out) + N)) @ out) else None)"
proof -
  have "f (buf @ be16 0) = Some ((buf @ be16 0) @ out)" by (rule emitsD [OF assms])
  then show ?thesis
    by (simp add: section_16_with_addition_def pb_u16_def)
qed

lemma emits_section_16_with_addition:
  "emits f out \<Longrightarrow> int (length out) + N \<le> 65535 \<Longrightarrow>
     emits (section_16_with_addition N f) (be16 (word_of_int (int (length out) + N)) @ out)"
  by (simp add: emits_def section_16_with_addition_eq)

lemma emits_section_16 [emit_intros]:
  "emits f out \<Longrightarrow> length out \<le> 65533 \<Longrightarrow>
     emits (pb_section_16 f) (be16 (of_nat (length out + 2)) @ out)"
  using emits_section_16_with_addition [of f out 2]
  by (simp add: pb_section_16_def add.commute)

text \<open>
  \<open>write_with_length\<close> has no such check: a length that does not fit its prefix is truncated.
\<close>

definition prefix_bytes :: "nat \<Rightarrow> int \<Rightarrow> bytes" where
  "prefix_bytes n len =
     (if n = 1 then [word_of_int len] else if n = 2 then be16 (word_of_int len)
      else be32 (word_of_int len))"

lemma emits_write_with_length:
  assumes f: "emits f out" and n: "unat (P AND 0x7) = n" "n \<in> {1, 2, 4}"
  shows "emits (write_with_length P A f)
    (prefix_bytes n (int (length out + (if 0 < P AND 0x8 then n else 0)) + A) @ out)"
  unfolding emits_def
proof
  fix buf
  define k where "k = (if 0 < P AND 0x8 then n else 0)"
  let ?len = "int (length out + k) + A"
  have fb: "f (buf @ z) = Some ((buf @ z) @ out)" for z by (rule emitsD [OF f])
  from n(2) consider "n = 1" | "n = 2" | "n = 4" by auto
  then have "write_with_length P A f buf = Some (buf @ prefix_bytes n ?len @ out)"
  proof cases
    case 1
    then show ?thesis
      using fb [of "[0]"] n(1)
      by (simp add: write_with_length_def pb_u8_def prefix_bytes_def Let_def k_def
          add.commute)
  next
    case 2
    then show ?thesis
      using fb [of "be16 0"] n(1)
      by (simp add: write_with_length_def pb_u16_def prefix_bytes_def Let_def k_def
          add.commute)
  next
    case 3
    then show ?thesis
      using fb [of "be32 0"] n(1)
      by (simp add: write_with_length_def pb_u32_def prefix_bytes_def Let_def k_def
          add.commute)
  qed
  then show "write_with_length P A f buf
      = Some (buf @ prefix_bytes n (int (length out + (if 0 < P AND 0x8 then n else 0)) + A) @ out)"
    by (simp only: k_def)
qed

lemma write_with_length_no_prefix: "P AND 0x7 = 0 \<Longrightarrow> write_with_length P A f = f"
  by (rule ext) (simp add: write_with_length_def)

lemma emits_prefix_u16 [emit_intros]:
  "emits f out \<Longrightarrow>
     emits (write_with_length (PREFIX_U16 OR PREFIX_LENGTH_ONLY) 0 f)
       (be16 (of_nat (length out)) @ out)"
  using emits_write_with_length [of f out "PREFIX_U16 OR PREFIX_LENGTH_ONLY" 2 0]
  by (simp add: prefix_defs prefix_bytes_def)

lemma emits_prefix_u8 [emit_intros]:
  "emits f out \<Longrightarrow>
     emits (write_with_length (PREFIX_U8 OR PREFIX_LENGTH_ONLY) 0 f)
       ([of_nat (length out)] @ out)"
  using emits_write_with_length [of f out "PREFIX_U8 OR PREFIX_LENGTH_ONLY" 1 0]
  by (simp add: prefix_defs prefix_bytes_def)

lemma prefix_with_bits:
  "unat ((PREFIX_U16 OR PREFIX_WITH) AND 0x7) = 2" "0 < (PREFIX_U16 OR PREFIX_WITH) AND 0x8"
  by code_simp+

lemma emits_prefix_u16_with [emit_intros]:
  "emits f out \<Longrightarrow>
     emits (write_with_length (PREFIX_U16 OR PREFIX_WITH) 1 f)
       (be16 (of_nat (length out + 3)) @ out)"
  using emits_write_with_length [of f out "PREFIX_U16 OR PREFIX_WITH" 2 1]
  by (simp add: prefix_with_bits prefix_bytes_def add.commute)

section \<open>Which builders only append\<close>

lemma appends_emits: "emits f out \<Longrightarrow> appends f"
  by (auto simp: appends_def emits_writes)

lemma appends_atoms [intro, simp]:
  "appends (pb_bytes bs)" "appends (pb_string s)" "appends (pb_u8 b)" "appends (pb_u16 h)"
  "appends (pb_u32 w)" "appends (pb_u64 d)" "appends (pb_i32 w)"
  by (rule appends_emits, rule emit_intros)+

lemma appends_Nil [intro, simp]: "appends (chain [])"
  by (rule appends_emits, rule emit_intros)

lemma writes_chain_Cons:
  "writes f r \<Longrightarrow> writes (chain fs) q \<Longrightarrow>
     writes (chain (f # fs)) (do { a \<leftarrow> r; b \<leftarrow> q; Some (a @ b) })"
  by (cases r; cases q) (simp_all add: writes_def)

lemma appends_Cons [intro, simp]: "appends f \<Longrightarrow> appends (chain fs) \<Longrightarrow> appends (chain (f # fs))"
  unfolding appends_def by (blast intro: writes_chain_Cons)

lemma writes_section_16:
  assumes "writes f r"
  shows "writes (section_16_with_addition N f) (do { out \<leftarrow> r;
    if int (length out) + N \<le> 65535 then Some (be16 (word_of_int (int (length out) + N)) @ out)
    else None })"
proof (cases r)
  case None
  then show ?thesis
    using assms by (simp add: writes_def section_16_with_addition_def pb_u16_def)
next
  case (Some out)
  then have "emits f out" using assms by (simp add: emits_writes)
  then show ?thesis
    using section_16_with_addition_eq [of f out N] by (simp add: writes_def Some)
qed

lemma appends_section_16 [intro, simp]: "appends f \<Longrightarrow> appends (section_16_with_addition N f)"
  unfolding appends_def by (blast intro: writes_section_16)

end
