(* ===== verification/Packet_Reader.thy ===== *)
theory Packet_Reader
  imports Packet_Builder
begin

text \<open>
  \<open>PacketReader\<close> of \<open>mania/src/core/packet.rs\<close>. The reader is the bytes not yet read; a method
  that takes \<open>&mut self\<close> returns its value and the remaining bytes, or panics (\<open>None\<close>): the
  getters of \<open>bytes::Buf\<close>, \<open>split_to\<close> and \<open>advance\<close> panic when fewer bytes remain than they
  need. A closure passed to a section gets a reader of its own on the section's bytes; what it
  leaves unread there is dropped.

  The locale \<open>framing\<close> is the contract between the sections of the builder and the sections of
  the reader; it is interpreted on the pairs of methods the packets use.
\<close>

type_synonym 'a reader = "bytes \<Rightarrow> ('a \<times> bytes) option"

section \<open>The methods\<close>

definition split_to :: "nat \<Rightarrow> bytes reader" where
  "split_to n bs = (if n \<le> length bs then Some (take n bs, drop n bs) else None)"

definition rd_u8 :: "u8 reader" where
  "rd_u8 bs = (case bs of [] \<Rightarrow> None | b # rest \<Rightarrow> Some (b, rest))"

definition rd_u16 :: "u16 reader" where
  "rd_u16 bs = map_option (\<lambda>(v, rest). (of_be v, rest)) (split_to 2 bs)"

definition rd_u32 :: "u32 reader" where
  "rd_u32 bs = map_option (\<lambda>(v, rest). (of_be v, rest)) (split_to 4 bs)"

definition rd_u64 :: "u64 reader" where
  "rd_u64 bs = map_option (\<lambda>(v, rest). (of_be v, rest)) (split_to 8 bs)"

definition rd_i8 :: "u8 reader" where "rd_i8 = rd_u8"
definition rd_i16 :: "u16 reader" where "rd_i16 = rd_u16"
definition rd_i32 :: "i32 reader" where "rd_i32 = rd_u32"
definition rd_i64 :: "u64 reader" where "rd_i64 = rd_u64"

text \<open>\<open>split_off(0)\<close> takes everything that is left.\<close>

definition rd_bytes :: "bytes reader" where
  "rd_bytes bs = Some (bs, [])"

definition rd_string :: "rstring reader" where
  "rd_string bs = do { (v, rest) \<leftarrow> rd_bytes bs; Some (utf8_lossy v, rest) }"

definition rd_skip :: "nat \<Rightarrow> unit reader" where
  "rd_skip n bs = (if n \<le> length bs then Some ((), drop n bs) else None)"

definition read_packet :: "nat \<Rightarrow> bytes reader" where
  "read_packet count = split_to count"

text \<open>
  The closure runs on the section; its value is the result. A length below the prefix it counts
  underflows: a panic in a debug build, and in a release build a length no buffer has, on which
  \<open>split_to\<close> panics.
\<close>

definition sub_reader :: "nat \<Rightarrow> 'a reader \<Rightarrow> 'a reader" where
  "sub_reader n f bs =
     do { (buffer, rest) \<leftarrow> split_to n bs;
          (v, _) \<leftarrow> f buffer;
          Some (v, rest) }"

definition read_with_length :: "u8 \<Rightarrow> 'a reader \<Rightarrow> 'a reader" where
  "read_with_length P f bs =
     (let length_counted = 0 < P AND PREFIX_WITH;
          prefix_length = unat (P AND 0x7) in
      do { (len, bs) \<leftarrow>
             (if prefix_length = 0 then Some (0, bs)
              else if prefix_length = 1 then map_option (\<lambda>(v, r). (unat v, r)) (rd_u8 bs)
              else if prefix_length = 2 then map_option (\<lambda>(v, r). (unat v, r)) (rd_u16 bs)
              else if prefix_length = 4 then map_option (\<lambda>(v, r). (unat v, r)) (rd_u32 bs)
              else None);
           let counted = (if length_counted then prefix_length else 0);
           check (counted \<le> len);
           sub_reader (len - counted) f bs })"

text \<open>
  A length below the addition is negative as an \<open>isize\<close>, and huge as the \<open>usize\<close> given to
  \<open>split_to\<close>.
\<close>

definition rd_section_with_addition :: "int \<Rightarrow> 'a reader \<Rightarrow> 'a reader" where
  "rd_section_with_addition N f bs =
     do { (w, bs) \<leftarrow> rd_u32 bs;
          let len = int (unat w) - N;
          check (0 \<le> len);
          sub_reader (nat len) f bs }"

definition rd_section :: "'a reader \<Rightarrow> 'a reader" where
  "rd_section f = rd_section_with_addition 4 f"

definition rd_section_16_with_addition :: "int \<Rightarrow> 'a reader \<Rightarrow> 'a reader" where
  "rd_section_16_with_addition N f bs =
     do { (w, bs) \<leftarrow> rd_u16 bs;
          let len = int (unat w) - N;
          check (0 \<le> len);
          sub_reader (nat len) f bs }"

definition rd_section_16 :: "'a reader \<Rightarrow> 'a reader" where
  "rd_section_16 f = rd_section_16_with_addition 2 f"

section \<open>Reading back what the builder wrote\<close>

lemma split_to_append [read_simps]: "split_to (length a) (a @ rest) = Some (a, rest)"
  by (simp add: split_to_def)

lemma split_to_append' [read_simps]: "length a = n \<Longrightarrow> split_to n (a @ rest) = Some (a, rest)"
  by (auto simp: split_to_def)

lemma rd_ints [read_simps]:
  "rd_u8 (b # rest) = Some (b, rest)"
  "rd_u16 (be16 h @ rest) = Some (h, rest)"
  "rd_u32 (be32 w @ rest) = Some (w, rest)"
  "rd_u64 (be64 d @ rest) = Some (d, rest)"
  "rd_i8 (b # rest) = Some (b, rest)"
  "rd_i16 (be16 h @ rest) = Some (h, rest)"
  "rd_i32 (be32 w @ rest) = Some (w, rest)"
  "rd_i64 (be64 d @ rest) = Some (d, rest)"
  by (simp_all add: rd_u8_def rd_u16_def rd_u32_def rd_u64_def rd_i8_def rd_i16_def rd_i32_def
      rd_i64_def split_to_def)

lemma rd_bytes_simp [read_simps]: "rd_bytes bs = Some (bs, [])"
  by (simp add: rd_bytes_def)

lemma rd_string_simp [read_simps]: "rd_string bs = Some (utf8_lossy bs, [])"
  by (simp add: rd_string_def rd_bytes_def)

lemma rd_skip_append [read_simps]: "length a = n \<Longrightarrow> rd_skip n (a @ rest) = Some ((), rest)"
  by (auto simp: rd_skip_def)

lemma sub_reader_append [read_simps]:
  "length a = n \<Longrightarrow> sub_reader n f (a @ rest) = map_option (\<lambda>(v, _). (v, rest)) (f a)"
  by (cases "f a") (auto simp: sub_reader_def split_to_append')

lemma unat_len32: "n < 2 ^ 32 \<Longrightarrow> unat (word_of_nat n :: u32) = n"
  by (rule unat_of_nat_small) simp

lemma uint_len32: "n < 2 ^ 32 \<Longrightarrow> uint (word_of_nat n :: u32) = int n"
  using unat_len32 [of n] by (metis of_nat_unat)

lemma unat_len16: "n < 2 ^ 16 \<Longrightarrow> unat (word_of_nat n :: u16) = n"
  by (rule unat_of_nat_small) simp

lemma uint_len16: "n < 2 ^ 16 \<Longrightarrow> uint (word_of_nat n :: u16) = int n"
  using unat_len16 [of n] by (metis of_nat_unat)

lemma unat_len8: "n < 2 ^ 8 \<Longrightarrow> unat (word_of_nat n :: u8) = n"
  by (rule unat_of_nat_small) simp

lemma rd_section_with_addition_append:
  assumes "length a + k < 2 ^ 32"
  shows "rd_section_with_addition (int k) f (be32 (of_nat (length a + k)) @ a @ rest)
    = map_option (\<lambda>(v, _). (v, rest)) (f a)"
  using uint_len32 [OF assms]
  by (simp add: rd_section_with_addition_def read_simps del: of_nat_add)

lemma rd_section_append [read_simps]:
  "length a + 4 < 2 ^ 32 \<Longrightarrow>
     rd_section f (be32 (of_nat (length a + 4)) @ a @ rest) = map_option (\<lambda>(v, _). (v, rest)) (f a)"
  using rd_section_with_addition_append [of a 4 f rest]
  by (simp add: rd_section_def del: of_nat_add)

lemma rd_section_16_with_addition_append:
  assumes "length a + k < 2 ^ 16"
  shows "rd_section_16_with_addition (int k) f (be16 (of_nat (length a + k)) @ a @ rest)
    = map_option (\<lambda>(v, _). (v, rest)) (f a)"
  using uint_len16 [OF assms]
  by (simp add: rd_section_16_with_addition_def read_simps del: of_nat_add)

lemma rd_section_16_append [read_simps]:
  "length a + 2 < 2 ^ 16 \<Longrightarrow>
     rd_section_16 f (be16 (of_nat (length a + 2)) @ a @ rest)
       = map_option (\<lambda>(v, _). (v, rest)) (f a)"
  using rd_section_16_with_addition_append [of a 2 f rest]
  by (simp add: rd_section_16_def del: of_nat_add)

lemma rd_section_16_0_append [read_simps]:
  "length a < 2 ^ 16 \<Longrightarrow>
     rd_section_16_with_addition 0 f (be16 (of_nat (length a)) @ a @ rest)
       = map_option (\<lambda>(v, _). (v, rest)) (f a)"
  using rd_section_16_with_addition_append [of a 0 f rest] by simp

lemma read_u32_length_only_append [read_simps]:
  "length a < 2 ^ 32 \<Longrightarrow>
     read_with_length (PREFIX_U32 OR PREFIX_LENGTH_ONLY) f (be32 (of_nat (length a)) @ a @ rest)
       = map_option (\<lambda>(v, _). (v, rest)) (f a)"
  using unat_len32 [of "length a"]
  by (simp add: read_with_length_def prefix_defs read_simps)

lemma read_u16_length_only_append [read_simps]:
  "length a < 2 ^ 16 \<Longrightarrow>
     read_with_length (PREFIX_U16 OR PREFIX_LENGTH_ONLY) f (be16 (of_nat (length a)) @ a @ rest)
       = map_option (\<lambda>(v, _). (v, rest)) (f a)"
  using unat_len16 [of "length a"]
  by (simp add: read_with_length_def prefix_defs read_simps)

lemma read_u8_append [read_simps]:
  "length a < 2 ^ 8 \<Longrightarrow>
     read_with_length (PREFIX_U8 OR PREFIX_NONE) f (of_nat (length a) # a @ rest)
       = map_option (\<lambda>(v, _). (v, rest)) (f a)"
  using unat_len8 [of "length a"]
  by (simp add: read_with_length_def prefix_defs read_simps)

section \<open>The framing contract\<close>

text \<open>\<open>read_frames\<close> reads a number of frames one after the other.\<close>

fun read_frames :: "'a reader \<Rightarrow> nat \<Rightarrow> 'a list reader" where
  "read_frames r 0 bs = Some ([], bs)"
| "read_frames r (Suc n) bs =
     do { (x, bs) \<leftarrow> r bs; (xs, bs) \<leftarrow> read_frames r n bs; Some (x # xs, bs) }"

locale framing =
  fixes frame :: "'a \<Rightarrow> bytes" and unframe :: "'a reader" and fits :: "'a \<Rightarrow> bool"
  assumes unframe_frame: "fits x \<Longrightarrow> unframe (frame x @ rest) = Some (x, rest)"
begin

lemma frame_inj: "fits x \<Longrightarrow> fits y \<Longrightarrow> frame x = frame y \<Longrightarrow> x = y"
  by (metis unframe_frame option.inject prod.inject)

lemma frame_prefix_free:
  "fits x \<Longrightarrow> fits y \<Longrightarrow> frame x @ r = frame y @ s \<Longrightarrow> x = y \<and> r = s"
  by (metis unframe_frame option.inject prod.inject)

lemma read_frames_concat:
  "list_all fits xs \<Longrightarrow>
     read_frames unframe (length xs) (concat (map frame xs) @ rest) = Some (xs, rest)"
  by (induction xs) (simp_all add: unframe_frame)

end

text \<open>What the builder's sections emit around the bytes \<open>x\<close>.\<close>

definition frame32 :: "bytes \<Rightarrow> bytes" where
  "frame32 x = be32 (of_nat (length x + 4)) @ x"

definition frame16 :: "bytes \<Rightarrow> bytes" where
  "frame16 x = be16 (of_nat (length x)) @ x"

definition fits32 :: "bytes \<Rightarrow> bool" where "fits32 x \<longleftrightarrow> length x + 4 < 2 ^ 32"
definition fits16 :: "bytes \<Rightarrow> bool" where "fits16 x \<longleftrightarrow> length x < 2 ^ 16"

lemma emits_frame32 [emit_intros]: "emits f out \<Longrightarrow> emits (pb_section f) (frame32 out)"
  unfolding frame32_def by (rule emits_section)

lemma emits_frame16 [emit_intros]:
  assumes "emits f out" and "fits16 out"
  shows "emits (section_16_with_addition 0 f) (frame16 out)"
  using emits_section_16_with_addition [OF assms(1), of 0] assms(2)
  by (simp add: frame16_def fits16_def)

lemma rd_frame32 [read_simps]:
  "fits32 a \<Longrightarrow> rd_section f (frame32 a @ rest) = map_option (\<lambda>(v, _). (v, rest)) (f a)"
  using rd_section_append [of a f rest] by (simp add: frame32_def fits32_def del: of_nat_add)

lemma rd_frame16 [read_simps]:
  "fits16 a \<Longrightarrow>
     rd_section_16_with_addition 0 f (frame16 a @ rest) = map_option (\<lambda>(v, _). (v, rest)) (f a)"
  using rd_section_16_0_append [of a f rest] by (simp add: frame16_def fits16_def)

interpretation sec32: framing frame32 "rd_section rd_bytes" fits32
  by unfold_locales (simp add: read_simps)

interpretation sec16: framing frame16 "rd_section_16_with_addition 0 rd_bytes" fits16
  by unfold_locales (simp add: read_simps)

end
