(* ===== verification/Mania_Context.thy ===== *)
theory Mania_Context
  imports Mania_Prelude
begin

text \<open>
  The data every operation sees: \<open>mania/src/core/context.rs\<close> (\<open>AppInfo\<close>, \<open>DeviceInfo\<close>,
  \<open>Context\<close>), \<open>key_store.rs\<close>, \<open>session.rs\<close>, \<open>sign.rs\<close> and the client configuration of
  \<open>lib.rs\<close>. An \<open>ArcSwap<T>\<close> field is a field of type \<open>T\<close> and an \<open>ArcSwapOption<T>\<close> one of
  type \<open>T option\<close>; storing into it returns an updated context. Instants are integers counting
  nanoseconds. The signing service and the shared elliptic-curve secret come from other code:
  they are the fields \<open>ctx_sign_impl\<close> and \<open>cr_shared\<close>.
\<close>

section \<open>Application information\<close>

datatype Protocol = Windows | MacOS | Linux

record AppInfo =
  ai_os :: rstring
  ai_vendor_os :: rstring
  ai_kernel :: rstring
  ai_current_version :: rstring
  ai_build_version :: i32
  ai_misc_bitmap :: i32
  ai_pt_version :: rstring
  ai_pt_os_version :: i32
  ai_package_name :: rstring
  ai_wt_login_sdk :: rstring
  ai_package_sign :: rstring
  ai_app_id :: i32
  ai_sub_app_id :: i32
  ai_app_id_qr_code :: i32
  ai_app_client_version :: u16
  ai_main_sig_map :: u32
  ai_sub_sig_map :: u16
  ai_nt_login_type :: u16

definition LINUX :: AppInfo where
  "LINUX = \<lparr>
     ai_os = str ''Linux'', ai_vendor_os = str ''linux'', ai_kernel = str ''Linux'',
     ai_current_version = str ''3.2.15-30366'', ai_build_version = 30366,
     ai_misc_bitmap = 32764, ai_pt_version = str ''2.0.0'', ai_pt_os_version = 19,
     ai_package_name = str ''com.tencent.qq'', ai_wt_login_sdk = str ''nt.wtlogin.0.0.1'',
     ai_package_sign = str ''V1_LNX_NQ_3.2.15-30366_RDM_B'', ai_app_id = 1600001615,
     ai_sub_app_id = 537258424, ai_app_id_qr_code = 13697054, ai_app_client_version = 30366,
     ai_main_sig_map = 169742560, ai_sub_sig_map = 0, ai_nt_login_type = 1\<rparr>"

definition MAC_OS :: AppInfo where
  "MAC_OS = \<lparr>
     ai_os = str ''Mac'', ai_vendor_os = str ''mac'', ai_kernel = str ''Darwin'',
     ai_current_version = str ''6.9.23-20139'', ai_build_version = 20139,
     ai_misc_bitmap = 32764, ai_pt_version = str ''2.0.0'', ai_pt_os_version = 23,
     ai_package_name = str ''com.tencent.qq'', ai_wt_login_sdk = str ''nt.wtlogin.0.0.1'',
     ai_package_sign = str ''V1_MAC_NQ_6.9.23-20139_RDM_B'', ai_app_id = 1600001602,
     ai_sub_app_id = 537200848, ai_app_id_qr_code = 537200848, ai_app_client_version = 13172,
     ai_main_sig_map = 169742560, ai_sub_sig_map = 0, ai_nt_login_type = 5\<rparr>"

definition WINDOWS :: AppInfo where
  "WINDOWS = \<lparr>
     ai_os = str ''Windows'', ai_vendor_os = str ''win32'', ai_kernel = str ''Windows_NT'',
     ai_current_version = str ''9.9.2-15962'', ai_build_version = 15962,
     ai_misc_bitmap = 32764, ai_pt_version = str ''2.0.0'', ai_pt_os_version = 23,
     ai_package_name = str ''com.tencent.qq'', ai_wt_login_sdk = str ''nt.wtlogin.0.0.1'',
     ai_package_sign = str ''V1_WIN_NQ_9.9.2-15962_RDM_B'', ai_app_id = 1600001604,
     ai_sub_app_id = 537138217, ai_app_id_qr_code = 537138217, ai_app_client_version = 13172,
     ai_main_sig_map = 169742560, ai_sub_sig_map = 0, ai_nt_login_type = 5\<rparr>"

fun AppInfo_get :: "Protocol \<Rightarrow> AppInfo" where
  "AppInfo_get Windows = WINDOWS"
| "AppInfo_get Linux = LINUX"
| "AppInfo_get MacOS = MAC_OS"

text \<open>The uuid is the sixteen bytes \<open>Uuid::as_bytes\<close> gives.\<close>

record DeviceInfo =
  dev_uuid :: bytes
  dev_mac_address :: bytes
  dev_device_name :: rstring
  dev_system_kernel :: rstring
  dev_kernel_version :: rstring

section \<open>Keys and session\<close>

record AccountInfo =
  acc_age :: u8
  acc_gender :: u8
  acc_name :: rstring

record WtLoginSession =
  wt_d2_key :: bytes
  wt_d2 :: bytes
  wt_tgt :: bytes
  wt_session_date :: int
  wt_qr_sign :: "bytes option"
  wt_qr_string :: "rstring option"
  wt_qr_url :: "rstring option"
  wt_exchange_key :: "bytes option"
  wt_key_sign :: "bytes option"
  wt_unusual_sign :: "bytes option"
  wt_unusual_cookie :: "rstring option"
  wt_temp_password :: "bytes option"
  wt_no_pic_sig :: "bytes option"

record KeyStore =
  ks_uin :: u32
  ks_uid :: "rstring option"
  ks_password_md5 :: bytes
  ks_session :: WtLoginSession
  ks_info :: AccountInfo

text \<open>
  \<open>num_seconds\<close> of the duration between two instants truncates towards zero.
\<close>

definition num_seconds :: "int \<Rightarrow> int" where
  "num_seconds d = (if 0 \<le> d then d div 10 ^ 9 else - ((- d) div 10 ^ 9))"

definition is_session_expired :: "int \<Rightarrow> KeyStore \<Rightarrow> bool" where
  "is_session_expired now ks \<longleftrightarrow> num_seconds (now - wt_session_date (ks_session ks)) > 15 * 86400"

definition is_expired :: "int \<Rightarrow> KeyStore \<Rightarrow> bool" where
  "is_expired now ks \<longleftrightarrow>
     is_session_expired now ks \<or> wt_d2 (ks_session ks) = [] \<or> wt_tgt (ks_session ks) = []"

record KeyCollection =
  kc_random_key :: bytes
  kc_tgtgt_key :: bytes

definition KeyCollection_new :: KeyCollection where
  "KeyCollection_new = \<lparr>kc_random_key = replicate 16 0, kc_tgtgt_key = replicate 16 0\<rparr>"

record QrSign =
  qs_sign :: bytes
  qs_string :: rstring
  qs_url :: rstring

record Session =
  se_stub :: KeyCollection
  se_qr_sign :: "QrSign option"
  se_unusual_sign :: "bytes option"
  se_sequence :: u16

definition Session_new :: Session where
  "Session_new = \<lparr>
     se_stub = KeyCollection_new,
     se_qr_sign = Some \<lparr>qs_sign = replicate 24 0, qs_string = [], qs_url = []\<rparr>,
     se_unusual_sign = None, se_sequence = 0\<rparr>"

text \<open>\<open>fetch_add\<close> returns the old value and wraps around.\<close>

definition Session_next_sequence :: "Session \<Rightarrow> u16 \<times> Session" where
  "Session_next_sequence s = (se_sequence s, s\<lparr>se_sequence := se_sequence s + 1\<rparr>)"

definition Session_set_sequence :: "u16 \<Rightarrow> Session \<Rightarrow> Session" where
  "Session_set_sequence sq s = s\<lparr>se_sequence := sq\<rparr>"

section \<open>Signing\<close>

record SignResult =
  sr_sign :: bytes
  sr_extra :: bytes
  sr_token :: rstring

definition WHITELIST :: "rstring list" where
  "WHITELIST = map str [
     ''trpc.o3.ecdh_access.EcdhAccess.SsoEstablishShareKey'',
     ''trpc.o3.ecdh_access.EcdhAccess.SsoSecureAccess'',
     ''trpc.o3.report.Report.SsoReport'',
     ''MessageSvc.PbSendMsg'',
     ''wtlogin.trans_emp'',
     ''wtlogin.login'',
     ''trpc.login.ecdh.EcdhService.SsoKeyExchange'',
     ''trpc.login.ecdh.EcdhService.SsoNTLoginPasswordLogin'',
     ''trpc.login.ecdh.EcdhService.SsoNTLoginEasyLogin'',
     ''trpc.login.ecdh.EcdhService.SsoNTLoginPasswordLoginNewDevice'',
     ''trpc.login.ecdh.EcdhService.SsoNTLoginEasyLoginUnusualDevice'',
     ''trpc.login.ecdh.EcdhService.SsoNTLoginPasswordLoginUnusualDevice'',
     ''OidbSvcTrpcTcp.0x11ec_1'',
     ''OidbSvcTrpcTcp.0x758_1'',
     ''OidbSvcTrpcTcp.0x7c1_1'',
     ''OidbSvcTrpcTcp.0x7c2_5'',
     ''OidbSvcTrpcTcp.0x10db_1'',
     ''OidbSvcTrpcTcp.0x8a1_7'',
     ''OidbSvcTrpcTcp.0x89a_0'',
     ''OidbSvcTrpcTcp.0x89a_15'',
     ''OidbSvcTrpcTcp.0x88d_0'',
     ''OidbSvcTrpcTcp.0x88d_14'',
     ''OidbSvcTrpcTcp.0x112a_1'',
     ''OidbSvcTrpcTcp.0x587_74'',
     ''OidbSvcTrpcTcp.0x1100_1'',
     ''OidbSvcTrpcTcp.0x1102_1'',
     ''OidbSvcTrpcTcp.0x1103_1'',
     ''OidbSvcTrpcTcp.0x1107_1'',
     ''OidbSvcTrpcTcp.0x1105_1'',
     ''OidbSvcTrpcTcp.0xf88_1'',
     ''OidbSvcTrpcTcp.0xf89_1'',
     ''OidbSvcTrpcTcp.0xf57_1'',
     ''OidbSvcTrpcTcp.0xf57_106'',
     ''OidbSvcTrpcTcp.0xf57_9'',
     ''OidbSvcTrpcTcp.0xf55_1'',
     ''OidbSvcTrpcTcp.0xf67_1'',
     ''OidbSvcTrpcTcp.0xf67_5'',
     ''OidbSvcTrpcTcp.0x6d9_4'']"

type_synonym sign_impl = "rstring \<Rightarrow> u32 \<Rightarrow> bytes \<Rightarrow> SignResult option"

definition sign :: "sign_impl \<Rightarrow> rstring \<Rightarrow> u32 \<Rightarrow> bytes \<Rightarrow> SignResult option" where
  "sign impl cmd seqno body = (if cmd \<in> set WHITELIST then impl cmd seqno body else None)"

text \<open>
  \<open>LinuxSignProvider\<close>: the answer of the signing server, or a dummy signature when there is no
  server or its answer does not come or does not parse. \<open>ask url cmd seqno body\<close> is the HTTP
  exchange with its JSON coding, \<open>None\<close> for any of its failures.
\<close>

definition dummy_sign :: SignResult where
  "dummy_sign = \<lparr>sr_sign = replicate 20 0, sr_extra = [], sr_token = []\<rparr>"

definition linux_sign_impl ::
    "(rstring \<Rightarrow> rstring \<Rightarrow> u32 \<Rightarrow> bytes \<Rightarrow> SignResult option) \<Rightarrow> rstring option \<Rightarrow> sign_impl" where
  "linux_sign_impl ask url cmd seqno body =
     (case url of
        Some u \<Rightarrow> (case ask u cmd seqno body of Some r \<Rightarrow> Some r | None \<Rightarrow> Some dummy_sign)
      | None \<Rightarrow> Some dummy_sign)"

section \<open>Configuration and context\<close>

datatype CacheMode = Full | Half | NoCache

datatype FetchGroupMemberStrategy = StrategySimple | StrategyFull

record ClientConfig =
  cfg_protocol :: Protocol
  cfg_auto_reconnect :: bool
  cfg_use_ipv6_network :: bool
  cfg_get_optimum_server :: bool
  cfg_highway_chuck_size :: nat
  cfg_highway_concurrency :: nat
  cfg_cache_mode :: CacheMode
  cfg_fetch_group_member_strategy :: FetchGroupMemberStrategy

definition ClientConfig_default :: ClientConfig where
  "ClientConfig_default = \<lparr>
     cfg_protocol = Linux, cfg_auto_reconnect = True, cfg_use_ipv6_network = False,
     cfg_get_optimum_server = True, cfg_highway_chuck_size = 1024 * 1024,
     cfg_highway_concurrency = 4, cfg_cache_mode = Half,
     cfg_fetch_group_member_strategy = StrategySimple\<rparr>"

record Crypto =
  cr_public :: bytes
  cr_shared :: bytes

record Context =
  ctx_app_info :: AppInfo
  ctx_device :: DeviceInfo
  ctx_key_store :: KeyStore
  ctx_sign_impl :: sign_impl
  ctx_crypto :: Crypto
  ctx_session :: Session
  ctx_config :: ClientConfig

text \<open>
  The shapes the Rust types fix: arrays of a fixed length are lists of that length here.
\<close>

definition wf_context :: "Context \<Rightarrow> bool" where
  "wf_context ctx \<longleftrightarrow>
     length (dev_uuid (ctx_device ctx)) = 16 \<and>
     length (wt_d2_key (ks_session (ctx_key_store ctx))) = 16 \<and>
     length (kc_random_key (se_stub (ctx_session ctx))) = 16 \<and>
     length (cr_shared (ctx_crypto ctx)) = 16 \<and>
     (\<forall>q \<in> set_option (se_qr_sign (ctx_session ctx)). length (qs_sign q) = 24)"

text \<open>A context with the Linux application information and empty keys, for examples.\<close>

definition demo_key_store :: KeyStore where
  "demo_key_store = \<lparr>ks_uin = 10001, ks_uid = None, ks_password_md5 = [],
     ks_session = \<lparr>wt_d2_key = replicate 16 0, wt_d2 = [], wt_tgt = [], wt_session_date = 0,
       wt_qr_sign = None, wt_qr_string = None, wt_qr_url = None, wt_exchange_key = None,
       wt_key_sign = None, wt_unusual_sign = None, wt_unusual_cookie = None,
       wt_temp_password = Some [], wt_no_pic_sig = Some []\<rparr>,
     ks_info = \<lparr>acc_age = 0, acc_gender = 0, acc_name = []\<rparr>\<rparr>"

definition demo_context :: Context where
  "demo_context = \<lparr>ctx_app_info = LINUX,
     ctx_device = \<lparr>dev_uuid = replicate 16 7, dev_mac_address = replicate 6 1,
       dev_device_name = str ''Lagrange.Mania'', dev_system_kernel = str ''Windows 10.0.19042'',
       dev_kernel_version = str ''10.0.19042.0''\<rparr>,
     ctx_key_store = demo_key_store,
     ctx_sign_impl = linux_sign_impl (\<lambda>_ _ _ _. None) None,
     ctx_crypto = \<lparr>cr_public = replicate 65 4, cr_shared = replicate 16 3\<rparr>,
     ctx_session = Session_new, ctx_config = ClientConfig_default\<rparr>"

section \<open>Lemmas\<close>

lemma is_session_expired_iff:
  "is_session_expired now ks \<longleftrightarrow> now - wt_session_date (ks_session ks) \<ge> (15 * 86400 + 1) * 10 ^ 9"
proof -
  have "num_seconds d > 15 * 86400 \<longleftrightarrow> d \<ge> (15 * 86400 + 1) * 10 ^ 9" for d :: int
    by (simp add: num_seconds_def) linarith
  then show ?thesis by (simp add: is_session_expired_def)
qed

lemma sign_only_whitelisted: "sign impl cmd seqno body = Some r \<Longrightarrow> cmd \<in> set WHITELIST"
  by (simp add: sign_def split: if_splits)

lemma linux_sign_total: "\<exists>r. linux_sign_impl ask url cmd seqno body = Some r"
  by (simp add: linux_sign_impl_def split: option.splits)

lemma Session_next_sequence_iter:
  "se_sequence (((\<lambda>s. snd (Session_next_sequence s)) ^^ n) s) = se_sequence s + of_nat n"
  by (induction n) (simp_all add: Session_next_sequence_def algebra_simps)

lemma wf_demo_context: "wf_context demo_context"
  by (simp add: wf_context_def demo_context_def demo_key_store_def Session_new_def
      KeyCollection_new_def)

declare demo_key_store_def [simp]

end
