(* ===== verification/Sso_Packet.thy ===== *)
theory Sso_Packet
  imports Tea Packet_Reader Mania_Context
begin

text \<open>
  \<open>OidbPacket\<close> and \<open>SsoPacket\<close> of \<open>mania/src/core/packet.rs\<close>: what the client sends
  (\<open>build_protocol12\<close>, \<open>build_protocol13\<close>) and how it reads what the server sends
  (\<open>sso_parse\<close>). A result is \<open>(PacketError + 'a) option\<close>: \<open>None\<close> is a panic.

  The protobuf codecs are generated by prost from \<open>core/protos\<close>; hexadecimal coding and zlib
  come from the crates hex and flate2; random numbers from rand. They are the fields of
  \<open>sso_env\<close>. The messages themselves are the records below.
\<close>

section \<open>Types\<close>

datatype PacketType = T12 | T13

definition PacketType_try_from :: "u32 \<Rightarrow> u32 + PacketType" where
  "PacketType_try_from v = (if v = 12 then Inr T12 else if v = 13 then Inr T13 else Inl v)"

datatype PacketError =
    UnknownSsoPacketType u32
  | UnknownAuthFlag u8
  | InvalidUin rstring
  | UinMismatch u32 u32
  | InflateFailed
  | SsoPacketParseFailed
  | SsoPacketRetFailed rstring u32 i32 rstring
  | OidbPacketRetFailed rstring u32 rstring
  | OtherPacketError rstring

record SsoPacket =
  sso_packet_type :: PacketType
  sso_command :: rstring
  sso_sequence :: u32
  sso_payload :: bytes

definition with_sequence :: "PacketType \<Rightarrow> rstring \<Rightarrow> u32 \<Rightarrow> bytes \<Rightarrow> SsoPacket" where
  "with_sequence ty command seqno payload =
     \<lparr>sso_packet_type = ty, sso_command = command, sso_sequence = seqno, sso_payload = payload\<rparr>"

record Sign =
  sign_sec_sign :: "bytes option"
  sign_sec_token :: "rstring option"
  sign_sec_extra :: "bytes option"

record NtDeviceSign =
  nds_trace :: rstring
  nds_uid :: "rstring option"
  nds_sign :: "Sign option"

record NtPacketUid =
  npu_uid :: "rstring option"

record sso_env =
  env_encode_device_sign :: "NtDeviceSign \<Rightarrow> bytes"
  env_encode_packet_uid :: "NtPacketUid \<Rightarrow> bytes"
  env_hex :: "bytes \<Rightarrow> rstring"
  env_inflate :: "bytes \<Rightarrow> bytes option"
  env_trace_rng :: "nat \<Rightarrow> u8"
  env_tea_fill :: "nat \<Rightarrow> u8"

section \<open>OIDB packets\<close>

record OidbLafter =
  ol_type :: i32
  ol_d2 :: bytes
  ol_sub_appid :: u32

record OidbProperty =
  op_key :: rstring
  op_value :: bytes

record OidbSvcTrpcTcpBase =
  ob_command :: u32
  ob_sub_command :: u32
  ob_error_code :: u32
  ob_body :: bytes
  ob_error_msg :: rstring
  ob_lafter :: "OidbLafter option"
  ob_properties :: "OidbProperty list"
  ob_reserved :: i32

record OidbPacket =
  oidb_commend :: u32
  oidb_sub_commend :: u32
  oidb_body :: bytes
  oidb_is_lafter :: bool
  oidb_is_uid :: bool

text \<open>The message \<open>to_binary\<close> encodes; the fields it does not set have protobuf defaults.\<close>

definition oidb_base :: "OidbPacket \<Rightarrow> OidbSvcTrpcTcpBase" where
  "oidb_base p =
     \<lparr>ob_command = oidb_commend p, ob_sub_command = oidb_sub_commend p, ob_error_code = 0,
      ob_body = oidb_body p, ob_error_msg = [],
      ob_lafter = (if oidb_is_lafter p
         then Some \<lparr>ol_type = 0, ol_d2 = [], ol_sub_appid = 0\<rparr> else None), ob_properties = [],
      ob_reserved = (if oidb_is_uid p then 1 else 0)\<rparr>"

definition oidb_to_binary :: "(OidbSvcTrpcTcpBase \<Rightarrow> bytes) \<Rightarrow> OidbPacket \<Rightarrow> bytes" where
  "oidb_to_binary encode p = encode (oidb_base p)"

definition oidb_parse ::
    "(bytes \<Rightarrow> OidbSvcTrpcTcpBase option) \<Rightarrow> bytes \<Rightarrow> PacketError + OidbPacket" where
  "oidb_parse decode packet =
     (case decode packet of
        Some base \<Rightarrow>
          (if ob_error_code base = 0
           then Inr \<lparr>oidb_commend = ob_command base, oidb_sub_commend = ob_sub_command base,
                     oidb_body = ob_body base, oidb_is_lafter = (ob_lafter base \<noteq> None),
                     oidb_is_uid = (ob_reserved base \<noteq> 0)\<rparr>
           else Inl (OidbPacketRetFailed
                  (str ''0x'' @ hex_fmt (unat (ob_command base)) @ str ''_''
                     @ dec_str (unat (ob_sub_command base)))
                  (ob_error_code base) (ob_error_msg base)))
      | None \<Rightarrow> Inl SsoPacketParseFailed)"

definition oidb_parse_into ::
    "(bytes \<Rightarrow> OidbSvcTrpcTcpBase option) \<Rightarrow> (bytes \<Rightarrow> 't option) \<Rightarrow> bytes \<Rightarrow> PacketError + 't" where
  "oidb_parse_into decode decode_body packet =
     (case oidb_parse decode packet of
        Inl e \<Rightarrow> Inl e
      | Inr p \<Rightarrow> (case decode_body (oidb_body p) of
                    None \<Rightarrow> Inl SsoPacketParseFailed | Some t \<Rightarrow> Inr t))"

text \<open>A trivial environment, for examples.\<close>

definition demo_env :: sso_env where
  "demo_env = \<lparr>env_encode_device_sign = (\<lambda>m. nds_trace m), env_encode_packet_uid = (\<lambda>_. []),
     env_hex = (\<lambda>bs. concat (map (\<lambda>b. [hex_digit (unat b div 16), hex_digit (unat b mod 16)]) bs)),
     env_inflate = (\<lambda>bs. Some bs), env_trace_rng = (\<lambda>_. 0), env_tea_fill = (\<lambda>_. 220)\<rparr>"

section \<open>Building\<close>

text \<open>\<open>random_trace\<close>: sixteen and eight random bytes, each formatted with \<open>{:x}\<close>.\<close>

definition random_trace :: "(nat \<Rightarrow> u8) \<Rightarrow> rstring" where
  "random_trace rng =
     str ''00-'' @ concat (map (\<lambda>i. hex_fmt (unat (rng i))) [0..<16]) @ str ''-''
       @ concat (map (\<lambda>i. hex_fmt (unat (rng i))) [16..<24]) @ str ''-01''"

definition device_sign :: "sso_env \<Rightarrow> Context \<Rightarrow> SsoPacket \<Rightarrow> NtDeviceSign" where
  "device_sign env ctx pkt =
     \<lparr>nds_trace = random_trace (env_trace_rng env),
      nds_uid = ks_uid (ctx_key_store ctx),
      nds_sign = (case sign (ctx_sign_impl ctx) (sso_command pkt) (sso_sequence pkt) (sso_payload pkt) of
          Some s \<Rightarrow> Some \<lparr>sign_sec_sign = Some (sr_sign s), sign_sec_token = Some (sr_token s),
                          sign_sec_extra = Some (sr_extra s)\<rparr>
        | None \<Rightarrow> None)\<rparr>"

definition protocol12_body :: "sso_env \<Rightarrow> Context \<Rightarrow> SsoPacket \<Rightarrow> builder" where
  "protocol12_body env ctx pkt = chain
     [pb_section (chain
        [pb_u32 (sso_sequence pkt),
         pb_u32 (ai_sub_app_id (ctx_app_info ctx)),
         pb_u32 2052,
         pb_bytes [2, 0, 0, 0, 0, 0, 0, 0, 0, 0, 0, 0],
         pb_section (pb_bytes (wt_tgt (ks_session (ctx_key_store ctx)))),
         pb_section (pb_string (sso_command pkt)),
         pb_section (chain []),
         pb_section (pb_string (env_hex env (dev_uuid (ctx_device ctx)))),
         pb_section (chain []),
         pb_section_16 (pb_string (ai_current_version (ctx_app_info ctx))),
         pb_section (pb_bytes (env_encode_device_sign env (device_sign env ctx pkt)))]),
      pb_section (pb_bytes (sso_payload pkt))]"

definition build_protocol12 :: "sso_env \<Rightarrow> Context \<Rightarrow> SsoPacket \<Rightarrow> bytes option" where
  "build_protocol12 env ctx pkt =
     do { body \<leftarrow> pb_build (protocol12_body env ctx pkt);
          let d2 = wt_d2 (ks_session (ctx_key_store ctx));
          encrypted \<leftarrow> tea_encrypt (env_tea_fill env) body (wt_d2_key (ks_session (ctx_key_store ctx)));
          pb_build (pb_section (chain
            [pb_u32 12,
             pb_u8 (if d2 = [] then 2 else 1),
             pb_section (pb_bytes d2),
             pb_u8 0,
             pb_section (pb_string (dec_str (unat (ks_uin (ctx_key_store ctx))))),
             pb_bytes encrypted])) }"

definition build_protocol13 :: "sso_env \<Rightarrow> Context \<Rightarrow> SsoPacket \<Rightarrow> bytes option" where
  "build_protocol13 env ctx pkt =
     pb_build (pb_section (chain
       [pb_u32 13,
        pb_u8 0,
        pb_u32 (sso_sequence pkt),
        pb_u8 0,
        pb_section (pb_string (str ''0'')),
        pb_section (chain
          [pb_section (pb_string (sso_command pkt)),
           pb_section (chain []),
           pb_section (pb_bytes (case ks_uid (ctx_key_store ctx) of
               Some uid \<Rightarrow> env_encode_packet_uid env \<lparr>npu_uid = Some uid\<rparr>
             | None \<Rightarrow> []))]),
        pb_section (pb_bytes (sso_payload pkt))]))"

definition sso_build :: "sso_env \<Rightarrow> Context \<Rightarrow> SsoPacket \<Rightarrow> bytes option" where
  "sso_build env ctx pkt =
     (case sso_packet_type pkt of
        T12 \<Rightarrow> build_protocol12 env ctx pkt
      | T13 \<Rightarrow> build_protocol13 env ctx pkt)"

section \<open>Parsing\<close>

text \<open>The body of the packet: the SSO header and the payload, inflated when it is compressed.\<close>

definition sso_parse_body :: "sso_env \<Rightarrow> bytes \<Rightarrow> (PacketError + SsoPacket) option" where
  "sso_parse_body env body =
     do { (_, rd) \<leftarrow> rd_u32 body;
          (seqno, rd) \<leftarrow> rd_u32 rd;
          (ret_code, rd) \<leftarrow> rd_i32 rd;
          (extra, rd) \<leftarrow> rd_section rd_string rd;
          (command, rd) \<leftarrow> rd_section rd_string rd;
          (_, rd) \<leftarrow> rd_section rd_bytes rd;
          (compressed, rd) \<leftarrow> rd_u32 rd;
          (_, rd) \<leftarrow> read_with_length (PREFIX_U32 OR PREFIX_LENGTH_ONLY) rd_bytes rd;
          payload \<leftarrow>
            (if compressed \<noteq> 0 then
               do { (z, rd) \<leftarrow> rd_section rd_bytes rd;
                    Some (case env_inflate env z of
                        None \<Rightarrow> Inl InflateFailed
                      | Some d \<Rightarrow> let buffer = be32 0 @ d
                                  in Inr (be32 (of_nat (length buffer)) @ drop 4 buffer)) }
             else do { (b, rd) \<leftarrow> rd_bytes rd; Some (Inr b) });
          try_res payload (\<lambda>payload.
            Some (if ret_code = 0 then Inr (with_sequence T12 command seqno payload)
                  else Inl (SsoPacketRetFailed command seqno ret_code extra))) }"

definition sso_parse :: "sso_env \<Rightarrow> Context \<Rightarrow> bytes \<Rightarrow> (PacketError + SsoPacket) option" where
  "sso_parse env ctx packet =
     do { (_, rd) \<leftarrow> rd_u32 packet;
          (protocol, rd) \<leftarrow> rd_u32 rd;
          (case PacketType_try_from protocol of
             Inl v \<Rightarrow> Some (Inl (UnknownSsoPacketType v))
           | Inr protocol \<Rightarrow> do {
               (auth_flag, rd) \<leftarrow> rd_u8 rd;
               (_, rd) \<leftarrow> rd_u8 rd;
               (uin_str, rd) \<leftarrow> rd_section rd_string rd;
               (case parse_u32 uin_str of
                  None \<Rightarrow> Some (Inl (InvalidUin uin_str))
                | Some uin \<Rightarrow>
                    (if uin \<noteq> ks_uin (ctx_key_store ctx) \<and> protocol = T12
                     then Some (Inl (UinMismatch (ks_uin (ctx_key_store ctx)) uin))
                     else do {
                       (body, rd) \<leftarrow> rd_bytes rd;
                       body \<leftarrow>
                         (if auth_flag = 0 then Some (Inr body)
                          else if auth_flag = 1
                            then map_option Inr
                                   (tea_decrypt body (wt_d2_key (ks_session (ctx_key_store ctx))))
                          else if auth_flag = 2
                            then map_option Inr (tea_decrypt body (replicate 16 0))
                          else Some (Inl (UnknownAuthFlag auth_flag)));
                       try_res body (sso_parse_body env) })) }) }"

text \<open>
  \<open>resolve_event\<close> (\<open>core/event.rs\<close>) strips the length prefix of the payload again before it
  hands it to the parser of the event.
\<close>

definition event_payload :: "SsoPacket \<Rightarrow> bytes option" where
  "event_payload pkt = map_option fst (rd_section rd_bytes (sso_payload pkt))"


section \<open>What the builders write\<close>

definition protocol12_header :: "sso_env \<Rightarrow> Context \<Rightarrow> SsoPacket \<Rightarrow> bytes" where
  "protocol12_header env ctx pkt =
     be32 (sso_sequence pkt) @ be32 (ai_sub_app_id (ctx_app_info ctx)) @ be32 2052
       @ [2, 0, 0, 0, 0, 0, 0, 0, 0, 0, 0, 0]
       @ frame32 (wt_tgt (ks_session (ctx_key_store ctx)))
       @ frame32 (sso_command pkt) @ frame32 []
       @ frame32 (env_hex env (dev_uuid (ctx_device ctx))) @ frame32 []
       @ be16 (of_nat (length (ai_current_version (ctx_app_info ctx)) + 2))
       @ ai_current_version (ctx_app_info ctx)
       @ frame32 (env_encode_device_sign env (device_sign env ctx pkt))"

lemma emits_protocol12_body:
  assumes "length (ai_current_version (ctx_app_info ctx)) \<le> 65533"
  shows "emits (protocol12_body env ctx pkt)
    (frame32 (protocol12_header env ctx pkt) @ frame32 (sso_payload pkt))"
  unfolding protocol12_body_def protocol12_header_def
  by (rule emits_eq, (rule emit_intros assms)+) simp

lemma tea_round_trip_wf:
  assumes "length key = 16"
  obtains c where "tea_encrypt fill m key = Some c" "tea_decrypt c key = Some m"
  using tea_round_trip_aux [of key _ fill m] assms by (auto simp: tea16_new_def)

lemma emits_protocol12_packet:
  "emits (pb_section (chain [pb_u32 12, pb_u8 flag, pb_section (pb_bytes d2), pb_u8 0,
       pb_section (pb_string u), pb_bytes c]))
     (frame32 (be32 12 @ [flag] @ frame32 d2 @ [0] @ frame32 u @ c))"
  by (rule emits_eq, (rule emit_intros)+) simp

text \<open>
  C3: A T12 packet is well framed and its body is recoverable with the session key. When the
  session has a 16-byte D2 key and the version string fits its 16-bit section, \<open>sso_build\<close>
  returns one length-prefixed frame holding the protocol number, the flag (2 without D2, 1 with
  it), the D2 ticket, the account number in decimal and the ciphertext; decrypting the ciphertext
  with the D2 key gives the SSO header and the payload, each in a frame of its own.
\<close>

theorem protocol12_layout:
  assumes "wf_context ctx" and "sso_packet_type pkt = T12"
    and "length (ai_current_version (ctx_app_info ctx)) \<le> 65533"
  shows "\<exists>c. sso_build env ctx pkt = Some (frame32 (be32 12
        @ [if wt_d2 (ks_session (ctx_key_store ctx)) = [] then 2 else 1]
        @ frame32 (wt_d2 (ks_session (ctx_key_store ctx))) @ [0]
        @ frame32 (dec_str (unat (ks_uin (ctx_key_store ctx)))) @ c))
      \<and> tea_decrypt c (wt_d2_key (ks_session (ctx_key_store ctx)))
        = Some (frame32 (protocol12_header env ctx pkt) @ frame32 (sso_payload pkt))"
proof -
  let ?body = "frame32 (protocol12_header env ctx pkt) @ frame32 (sso_payload pkt)"
  let ?key = "wt_d2_key (ks_session (ctx_key_store ctx))"
  have "length ?key = 16" using assms(1) by (simp add: wf_context_def)
  then obtain c where c: "tea_encrypt (env_tea_fill env) ?body ?key = Some c"
      "tea_decrypt c ?key = Some ?body"
    by (rule tea_round_trip_wf)
  have "pb_build (protocol12_body env ctx pkt) = Some ?body"
    by (rule pb_build_emits [OF emits_protocol12_body [OF assms(3)]])
  then have "sso_build env ctx pkt = Some (frame32 (be32 12
        @ [if wt_d2 (ks_session (ctx_key_store ctx)) = [] then 2 else 1]
        @ frame32 (wt_d2 (ks_session (ctx_key_store ctx))) @ [0]
        @ frame32 (dec_str (unat (ks_uin (ctx_key_store ctx)))) @ c))"
    using c assms(2)
    by (simp only: sso_build_def build_protocol12_def Let_def bind.bind_lunit PacketType.case
        pb_build_emits [OF emits_protocol12_packet])
  then show ?thesis using c by blast
qed

theorem protocol12_layout_witness:
  "\<exists>c. tea_decrypt c (replicate 16 0) = Some (frame32 (protocol12_header demo_env demo_context
        (with_sequence T12 (str ''wtlogin.login'') 7 [1, 2, 3])) @ frame32 [1, 2, 3])"
proof -
  let ?pkt = "with_sequence T12 (str ''wtlogin.login'') 7 [1, 2, 3]"
  have v: "length (ai_current_version (ctx_app_info demo_context)) \<le> 65533"
    by (simp add: demo_context_def LINUX_def str_def)
  have t: "sso_packet_type ?pkt = T12" by (simp add: with_sequence_def)
  show ?thesis
    using protocol12_layout [OF wf_demo_context t v, of demo_env]
    by (auto simp: demo_context_def with_sequence_def)
qed

definition protocol13_uid :: "sso_env \<Rightarrow> Context \<Rightarrow> bytes" where
  "protocol13_uid env ctx =
     (case ks_uid (ctx_key_store ctx) of
        Some uid \<Rightarrow> env_encode_packet_uid env \<lparr>npu_uid = Some uid\<rparr> | None \<Rightarrow> [])"

text \<open>
  A T13 packet never panics and is sent in the clear: one frame with the protocol number, the
  sequence number, the literal account \<open>0\<close>, the frame of command and encoded uid (empty without
  one), and the payload.
\<close>

theorem protocol13_layout:
  "build_protocol13 env ctx pkt = Some (frame32 (be32 13 @ [0] @ be32 (sso_sequence pkt) @ [0]
      @ frame32 (str ''0'')
      @ frame32 (frame32 (sso_command pkt) @ frame32 [] @ frame32 (protocol13_uid env ctx))
      @ frame32 (sso_payload pkt)))"
  unfolding build_protocol13_def protocol13_uid_def
  by (rule pb_build_emits, rule emits_eq, (rule emit_intros)+) simp

section \<open>What the parser accepts\<close>

text \<open>The layout of the server's packets: the plain body, and the frame around it.\<close>

definition response_body ::
    "u32 \<Rightarrow> u32 \<Rightarrow> i32 \<Rightarrow> rstring \<Rightarrow> rstring \<Rightarrow> bytes \<Rightarrow> u32 \<Rightarrow> bytes \<Rightarrow> bytes \<Rightarrow> bytes" where
  "response_body len seqno ret extra command unknown compressed hdr payload =
     be32 len @ be32 seqno @ be32 ret @ frame32 extra @ frame32 command @ frame32 unknown
       @ be32 compressed @ (be32 (of_nat (length hdr)) @ hdr) @ payload"

definition response_packet :: "u32 \<Rightarrow> u32 \<Rightarrow> u8 \<Rightarrow> u8 \<Rightarrow> rstring \<Rightarrow> bytes \<Rightarrow> bytes" where
  "response_packet len protocol auth_flag flag uin_str body =
     be32 len @ be32 protocol @ [auth_flag, flag] @ frame32 uin_str @ body"

text \<open>How the body is protected, by the authentication flag.\<close>

definition opens :: "Context \<Rightarrow> u8 \<Rightarrow> bytes \<Rightarrow> bytes \<Rightarrow> bool" where
  "opens ctx auth_flag c body \<longleftrightarrow>
     (auth_flag = 0 \<and> c = body)
     \<or> (auth_flag = 1 \<and> tea_decrypt c (wt_d2_key (ks_session (ctx_key_store ctx))) = Some body)
     \<or> (auth_flag = 2 \<and> tea_decrypt c (replicate 16 0) = Some body)"

text \<open>What the client is to see of the framed data of a response.\<close>

definition delivered :: "sso_env \<Rightarrow> u32 \<Rightarrow> bytes \<Rightarrow> PacketError + bytes" where
  "delivered env compressed data =
     (if compressed = 0 then Inr (frame32 data)
      else case env_inflate env data of None \<Rightarrow> Inl InflateFailed | Some d \<Rightarrow> Inr (frame32 d))"

definition response_result :: "sso_env \<Rightarrow> u32 \<Rightarrow> i32 \<Rightarrow> rstring \<Rightarrow> rstring \<Rightarrow> u32 \<Rightarrow> bytes
    \<Rightarrow> PacketError + SsoPacket" where
  "response_result env seqno ret extra command compressed data =
     (case delivered env compressed data of
        Inl e \<Rightarrow> Inl e
      | Inr payload \<Rightarrow> if ret = 0 then Inr (with_sequence T12 command seqno payload)
                        else Inl (SsoPacketRetFailed command seqno ret extra))"

lemma inflated_buffer:
  "be32 (4 + of_nat (length d)) @ d = frame32 d"
  by (simp add: frame32_def add.commute)

lemma sso_parse_body_response:
  assumes "fits32 extra" "fits32 command" "fits32 unknown" "fits32 data" "length hdr < 2 ^ 32"
    and "valid_utf8 extra" "valid_utf8 command"
  shows "sso_parse_body env
      (response_body len seqno ret extra command unknown compressed hdr (frame32 data))
    = Some (response_result env seqno ret extra command compressed data)"
proof -
  have hdr: "read_with_length (PREFIX_U32 OR PREFIX_LENGTH_ONLY) rd_bytes
      (be32 (of_nat (length hdr)) @ hdr @ rest) = Some (hdr, rest)" for rest
    using assms(5) by (simp add: read_simps)
  have tail: "rd_section rd_bytes (frame32 data) = Some (data, [])"
    using rd_frame32 [OF assms(4), of rd_bytes "[]"] by (simp add: read_simps)
  show ?thesis
  proof (cases "compressed = 0")
    case True
    then show ?thesis
      using assms
      by (simp add: sso_parse_body_def response_body_def read_simps hdr tail utf8_lossy_valid
          response_result_def delivered_def)
  next
    case False
    then show ?thesis
      using assms
      by (simp add: sso_parse_body_def response_body_def read_simps hdr tail utf8_lossy_valid
          response_result_def delivered_def Let_def inflated_buffer split: option.split)
  qed
qed

lemma dec_str_fits32: "fits32 (dec_str (unat (w :: u32)))"
proof -
  have len: "n < 10 ^ Suc k \<Longrightarrow> length (dec_str n) \<le> Suc k" for n k
  proof (induction k arbitrary: n)
    case 0
    then show ?case by (simp add: dec_str.simps)
  next
    case (Suc k)
    show ?case
    proof (cases "n < 10")
      case True
      then show ?thesis by (simp add: dec_str.simps)
    next
      case False
      have "n div 10 < 10 ^ Suc k" using Suc.prems by (simp add: less_mult_imp_div_less)
      then show ?thesis using Suc.IH [of "n div 10"] False by (subst dec_str.simps) simp
    qed
  qed
  have "unat w < 2 ^ 32" using unsigned_less [of w] by simp
  then have "unat w < 10 ^ Suc 9" by simp
  then show ?thesis using len by (fastforce simp: fits32_def)
qed

lemma sso_parse_packet:
  assumes "protocol = 12 \<or> protocol = 13"
    and "opens ctx auth_flag c (response_body len seqno ret extra command unknown compressed hdr
           (frame32 data))"
    and "fits32 extra" "fits32 command" "fits32 unknown" "fits32 data" "length hdr < 2 ^ 32"
    and "valid_utf8 extra" "valid_utf8 command"
  shows "sso_parse env ctx (response_packet len' protocol auth_flag flag (dec_str (unat u)) c) =
    Some (if u \<noteq> ks_uin (ctx_key_store ctx) \<and> protocol = 12
          then Inl (UinMismatch (ks_uin (ctx_key_store ctx)) u)
          else response_result env seqno ret extra command compressed data)"
proof -
  have u: "rd_section rd_string (frame32 (dec_str (unat v)) @ rest) = Some (dec_str (unat v), rest)"
    for v :: u32 and rest
    using dec_str_fits32 [of v] by (simp add: read_simps)
  have body: "sso_parse_body env
      (response_body len seqno ret extra command unknown compressed hdr (frame32 data))
    = Some (response_result env seqno ret extra command compressed data)"
    using assms(3-) by (rule sso_parse_body_response)
  from assms(2) consider
      "auth_flag = 0" "c = response_body len seqno ret extra command unknown compressed hdr (frame32 data)"
    | "auth_flag = 1" "tea_decrypt c (wt_d2_key (ks_session (ctx_key_store ctx))) =
        Some (response_body len seqno ret extra command unknown compressed hdr (frame32 data))"
    | "auth_flag = 2" "tea_decrypt c (replicate 16 0) =
        Some (response_body len seqno ret extra command unknown compressed hdr (frame32 data))"
    by (auto simp: opens_def)
  then show ?thesis
    using assms(1)
    by cases (auto simp: sso_parse_def response_packet_def read_simps u PacketType_try_from_def body)
qed

text \<open>
  C4: The parser accepts what the server sends. For a packet in the server's layout, with any of
  the three authentication flags whose cipher opens the body, the parser never panics: it rejects
  a T12 packet of another account with \<open>UinMismatch\<close>, reports a zlib failure, and otherwise
  returns the command, the sequence number and the (inflated) data when the return code is zero
  and \<open>SsoPacketRetFailed\<close> when it is not. Compressed and plain packets with the same data give
  the same result.
\<close>

theorem sso_parse_response:
  assumes "protocol = 12 \<or> protocol = 13"
    and "opens ctx auth_flag c (response_body len seqno ret extra command unknown compressed hdr
           (frame32 data))"
    and "fits32 extra" "fits32 command" "fits32 unknown" "fits32 data" "length hdr < 2 ^ 32"
    and "valid_utf8 extra" "valid_utf8 command"
  shows "sso_parse env ctx (response_packet len' protocol auth_flag flag (dec_str (unat u)) c) =
    Some (if u \<noteq> ks_uin (ctx_key_store ctx) \<and> protocol = 12
          then Inl (UinMismatch (ks_uin (ctx_key_store ctx)) u)
          else response_result env seqno ret extra command compressed data)"
  using assms by (rule sso_parse_packet)

theorem sso_parse_response_witness:
  "sso_parse demo_env demo_context (response_packet 0 12 0 0 (dec_str (unat (10001 :: u32)))
       (response_body 0 9 0 [] (str ''wtlogin.login'') [] 1 [] (frame32 [5, 6])))
     = Some (Inr (with_sequence T12 (str ''wtlogin.login'') 9 (frame32 [5, 6])))"
proof -
  have v: "valid_utf8 (str ''wtlogin.login'')"
    by (rule valid_utf8_ascii) (simp add: str_def)
  have o: "opens demo_context 0 (response_body 0 9 0 [] (str ''wtlogin.login'') [] 1 [] (frame32 [5, 6]))
      (response_body 0 9 0 [] (str ''wtlogin.login'') [] 1 [] (frame32 [5, 6]))"
    by (simp add: opens_def)
  show ?thesis
    using sso_parse_response [OF _ o, of 12 demo_env 0 0 10001] v
    by (simp add: fits32_def str_def response_result_def delivered_def demo_env_def
        demo_context_def)
qed

text \<open>The payload of an event is the data, without the frame.\<close>

lemma event_payload_frame32:
  "fits32 d \<Longrightarrow> event_payload (with_sequence ty command seqno (frame32 d)) = Some d"
  using rd_frame32 [of d rd_bytes "[]"]
  by (simp add: event_payload_def with_sequence_def read_simps)

lemma sso_parse_short: "length packet < 8 \<Longrightarrow> sso_parse env ctx packet = None"
  by (auto simp: sso_parse_def rd_u32_def split_to_def bind_eq_None_conv split: if_splits)

section \<open>OIDB packets\<close>

text \<open>
  OIDB requests survive the wire. If the protobuf codec decodes what it encoded, parsing the
  binary form of a packet gives the packet back, and a reply that carries an error code is
  reported as an error with the command in hexadecimal, the sub-command, the code and the
  message.
\<close>

theorem oidb_round_trip:
  assumes "decode (encode (oidb_base p)) = Some (oidb_base p)"
    and "decode reply = Some base" and "ob_error_code base \<noteq> 0"
  shows "oidb_parse decode (oidb_to_binary encode p) = Inr p
    \<and> oidb_parse decode reply = Inl (OidbPacketRetFailed
         (str ''0x'' @ hex_fmt (unat (ob_command base)) @ str ''_''
            @ dec_str (unat (ob_sub_command base)))
         (ob_error_code base) (ob_error_msg base))"
  using assms by (cases p) (simp add: oidb_parse_def oidb_to_binary_def oidb_base_def)

theorem oidb_round_trip_witness:
  "oidb_parse (\<lambda>bs. if bs = [1] then Some (oidb_base \<lparr>oidb_commend = 0xfe7, oidb_sub_commend = 3,
         oidb_body = [9], oidb_is_lafter = False, oidb_is_uid = True\<rparr>)
       else Some (oidb_base \<lparr>oidb_commend = 0xfe7, oidb_sub_commend = 3,
         oidb_body = [], oidb_is_lafter = False, oidb_is_uid = True\<rparr>\<lparr>ob_error_code := 5\<rparr>))
     (oidb_to_binary (\<lambda>_. [1]) \<lparr>oidb_commend = 0xfe7, oidb_sub_commend = 3, oidb_body = [9],
         oidb_is_lafter = False, oidb_is_uid = True\<rparr>)
   = Inr \<lparr>oidb_commend = 0xfe7, oidb_sub_commend = 3, oidb_body = [9],
         oidb_is_lafter = False, oidb_is_uid = True\<rparr>"
  by (rule conjunct1 [OF oidb_round_trip [where reply = "[2]"]]) (simp add: oidb_base_def)+

section \<open>The trace identifier\<close>

lemma hex_fmt_byte: "length (hex_fmt (unat (b :: u8))) = (if b < 16 then 1 else 2)"
proof -
  have b: "unat b < 256" using unsigned_less [of b] by simp
  show ?thesis
  proof (cases "unat b < 16")
    case True
    then show ?thesis by (simp add: hex_fmt.simps word_less_nat_alt)
  next
    case False
    have "unat b div 16 < 16" using b by (simp add: less_mult_imp_div_less)
    then show ?thesis
      using False by (subst hex_fmt.simps, subst hex_fmt.simps) (simp add: word_less_nat_alt)
  qed
qed

lemma length_hex_bytes:
  "length (concat (map (\<lambda>i. hex_fmt (unat (rng i :: u8))) is)) + length (filter (\<lambda>i. rng i < 16) is)
     = 2 * length is"
  by (induction "is") (simp_all add: hex_fmt_byte)

text \<open>
  The trace is not always 55 characters long. The code's comments say the two fields have 32
  and 16 digits; as \<open>{:x}\<close> does not pad, the string loses one character for each of the 24
  random bytes below 16, and has its full length only if there is none.
\<close>

lemma random_trace_length:
  "length (random_trace rng) + length (filter (\<lambda>i. rng i < 16) [0..<24]) = 55"
proof -
  have split: "[0..<24] = [0..<16] @ [16..<24::nat]"
    using upt_add_eq_append [of 0 16 8] by simp
  have f: "length (filter (\<lambda>i. rng i < 16) [0..<24]) =
      length (filter (\<lambda>i. rng i < 16) [0..<16]) + length (filter (\<lambda>i. rng i < 16) [16..<24])"
    by (simp only: split filter_append length_append)
  show ?thesis
    using f length_hex_bytes [of rng "[0..<16]"] length_hex_bytes [of rng "[16..<24]"]
    by (simp add: random_trace_def str_def del: upt_rec_numeral)
qed

end
