(* ===== verification/Tlv_Ser.thy ===== *)
theory Tlv_Ser
  imports Sso_Packet
begin

text \<open>
  The outgoing half of \<open>mania/src/core/tlv.rs\<close> and \<open>tlv/*.rs\<close>: one record per TLV struct, its
  \<open>from_context\<close> (which panics when the context lacks a value it expects) and its \<open>serialize\<close>
  as a builder. A \<open>Box<dyn TlvSer>\<close> is the builder of its only method. The registries
  \<open>TLV_SER_MAP\<close> and \<open>TLV_QR_SER_MAP\<close> map a tag to a constructor; \<open>serialize_tlv_set\<close> writes a
  count and the TLVs. The TLV 0x144 contains an encrypted set of four other TLVs, so that the
  registry refers to itself; the four tags are resolved by \<open>new_tlv_inner\<close>, the registry
  without 0x144, and \<open>T144_inner_tags\<close> shows that the full registry answers the same for them.
\<close>

section \<open>Helpers of the prelude module\<close>

definition pb_tlv :: "u16 \<Rightarrow> builder \<Rightarrow> builder" where
  "pb_tlv tag f = chain [pb_u16 tag, section_16_with_addition 0 f]"

definition pb_bytes_with_length :: "bytes \<Rightarrow> builder" where
  "pb_bytes_with_length bs = section_16_with_addition 0 (pb_bytes bs)"

definition pb_string_with_length :: "rstring \<Rightarrow> builder" where
  "pb_string_with_length s = pb_bytes_with_length s"

text \<open>The protobuf messages, and the environment: their encoder and the padding of the cipher.\<close>

record Ntos =
  ntos_os :: rstring
  ntos_name :: rstring

record TlvQrCodeD1 =
  qd1_sys :: "Ntos option"
  qd1_type :: bytes

record tlv_env =
  env_encode_qr_d1 :: "TlvQrCodeD1 \<Rightarrow> bytes"
  env_tlv_fill :: "nat \<Rightarrow> u8"

section \<open>The TLVs of the QR-code login\<close>

record T011q =
  t011q_unusual_sign :: bytes

definition T011q_from_context :: "Context \<Rightarrow> T011q option" where
  "T011q_from_context ctx =
     map_option (\<lambda>v. \<lparr>t011q_unusual_sign = v\<rparr>) (se_unusual_sign
     (ctx_session ctx))"

definition T011q_serialize :: "T011q \<Rightarrow> builder" where
  "T011q_serialize t = pb_tlv 0x011 (pb_bytes (t011q_unusual_sign t))"

record T016q =
  t016q_sso_version :: u32
  t016q_appid :: u32
  t016q_sub_app_id :: u32
  t016q_app_id_qr_code :: u32
  t016q_guid :: bytes
  t016q_package_name :: rstring
  t016q_pt_version :: rstring

definition T016q_from_context :: "Context \<Rightarrow> T016q option" where
  "T016q_from_context ctx =
     Some \<lparr>t016q_sso_version = 0, t016q_appid = ai_app_id (ctx_app_info ctx),
     t016q_sub_app_id = ai_sub_app_id (ctx_app_info ctx), t016q_app_id_qr_code =
     ai_app_id_qr_code (ctx_app_info ctx), t016q_guid = dev_uuid (ctx_device ctx),
     t016q_package_name = ai_package_name (ctx_app_info ctx), t016q_pt_version =
     ai_pt_version (ctx_app_info ctx)\<rparr>"

definition T016q_serialize :: "T016q \<Rightarrow> builder" where
  "T016q_serialize t = pb_tlv 0x016 (chain [pb_u32 0, pb_u32 (t016q_appid t), pb_u32 (t016q_sub_app_id t), pb_bytes
     (t016q_guid t), pb_string_with_length (t016q_package_name t), pb_string_with_length
     (t016q_pt_version t), pb_string_with_length (t016q_package_name t)])"

record T01bq =
  t01bq_micro :: u32
  t01bq_version :: u32
  t01bq_size :: u32
  t01bq_margin :: u32
  t01bq_dpi :: u32
  t01bq_ec_level :: u32
  t01bq_hint :: u32
  t01bq_field0 :: u16

definition T01bq_from_context :: "Context \<Rightarrow> T01bq option" where
  "T01bq_from_context ctx =
     Some \<lparr>t01bq_micro = 0, t01bq_version = 0, t01bq_size = 3, t01bq_margin = 4,
     t01bq_dpi = 72, t01bq_ec_level = 2, t01bq_hint = 2, t01bq_field0 = 0\<rparr>"

definition T01bq_serialize :: "T01bq \<Rightarrow> builder" where
  "T01bq_serialize t = pb_tlv 0x01b (chain [pb_u32 (t01bq_micro t), pb_u32 (t01bq_version t), pb_u32 (t01bq_size t), pb_u32
     (t01bq_margin t), pb_u32 (t01bq_dpi t), pb_u32 (t01bq_ec_level t), pb_u32 (t01bq_hint
     t), pb_u16 (t01bq_field0 t)])"

record T01dq =
  t01dq_field_byte :: u8
  t01dq_misc_bitmap :: u32
  t01dq_field0 :: u32
  t01dq_field_byte0 :: u8

definition T01dq_from_context :: "Context \<Rightarrow> T01dq option" where
  "T01dq_from_context ctx =
     Some \<lparr>t01dq_field_byte = 1, t01dq_misc_bitmap = ai_misc_bitmap (ctx_app_info
     ctx), t01dq_field0 = 0, t01dq_field_byte0 = 0\<rparr>"

definition T01dq_serialize :: "T01dq \<Rightarrow> builder" where
  "T01dq_serialize t = pb_tlv 0x01d (chain [pb_u8 (t01dq_field_byte t), pb_u32 (t01dq_misc_bitmap t), pb_u32 (t01dq_field0
     t), pb_u8 (t01dq_field_byte0 t)])"

record T033q =
  t033q_guid :: bytes

definition T033q_from_context :: "Context \<Rightarrow> T033q option" where
  "T033q_from_context ctx =
     Some \<lparr>t033q_guid = dev_uuid (ctx_device ctx)\<rparr>"

definition T033q_serialize :: "T033q \<Rightarrow> builder" where
  "T033q_serialize t = pb_tlv 0x033 (pb_bytes (t033q_guid t))"

record T035q =
  t035q_pt_os_version :: i32

definition T035q_from_context :: "Context \<Rightarrow> T035q option" where
  "T035q_from_context ctx =
     Some \<lparr>t035q_pt_os_version = ai_pt_os_version (ctx_app_info ctx)\<rparr>"

definition T035q_serialize :: "T035q \<Rightarrow> builder" where
  "T035q_serialize t = pb_tlv 0x035 (pb_i32 (t035q_pt_os_version t))"

record T066q =
  t066q_pt_os_version :: i32

definition T066q_from_context :: "Context \<Rightarrow> T066q option" where
  "T066q_from_context ctx =
     Some \<lparr>t066q_pt_os_version = ai_pt_os_version (ctx_app_info ctx)\<rparr>"

definition T066q_serialize :: "T066q \<Rightarrow> builder" where
  "T066q_serialize t = pb_tlv 0x066 (pb_i32 (t066q_pt_os_version t))"

record T0d1q =
  t0d1q_proto :: TlvQrCodeD1

definition T0d1q_from_context :: "Context \<Rightarrow> T0d1q option" where
  "T0d1q_from_context ctx =
     Some \<lparr>t0d1q_proto = \<lparr>qd1_sys = Some \<lparr>ntos_os = ai_os (ctx_app_info
     ctx), ntos_name = dev_device_name (ctx_device ctx)\<rparr>, qd1_type = [0x30,
     0x01]\<rparr>\<rparr>"

definition T0d1q_serialize :: "tlv_env \<Rightarrow> T0d1q \<Rightarrow> builder" where
  "T0d1q_serialize env t = pb_tlv 0x0d1 (pb_bytes (env_encode_qr_d1 env (t0d1q_proto t)))"

section \<open>The TLVs of the login packet\<close>

record T018 =
  t018_ping_version :: u16
  t018_sso_version :: u32
  t018_app_id :: u32
  t018_app_client_version :: u32
  t018_uin :: u32
  t018_field0 :: u16
  t018_field1 :: u16

definition T018_from_context :: "Context \<Rightarrow> T018 option" where
  "T018_from_context ctx =
     Some \<lparr>t018_ping_version = 0, t018_sso_version = 5, t018_app_id = 0,
     t018_app_client_version = ucast (ai_app_client_version (ctx_app_info ctx)), t018_uin =
     ks_uin (ctx_key_store ctx), t018_field0 = 0, t018_field1 = 0\<rparr>"

definition T018_serialize :: "T018 \<Rightarrow> builder" where
  "T018_serialize t = pb_tlv 0x018 (chain [pb_u16 (t018_ping_version t), pb_u32 (t018_sso_version t), pb_u32 (t018_app_id
     t), pb_u32 (t018_app_client_version t), pb_u32 (t018_uin t), pb_u16 (t018_field0 t),
     pb_u16 (t018_field1 t)])"

record T100 =
  t100_db_buf_version :: u16
  t100_sso_version :: u32
  t100_appid :: u32
  t100_sub_app_id :: u32
  t100_app_client_version :: u32
  t100_main_sigmap :: u32

definition T100_from_context :: "Context \<Rightarrow> T100 option" where
  "T100_from_context ctx =
     Some \<lparr>t100_db_buf_version = 0, t100_sso_version = 5, t100_appid = ai_app_id
     (ctx_app_info ctx), t100_sub_app_id = ai_sub_app_id (ctx_app_info ctx),
     t100_app_client_version = ucast (ai_app_client_version (ctx_app_info ctx)),
     t100_main_sigmap = ai_main_sig_map (ctx_app_info ctx)\<rparr>"

definition T100_serialize :: "T100 \<Rightarrow> builder" where
  "T100_serialize t = pb_tlv 0x100 (chain [pb_u16 (t100_db_buf_version t), pb_u32 (t100_sso_version t), pb_u32 (t100_appid
     t), pb_u32 (t100_sub_app_id t), pb_u32 (t100_app_client_version t), pb_u32
     (t100_main_sigmap t)])"

text \<open>The guid of T106 is the hexadecimal uuid; no method reads it, only \<open>temp\<close> is sent.\<close>

record T106 =
  t106_app_id :: i32
  t106_app_client_version :: i32
  t106_uin :: i32
  t106_password_md5 :: bytes
  t106_guid :: rstring
  t106_tgtgt_key :: bytes
  t106_ip :: bytes
  t106_save_password :: bool
  t106_temp :: bytes

definition T106_from_context :: "(bytes \<Rightarrow> rstring) \<Rightarrow> Context \<Rightarrow> T106 option" where
  "T106_from_context hex ctx =
     map_option (\<lambda>v. \<lparr>t106_app_id = ai_app_id (ctx_app_info ctx),
     t106_app_client_version = ucast (ai_app_client_version (ctx_app_info ctx)), t106_uin =
     ks_uin (ctx_key_store ctx), t106_password_md5 = ks_password_md5 (ctx_key_store ctx),
     t106_guid = hex (dev_uuid (ctx_device ctx)), t106_tgtgt_key = kc_tgtgt_key (se_stub
     (ctx_session ctx)), t106_ip = [0, 0, 0, 0], t106_save_password = True, t106_temp =
     v\<rparr>) (wt_temp_password (ks_session (ctx_key_store ctx)))"

definition T106_serialize :: "T106 \<Rightarrow> builder" where
  "T106_serialize t = pb_tlv 0x106 (pb_bytes (t106_temp t))"

record T107 =
  t107_pic_type :: u16
  t107_cap_type :: u8
  t107_pic_size :: u16
  t107_pic_content :: u8

definition T107_from_context :: "Context \<Rightarrow> T107 option" where
  "T107_from_context ctx =
     Some \<lparr>t107_pic_type = 0x0001, t107_cap_type = 0x0D, t107_pic_size = 0x0000,
     t107_pic_content = 0x01\<rparr>"

definition T107_serialize :: "T107 \<Rightarrow> builder" where
  "T107_serialize t = pb_tlv 0x107 (chain [pb_u16 (t107_pic_type t), pb_u8 (t107_cap_type t), pb_u16 (t107_pic_size t),
     pb_u8 (t107_pic_content t)])"

record T116 =
  t116_sub_sigmap :: u16

definition T116_from_context :: "Context \<Rightarrow> T116 option" where
  "T116_from_context ctx =
     Some \<lparr>t116_sub_sigmap = ai_sub_sig_map (ctx_app_info ctx)\<rparr>"

definition T116_serialize :: "T116 \<Rightarrow> builder" where
  "T116_serialize t = pb_tlv 0x116 (chain [pb_u8 0, pb_u32 12058620, pb_u32 (ucast (t116_sub_sigmap t)), pb_u8 0])"

text \<open>T124 has no fields.\<close>

definition T124_serialize :: builder where
  "T124_serialize = pb_tlv 0x124 (pb_bytes (replicate 12 0))"

record T128 =
  t128_app_info_os :: rstring
  t128_device_guid :: bytes

definition T128_from_context :: "Context \<Rightarrow> T128 option" where
  "T128_from_context ctx =
     Some \<lparr>t128_app_info_os = ai_os (ctx_app_info ctx), t128_device_guid = dev_uuid
     (ctx_device ctx)\<rparr>"

definition T128_serialize :: "T128 \<Rightarrow> builder" where
  "T128_serialize t = pb_tlv 0x128 (chain [pb_u16 0, pb_u8 0, pb_u8 1, pb_u8 0, pb_u32 0, pb_string_with_length
     (t128_app_info_os t), pb_bytes_with_length (t128_device_guid t), pb_string_with_length
     []])"

record T141 =
  t141_version :: u16
  t141_unknown :: rstring
  t141_network_type :: u16
  t141_apn :: rstring

definition T141_from_context :: "Context \<Rightarrow> T141 option" where
  "T141_from_context ctx =
     Some \<lparr>t141_version = 0, t141_unknown = str ''Unknown'', t141_network_type = 0,
     t141_apn = []\<rparr>"

definition T141_serialize :: "T141 \<Rightarrow> builder" where
  "T141_serialize t = pb_tlv 0x141 (chain [pb_u16 (t141_version t), pb_string_with_length (t141_unknown t), pb_u16
     (t141_network_type t), pb_string_with_length (t141_apn t)])"

record T142 =
  t142_package_name :: rstring

definition T142_from_context :: "Context \<Rightarrow> T142 option" where
  "T142_from_context ctx =
     Some \<lparr>t142_package_name = ai_package_name (ctx_app_info ctx)\<rparr>"

definition T142_serialize :: "T142 \<Rightarrow> builder" where
  "T142_serialize t = pb_tlv 0x142 (chain [pb_u16 0, pb_string_with_length (t142_package_name t)])"

record T145 =
  t145_device_guid :: bytes

definition T145_from_context :: "Context \<Rightarrow> T145 option" where
  "T145_from_context ctx =
     Some \<lparr>t145_device_guid = dev_uuid (ctx_device ctx)\<rparr>"

definition T145_serialize :: "T145 \<Rightarrow> builder" where
  "T145_serialize t = pb_tlv 0x145 (pb_bytes (t145_device_guid t))"

record T147 =
  t147_app_id :: u32
  t147_pt_version :: rstring
  t147_package_name :: rstring

definition T147_from_context :: "Context \<Rightarrow> T147 option" where
  "T147_from_context ctx =
     Some \<lparr>t147_app_id = ai_app_id (ctx_app_info ctx), t147_pt_version = ai_pt_version
     (ctx_app_info ctx), t147_package_name = ai_package_name (ctx_app_info ctx)\<rparr>"

definition T147_serialize :: "T147 \<Rightarrow> builder" where
  "T147_serialize t = pb_tlv 0x147 (chain [pb_u32 (t147_app_id t), pb_string_with_length (t147_pt_version t),
     pb_string_with_length (t147_package_name t)])"

record T166 =
  t166_image_type :: u8

definition T166_from_context :: "Context \<Rightarrow> T166 option" where
  "T166_from_context ctx =
     Some \<lparr>t166_image_type = 5\<rparr>"

definition T166_serialize :: "T166 \<Rightarrow> builder" where
  "T166_serialize t = pb_tlv 0x166 (pb_u8 (t166_image_type t))"

record T16A =
  t16a_no_pic_sig :: bytes

definition T16A_from_context :: "Context \<Rightarrow> T16A option" where
  "T16A_from_context ctx =
     map_option (\<lambda>v. \<lparr>t16a_no_pic_sig = v\<rparr>) (wt_no_pic_sig (ks_session
     (ctx_key_store ctx)))"

definition T16A_serialize :: "T16A \<Rightarrow> builder" where
  "T16A_serialize t = pb_tlv 0x16A (pb_bytes (t16a_no_pic_sig t))"

record T016E =
  t016e_device_name :: rstring

definition T016E_from_context :: "Context \<Rightarrow> T016E option" where
  "T016E_from_context ctx =
     Some \<lparr>t016e_device_name = dev_device_name (ctx_device ctx)\<rparr>"

definition T016E_serialize :: "T016E \<Rightarrow> builder" where
  "T016E_serialize t = pb_tlv 0x16E (pb_bytes (t016e_device_name t))"

record T177 =
  t177_field_1 :: bytes
  t177_build_time :: u32
  t177_wt_login_sdk :: rstring

definition T177_from_context :: "Context \<Rightarrow> T177 option" where
  "T177_from_context ctx =
     Some \<lparr>t177_field_1 = [1], t177_build_time = 0, t177_wt_login_sdk =
     ai_wt_login_sdk (ctx_app_info ctx)\<rparr>"

definition T177_serialize :: "T177 \<Rightarrow> builder" where
  "T177_serialize t = pb_tlv 0x177 (chain [pb_u8 1, pb_u32 (t177_build_time t), pb_string_with_length (t177_wt_login_sdk t)])"

record T191 =
  t191_can_web_verify :: u8

definition T191_from_context :: "Context \<Rightarrow> T191 option" where
  "T191_from_context ctx =
     Some \<lparr>t191_can_web_verify = 0\<rparr>"

definition T191_serialize :: "T191 \<Rightarrow> builder" where
  "T191_serialize t = pb_tlv 0x191 (pb_u8 (t191_can_web_verify t))"

record T318 =
  t318_tgt_qr :: u8

definition T318_from_context :: "Context \<Rightarrow> T318 option" where
  "T318_from_context ctx =
     Some \<lparr>t318_tgt_qr = 0\<rparr>"

definition T318_serialize :: "T318 \<Rightarrow> builder" where
  "T318_serialize t = pb_tlv 0x318 (chain [])"

record T521 =
  t521_product_type :: u32

definition T521_from_context :: "Context \<Rightarrow> T521 option" where
  "T521_from_context ctx =
     Some \<lparr>t521_product_type = 0x13\<rparr>"

definition T521_serialize :: "T521 \<Rightarrow> builder" where
  "T521_serialize t = pb_tlv 0x521 (chain [pb_u32 (t521_product_type t), pb_string_with_length (str ''basicim'')])"

section \<open>The registries\<close>

text \<open>A registry entry gives the boxed serializer, or panics in \<open>from_context\<close>.\<close>

definition boxed :: "('t \<Rightarrow> builder) \<Rightarrow> 't option \<Rightarrow> builder option" where
  "boxed serialize t = map_option serialize t"

definition TLV_QR_SER_MAP :: "tlv_env \<Rightarrow> Context \<Rightarrow> u16 \<Rightarrow> builder option option" where
  "TLV_QR_SER_MAP env ctx tag =
     (if tag = 0x011 then Some (boxed T011q_serialize (T011q_from_context ctx))
      else if tag = 0x016 then Some (boxed T016q_serialize (T016q_from_context ctx))
      else if tag = 0x01b then Some (boxed T01bq_serialize (T01bq_from_context ctx))
      else if tag = 0x01d then Some (boxed T01dq_serialize (T01dq_from_context ctx))
      else if tag = 0x033 then Some (boxed T033q_serialize (T033q_from_context ctx))
      else if tag = 0x035 then Some (boxed T035q_serialize (T035q_from_context ctx))
      else if tag = 0x066 then Some (boxed T066q_serialize (T066q_from_context ctx))
      else if tag = 0x0d1 then Some (boxed (T0d1q_serialize env) (T0d1q_from_context ctx))
      else None)"

definition new_tlv_inner :: "(bytes \<Rightarrow> rstring) \<Rightarrow> Context \<Rightarrow> u16 \<Rightarrow> builder option option" where
  "new_tlv_inner hex ctx tag =
     (if tag = 0x106 then Some (boxed T106_serialize (T106_from_context hex ctx))
      else if tag = 0x116 then Some (boxed T116_serialize (T116_from_context ctx))
      else if tag = 0x142 then Some (boxed T142_serialize (T142_from_context ctx))
      else if tag = 0x145 then Some (boxed T145_serialize (T145_from_context ctx))
      else if tag = 0x018 then Some (boxed T018_serialize (T018_from_context ctx))
      else if tag = 0x141 then Some (boxed T141_serialize (T141_from_context ctx))
      else if tag = 0x177 then Some (boxed T177_serialize (T177_from_context ctx))
      else if tag = 0x191 then Some (boxed T191_serialize (T191_from_context ctx))
      else if tag = 0x100 then Some (boxed T100_serialize (T100_from_context ctx))
      else if tag = 0x107 then Some (boxed T107_serialize (T107_from_context ctx))
      else if tag = 0x318 then Some (boxed T318_serialize (T318_from_context ctx))
      else if tag = 0x16a then Some (boxed T16A_serialize (T16A_from_context ctx))
      else if tag = 0x166 then Some (boxed T166_serialize (T166_from_context ctx))
      else if tag = 0x521 then Some (boxed T521_serialize (T521_from_context ctx))
      else if tag = 0x16E then Some (boxed T016E_serialize (T016E_from_context ctx))
      else if tag = 0x147 then Some (boxed T147_serialize (T147_from_context ctx))
      else if tag = 0x128 then Some (boxed T128_serialize (T128_from_context ctx))
      else if tag = 0x124 then Some (Some T124_serialize)
      else None)"

text \<open>
  The loop of \<open>serialize_tlv_set\<close>: each TLV is serialized into a buffer of its own and appended;
  an unknown tag panics (\<open>tlv not found\<close>).
\<close>

definition pb_new_tlv :: "builder option option \<Rightarrow> builder" where
  "pb_new_tlv tlv buf =
     do { ser \<leftarrow> tlv; f \<leftarrow> ser; bs \<leftarrow> pb_build f; pb_bytes bs buf }"

definition tlv_set_with :: "(u16 \<Rightarrow> builder option option) \<Rightarrow> u16 list \<Rightarrow> builder" where
  "tlv_set_with new tags =
     chain (pb_u16 (of_nat (length tags)) # map (\<lambda>tag. pb_new_tlv (new tag)) tags)"

record T144 =
  t144_tgtgt_key :: bytes
  t144_tlvs :: bytes

definition T144_from_context :: "(bytes \<Rightarrow> rstring) \<Rightarrow> Context \<Rightarrow> T144 option" where
  "T144_from_context hex ctx =
     do { tlvs \<leftarrow> pb_build (tlv_set_with (new_tlv_inner hex ctx) [0x16E, 0x147, 0x128, 0x124]);
          Some \<lparr>t144_tgtgt_key = kc_tgtgt_key (se_stub (ctx_session ctx)), t144_tlvs = tlvs\<rparr> }"

definition T144_serialize :: "tlv_env \<Rightarrow> T144 \<Rightarrow> builder" where
  "T144_serialize env t = pb_tlv 0x144 (\<lambda>p.
     do { encrypted_tlvs \<leftarrow> tea_encrypt (env_tlv_fill env) (t144_tlvs t) (t144_tgtgt_key t);
          pb_bytes encrypted_tlvs p })"

definition new_tlv :: "tlv_env \<Rightarrow> (bytes \<Rightarrow> rstring) \<Rightarrow> Context \<Rightarrow> u16 \<Rightarrow> builder option option" where
  "new_tlv env hex ctx tag =
     (if tag = 0x144 then Some (boxed (T144_serialize env) (T144_from_context hex ctx))
      else new_tlv_inner hex ctx tag)"

definition new_qrcode_tlv :: "tlv_env \<Rightarrow> Context \<Rightarrow> u16 \<Rightarrow> builder option option" where
  "new_qrcode_tlv env ctx tag = TLV_QR_SER_MAP env ctx tag"

definition serialize_tlv_set :: "tlv_env \<Rightarrow> (bytes \<Rightarrow> rstring) \<Rightarrow> Context \<Rightarrow> u16 list \<Rightarrow> builder" where
  "serialize_tlv_set env hex ctx tags = tlv_set_with (new_tlv env hex ctx) tags"

definition serialize_qrcode_tlv_set :: "tlv_env \<Rightarrow> Context \<Rightarrow> u16 list \<Rightarrow> builder" where
  "serialize_qrcode_tlv_set env ctx tags = tlv_set_with (new_qrcode_tlv env ctx) tags"

lemma T144_inner_tags:
  "tlv_set_with (new_tlv_inner hex ctx) [0x16E, 0x147, 0x128, 0x124]
     = serialize_tlv_set env hex ctx [0x16E, 0x147, 0x128, 0x124]"
  by (simp add: serialize_tlv_set_def tlv_set_with_def new_tlv_def)


section \<open>The wire form of a TLV\<close>

definition tlv_wire :: "u16 \<Rightarrow> bytes \<Rightarrow> bytes" where
  "tlv_wire tag v = be16 tag @ frame16 v"

lemma length_tlv_wire: "length (tlv_wire tag v) = length v + 4"
  by (simp add: tlv_wire_def frame16_def)

text \<open>Every serializer is \<open>tlv(tag, f)\<close> with a closure that only appends.\<close>

definition writes_tlv :: "u16 \<Rightarrow> builder \<Rightarrow> bool" where
  "writes_tlv tag ser \<longleftrightarrow> (\<exists>f. ser = pb_tlv tag f \<and> appends f)"

lemma writes_tlvI: "appends f \<Longrightarrow> writes_tlv tag (pb_tlv tag f)"
  by (auto simp: writes_tlv_def)

lemma appends_with_length [intro, simp]:
  "appends (pb_bytes_with_length bs)" "appends (pb_string_with_length s)"
  by (simp_all add: pb_bytes_with_length_def pb_string_with_length_def)

lemma appends_encrypted [intro, simp]:
  "appends (\<lambda>p. Option.bind (tea_encrypt fill m key) (\<lambda>c. pb_bytes c p))"
proof (cases "tea_encrypt fill m key")
  case None
  then show ?thesis by (auto simp: appends_def writes_def intro: exI [of _ None])
next
  case (Some c)
  then show ?thesis by (auto simp: appends_def writes_def pb_bytes_def intro: exI [of _ "Some c"])
qed

lemma pb_build_writes: "writes f r \<Longrightarrow> pb_build f = r"
  using writesD [of f r "[]"] by (cases r) (simp_all add: pb_build_def pb_new_def)

lemma writes_tlv_out:
  assumes "writes_tlv tag ser" and "pb_build ser = Some out"
  shows "\<exists>v. out = tlv_wire tag v \<and> fits16 v"
proof -
  obtain f r where ser: "ser = pb_tlv tag f" and f: "writes f r"
    using assms(1) by (auto simp: writes_tlv_def appends_def)
  have "writes (pb_u16 tag) (Some (be16 tag))"
    using emits_atoms(4) by (simp only: emits_writes [symmetric])
  moreover have "writes (chain []) (Some [])"
    using emits_chain_Nil by (simp only: emits_writes [symmetric])
  ultimately have "pb_build ser = do { a \<leftarrow> Some (be16 tag);
      b \<leftarrow> do { a \<leftarrow> (do { out \<leftarrow> r; if int (length out) + 0 \<le> 65535
          then Some (be16 (word_of_int (int (length out) + 0)) @ out) else None });
            b \<leftarrow> Some []; Some (a @ b) };
      Some (a @ b) }"
    unfolding ser pb_tlv_def
    by (intro pb_build_writes writes_chain_Cons writes_section_16 f)
  then show ?thesis
    using assms(2)
    by (cases r) (auto simp: tlv_wire_def frame16_def fits16_def split: if_splits)
qed

lemmas tlv_serializers =
  T011q_serialize_def T016q_serialize_def T01bq_serialize_def T01dq_serialize_def
  T033q_serialize_def T035q_serialize_def T066q_serialize_def T0d1q_serialize_def
  T018_serialize_def T100_serialize_def T106_serialize_def T107_serialize_def
  T116_serialize_def T124_serialize_def T128_serialize_def T141_serialize_def
  T142_serialize_def T144_serialize_def T145_serialize_def T147_serialize_def
  T166_serialize_def T16A_serialize_def T016E_serialize_def T177_serialize_def
  T191_serialize_def T318_serialize_def T521_serialize_def

lemma TLV_QR_SER_MAP_writes:
  "TLV_QR_SER_MAP env ctx tag = Some (Some ser) \<Longrightarrow> writes_tlv tag ser"
  by (auto simp: TLV_QR_SER_MAP_def boxed_def tlv_serializers intro!: writes_tlvI
      split: if_splits)

lemma new_tlv_inner_writes: "new_tlv_inner hex ctx tag = Some (Some ser) \<Longrightarrow> writes_tlv tag ser"
  by (auto simp: new_tlv_inner_def boxed_def tlv_serializers intro!: writes_tlvI
      split: if_splits)

lemma new_tlv_writes: "new_tlv env hex ctx tag = Some (Some ser) \<Longrightarrow> writes_tlv tag ser"
  by (auto simp: new_tlv_def boxed_def T144_serialize_def new_tlv_inner_writes intro!: writes_tlvI
      split: if_splits)


text \<open>
  C20: The tag on the wire is the key of the registry. Whenever one of the two registries has a
  serializer for a tag and it returns, what it wrote is that tag, the length of the value in
  sixteen bits and the value: no serializer writes the tag of another, and none overflows its
  length field.
\<close>

theorem tlv_registry_wire:
  assumes "new_tlv env hex ctx tag = Some (Some ser) \<or> new_qrcode_tlv env ctx tag = Some (Some ser)"
    and "pb_build ser = Some out"
  shows "\<exists>v. out = be16 tag @ be16 (of_nat (length v)) @ v \<and> length v < 2 ^ 16"
  using assms writes_tlv_out [of tag ser out] new_tlv_writes [of env hex ctx tag ser]
    TLV_QR_SER_MAP_writes [of env ctx tag ser]
  by (auto simp: new_qrcode_tlv_def tlv_wire_def frame16_def fits16_def)

theorem tlv_registry_wire_witness:
  "\<exists>v. be16 0x166 @ be16 1 @ [5] = be16 0x166 @ be16 (of_nat (length v)) @ v \<and> length v < 2 ^ 16"
proof (rule tlv_registry_wire)
  show "new_tlv \<lparr>env_encode_qr_d1 = (\<lambda>_. []), env_tlv_fill = (\<lambda>_. 0)\<rparr> (\<lambda>_. []) demo_context 0x166
      = Some (Some (T166_serialize \<lparr>t166_image_type = 5\<rparr>))
    \<or> new_qrcode_tlv \<lparr>env_encode_qr_d1 = (\<lambda>_. []), env_tlv_fill = (\<lambda>_. 0)\<rparr> demo_context 0x166
      = Some (Some (T166_serialize \<lparr>t166_image_type = 5\<rparr>))"
    by (simp add: new_tlv_def new_tlv_inner_def boxed_def T166_from_context_def)
  show "pb_build (T166_serialize \<lparr>t166_image_type = 5\<rparr>) = Some (be16 0x166 @ be16 1 @ [5])"
    using emits_frame16 [OF emits_atoms(3), of 5]
    by (simp add: T166_serialize_def pb_tlv_def pb_build_def pb_new_def pb_u16_def emits_def
        fits16_def frame16_def)
qed

section \<open>The wire form of a TLV set\<close>

lemma pb_new_tlv_SomeD:
  "pb_new_tlv tlv buf = Some buf' \<Longrightarrow>
     \<exists>ser bs. tlv = Some (Some ser) \<and> pb_build ser = Some bs \<and> buf' = buf @ bs"
  by (auto simp: pb_new_tlv_def pb_bytes_def bind_eq_Some_conv)

lemma tlv_set_chain:
  assumes "\<forall>tag ser. new tag = Some (Some ser) \<longrightarrow> writes_tlv tag ser"
    and "chain (map (\<lambda>tag. pb_new_tlv (new tag)) tags) buf = Some out"
  shows "\<exists>vs. length vs = length tags \<and> list_all fits16 vs
    \<and> out = buf @ concat (map2 tlv_wire tags vs)"
  using assms(2)
proof (induction tags arbitrary: buf)
  case Nil
  then show ?case by simp
next
  case (Cons tag tags)
  obtain ser bs where n: "new tag = Some (Some ser)" and b: "pb_build ser = Some bs"
    and c: "chain (map (\<lambda>tag. pb_new_tlv (new tag)) tags) (buf @ bs) = Some out"
    using Cons.prems by (auto simp: bind_eq_Some_conv dest: pb_new_tlv_SomeD)
  have "writes_tlv tag ser" using assms(1) n by blast
  then obtain v where "bs = tlv_wire tag v" "fits16 v" using writes_tlv_out [OF _ b] by blast
  moreover obtain vs where "length vs = length tags" "list_all fits16 vs"
      "out = (buf @ bs) @ concat (map2 tlv_wire tags vs)"
    using Cons.IH [OF c] by auto
  ultimately show ?case by (intro exI [of _ "v # vs"]) simp
qed

lemma tlv_set_with_wire:
  assumes "\<forall>tag ser. new tag = Some (Some ser) \<longrightarrow> writes_tlv tag ser"
    and "tlv_set_with new tags buf = Some out"
  shows "\<exists>vs. length vs = length tags \<and> list_all fits16 vs
    \<and> out = buf @ be16 (of_nat (length tags)) @ concat (map2 tlv_wire tags vs)"
  using assms(2) tlv_set_chain [OF assms(1), of tags "buf @ be16 (of_nat (length tags))" out]
  by (auto simp: tlv_set_with_def pb_u16_def)


section \<open>When a TLV set can be written\<close>

text \<open>\<open>emits_le f n\<close>: the builder returns, and appends at most \<open>n\<close> bytes.\<close>

definition emits_le :: "builder \<Rightarrow> nat \<Rightarrow> bool" where
  "emits_le f n \<longleftrightarrow> (\<exists>out. emits f out \<and> length out \<le> n)"

named_theorems le_intros "bounds on what a builder appends"

lemma emits_leI: "emits f out \<Longrightarrow> length out \<le> n \<Longrightarrow> emits_le f n"
  by (auto simp: emits_le_def)

lemma emits_le_mono: "emits_le f m \<Longrightarrow> m \<le> n \<Longrightarrow> emits_le f n"
  by (auto simp: emits_le_def)

lemma emits_le_atoms [le_intros]:
  "emits_le (pb_bytes bs) (length bs)" "emits_le (pb_string s) (length s)"
  "emits_le (pb_u8 b) 1" "emits_le (pb_u16 h) 2" "emits_le (pb_u32 w) 4" "emits_le (pb_i32 w) 4"
  by (rule emits_leI, rule emit_intros, simp)+

lemma emits_le_Nil [le_intros]: "emits_le (chain []) 0"
  by (rule emits_leI, rule emit_intros, simp)

lemma emits_le_Cons [le_intros]:
  "emits_le f m \<Longrightarrow> emits_le (chain fs) n \<Longrightarrow> emits_le (chain (f # fs)) (m + n)"
  unfolding emits_le_def by (fastforce intro: emits_chain_Cons)

lemma emits_le_section_16:
  assumes "emits_le f n" and "n \<le> 65535"
  shows "emits_le (section_16_with_addition 0 f) (n + 2)"
proof -
  obtain out where o: "emits f out" "length out \<le> n" using assms(1) by (auto simp: emits_le_def)
  then have "emits (section_16_with_addition 0 f) (frame16 out)"
    using assms(2) by (intro emits_frame16) (auto simp: fits16_def)
  then show ?thesis using o by (auto simp: emits_le_def frame16_def)
qed

lemma emits_le_with_length [le_intros]:
  "length bs \<le> 65535 \<Longrightarrow> emits_le (pb_bytes_with_length bs) (length bs + 2)"
  "length s \<le> 65535 \<Longrightarrow> emits_le (pb_string_with_length s) (length s + 2)"
  unfolding pb_string_with_length_def pb_bytes_with_length_def
  by (rule emits_le_section_16, rule le_intros, assumption)+

lemma emits_le_tlv [le_intros]:
  assumes "emits_le f n" and "n \<le> 65535"
  shows "emits_le (pb_tlv tag f) (n + 4)"
proof -
  have "emits_le (chain [pb_u16 tag, section_16_with_addition 0 f]) (2 + (n + 2 + 0))"
    by (intro emits_le_Cons emits_le_Nil emits_le_atoms emits_le_section_16 assms)
  then show ?thesis unfolding pb_tlv_def by (rule emits_le_mono) simp
qed

text \<open>
  What the serializers need of the context: the values the login has stored, and strings that
  are not excessively long.
\<close>

definition short :: "bytes \<Rightarrow> bool" where "short s \<longleftrightarrow> length s \<le> 10000"

definition tlv_ready :: "Context \<Rightarrow> bool" where
  "tlv_ready ctx \<longleftrightarrow>
     length (dev_uuid (ctx_device ctx)) = 16 \<and>
     length (kc_tgtgt_key (se_stub (ctx_session ctx))) = 16 \<and>
     (\<exists>p. wt_temp_password (ks_session (ctx_key_store ctx)) = Some p \<and> length p \<le> 65535) \<and>
     (\<exists>s. wt_no_pic_sig (ks_session (ctx_key_store ctx)) = Some s \<and> length s \<le> 65535) \<and>
     short (dev_device_name (ctx_device ctx)) \<and> short (ai_os (ctx_app_info ctx)) \<and>
     short (ai_package_name (ctx_app_info ctx)) \<and> short (ai_pt_version (ctx_app_info ctx)) \<and>
     short (ai_wt_login_sdk (ctx_app_info ctx))"

definition LOGIN_TAGS :: "u16 list" where
  "LOGIN_TAGS = [0x106, 0x144, 0x116, 0x142, 0x145, 0x018, 0x141, 0x177, 0x191, 0x100, 0x107,
     0x318, 0x16a, 0x166, 0x521, 0x16E, 0x147, 0x128, 0x124]"

lemmas tlv_contexts =
  T018_from_context_def T100_from_context_def T106_from_context_def T107_from_context_def
  T116_from_context_def T128_from_context_def T141_from_context_def T142_from_context_def
  T145_from_context_def T147_from_context_def T166_from_context_def T16A_from_context_def
  T016E_from_context_def T177_from_context_def T191_from_context_def T318_from_context_def
  T521_from_context_def

lemma str_lengths: "length (str s) = length s"
  by (simp add: str_def)

lemma serializers_bounded:
  "emits_le (T018_serialize t018) 26" "emits_le (T100_serialize t100) 26"
  "emits_le (T107_serialize t107) 10" "emits_le (T116_serialize t116) 14"
  "emits_le T124_serialize 16" "emits_le (T166_serialize t166) 5"
  "emits_le (T191_serialize t191) 5" "emits_le (T318_serialize t318) 4"
  "emits_le (T521_serialize t521) 17"
  unfolding tlv_serializers
  by (rule emits_le_mono, (rule le_intros | (simp add: str_lengths; fail))+)+

lemma serializers_bounded_by:
  "length (t106_temp t106) \<le> 65535 \<Longrightarrow> emits_le (T106_serialize t106) 65539"
  "length (t16a_no_pic_sig t16a) \<le> 65535 \<Longrightarrow> emits_le (T16A_serialize t16a) 65539"
  "length (t145_device_guid t145) \<le> 16 \<Longrightarrow> emits_le (T145_serialize t145) 20"
  "short (t016e_device_name t16e) \<Longrightarrow> emits_le (T016E_serialize t16e) 10004"
  "short (t142_package_name t142) \<Longrightarrow> emits_le (T142_serialize t142) 10008"
  "short (t177_wt_login_sdk t177) \<Longrightarrow> emits_le (T177_serialize t177) 10011"
  "short (t141_unknown t141) \<Longrightarrow> short (t141_apn t141) \<Longrightarrow> emits_le (T141_serialize t141) 20012"
  "short (t147_pt_version t147) \<Longrightarrow> short (t147_package_name t147) \<Longrightarrow>
     emits_le (T147_serialize t147) 20012"
  "short (t128_app_info_os t128) \<Longrightarrow> length (t128_device_guid t128) = 16 \<Longrightarrow>
     emits_le (T128_serialize t128) 10035"
  unfolding tlv_serializers short_def
  by (rule emits_le_mono, (rule le_intros | (simp add: str_lengths; fail))+)+

lemmas bounded_simps =
  serializers_bounded [THEN emits_le_mono] serializers_bounded_by [THEN emits_le_mono]

definition login_bound :: "u16 \<Rightarrow> nat" where
  "login_bound tag = (if tag = 0x16E then 10004 else if tag = 0x147 then 20012
     else if tag = 0x128 then 10035 else if tag = 0x124 then 16 else 65539)"

lemma new_tlv_inner_ready:
  assumes "tlv_ready ctx" and "tag \<in> set LOGIN_TAGS" and "tag \<noteq> 0x144"
  shows "\<exists>ser. new_tlv_inner hex ctx tag = Some (Some ser) \<and> emits_le ser (login_bound tag)"
proof -
  have "tag \<in> {0x106, 0x116, 0x142, 0x145, 0x018, 0x141, 0x177, 0x191, 0x100, 0x107,
      0x318, 0x16a, 0x166, 0x521, 0x16E, 0x147, 0x128, 0x124}"
    using assms(2,3) by (auto simp: LOGIN_TAGS_def)
  then show ?thesis
    using assms(1)
    by (elim insertE emptyE) (auto simp: new_tlv_inner_def boxed_def tlv_contexts login_bound_def
      tlv_ready_def str_lengths bounded_simps short_def)
qed

lemma emits_le_new_tlv:
  assumes "new = Some (Some ser)" and "emits_le ser n"
  shows "emits_le (pb_new_tlv new) n"
proof -
  obtain out where o: "emits ser out" "length out \<le> n" using assms(2) by (auto simp: emits_le_def)
  then have "emits (pb_new_tlv new) out"
    using pb_build_emits [OF o(1)] by (simp add: emits_def pb_new_tlv_def assms(1) pb_bytes_def)
  then show ?thesis using o(2) by (rule emits_leI)
qed

lemma emits_le_tlv_set:
  assumes "\<forall>tag \<in> set tags. \<exists>ser. new tag = Some (Some ser) \<and> emits_le ser (b tag)"
  shows "emits_le (tlv_set_with new tags) (2 + sum_list (map b tags))"
proof -
  have "emits_le (chain (map (\<lambda>tag. pb_new_tlv (new tag)) tags)) (sum_list (map b tags))"
    using assms
  proof (induction tags)
    case Nil
    show ?case using emits_le_Nil by (simp only: list.map sum_list.Nil)
  next
    case (Cons tag tags)
    then obtain ser where "new tag = Some (Some ser)" "emits_le ser (b tag)" by auto
    then have "emits_le (pb_new_tlv (new tag)) (b tag)" by (rule emits_le_new_tlv)
    moreover have "emits_le (chain (map (\<lambda>tag. pb_new_tlv (new tag)) tags)) (sum_list (map b tags))"
      using Cons by auto
    ultimately show ?case unfolding list.map sum_list.Cons by (rule emits_le_Cons)
  qed
  then have "emits_le (chain (pb_u16 (of_nat (length tags)) # map (\<lambda>tag. pb_new_tlv (new tag)) tags))
      (2 + sum_list (map b tags))"
    by (intro emits_le_Cons emits_le_atoms)
  then show ?thesis by (simp add: tlv_set_with_def)
qed

lemma T144_ready:
  assumes "tlv_ready ctx"
  shows "\<exists>t. T144_from_context hex ctx = Some t \<and> emits_le (T144_serialize env t) 65539"
proof -
  have "emits_le (tlv_set_with (new_tlv_inner hex ctx) [0x16E, 0x147, 0x128, 0x124])
      (2 + sum_list (map login_bound [0x16E, 0x147, 0x128, 0x124]))"
    by (rule emits_le_tlv_set, rule ballI, rule new_tlv_inner_ready [OF assms])
      (auto simp: LOGIN_TAGS_def)
  then obtain tlvs where t: "emits (tlv_set_with (new_tlv_inner hex ctx) [0x16E, 0x147, 0x128, 0x124]) tlvs"
      and len: "length tlvs \<le> 40069"
    by (auto simp: emits_le_def login_bound_def)
  have key: "length (kc_tgtgt_key (se_stub (ctx_session ctx))) = 16"
    using assms by (simp add: tlv_ready_def)
  obtain k where k: "tea16_new (kc_tgtgt_key (se_stub (ctx_session ctx))) = Some k"
    using key tea16_new_iff by blast
  from tea_round_trip_aux [OF k, of "env_tlv_fill env" tlvs]
  obtain c where c: "tea_encrypt (env_tlv_fill env) tlvs (kc_tgtgt_key (se_stub (ctx_session ctx))) = Some c"
      and lc: "length c = length (padded (env_tlv_fill env) tlvs)"
    by blast
  have "length c \<le> 40086"
    using lc length_padded [of "env_tlv_fill env" tlvs] fill_count_range [of tlvs] len by simp
  then have "emits_le (pb_tlv 0x144 (pb_bytes c)) 65539"
    by (intro emits_le_mono [OF emits_le_tlv [OF emits_le_atoms(1)]]) simp_all
  then show ?thesis
    by (simp add: T144_from_context_def pb_build_emits [OF t] T144_serialize_def c)
qed

lemma new_tlv_ready:
  assumes "tlv_ready ctx" and "tag \<in> set LOGIN_TAGS"
  shows "\<exists>ser. new_tlv env hex ctx tag = Some (Some ser) \<and> emits_le ser 65539"
proof (cases "tag = 0x144")
  case True
  then show ?thesis
    using T144_ready [OF assms(1), of hex env] by (auto simp: new_tlv_def boxed_def)
next
  case False
  obtain ser where "new_tlv_inner hex ctx tag = Some (Some ser)" "emits_le ser (login_bound tag)"
    using new_tlv_inner_ready [OF assms False] by blast
  moreover have "login_bound tag \<le> 65539" by (simp add: login_bound_def)
  ultimately show ?thesis using False emits_le_mono by (auto simp: new_tlv_def)
qed

text \<open>
  A login TLV set is always written, and written whole. When the context holds what the login
  needs and its strings are at most 10000 bytes, \<open>serialize_tlv_set\<close> returns for every list of
  tags of the registry, in any order and with repetitions (the encrypted set nested in 0x144
  included), and appends exactly the count and one tag-length-value triple for each tag, in the
  order of the list.
\<close>

theorem serialize_tlv_set_total:
  assumes "tlv_ready ctx" and "set tags \<subseteq> set LOGIN_TAGS"
  shows "\<exists>vs. length vs = length tags \<and> list_all fits16 vs
    \<and> serialize_tlv_set env hex ctx tags buf
      = Some (buf @ be16 (of_nat (length tags)) @ concat (map2 (\<lambda>t v. be16 t @ frame16 v) tags vs))"
proof -
  have "emits_le (serialize_tlv_set env hex ctx tags) (2 + sum_list (map (\<lambda>_. 65539) tags))"
    unfolding serialize_tlv_set_def
    by (rule emits_le_tlv_set) (use assms new_tlv_ready in blast)
  then obtain out where o: "serialize_tlv_set env hex ctx tags buf = Some out"
    by (auto simp: emits_le_def emits_def)
  have w: "(\<lambda>t v. be16 t @ frame16 v) = tlv_wire" by (intro ext) (simp add: tlv_wire_def)
  show ?thesis
    unfolding w
    using tlv_set_with_wire [of "new_tlv env hex ctx" tags buf out] o new_tlv_writes
    by (auto simp: serialize_tlv_set_def)
qed

theorem serialize_tlv_set_total_witness:
  "\<exists>vs. length vs = 2 \<and> list_all fits16 vs
    \<and> serialize_tlv_set \<lparr>env_encode_qr_d1 = (\<lambda>_. []), env_tlv_fill = (\<lambda>_. 220)\<rparr> (\<lambda>_. [])
        (demo_context\<lparr>ctx_session := Session_new\<rparr>) [0x144, 0x106] []
      = Some ([] @ be16 (of_nat (length [0x144, 0x106 :: u16]))
          @ concat (map2 (\<lambda>t v. be16 t @ frame16 v) [0x144, 0x106] vs))"
proof -
  have r: "tlv_ready (demo_context\<lparr>ctx_session := Session_new\<rparr>)"
    by (simp add: tlv_ready_def demo_context_def Session_new_def KeyCollection_new_def
        short_def LINUX_def str_lengths)
  have s: "set [0x144, 0x106] \<subseteq> set LOGIN_TAGS" by (simp add: LOGIN_TAGS_def)
  from serialize_tlv_set_total [OF r s, of "\<lparr>env_encode_qr_d1 = (\<lambda>_. []), env_tlv_fill = (\<lambda>_. 220)\<rparr>"
      "\<lambda>_. []" "[]"]
  show ?thesis by (simp add: eval_nat_numeral)
qed

end
