(* ===== verification/Tlv_De.thy ===== *)
theory Tlv_De
  imports Tlv_Ser
begin

text \<open>
  The incoming half of \<open>mania/src/core/tlv.rs\<close> and \<open>tlv/*.rs\<close>: the TLVs the client reads, the
  registries \<open>TLV_DE_MAP\<close> and \<open>TLV_QR_DE_MAP\<close> of their deserializers, and \<open>TlvSet\<close>, the table
  of the TLVs of a packet by tag. A deserializer reads the length and the value of a TLV (the tag
  is already read) and returns the object or an error, or panics (\<open>None\<close>).

  A \<open>Box<dyn TlvDe>\<close> is a value of the sum \<open>TlvDe\<close> of the structs; \<open>downcast_ref\<close> is the
  partial inverse of a constructor. The locale \<open>tlv_registry\<close> is the contract of a registry; the
  loop of \<open>TlvSet\<close> is verified in it once, and it is interpreted on both registries.
\<close>

section \<open>The TLVs\<close>

record T017q = t017q_qr_code :: bytes
record T018q = t018q_temp_password :: bytes
record T019q = t019q_no_pic_sig :: bytes

record T01cq =
  t01cq_expire_sec :: u32
  t01cq_expire_min :: u16

record T01eq = t01eq_tgtgt_key :: bytes

record TlvQrCodeD1Resp =
  qd1r_url :: rstring
  qd1r_qr_sig :: rstring

record T0d1Resp = t0d1r_proto :: TlvQrCodeD1Resp
record T10A = t10a_tgt :: bytes
record T119 = t119_encrypted_tlv :: bytes
record T143 = t143_d2 :: bytes

record T146 =
  t146_state :: u32
  t146_tag :: rstring
  t146_message :: rstring
  t146_field0 :: u32

record T305 = t305_d2key :: bytes
record T543 = t543_uid :: rstring

record T11A =
  t11a_face_id :: u16
  t11a_age :: u8
  t11a_gender :: u8
  t11a_nick_name :: rstring

datatype TlvDe =
    De017q T017q | De018q T018q | De019q T019q | De01cq T01cq | De01eq T01eq
  | De0d1Resp T0d1Resp | De106 T106 | De10A T10A | De119 T119 | De143 T143
  | De146 T146 | De305 T305 | De543 T543 | De11A T11A

text \<open>The \<open>tag\<close> each struct gets from \<open>impl_tlv_de!\<close>.\<close>

fun tlv_tag :: "TlvDe \<Rightarrow> u16" where
  "tlv_tag (De017q _) = 0x017"
| "tlv_tag (De018q _) = 0x018"
| "tlv_tag (De019q _) = 0x019"
| "tlv_tag (De01cq _) = 0x01c"
| "tlv_tag (De01eq _) = 0x01e"
| "tlv_tag (De0d1Resp _) = 0x0d1"
| "tlv_tag (De106 _) = 0x106"
| "tlv_tag (De10A _) = 0x10A"
| "tlv_tag (De119 _) = 0x119"
| "tlv_tag (De143 _) = 0x143"
| "tlv_tag (De146 _) = 0x146"
| "tlv_tag (De305 _) = 0x305"
| "tlv_tag (De543 _) = 0x543"
| "tlv_tag (De11A _) = 0x11A"

datatype TlvError = UnsupportedTag u16 | ProtobufDecodeError | MissingTlv u16

text \<open>The protobuf decoders; \<open>env_decode_543\<close> gives the nested optional messages as prost does.\<close>

record tlv_de_env =
  env_decode_qr_d1 :: "bytes \<Rightarrow> TlvQrCodeD1Resp option"
  env_decode_543 :: "bytes \<Rightarrow> rstring option option option"

section \<open>Deserializers\<close>

type_synonym tlv_reader = "(TlvError + TlvDe) reader"

definition length_value :: "'a reader \<Rightarrow> 'a reader" where
  "length_value f = rd_section_16_with_addition 0 f"

definition rd_bytes_with_length :: "bytes reader" where
  "rd_bytes_with_length = length_value rd_bytes"

definition rd_string_with_length :: "rstring reader" where
  "rd_string_with_length rd =
     do { (bs, rd) \<leftarrow> rd_bytes_with_length rd; Some (utf8_lossy bs, rd) }"

definition rd_map :: "('a \<Rightarrow> 'b) \<Rightarrow> 'a reader \<Rightarrow> 'b reader" where
  "rd_map g r rd = map_option (\<lambda>(v, rd). (g v, rd)) (r rd)"

definition T017q_value :: "T017q reader" where
  "T017q_value rd = do { (v, rd) \<leftarrow> rd_bytes rd; Some (\<lparr>t017q_qr_code = v\<rparr>, rd) }"

definition T018q_value :: "T018q reader" where
  "T018q_value rd = do { (v, rd) \<leftarrow> rd_bytes rd; Some (\<lparr>t018q_temp_password = v\<rparr>, rd) }"

definition T019q_value :: "T019q reader" where
  "T019q_value rd = do { (v, rd) \<leftarrow> rd_bytes rd; Some (\<lparr>t019q_no_pic_sig = v\<rparr>, rd) }"

definition T01cq_value :: "T01cq reader" where
  "T01cq_value rd =
     do { (s, rd) \<leftarrow> rd_u32 rd; (m, rd) \<leftarrow> rd_u16 rd;
          Some (\<lparr>t01cq_expire_sec = s, t01cq_expire_min = m\<rparr>, rd) }"

definition T01eq_value :: "T01eq reader" where
  "T01eq_value rd = do { (v, rd) \<leftarrow> rd_bytes rd; Some (\<lparr>t01eq_tgtgt_key = v\<rparr>, rd) }"

definition T0d1Resp_value :: "tlv_de_env \<Rightarrow> (TlvError + T0d1Resp) reader" where
  "T0d1Resp_value env rd =
     do { (v, rd) \<leftarrow> rd_bytes rd;
          Some (case env_decode_qr_d1 env v of
                  None \<Rightarrow> Inl ProtobufDecodeError
                | Some m \<Rightarrow> Inr \<lparr>t0d1r_proto = m\<rparr>, rd) }"

definition T106_value :: "T106 reader" where
  "T106_value rd =
     do { (v, rd) \<leftarrow> rd_bytes rd;
          Some (\<lparr>t106_app_id = 0, t106_app_client_version = 0, t106_uin = 0,
                 t106_password_md5 = [], t106_guid = [], t106_tgtgt_key = [],
                 t106_ip = [0, 0, 0, 0], t106_save_password = False, t106_temp = v\<rparr>, rd) }"

definition T10A_value :: "T10A reader" where
  "T10A_value rd = do { (v, rd) \<leftarrow> rd_bytes rd; Some (\<lparr>t10a_tgt = v\<rparr>, rd) }"

definition T119_value :: "T119 reader" where
  "T119_value rd = do { (v, rd) \<leftarrow> rd_bytes rd; Some (\<lparr>t119_encrypted_tlv = v\<rparr>, rd) }"

definition T143_value :: "T143 reader" where
  "T143_value rd = do { (v, rd) \<leftarrow> rd_bytes rd; Some (\<lparr>t143_d2 = v\<rparr>, rd) }"

definition T146_value :: "T146 reader" where
  "T146_value rd =
     do { (state, rd) \<leftarrow> rd_u32 rd;
          (tag, rd) \<leftarrow> rd_section_16_with_addition 0 rd_string rd;
          (message, rd) \<leftarrow> rd_section_16_with_addition 0 rd_string rd;
          (field0, rd) \<leftarrow> rd_u32 rd;
          Some (\<lparr>t146_state = state, t146_tag = tag, t146_message = message,
                 t146_field0 = field0\<rparr>, rd) }"

definition T305_value :: "T305 reader" where
  "T305_value rd = do { (v, rd) \<leftarrow> rd_bytes rd; Some (\<lparr>t305_d2key = v\<rparr>, rd) }"

text \<open>T543 panics when the message does not decode or lacks a layer.\<close>

definition T543_value :: "tlv_de_env \<Rightarrow> T543 reader" where
  "T543_value env rd =
     do { (v, rd) \<leftarrow> rd_bytes rd;
          proto \<leftarrow> env_decode_543 env v;
          layer1 \<leftarrow> proto;
          uid \<leftarrow> layer1;
          Some (\<lparr>t543_uid = uid\<rparr>, rd) }"

definition T11A_value :: "T11A reader" where
  "T11A_value rd =
     do { (face_id, rd) \<leftarrow> rd_u16 rd;
          (age, rd) \<leftarrow> rd_u8 rd;
          (gender, rd) \<leftarrow> rd_u8 rd;
          (nick, rd) \<leftarrow> read_with_length (PREFIX_U8 OR PREFIX_NONE) rd_string rd;
          Some (\<lparr>t11a_face_id = face_id, t11a_age = age, t11a_gender = gender,
                 t11a_nick_name = nick\<rparr>, rd) }"

text \<open>\<open>Ok(Box::new(p.length_value(...)))\<close>.\<close>

definition ok_boxed :: "('t \<Rightarrow> TlvDe) \<Rightarrow> 't reader \<Rightarrow> tlv_reader" where
  "ok_boxed con r = rd_map (\<lambda>t. Inr (con t)) (length_value r)"

definition T0d1Resp_deserialize :: "tlv_de_env \<Rightarrow> tlv_reader" where
  "T0d1Resp_deserialize env = rd_map (map_sum id De0d1Resp) (length_value (T0d1Resp_value env))"

section \<open>The registries and the set\<close>

definition TLV_QR_DE_MAP :: "tlv_de_env \<Rightarrow> u16 \<Rightarrow> tlv_reader option" where
  "TLV_QR_DE_MAP env tag =
     (if tag = 0x017 then Some (ok_boxed De017q T017q_value)
      else if tag = 0x018 then Some (ok_boxed De018q T018q_value)
      else if tag = 0x019 then Some (ok_boxed De019q T019q_value)
      else if tag = 0x01c then Some (ok_boxed De01cq T01cq_value)
      else if tag = 0x01e then Some (ok_boxed De01eq T01eq_value)
      else if tag = 0x0d1 then Some (T0d1Resp_deserialize env)
      else None)"

definition TLV_DE_MAP :: "tlv_de_env \<Rightarrow> u16 \<Rightarrow> tlv_reader option" where
  "TLV_DE_MAP env tag =
     (if tag = 0x106 then Some (ok_boxed De106 T106_value)
      else if tag = 0x10A then Some (ok_boxed De10A T10A_value)
      else if tag = 0x119 then Some (ok_boxed De119 T119_value)
      else if tag = 0x143 then Some (ok_boxed De143 T143_value)
      else if tag = 0x146 then Some (ok_boxed De146 T146_value)
      else if tag = 0x305 then Some (ok_boxed De305 T305_value)
      else if tag = 0x543 then Some (ok_boxed De543 (T543_value env))
      else if tag = 0x11A then Some (ok_boxed De11A T11A_value)
      else None)"

text \<open>An unknown tag is skipped with its value and reported.\<close>

definition deserialize_with :: "(u16 \<Rightarrow> tlv_reader option) \<Rightarrow> tlv_reader" where
  "deserialize_with de_map rd =
     do { (tag, rd) \<leftarrow> rd_u16 rd;
          (case de_map tag of
             None \<Rightarrow> do { (len, rd) \<leftarrow> rd_u16 rd;
                          (_, rd) \<leftarrow> read_packet (unat len) rd;
                          Some (Inl (UnsupportedTag tag), rd) }
           | Some de \<Rightarrow> de rd) }"

definition deserialize_qrcode_tlv :: "tlv_de_env \<Rightarrow> tlv_reader" where
  "deserialize_qrcode_tlv env = deserialize_with (TLV_QR_DE_MAP env)"

definition deserialize_tlv :: "tlv_de_env \<Rightarrow> tlv_reader" where
  "deserialize_tlv env = deserialize_with (TLV_DE_MAP env)"

type_synonym TlvSet = "u16 \<Rightarrow> TlvDe option"

text \<open>The loop: an error is logged, and the next TLV is read.\<close>

fun tlv_loop :: "tlv_reader \<Rightarrow> nat \<Rightarrow> TlvSet \<Rightarrow> bytes \<Rightarrow> TlvSet option" where
  "tlv_loop de 0 result rd = Some result"
| "tlv_loop de (Suc n) result rd =
     do { (r, rd) \<leftarrow> de rd;
          tlv_loop de n
            (case r of Inr tlv \<Rightarrow> result(tlv_tag tlv \<mapsto> tlv) | Inl _ \<Rightarrow> result) rd }"

definition TlvSet_deserialize_qrcode :: "tlv_de_env \<Rightarrow> bytes \<Rightarrow> TlvSet option" where
  "TlvSet_deserialize_qrcode env packet =
     do { (count, rd) \<leftarrow> rd_u16 packet;
          tlv_loop (deserialize_qrcode_tlv env) (unat count) (\<lambda>_. None) rd }"

definition TlvSet_deserialize :: "tlv_de_env \<Rightarrow> bytes \<Rightarrow> TlvSet option" where
  "TlvSet_deserialize env packet =
     do { (count, rd) \<leftarrow> rd_u16 packet;
          tlv_loop (deserialize_tlv env) (unat count) (\<lambda>_. None) rd }"

text \<open>\<open>get::<T>\<close>: the static tag of \<open>T\<close> and the downcast to it.\<close>

definition TlvSet_get :: "u16 \<Rightarrow> (TlvDe \<Rightarrow> 't option) \<Rightarrow> TlvSet \<Rightarrow> u16 + 't" where
  "TlvSet_get tag_static downcast s = ok_or tag_static (Option.bind (s tag_static) downcast)"

section \<open>The contract of a registry\<close>

text \<open>The entries of a set that carry an object, in order.\<close>

definition known_entries ::
    "(u16 \<Rightarrow> bytes \<Rightarrow> (TlvError + TlvDe) option) \<Rightarrow> (u16 \<times> bytes) list \<Rightarrow> (u16 \<times> TlvDe) list" where
  "known_entries value es =
     concat (map (\<lambda>(t, v). case value t v of Some (Inr d) \<Rightarrow> [(t, d)] | _ \<Rightarrow> []) es)"

text \<open>The bytes of a set: the count and the TLVs.\<close>

definition tlv_set_wire :: "(u16 \<times> bytes) list \<Rightarrow> bytes" where
  "tlv_set_wire es =
     be16 (of_nat (length es)) @ concat (map (\<lambda>(t, v). be16 t @ frame16 v) es)"

text \<open>
  \<open>value tag v\<close> is what a registry makes of the value \<open>v\<close> of a TLV with that tag.
\<close>

locale tlv_registry =
  fixes de_map :: "u16 \<Rightarrow> tlv_reader option"
    and tlv_value :: "u16 \<Rightarrow> bytes \<Rightarrow> (TlvError + TlvDe) option"
  assumes de_frame: "de_map tag = Some de \<Longrightarrow> fits16 v \<Longrightarrow>
      de (frame16 v @ rest) = map_option (\<lambda>r. (r, rest)) (tlv_value tag v)"
    and de_tag: "tlv_value tag v = Some (Inr d) \<Longrightarrow> tlv_tag d = tag"
    and de_unknown: "de_map tag = None \<Longrightarrow> tlv_value tag v = Some (Inl (UnsupportedTag tag))"
begin

text \<open>Whatever the TLV, the reader is left at the next one.\<close>

lemma deserialize_wire:
  assumes "fits16 v"
  shows "deserialize_with de_map (be16 tag @ frame16 v @ rest)
    = map_option (\<lambda>r. (r, rest)) (tlv_value tag v)"
proof (cases "de_map tag")
  case None
  have "rd_u16 (frame16 v @ rest) = Some (of_nat (length v), v @ rest)"
    by (simp add: frame16_def read_simps)
  moreover have "unat (of_nat (length v) :: u16) = length v"
    using assms by (intro unat_len16) (simp add: fits16_def)
  ultimately show ?thesis
    by (simp add: deserialize_with_def read_simps None de_unknown read_packet_def)
next
  case (Some de)
  then show ?thesis
    using de_frame [OF Some assms, of rest] by (simp add: deserialize_with_def read_simps)
qed

lemma tlv_loop_entries:
  assumes "\<forall>(t, v) \<in> set es. fits16 v \<and> tlv_value t v \<noteq> None"
  shows "tlv_loop (deserialize_with de_map) (length es) m
      (concat (map (\<lambda>(t, v). be16 t @ frame16 v) es) @ rest)
    = Some (m ++ map_of (rev (known_entries tlv_value es)))"
  using assms
proof (induction es arbitrary: m)
  case Nil
  then show ?case by (simp add: known_entries_def)
next
  case (Cons e es)
  obtain t v where e: "e = (t, v)" by (cases e)
  obtain r where r: "tlv_value t v = Some r" and fit: "fits16 v" using Cons.prems e by auto
  have step: "deserialize_with de_map (be16 t @ frame16 v @ rest') = Some (r, rest')" for rest'
    using deserialize_wire [OF fit, of t rest'] r by simp
  show ?case
  proof (cases r)
    case (Inl err)
    then show ?thesis using Cons e r by (simp add: step known_entries_def)
  next
    case (Inr d)
    have "tlv_tag d = t" using de_tag r Inr by simp
    then show ?thesis using Cons e r Inr by (simp add: step known_entries_def map_add_upd_left)
  qed
qed

end

section \<open>The two registries\<close>

definition value_of :: "('t \<Rightarrow> TlvDe) \<Rightarrow> 't reader \<Rightarrow> bytes \<Rightarrow> (TlvError + TlvDe) option" where
  "value_of con r v = map_option (\<lambda>(t, _). Inr (con t)) (r v)"

definition qrcode_value :: "tlv_de_env \<Rightarrow> u16 \<Rightarrow> bytes \<Rightarrow> (TlvError + TlvDe) option" where
  "qrcode_value env tag v =
     (if tag = 0x017 then value_of De017q T017q_value v
      else if tag = 0x018 then value_of De018q T018q_value v
      else if tag = 0x019 then value_of De019q T019q_value v
      else if tag = 0x01c then value_of De01cq T01cq_value v
      else if tag = 0x01e then value_of De01eq T01eq_value v
      else if tag = 0x0d1 then map_option (\<lambda>(t, _). map_sum id De0d1Resp t) (T0d1Resp_value env v)
      else Some (Inl (UnsupportedTag tag)))"

definition login_value :: "tlv_de_env \<Rightarrow> u16 \<Rightarrow> bytes \<Rightarrow> (TlvError + TlvDe) option" where
  "login_value env tag v =
     (if tag = 0x106 then value_of De106 T106_value v
      else if tag = 0x10A then value_of De10A T10A_value v
      else if tag = 0x119 then value_of De119 T119_value v
      else if tag = 0x143 then value_of De143 T143_value v
      else if tag = 0x146 then value_of De146 T146_value v
      else if tag = 0x305 then value_of De305 T305_value v
      else if tag = 0x543 then value_of De543 (T543_value env) v
      else if tag = 0x11A then value_of De11A T11A_value v
      else Some (Inl (UnsupportedTag tag)))"

lemma ok_boxed_frame:
  "fits16 v \<Longrightarrow> ok_boxed con r (frame16 v @ rest) = map_option (\<lambda>x. (x, rest)) (value_of con r v)"
  by (cases "r v") (auto simp: ok_boxed_def rd_map_def length_value_def read_simps value_of_def)

lemma T0d1Resp_tag: "map_sum id De0d1Resp x = Inr d \<Longrightarrow> tlv_tag d = 0x0d1"
  by (cases x) auto

lemma T0d1Resp_frame:
  "fits16 v \<Longrightarrow> T0d1Resp_deserialize env (frame16 v @ rest)
     = map_option (\<lambda>x. (x, rest)) (map_option (\<lambda>(t, _). map_sum id De0d1Resp t) (T0d1Resp_value env v))"
  by (cases "T0d1Resp_value env v")
    (auto simp: T0d1Resp_deserialize_def rd_map_def length_value_def read_simps)

lemma value_of_tag: "value_of con r v = Some (Inr d) \<Longrightarrow> \<exists>t. d = con t"
  by (auto simp: value_of_def)

interpretation qrcode_registry: tlv_registry "TLV_QR_DE_MAP env" "qrcode_value env" for env
proof
  show "tlv_tag d = tag" if "qrcode_value env tag v = Some (Inr d)" for tag v d
    using that by (auto simp: qrcode_value_def dest: value_of_tag T0d1Resp_tag split: if_splits)
qed (auto simp: TLV_QR_DE_MAP_def qrcode_value_def ok_boxed_frame T0d1Resp_frame split: if_splits)

interpretation login_registry: tlv_registry "TLV_DE_MAP env" "login_value env" for env
proof
  show "tlv_tag d = tag" if "login_value env tag v = Some (Inr d)" for tag v d
    using that by (auto simp: login_value_def dest: value_of_tag split: if_splits)
qed (auto simp: TLV_DE_MAP_def login_value_def ok_boxed_frame split: if_splits)

lemma count16: "n < 2 ^ 16 \<Longrightarrow> unat (of_nat n :: u16) = n"
  by (rule unat_len16)

text \<open>
  C21: A TLV set is read back entry by entry. For a set of fewer than 65536 entries whose values
  do not make a deserializer panic, \<open>TlvSet::deserialize\<close> returns the table of the entries with a
  known tag whose value is accepted, a later entry replacing an earlier one with the same tag:
  unknown tags and undecodable values are skipped by exactly their length, and what follows the
  set is ignored.
\<close>

theorem TlvSet_deserialize_wire:
  assumes "length es < 2 ^ 16"
    and "\<forall>(t, v) \<in> set es. length v < 2 ^ 16 \<and> login_value env t v \<noteq> None"
  shows "TlvSet_deserialize env (tlv_set_wire es @ rest)
    = Some (map_of (rev (known_entries (login_value env) es)))"
  using login_registry.tlv_loop_entries [of es env "\<lambda>_. None" rest] assms count16 [of "length es"]
  by (simp add: TlvSet_deserialize_def tlv_set_wire_def read_simps deserialize_tlv_def fits16_def)

theorem TlvSet_deserialize_wire_witness:
  "TlvSet_deserialize \<lparr>env_decode_qr_d1 = (\<lambda>_. None), env_decode_543 = (\<lambda>_. None)\<rparr>
     (tlv_set_wire [(0x143, [1]), (0x999, [7, 7]), (0x143, [2])] @ [])
   = Some [0x143 \<mapsto> De143 \<lparr>t143_d2 = [2]\<rparr>]"
proof -
  let ?env = "\<lparr>env_decode_qr_d1 = (\<lambda>_. None), env_decode_543 = (\<lambda>_. None)\<rparr>"
  let ?es = "[(0x143, [1]), (0x999, [7, 7]), (0x143, [2])] :: (u16 \<times> bytes) list"
  have v: "login_value ?env 0x143 [b] = Some (Inr (De143 \<lparr>t143_d2 = [b]\<rparr>))"
      "login_value ?env 0x999 w = Some (Inl (UnsupportedTag 0x999))" for b w
    by (simp_all add: login_value_def value_of_def T143_value_def rd_bytes_def)
  have "\<forall>(t, v) \<in> set ?es. length v < 2 ^ 16 \<and> login_value ?env t v \<noteq> None"
    by (simp add: v)
  then have "TlvSet_deserialize ?env (tlv_set_wire ?es @ [])
      = Some (map_of (rev (known_entries (login_value ?env) ?es)))"
    by (intro TlvSet_deserialize_wire) simp_all
  then show ?thesis by (simp add: known_entries_def v)
qed

lemma TlvSet_deserialize_qrcode_wire:
  assumes "length es < 2 ^ 16"
    and "\<forall>(t, v) \<in> set es. length v < 2 ^ 16 \<and> qrcode_value env t v \<noteq> None"
  shows "TlvSet_deserialize_qrcode env (tlv_set_wire es @ rest)
    = Some (map_of (rev (known_entries (qrcode_value env) es)))"
  using qrcode_registry.tlv_loop_entries [of es env "\<lambda>_. None" rest] assms count16 [of "length es"]
  by (simp add: TlvSet_deserialize_qrcode_def tlv_set_wire_def read_simps
      deserialize_qrcode_tlv_def fits16_def)

end
