(* ===== verification/Highway_Frame.thy ===== *)
theory Highway_Frame
  imports Packet_Reader
begin

text \<open>
  \<open>HighwayFrameCodec\<close> of \<open>mania/src/core/highway/hw_frame_codec.rs\<close>, the framing of the file
  transfer connection, and the address helpers of \<open>core/highway.rs\<close>. The decoder works on the
  receive buffer \<open>src\<close> in place: it returns what is left of the buffer beside its result. The reader
  that calls it (\<open>tokio_util\<close>) is not modelled: what is shown of a stream holds for every sequence of
  calls.
\<close>

section \<open>Types\<close>

datatype HighwayError =
    InvalidFrame
  | IoError rstring
  | UploadError u32
  | HexError
  | AudioCodecError
  | OtherHighwayError rstring

record HighwayFrame =
  hf_head :: bytes
  hf_body :: bytes

section \<open>The codec\<close>

definition hf_encode :: "HighwayFrame \<Rightarrow> bytes \<Rightarrow> bytes" where
  "hf_encode item dst =
     dst @ [0x28] @ be32 (of_nat (length (hf_head item))) @ be32 (of_nat (length (hf_body item)))
       @ hf_head item @ hf_body item @ [0x29]"

text \<open>
  The three getters of the header advance the buffer before the second length check: an
  incomplete frame is answered by \<open>None\<close> with the header gone. The getters cannot panic, ten
  bytes are there.
\<close>

definition hf_decode :: "bytes \<Rightarrow> bytes \<times> (HighwayError + HighwayFrame option)" where
  "hf_decode src =
     (if length src < 1 + 4 + 4 + 1 then (src, Inr None)
      else
        let start = src ! 0;
            head_length = unat (of_be (take 4 (drop 1 src)) :: u32);
            body_length = unat (of_be (take 4 (drop 5 src)) :: u32);
            src = drop 9 src in
        if length src < head_length + body_length + 1 then (src, Inr None)
        else
          let head = take head_length src; src = drop head_length src;
              body = take body_length src; src = drop body_length src;
              end_byte = hd src; src = tl src in
          if start \<noteq> 0x28 \<or> end_byte \<noteq> 0x29 then (src, Inl InvalidFrame)
          else (src, Inr (Some \<lparr>hf_head = head, hf_body = body\<rparr>)))"

section \<open>Addresses\<close>

definition int32ip2str :: "u32 \<Rightarrow> rstring" where
  "int32ip2str ip =
     (let a = ip AND 0xff;
          b = drop_bit 8 ip AND 0xff;
          c = drop_bit 16 ip AND 0xff;
          d = drop_bit 24 ip AND 0xff in
      dec_str (unat a) @ str ''.'' @ dec_str (unat b) @ str ''.'' @ dec_str (unat c)
        @ str ''.'' @ dec_str (unat d))"

record IPv4 =
  ip4_out_ip :: u32
  ip4_out_port :: u32
  ip4_in_ip :: u32
  ip4_in_port :: u32
  ip4_ip_type :: u32

record NtHighwayDomain =
  nhd_is_enable :: bool
  nhd_ip :: rstring

record NtHighwayIPv4 =
  nhi_domain :: "NtHighwayDomain option"
  nhi_port :: u32

definition oidb_ipv4s_to_highway_ipv4s :: "IPv4 list \<Rightarrow> NtHighwayIPv4 list" where
  "oidb_ipv4s_to_highway_ipv4s ipv4s =
     map (\<lambda>ip. \<lparr>nhi_domain = Some \<lparr>nhd_is_enable = True, nhd_ip = int32ip2str (ip4_out_ip ip)\<rparr>,
                nhi_port = ip4_out_port ip\<rparr>) ipv4s"

section \<open>Lemmas\<close>

definition fits_frame :: "HighwayFrame \<Rightarrow> bool" where
  "fits_frame f \<longleftrightarrow> length (hf_head f) < 2 ^ 32 \<and> length (hf_body f) < 2 ^ 32"

definition frame_bytes :: "HighwayFrame \<Rightarrow> bytes" where
  "frame_bytes f = hf_encode f []"

lemma length_frame_bytes:
  "length (frame_bytes f) = length (hf_head f) + length (hf_body f) + 10"
  by (simp add: frame_bytes_def hf_encode_def)

lemma header_lengths:
  assumes "fits_frame f" and "9 \<le> k"
  shows "take 4 (drop 1 (take k (frame_bytes f) @ rest)) = be32 (of_nat (length (hf_head f)))"
    and "take 4 (drop 5 (take k (frame_bytes f) @ rest)) = be32 (of_nat (length (hf_body f)))"
    and "(take k (frame_bytes f) @ rest) ! 0 = 0x28"
    and "drop 9 (take k (frame_bytes f) @ rest)
      = take (k - 9) (hf_head f @ hf_body f @ [0x29]) @ rest"
proof -
  let ?h = "be32 (of_nat (length (hf_head f)))" and ?b = "be32 (of_nat (length (hf_body f)))"
  let ?t = "take (k - 9) (hf_head f @ hf_body f @ [0x29]) @ rest"
  have "frame_bytes f = (0x28 # ?h @ ?b) @ hf_head f @ hf_body f @ [0x29]"
    by (simp add: frame_bytes_def hf_encode_def)
  moreover have "length (0x28 # ?h @ ?b) = 9" by simp
  ultimately have e: "take k (frame_bytes f) @ rest = 0x28 # ?h @ ?b @ ?t"
    using assms(2) by (simp only: take_append) (simp add: take_Cons')
  show "take 4 (drop 1 (take k (frame_bytes f) @ rest)) = ?h"
    "take 4 (drop 5 (take k (frame_bytes f) @ rest)) = ?b"
    "(take k (frame_bytes f) @ rest) ! 0 = 0x28"
    "drop 9 (take k (frame_bytes f) @ rest) = ?t"
    by (simp_all add: e numeral_eq_Suc)
qed

lemma hf_decode_short: "length src < 10 \<Longrightarrow> hf_decode src = (src, Inr None)"
  by (simp add: hf_decode_def)

lemma hf_decode_full:
  assumes "fits_frame f"
  shows "hf_decode (frame_bytes f @ rest) = (rest, Inr (Some f))"
proof -
  let ?n = "length (frame_bytes f)"
  have n: "9 \<le> ?n" "10 \<le> ?n" by (simp_all add: length_frame_bytes)
  have all: "take ?n (frame_bytes f) @ rest = frame_bytes f @ rest" by simp
  have t: "take (?n - 9) (hf_head f @ hf_body f @ [0x29]) = hf_head f @ hf_body f @ [0x29]"
    by (rule take_all) (simp add: length_frame_bytes)
  have lens: "unat (word_of_nat (length (hf_head f)) :: u32) = length (hf_head f)"
      "unat (word_of_nat (length (hf_body f)) :: u32) = length (hf_body f)"
    using assms by (simp_all add: fits_frame_def unat_len32)
  note h = header_lengths [OF assms n(1), of rest, unfolded all t]
  have len: "10 \<le> length (frame_bytes f @ rest)" using n(2) by simp
  show ?thesis
    using len unfolding hf_decode_def Let_def h
    by (simp add: lens del: of_nat_unat)
qed

lemma hf_decode_partial:
  assumes "fits_frame f" and "10 \<le> k" and "k < length (frame_bytes f)"
  shows "hf_decode (take k (frame_bytes f)) = (drop 9 (take k (frame_bytes f)), Inr None)"
proof -
  have n: "9 \<le> k" using assms(2) by simp
  note h = header_lengths [OF assms(1) n, of "[]", unfolded append_Nil2]
  have lens: "unat (word_of_nat (length (hf_head f)) :: u32) = length (hf_head f)"
      "unat (word_of_nat (length (hf_body f)) :: u32) = length (hf_body f)"
    using assms by (simp_all add: fits_frame_def unat_len32)
  have "length (take k (frame_bytes f)) = k" using assms(3) by simp
  moreover have "k - 9 < length (hf_head f) + length (hf_body f) + 1"
    using assms(2,3) by (simp add: length_frame_bytes)
  ultimately show ?thesis
    using assms(2) unfolding hf_decode_def Let_def h(1,2,3)
    by (simp add: lens length_frame_bytes del: of_nat_unat)
qed

text \<open>A decoded frame came from the bytes it took, and no call makes the buffer longer.\<close>

lemma hf_decode_long:
  assumes "10 \<le> length src"
  obtains n m b where "hf_decode src =
    (if length (drop 9 src) < n + m + 1 then (drop 9 src, Inr None)
     else (tl (drop m (drop n (drop 9 src))),
       if b then Inl InvalidFrame
       else Inr (Some \<lparr>hf_head = take n (drop 9 src), hf_body = take m (drop n (drop 9 src))\<rparr>)))"
proof -
  define n where "n = unat (of_be (take 4 (drop 1 src)) :: u32)"
  define m where "m = unat (of_be (take 4 (drop 5 src)) :: u32)"
  define b where "b \<longleftrightarrow> src ! 0 \<noteq> 0x28 \<or> hd (drop m (drop n (drop 9 src))) \<noteq> 0x29"
  have "\<not> length src < 1 + 4 + 4 + 1" using assms by simp
  then show ?thesis
    by (intro that [of n m b]) (simp only: hf_decode_def Let_def n_def m_def b_def if_False, simp)
qed

lemma hf_decode_size:
  assumes "hf_decode src = (rest, Inr (Some f))"
  shows "length src = length rest + length (hf_head f) + length (hf_body f) + 10"
proof (cases "10 \<le> length src")
  case True
  then obtain n m b where "hf_decode src =
    (if length (drop 9 src) < n + m + 1 then (drop 9 src, Inr None)
     else (tl (drop m (drop n (drop 9 src))),
       if b then Inl InvalidFrame
       else Inr (Some \<lparr>hf_head = take n (drop 9 src), hf_body = take m (drop n (drop 9 src))\<rparr>)))"
    by (rule hf_decode_long)
  then show ?thesis using assms by (auto split: if_splits)
qed (use assms hf_decode_short in auto)

lemma hf_decode_shrinks:
  assumes "hf_decode src = (rest, r)"
  shows "length rest \<le> length src"
proof (cases "10 \<le> length src")
  case True
  then obtain n m b where "hf_decode src =
    (if length (drop 9 src) < n + m + 1 then (drop 9 src, Inr None)
     else (tl (drop m (drop n (drop 9 src))),
       if b then Inl InvalidFrame
       else Inr (Some \<lparr>hf_head = take n (drop 9 src), hf_body = take m (drop n (drop 9 src))\<rparr>)))"
    by (rule hf_decode_long)
  then show ?thesis using assms by (auto split: if_splits)
qed (use assms hf_decode_short in auto)

definition hf_reader :: "HighwayFrame reader" where
  "hf_reader bs = (case hf_decode bs of (rest, Inr (Some f)) \<Rightarrow> Some (f, rest) | _ \<Rightarrow> None)"

interpretation highway: framing frame_bytes hf_reader fits_frame
  by unfold_locales (simp add: hf_reader_def hf_decode_full)

text \<open>
  C22: Frames written one after the other are read back one after the other. For frames whose
  parts are shorter than \<open>2 ^ 32\<close> bytes, decoding the concatenation of their encodings gives the
  frames in order and leaves exactly what follows them.
\<close>

theorem highway_stream_round_trip:
  assumes "list_all fits_frame fs"
  shows "read_frames hf_reader (length fs) (fold hf_encode fs [] @ rest) = Some (fs, rest)"
proof -
  have "fold hf_encode fs acc = acc @ concat (map frame_bytes fs)" for acc
    by (induction fs arbitrary: acc) (simp_all add: frame_bytes_def hf_encode_def)
  then show ?thesis using highway.read_frames_concat [OF assms] by simp
qed

theorem highway_stream_round_trip_witness:
  "read_frames hf_reader (length [\<lparr>hf_head = [1], hf_body = []\<rparr>, \<lparr>hf_head = [0x29], hf_body = [2, 3]\<rparr>])
     (fold hf_encode [\<lparr>hf_head = [1], hf_body = []\<rparr>, \<lparr>hf_head = [0x29], hf_body = [2, 3]\<rparr>] [] @ [9])
   = Some ([\<lparr>hf_head = [1], hf_body = []\<rparr>, \<lparr>hf_head = [0x29], hf_body = [2, 3]\<rparr>], [9])"
  by (rule highway_stream_round_trip) (simp add: fits_frame_def)

section \<open>Split delivery\<close>

text \<open>
  What calls of \<open>decode\<close> on one buffer return, one after the other: before each of them some bytes,
  or none, have been appended.
\<close>

fun hf_decodes :: "bytes \<Rightarrow> bytes list \<Rightarrow> (HighwayError + HighwayFrame option) list" where
  "hf_decodes src [] = []"
| "hf_decodes src (d # ds) = (case hf_decode (src @ d) of (rest, r) \<Rightarrow> r # hf_decodes rest ds)"

lemma hf_decodes_size:
  "Inr (Some g) \<in> set (hf_decodes src ds) \<Longrightarrow>
     length (frame_bytes g) \<le> length src + length (concat ds)"
proof (induction src ds rule: hf_decodes.induct)
  case (2 src d ds)
  obtain rest r where d: "hf_decode (src @ d) = (rest, r)" by (cases "hf_decode (src @ d)")
  show ?case
  proof (cases "r = Inr (Some g)")
    case True
    then show ?thesis using hf_decode_size [of "src @ d" rest g] d by (simp add: length_frame_bytes)
  next
    case False
    then have "length (frame_bytes g) \<le> length rest + length (concat ds)"
      using "2.IH" [OF d [symmetric]] "2.prems" d by simp
    then show ?thesis using hf_decode_shrinks [OF d] by simp
  qed
qed simp

text \<open>
  C23: A frame that arrives in two pieces is lost. When the first \<open>k\<close> bytes of a frame, ten or more
  but not all, are decoded, the answer is "not yet" but nine bytes are gone from the buffer. However
  the other bytes of the frame arrive and however often \<open>decode\<close> is called on the way and after, no
  call returns the frame. When all its bytes are there at the first call, that call returns it.
\<close>

theorem highway_split_frame_lost:
  assumes "fits_frame f" and "10 \<le> k" and "k < length (hf_encode f [])"
    and "concat ds = drop k (hf_encode f [])"
  shows "hf_decode (take k (hf_encode f [])) = (drop 9 (take k (hf_encode f [])), Inr None)
    \<and> Inr (Some f) \<notin> set (hf_decodes [] (take k (hf_encode f []) # ds))
    \<and> hf_decodes [] [hf_encode f []] = [Inr (Some f)]"
proof -
  have k: "k < length (frame_bytes f)" and ds: "concat ds = drop k (frame_bytes f)"
    using assms(3,4) by (simp_all add: frame_bytes_def)
  note p = hf_decode_partial [OF assms(1,2) k]
  have "length (drop 9 (take k (frame_bytes f))) + length (concat ds) < length (frame_bytes f)"
    using assms(2) k ds by simp
  then have "Inr (Some f) \<notin> set (hf_decodes (drop 9 (take k (frame_bytes f))) ds)"
    using hf_decodes_size [of f "drop 9 (take k (frame_bytes f))" ds] by linarith
  then have "Inr (Some f) \<notin> set (hf_decodes [] (take k (frame_bytes f) # ds))" using p by simp
  then show ?thesis
    using p hf_decode_full [OF assms(1), of "[]"] by (simp add: frame_bytes_def)
qed

theorem highway_split_frame_lost_witness:
  "Inr (Some \<lparr>hf_head = [7], hf_body = []\<rparr>)
     \<notin> set (hf_decodes [] [take 10 (hf_encode \<lparr>hf_head = [7], hf_body = []\<rparr> []), [0x29], [], []])"
proof -
  have "concat [[0x29], [], []] = drop 10 (hf_encode \<lparr>hf_head = [7], hf_body = []\<rparr> [])"
    by (simp add: hf_encode_def)
  from highway_split_frame_lost [OF _ _ _ this] show ?thesis by (simp add: fits_frame_def hf_encode_def)
qed

end
