(* ===== verification/Highway_Client.thy ===== *)
theory Highway_Client
  imports Highway_Frame
begin

text \<open>
  \<open>mania/src/core/highway/hw_client.rs\<close>: the upload of a file in chunks, over a TCP connection
  and, when that fails, over HTTP.

  The file is a seekable stream, its contents \<open>hs_data\<close>; seeking and reading may fail. The
  network is the record \<open>hw_net\<close>: whether the connection is made, whether the \<open>k\<close>-th frame is
  sent, what the \<open>k\<close>-th poll of the framed stream gives (\<open>None\<close> once the peer has closed it) and
  what the \<open>k\<close>-th HTTP request answers. The state of an upload is the read position, the
  number of polls and the frames sent so far.

  Outcomes are \<open>None\<close> for a panic or a loop that does not end, and otherwise the state with
  an error or the result. The progress, a quotient of floats that is only logged, is returned as
  the pair of its integers.
\<close>

section \<open>Messages\<close>

record DataHighwayHead =
  dhh_version :: u32
  dhh_uin :: "rstring option"
  dhh_command :: "rstring option"
  dhh_seq :: "u32 option"
  dhh_retry_times :: "u32 option"
  dhh_app_id :: u32
  dhh_data_flag :: u32
  dhh_command_id :: u32
  dhh_build_ver :: "bytes option"

record SegHead =
  sh_service_id :: "u32 option"
  sh_filesize :: u64
  sh_data_offset :: "u64 option"
  sh_data_length :: u32
  sh_ret_code :: "u32 option"
  sh_service_ticket :: bytes
  sh_md5 :: bytes
  sh_file_md5 :: bytes
  sh_cache_addr :: "u32 option"
  sh_cache_port :: "u32 option"

record LoginSigHead =
  lsh_login_sig_type :: u32
  lsh_login_sig :: bytes
  lsh_app_id :: u32

record ReqDataHighwayHead =
  rq_msg_base_head :: "DataHighwayHead option"
  rq_msg_seg_head :: "SegHead option"
  rq_req_extend_info :: "bytes option"
  rq_timestamp :: u64
  rq_login_sig_head :: "LoginSigHead option"

record RespDataHighwayHead =
  rs_error_code :: u32
  rs_msg_seg_head :: "SegHead option"

record HighwaySession =
  hss_ticket :: bytes
  hss_uin :: rstring
  hss_cmd :: u32
  hss_command :: rstring
  hss_file_md5 :: bytes
  hss_file_size :: u32
  hss_ext :: bytes

record HighwayClient =
  hc_addr :: rstring
  hc_uin :: rstring
  hc_timeout :: u32
  hc_ticket :: bytes
  hc_chunk_size :: nat

definition HighwayClient_new :: "rstring \<Rightarrow> u32 \<Rightarrow> bytes \<Rightarrow> u32 \<Rightarrow> nat \<Rightarrow> HighwayClient" where
  "HighwayClient_new address timeout ticket uin chunk_size =
     \<lparr>hc_addr = address, hc_uin = dec_str (unat uin), hc_timeout = timeout, hc_ticket = ticket,
      hc_chunk_size = chunk_size\<rparr>"

section \<open>Environment and state\<close>

record hw_net =
  net_connect :: "HighwayError + unit"
  net_send :: "nat \<Rightarrow> HighwayError + unit"
  net_poll :: "nat \<Rightarrow> (HighwayError + HighwayFrame) option"
  net_post :: "nat \<Rightarrow> bytes \<Rightarrow> HighwayError + bytes"

record hw_env =
  he_md5 :: "bytes \<Rightarrow> bytes"
  he_encode_head :: "ReqDataHighwayHead \<Rightarrow> bytes"
  he_decode_resp :: "bytes \<Rightarrow> RespDataHighwayHead option"
  he_net :: hw_net
  he_seek :: "nat \<Rightarrow> HighwayError + unit"
  he_read :: "nat \<Rightarrow> HighwayError + unit"

record hw_state =
  hs_data :: bytes
  hs_pos :: nat
  hs_polls :: nat
  hs_tcp :: "HighwayFrame list"
  hs_http :: "HighwayFrame list"

type_synonym 'a upload = "(hw_state \<times> (HighwayError + 'a)) option"

text \<open>The \<open>?\<close> of a step that returns a state.\<close>

definition and_then :: "'a upload \<Rightarrow> (hw_state \<Rightarrow> 'a \<Rightarrow> 'b upload) \<Rightarrow> 'b upload" where
  "and_then r f = (case r of None \<Rightarrow> None | Some (s, Inl e) \<Rightarrow> Some (s, Inl e) | Some (s, Inr a) \<Rightarrow> f s a)"

lemma and_then_simps [simp]:
  "and_then None f = None" "and_then (Some (s, Inl e)) f = Some (s, Inl e)"
  "and_then (Some (s, Inr a)) f = f s a"
  by (simp_all add: and_then_def)

lemma and_then_Inr:
  "and_then r f = Some (t, Inr b) \<longleftrightarrow> (\<exists>s a. r = Some (s, Inr a) \<and> f s a = Some (t, Inr b))"
  by (auto simp: and_then_def split: option.splits prod.splits sum.splits)

section \<open>A chunk\<close>

definition build_pic_up_head ::
    "(ReqDataHighwayHead \<Rightarrow> bytes) \<Rightarrow> HighwaySession \<Rightarrow> u32 \<Rightarrow> u32 \<Rightarrow> bytes \<Rightarrow> bytes" where
  "build_pic_up_head encode s offset body_length body_md5 = encode \<lparr>
     rq_msg_base_head = Some \<lparr>dhh_version = 1, dhh_uin = Some (hss_uin s),
       dhh_command = Some (hss_command s), dhh_seq = Some 0, dhh_retry_times = Some 0,
       dhh_app_id = 1600001604, dhh_data_flag = 16, dhh_command_id = hss_cmd s,
       dhh_build_ver = None\<rparr>,
     rq_msg_seg_head = Some \<lparr>sh_service_id = Some 0, sh_filesize = ucast (hss_file_size s),
       sh_data_offset = Some (ucast offset), sh_data_length = body_length, sh_ret_code = None,
       sh_service_ticket = hss_ticket s, sh_md5 = body_md5, sh_file_md5 = hss_file_md5 s,
       sh_cache_addr = Some 0, sh_cache_port = Some 0\<rparr>,
     rq_req_extend_info = Some (hss_ext s), rq_timestamp = 0,
     rq_login_sig_head = Some \<lparr>lsh_login_sig_type = 8, lsh_login_sig = [],
       lsh_app_id = 1600001604\<rparr>\<rparr>"

text \<open>At most \<open>chunk_size\<close> bytes from the read position on.\<close>

definition read_stream :: "hw_env \<Rightarrow> nat \<Rightarrow> hw_state \<Rightarrow> bytes upload" where
  "read_stream env chunk_size s =
     (case he_read env (hs_pos s) of
        Inl e \<Rightarrow> Some (s, Inl e)
      | Inr _ \<Rightarrow>
          let buf = take chunk_size (drop (hs_pos s) (hs_data s))
          in Some (s\<lparr>hs_pos := hs_pos s + length buf\<rparr>, Inr buf))"

definition chunk_session :: "HighwayClient \<Rightarrow> u32 \<Rightarrow> u32 \<Rightarrow> bytes \<Rightarrow> bytes \<Rightarrow> HighwaySession" where
  "chunk_session hc cmd fsize md5 ext_info =
     \<lparr>hss_ticket = hc_ticket hc, hss_uin = hc_uin hc, hss_cmd = cmd,
      hss_command = str ''PicUp.DataUp'', hss_file_md5 = md5, hss_file_size = fsize,
      hss_ext = ext_info\<rparr>"

definition build_frame ::
    "hw_env \<Rightarrow> HighwayClient \<Rightarrow> u32 \<Rightarrow> u32 \<Rightarrow> bytes \<Rightarrow> bytes \<Rightarrow> u32 \<Rightarrow> hw_state \<Rightarrow> HighwayFrame upload" where
  "build_frame env hc cmd fsize md5 ext_info offset s =
     and_then (read_stream env (hc_chunk_size hc) s) (\<lambda>s chunk.
       Some (s, Inr
         \<lparr>hf_head = build_pic_up_head (he_encode_head env) (chunk_session hc cmd fsize md5 ext_info)
            offset (of_nat (length chunk)) (he_md5 env chunk),
          hf_body = chunk\<rparr>))"

text \<open>The reply is encoded and decoded again before its head is read.\<close>

definition parse_frame ::
    "hw_env \<Rightarrow> HighwayFrame \<Rightarrow> (HighwayError + u64 \<times> u64) option" where
  "parse_frame env frame =
     (case snd (hf_decode (hf_encode frame [])) of
        Inl e \<Rightarrow> Some (Inl e)
      | Inr None \<Rightarrow> Some (Inl (OtherHighwayError (str ''decode http frame: not enough data'')))
      | Inr (Some res) \<Rightarrow>
          do { res_head \<leftarrow> he_decode_resp env (hf_head res);
               if rs_error_code res_head \<noteq> 0 then Some (Inl (UploadError (rs_error_code res_head)))
               else try_res
                 (ok_or (OtherHighwayError (str ''No seg head in response'')) (rs_msg_seg_head res_head))
                 (\<lambda>seg. try_res
                   (ok_or (OtherHighwayError (str ''No data offset in response'')) (sh_data_offset seg))
                   (\<lambda>data_offset. Some (Inr
                      (data_offset + ucast (sh_data_length seg), sh_filesize seg)))) })"

section \<open>The two transports\<close>

text \<open>
  \<open>(0..size).step_by(chunk_size)\<close>: panics for a step of zero.
\<close>

definition step_offsets :: "u32 \<Rightarrow> nat \<Rightarrow> u32 list option" where
  "step_offsets fsize step =
     (if step = 0 then None
      else Some (map (\<lambda>k. of_nat (k * step)) [0..<(unat fsize + step - 1) div step]))"

text \<open>\<open>loop { if let Some(resp) = stream.next().await { break resp } }\<close>.\<close>

partial_function (option) await_resp ::
    "(nat \<Rightarrow> (HighwayError + HighwayFrame) option) \<Rightarrow> nat
      \<Rightarrow> ((HighwayError + HighwayFrame) \<times> nat) option" where
  "await_resp poll k =
     (case poll k of Some resp \<Rightarrow> Some (resp, k + 1) | None \<Rightarrow> await_resp poll (k + 1))"

text \<open>The reply to a chunk: \<open>}?; self.parse_frame(res).await?\<close>.\<close>

definition tcp_reply :: "hw_env \<Rightarrow> hw_state \<Rightarrow> unit upload" where
  "tcp_reply env s =
     do { (res, k) \<leftarrow> await_resp (net_poll (he_net env)) (hs_polls s);
          let s = s\<lparr>hs_polls := k\<rparr>;
          (case res of
             Inl e \<Rightarrow> Some (s, Inl e)
           | Inr res \<Rightarrow> do { r \<leftarrow> parse_frame env res; Some (s, map_sum id (\<lambda>_. ()) r) }) }"

definition tcp_chunk ::
    "hw_env \<Rightarrow> HighwayClient \<Rightarrow> u32 \<Rightarrow> u32 \<Rightarrow> bytes \<Rightarrow> bytes \<Rightarrow> u32 \<Rightarrow> hw_state \<Rightarrow> unit upload" where
  "tcp_chunk env hc cmd fsize md5 ext_info offset s =
     and_then (build_frame env hc cmd fsize md5 ext_info offset s) (\<lambda>s frame.
     and_then (Some (s, net_send (he_net env) (length (hs_tcp s)))) (\<lambda>s _.
       let s = s\<lparr>hs_tcp := hs_tcp s @ [frame]\<rparr> in
       tcp_reply env s))"

definition http_chunk ::
    "hw_env \<Rightarrow> HighwayClient \<Rightarrow> u32 \<Rightarrow> u32 \<Rightarrow> bytes \<Rightarrow> bytes \<Rightarrow> u32 \<Rightarrow> hw_state \<Rightarrow> unit upload" where
  "http_chunk env hc cmd fsize md5 ext_info offset s =
     and_then (build_frame env hc cmd fsize md5 ext_info offset s) (\<lambda>s frame.
       let res = net_post (he_net env) (length (hs_http s)) (hf_encode frame []);
           s = s\<lparr>hs_http := hs_http s @ [frame]\<rparr> in
       (case res of
          Inl e \<Rightarrow> Some (s, Inl e)
        | Inr res \<Rightarrow>
            (case snd (hf_decode res) of
               Inl e \<Rightarrow> Some (s, Inl e)
             | Inr None \<Rightarrow>
                 Some (s, Inl (OtherHighwayError (str ''decode http frame: not enough data'')))
             | Inr (Some res_frame) \<Rightarrow>
                 do { r \<leftarrow> parse_frame env res_frame; Some (s, map_sum id (\<lambda>_. ()) r) })))"

fun for_offsets :: "(u32 \<Rightarrow> hw_state \<Rightarrow> unit upload) \<Rightarrow> u32 list \<Rightarrow> hw_state \<Rightarrow> unit upload" where
  "for_offsets step [] s = Some (s, Inr ())"
| "for_offsets step (offset # offsets) s =
     and_then (step offset s) (\<lambda>s _. for_offsets step offsets s)"

definition seek_start :: "hw_env \<Rightarrow> nat \<Rightarrow> hw_state \<Rightarrow> unit upload" where
  "seek_start env n s =
     (case he_seek env n of Inl e \<Rightarrow> Some (s, Inl e) | Inr _ \<Rightarrow> Some (s\<lparr>hs_pos := 0\<rparr>, Inr ()))"

definition tcp_upload ::
    "hw_env \<Rightarrow> HighwayClient \<Rightarrow> u32 \<Rightarrow> u32 \<Rightarrow> bytes \<Rightarrow> bytes \<Rightarrow> hw_state \<Rightarrow> unit upload" where
  "tcp_upload env hc cmd fsize md5 ext_info s =
     and_then (seek_start env 0 s) (\<lambda>s _.
     and_then (Some (s, net_connect (he_net env))) (\<lambda>s _.
       do { offsets \<leftarrow> step_offsets fsize (hc_chunk_size hc);
            for_offsets (tcp_chunk env hc cmd fsize md5 ext_info) offsets s }))"

definition http_upload ::
    "hw_env \<Rightarrow> HighwayClient \<Rightarrow> u32 \<Rightarrow> u32 \<Rightarrow> bytes \<Rightarrow> bytes \<Rightarrow> hw_state \<Rightarrow> unit upload" where
  "http_upload env hc cmd fsize md5 ext_info s =
     and_then (seek_start env 1 s) (\<lambda>s _.
       do { offsets \<leftarrow> step_offsets fsize (hc_chunk_size hc);
            for_offsets (http_chunk env hc cmd fsize md5 ext_info) offsets s })"

definition upload_file ::
    "hw_env \<Rightarrow> HighwayClient \<Rightarrow> u32 \<Rightarrow> u32 \<Rightarrow> bytes \<Rightarrow> bytes \<Rightarrow> hw_state \<Rightarrow> unit upload" where
  "upload_file env hc cmd fsize md5 ext_info s =
     do { (s, r) \<leftarrow> tcp_upload env hc cmd fsize md5 ext_info s;
          (case r of
             Inr _ \<Rightarrow> Some (s, Inr ())
           | Inl _ \<Rightarrow> http_upload env hc cmd fsize md5 ext_info s) }"

definition hw_start :: "bytes \<Rightarrow> hw_state" where
  "hw_start d = \<lparr>hs_data = d, hs_pos = 0, hs_polls = 0, hs_tcp = [], hs_http = []\<rparr>"

section \<open>What a completed transport has sent\<close>

definition chunk_frame ::
    "hw_env \<Rightarrow> HighwayClient \<Rightarrow> u32 \<Rightarrow> u32 \<Rightarrow> bytes \<Rightarrow> bytes \<Rightarrow> u32 \<Rightarrow> bytes \<Rightarrow> HighwayFrame" where
  "chunk_frame env hc cmd fsize md5 ext_info offset chunk =
     \<lparr>hf_head = build_pic_up_head (he_encode_head env) (chunk_session hc cmd fsize md5 ext_info)
        offset (of_nat (length chunk)) (he_md5 env chunk), hf_body = chunk\<rparr>"

text \<open>The \<open>k\<close>-th piece of \<open>c\<close> bytes, and the frames of all pieces.\<close>

definition piece :: "nat \<Rightarrow> bytes \<Rightarrow> nat \<Rightarrow> bytes" where
  "piece c d k = take c (drop (k * c) d)"

definition file_frames ::
    "hw_env \<Rightarrow> HighwayClient \<Rightarrow> u32 \<Rightarrow> u32 \<Rightarrow> bytes \<Rightarrow> bytes \<Rightarrow> bytes \<Rightarrow> HighwayFrame list" where
  "file_frames env hc cmd fsize md5 ext_info d =
     (let c = hc_chunk_size hc in
      map (\<lambda>k. chunk_frame env hc cmd fsize md5 ext_info (of_nat (k * c)) (piece c d k))
        [0..<(unat fsize + c - 1) div c])"

locale transport =
  fixes c :: nat and frame :: "u32 \<Rightarrow> bytes \<Rightarrow> HighwayFrame"
    and step :: "u32 \<Rightarrow> hw_state \<Rightarrow> unit upload" and sent :: "hw_state \<Rightarrow> HighwayFrame list"
    and other :: "hw_state \<Rightarrow> HighwayFrame list"
  assumes step_sends: "step offset s = Some (t, Inr ()) \<Longrightarrow>
      hs_data t = hs_data s \<and> hs_pos t = hs_pos s + length (take c (drop (hs_pos s) (hs_data s)))
      \<and> sent t = sent s @ [frame offset (take c (drop (hs_pos s) (hs_data s)))]"
    and step_keeps: "step offset s = Some (t, r) \<Longrightarrow> other t = other s \<and> hs_data t = hs_data s"
begin

lemma for_offsets_keeps:
  "for_offsets step offsets s = Some (t, r) \<Longrightarrow> other t = other s \<and> hs_data t = hs_data s"
proof (induction offsets arbitrary: s)
  case (Cons o os)
  then show ?case
    by (auto simp: and_then_def split: option.splits prod.splits sum.splits dest!: step_keeps)
qed simp

lemma for_offsets_sends:
  assumes "for_offsets step (map (\<lambda>k. of_nat (k * c)) [j..<m]) s = Some (t, Inr ())"
    and "hs_pos s = min (j * c) (length (hs_data s))"
  shows "sent t = sent s @ map (\<lambda>k. frame (of_nat (k * c)) (piece c (hs_data s) k)) [j..<m]"
  using assms
proof (induction "m - j" arbitrary: j s)
  case 0
  then show ?case by simp
next
  case (Suc n)
  then have jm: "j < m" by simp
  obtain u where u: "step (of_nat (j * c)) s = Some (u, Inr ())"
    and rest: "for_offsets step (map (\<lambda>k. of_nat (k * c)) [Suc j..<m]) u = Some (t, Inr ())"
    using Suc.prems(1) by (auto simp: upt_conv_Cons [OF jm] and_then_Inr)
  have p: "take c (drop (hs_pos s) (hs_data s)) = piece c (hs_data s) j"
    using Suc.prems(2) by (auto simp: piece_def min_def)
  have d: "hs_data u = hs_data s"
    and pos: "hs_pos u = min (Suc j * c) (length (hs_data u))"
    and out: "sent u = sent s @ [frame (of_nat (j * c)) (piece c (hs_data s) j)]"
    using step_sends [OF u] Suc.prems(2) p by (auto simp: piece_def min_def)
  have "sent t = sent u @ map (\<lambda>k. frame (of_nat (k * c)) (piece c (hs_data u) k)) [Suc j..<m]"
    using Suc.hyps by (intro Suc.hyps(1) rest pos) simp
  then show ?case using out d by (simp add: upt_conv_Cons [OF jm])
qed

end

lemma build_frame_Inr:
  "build_frame env hc cmd fsize md5 ext_info offset s = Some (t, Inr f) \<longleftrightarrow>
     (\<exists>u. he_read env (hs_pos s) = Inr u) \<and>
     (let chunk = take (hc_chunk_size hc) (drop (hs_pos s) (hs_data s)) in
      t = s\<lparr>hs_pos := hs_pos s + length chunk\<rparr>
      \<and> f = chunk_frame env hc cmd fsize md5 ext_info offset chunk)"
  by (auto simp: build_frame_def read_stream_def chunk_frame_def Let_def split: sum.splits)

lemma build_frame_keeps:
  "build_frame env hc cmd fsize md5 ext_info offset s = Some (t, r) \<Longrightarrow> \<exists>n. t = s\<lparr>hs_pos := n\<rparr>"
  by (auto simp: build_frame_def read_stream_def Let_def split: sum.splits
      intro: exI [of _ "hs_pos s"])

lemma await_resp_returns:
  "await_resp poll k = Some r \<Longrightarrow> \<exists>j \<ge> k. poll j \<noteq> None"
proof (rule await_resp.raw_induct [where P = "\<lambda>poll k r. \<exists>j \<ge> k. poll j \<noteq> None"])
  fix await and p :: "nat \<Rightarrow> (HighwayError + HighwayFrame) option" and n r
  assume ih: "\<And>p n r. await p n = Some r \<Longrightarrow> \<exists>j \<ge> n. p j \<noteq> None"
    and body: "(case p n of None \<Rightarrow> await p (n + 1) | Some resp \<Rightarrow> Some (resp, n + 1)) = Some r"
  show "\<exists>j \<ge> n. p j \<noteq> None"
  proof (cases "p n")
    case None
    then obtain j where "n + 1 \<le> j" "p j \<noteq> None" using ih body by fastforce
    then show ?thesis by (intro exI [of _ j]) simp
  qed auto
qed

lemma await_resp_iff: "(\<exists>r. await_resp poll k = Some r) \<longleftrightarrow> (\<exists>j \<ge> k. poll j \<noteq> None)"
proof
  show "\<exists>j \<ge> k. poll j \<noteq> None" if "\<exists>r. await_resp poll k = Some r"
    using that await_resp_returns by blast
next
  have "poll j \<noteq> None \<Longrightarrow> k \<le> j \<Longrightarrow> \<exists>r. await_resp poll k = Some r" for j
  proof (induction "j - k" arbitrary: k)
    case 0
    then show ?case by (subst await_resp.simps) (auto split: option.splits)
  next
    case (Suc n)
    then have "\<exists>r. await_resp poll (k + 1) = Some r" by simp
    then show ?case by (subst await_resp.simps) (auto split: option.splits)
  qed
  then show "\<exists>r. await_resp poll k = Some r" if "\<exists>j \<ge> k. poll j \<noteq> None" using that by blast
qed

lemma tcp_reply_keeps:
  assumes "tcp_reply env s = Some (t, r)"
  shows "\<exists>k. t = s\<lparr>hs_polls := k\<rparr>"
proof -
  obtain res k where "await_resp (net_poll (he_net env)) (hs_polls s) = Some (res, k)"
    using assms by (auto simp: tcp_reply_def bind_eq_Some_conv)
  then show ?thesis
    using assms by (cases res) (auto simp: tcp_reply_def bind_eq_Some_conv)
qed

interpretation tcp: transport "hc_chunk_size hc" "chunk_frame env hc cmd fsize md5 ext_info"
  "tcp_chunk env hc cmd fsize md5 ext_info" hs_tcp hs_http for env hc cmd fsize md5 ext_info
proof
  fix offset s t
  show "hs_data t = hs_data s
      \<and> hs_pos t = hs_pos s + length (take (hc_chunk_size hc) (drop (hs_pos s) (hs_data s)))
      \<and> hs_tcp t = hs_tcp s @ [chunk_frame env hc cmd fsize md5 ext_info offset
          (take (hc_chunk_size hc) (drop (hs_pos s) (hs_data s)))]"
    if "tcp_chunk env hc cmd fsize md5 ext_info offset s = Some (t, Inr ())"
    using that
    by (auto simp: tcp_chunk_def and_then_Inr build_frame_Inr Let_def dest!: tcp_reply_keeps)
next
  fix offset s t r
  show "hs_http t = hs_http s \<and> hs_data t = hs_data s"
    if "tcp_chunk env hc cmd fsize md5 ext_info offset s = Some (t, r)"
    using that
    by (auto simp: tcp_chunk_def and_then_def Let_def
        split: sum.split_asm option.split_asm prod.split_asm
        dest!: build_frame_keeps tcp_reply_keeps)
qed

interpretation http: transport "hc_chunk_size hc" "chunk_frame env hc cmd fsize md5 ext_info"
  "http_chunk env hc cmd fsize md5 ext_info" hs_http hs_tcp for env hc cmd fsize md5 ext_info
proof
  fix offset s t
  show "hs_data t = hs_data s
      \<and> hs_pos t = hs_pos s + length (take (hc_chunk_size hc) (drop (hs_pos s) (hs_data s)))
      \<and> hs_http t = hs_http s @ [chunk_frame env hc cmd fsize md5 ext_info offset
          (take (hc_chunk_size hc) (drop (hs_pos s) (hs_data s)))]"
    if "http_chunk env hc cmd fsize md5 ext_info offset s = Some (t, Inr ())"
    using that
    by (auto simp: http_chunk_def and_then_Inr build_frame_Inr Let_def bind_eq_Some_conv
        split: sum.split_asm option.split_asm)
next
  fix offset s t r
  show "hs_tcp t = hs_tcp s \<and> hs_data t = hs_data s"
    if "http_chunk env hc cmd fsize md5 ext_info offset s = Some (t, r)"
    using that
    by (auto simp: http_chunk_def and_then_def Let_def bind_eq_Some_conv
        split: sum.split_asm option.split_asm prod.split_asm dest!: build_frame_keeps)
qed

lemma concat_pieces: "concat (map (piece c d) [0..<m]) = take (m * c) d"
proof (induction m)
  case (Suc m)
  have "take (m * c + c) d = take (m * c) d @ take c (drop (m * c) d)" by (rule take_add)
  then show ?case using Suc by (simp add: piece_def add.commute)
qed simp

lemma ceil_div_covers: "0 < c \<Longrightarrow> n \<le> (n + c - 1) div c * (c :: nat)"
  using div_mult_mod_eq [of "n + c - 1" c] mod_less_divisor [of c "n + c - 1"] by linarith

lemma file_frames_cover:
  assumes "0 < hc_chunk_size hc" and "length d \<le> unat fsize"
  shows "concat (map hf_body (file_frames env hc cmd fsize md5 ext_info d)) = d"
proof -
  have "map hf_body (file_frames env hc cmd fsize md5 ext_info d)
      = map (piece (hc_chunk_size hc) d) [0..<(unat fsize + hc_chunk_size hc - 1) div hc_chunk_size hc]"
    by (simp add: file_frames_def chunk_frame_def Let_def)
  moreover have "length d \<le> (unat fsize + hc_chunk_size hc - 1) div hc_chunk_size hc * hc_chunk_size hc"
    using ceil_div_covers [OF assms(1), of "unat fsize"] assms(2) by simp
  ultimately show ?thesis by (simp add: concat_pieces)
qed

lemma step_offsets_Some:
  "step_offsets fsize c = Some os \<longleftrightarrow>
     0 < c \<and> os = map (\<lambda>k. of_nat (k * c)) [0..<(unat fsize + c - 1) div c]"
  by (auto simp: step_offsets_def)

lemma tcp_upload_sends:
  assumes "tcp_upload env hc cmd fsize md5 ext_info s = Some (t, Inr ())"
  shows "0 < hc_chunk_size hc \<and> hs_http t = hs_http s \<and> hs_data t = hs_data s
    \<and> hs_tcp t = hs_tcp s @ file_frames env hc cmd fsize md5 ext_info (hs_data s)"
proof -
  obtain os where os: "step_offsets fsize (hc_chunk_size hc) = Some os"
    and r: "for_offsets (tcp_chunk env hc cmd fsize md5 ext_info) os (s\<lparr>hs_pos := 0\<rparr>) = Some (t, Inr ())"
    using assms
    by (auto simp: tcp_upload_def and_then_Inr seek_start_def bind_eq_Some_conv split: sum.splits)
  then show ?thesis
    using tcp.for_offsets_keeps [OF r]
      tcp.for_offsets_sends [of env hc cmd fsize md5 ext_info 0 _ "s\<lparr>hs_pos := 0\<rparr>" t]
    by (auto simp: step_offsets_Some file_frames_def Let_def)
qed

lemma http_upload_sends:
  assumes "http_upload env hc cmd fsize md5 ext_info s = Some (t, Inr ())"
  shows "0 < hc_chunk_size hc \<and> hs_tcp t = hs_tcp s \<and> hs_data t = hs_data s
    \<and> hs_http t = hs_http s @ file_frames env hc cmd fsize md5 ext_info (hs_data s)"
proof -
  obtain os where os: "step_offsets fsize (hc_chunk_size hc) = Some os"
    and r: "for_offsets (http_chunk env hc cmd fsize md5 ext_info) os (s\<lparr>hs_pos := 0\<rparr>) = Some (t, Inr ())"
    using assms
    by (auto simp: http_upload_def and_then_Inr seek_start_def bind_eq_Some_conv split: sum.splits)
  then show ?thesis
    using http.for_offsets_keeps [OF r]
      http.for_offsets_sends [of env hc cmd fsize md5 ext_info 0 _ "s\<lparr>hs_pos := 0\<rparr>" t]
    by (auto simp: step_offsets_Some file_frames_def Let_def)
qed

lemma tcp_upload_keeps:
  assumes "tcp_upload env hc cmd fsize md5 ext_info s = Some (t, r)"
  shows "hs_http t = hs_http s \<and> hs_data t = hs_data s"
  using assms
  by (auto simp: tcp_upload_def and_then_def seek_start_def bind_eq_Some_conv
      split: sum.splits option.splits prod.splits dest!: tcp.for_offsets_keeps)

lemma http_upload_keeps:
  assumes "http_upload env hc cmd fsize md5 ext_info s = Some (t, r)"
  shows "hs_tcp t = hs_tcp s \<and> hs_data t = hs_data s"
  using assms
  by (auto simp: http_upload_def and_then_def seek_start_def bind_eq_Some_conv
      split: sum.splits option.splits prod.splits dest!: http.for_offsets_keeps)

lemma upload_file_whole:
  assumes "upload_file env hc cmd fsize md5 ext_info (hw_start d) = Some (s, Inr ())"
  shows "(let fs = file_frames env hc cmd fsize md5 ext_info d in
      (unat fsize = length d \<longrightarrow> concat (map hf_body fs) = d)
      \<and> (hs_tcp s = fs \<and> hs_http s = [] \<or> hs_http s = fs))"
proof -
  obtain t r where tcp: "tcp_upload env hc cmd fsize md5 ext_info (hw_start d) = Some (t, r)"
    and c: "(case r of Inr _ \<Rightarrow> Some (t, Inr ())
        | Inl _ \<Rightarrow> http_upload env hc cmd fsize md5 ext_info t) = Some (s, Inr ())"
    using assms(1) by (auto simp: upload_file_def bind_eq_Some_conv)
  have rest: "r = Inr () \<and> s = t \<or>
      (\<exists>e. r = Inl e) \<and> http_upload env hc cmd fsize md5 ext_info t = Some (s, Inr ())"
    using c by (cases r) auto
  have t: "hs_http t = [] \<and> hs_data t = d"
    using tcp_upload_keeps [OF tcp] by (simp add: hw_start_def)
  from rest have "0 < hc_chunk_size hc \<and>
      (hs_tcp s = file_frames env hc cmd fsize md5 ext_info d \<and> hs_http s = []
        \<or> hs_http s = file_frames env hc cmd fsize md5 ext_info d)"
  proof
    assume "r = Inr () \<and> s = t"
    then show ?thesis using tcp_upload_sends [of env hc cmd fsize md5 ext_info "hw_start d" t] tcp t
      by (simp add: hw_start_def)
  next
    assume "(\<exists>e. r = Inl e) \<and> http_upload env hc cmd fsize md5 ext_info t = Some (s, Inr ())"
    then show ?thesis using http_upload_sends [of env hc cmd fsize md5 ext_info t s] t by simp
  qed
  then show ?thesis
    using file_frames_cover [of hc d fsize env cmd md5 ext_info] by (simp add: Let_def)
qed

lemma upload_file_keeps:
  assumes "upload_file env hc cmd fsize md5 ext_info (hw_start d) = Some (s, r)"
  shows "hs_data s = d"
proof -
  obtain t q where tcp: "tcp_upload env hc cmd fsize md5 ext_info (hw_start d) = Some (t, q)"
    and c: "(case q of Inr _ \<Rightarrow> Some (t, Inr ())
        | Inl _ \<Rightarrow> http_upload env hc cmd fsize md5 ext_info t) = Some (s, r)"
    using assms by (auto simp: upload_file_def bind_eq_Some_conv)
  have "hs_data t = d" using tcp_upload_keeps [OF tcp] by (simp add: hw_start_def)
  moreover have "hs_data s = hs_data t"
    using c by (cases q) (auto dest: http_upload_keeps)
  ultimately show ?thesis by simp
qed

text \<open>For an announced size of zero nothing is sent.\<close>

lemma step_offsets_zero: "step_offsets 0 c = Some os \<Longrightarrow> os = []"
  by (auto simp: step_offsets_Some)

lemma upload_file_zero:
  assumes "upload_file env hc cmd 0 md5 ext_info (hw_start d) = Some (s, r)"
  shows "hs_tcp s = [] \<and> hs_http s = []"
proof -
  obtain t q where tcp: "tcp_upload env hc cmd 0 md5 ext_info (hw_start d) = Some (t, q)"
    and c: "(case q of Inr _ \<Rightarrow> Some (t, Inr ())
        | Inl _ \<Rightarrow> http_upload env hc cmd 0 md5 ext_info t) = Some (s, r)"
    using assms by (auto simp: upload_file_def bind_eq_Some_conv)
  have "hs_tcp t = [] \<and> hs_http t = []"
    using tcp
    by (auto simp: tcp_upload_def and_then_def seek_start_def hw_start_def bind_eq_Some_conv
        dest!: step_offsets_zero split: sum.split_asm)
  then show ?thesis
    using c
    by (auto simp: http_upload_def and_then_def seek_start_def bind_eq_Some_conv
        dest!: step_offsets_zero split: sum.split_asm)
qed

section \<open>Properties\<close>

text \<open>An environment in which every operation succeeds, for examples.\<close>

definition ok_reply :: HighwayFrame where
  "ok_reply = \<lparr>hf_head = [], hf_body = []\<rparr>"

definition demo_hw_env :: "(HighwayError + unit) \<Rightarrow> hw_env" where
  "demo_hw_env connect = \<lparr>he_md5 = (\<lambda>bs. bs), he_encode_head = (\<lambda>_. [1]),
     he_decode_resp = (\<lambda>_. Some \<lparr>rs_error_code = 0, rs_msg_seg_head = Some
       \<lparr>sh_service_id = None, sh_filesize = 3, sh_data_offset = Some 0, sh_data_length = 2,
        sh_ret_code = None, sh_service_ticket = [], sh_md5 = [], sh_file_md5 = [],
        sh_cache_addr = None, sh_cache_port = None\<rparr>\<rparr>),
     he_net = \<lparr>net_connect = connect, net_send = (\<lambda>_. Inr ()),
       net_poll = (\<lambda>_. Some (Inr ok_reply)), net_post = (\<lambda>_ _. Inr (hf_encode ok_reply []))\<rparr>,
     he_seek = (\<lambda>_. Inr ()), he_read = (\<lambda>_. Inr ())\<rparr>"

definition demo_client :: HighwayClient where
  "demo_client = HighwayClient_new (str ''addr'') 5 [] 10001 2"

text \<open>
  C24: A successful upload has sent the whole file. When \<open>upload\<close> returns success for a file of
  the announced size, the frames sent over TCP, or those sent over HTTP after TCP had failed, are
  exactly the frames of the consecutive chunks, the frame of the \<open>k\<close>-th chunk carrying the offset
  \<open>k * chunk_size\<close>, the length and the MD5 of its bytes; their bodies put together are the file.
  The fallback starts again at the first byte, wherever TCP stopped.
\<close>

theorem upload_sends_whole_file:
  assumes "upload_file env hc cmd fsize md5 ext_info (hw_start d) = Some (s, Inr ())"
    and "unat fsize = length d"
  shows "(let fs = file_frames env hc cmd fsize md5 ext_info d in
      concat (map hf_body fs) = d \<and> (hs_tcp s = fs \<and> hs_http s = [] \<or> hs_http s = fs))"
  using upload_file_whole [OF assms(1)] assms(2) by (simp add: Let_def)

lemma demo_reply_frame: "parse_frame (demo_hw_env connect) ok_reply = Some (Inr (2, 3))"
  using hf_decode_full [of ok_reply "[]"]
  by (simp add: parse_frame_def frame_bytes_def fits_frame_def ok_reply_def demo_hw_env_def)

lemma demo_http_chunk:
  "\<exists>t. http_chunk (demo_hw_env connect) hc cmd fsize md5 ext_info offset s = Some (t, Inr ())
    \<and> hs_data t = hs_data s"
  using demo_reply_frame [of connect] hf_decode_full [of ok_reply "[]"]
  by (auto simp: http_chunk_def build_frame_def read_stream_def Let_def frame_bytes_def
      fits_frame_def ok_reply_def demo_hw_env_def)

lemma demo_http_loop:
  "\<exists>t. for_offsets (http_chunk (demo_hw_env connect) hc cmd fsize md5 ext_info) os s
     = Some (t, Inr ())"
proof (induction os arbitrary: s)
  case (Cons off os)
  obtain t where "http_chunk (demo_hw_env connect) hc cmd fsize md5 ext_info off s
      = Some (t, Inr ())"
    using demo_http_chunk by blast
  then show ?case using Cons by simp
qed simp

lemma demo_upload_any:
  assumes "0 < hc_chunk_size hc"
  shows "\<exists>t. upload_file (demo_hw_env (Inl InvalidFrame)) hc cmd fsize md5 ext_info (hw_start d) = Some (t, Inr ())"
proof -
  let ?e = "demo_hw_env (Inl InvalidFrame)"
  have tcp: "tcp_upload ?e hc cmd fsize md5 ext_info (hw_start d) = Some (hw_start d, Inl InvalidFrame)"
    by (simp add: tcp_upload_def seek_start_def demo_hw_env_def hw_start_def)
  have seek: "seek_start ?e 1 (hw_start d) = Some (hw_start d, Inr ())"
    by (simp add: seek_start_def demo_hw_env_def hw_start_def)
  have "\<exists>os. step_offsets fsize (hc_chunk_size hc) = Some os"
    using assms by (simp add: step_offsets_def)
  then show ?thesis
    using demo_http_loop [of "Inl InvalidFrame" hc cmd fsize md5 ext_info _ "hw_start d"]
    by (auto simp: upload_file_def tcp http_upload_def seek [simplified])
qed

lemma demo_upload:
  "\<exists>s. upload_file (demo_hw_env (Inl InvalidFrame)) demo_client 1 3 [] [] (hw_start [7, 8, 9])
    = Some (s, Inr ())"
  by (rule demo_upload_any) (simp add: demo_client_def HighwayClient_new_def)

theorem upload_sends_whole_file_witness:
  "\<exists>s. upload_file (demo_hw_env (Inl InvalidFrame)) demo_client 1 3 [] [] (hw_start [7, 8, 9])
      = Some (s, Inr ())
    \<and> (let fs = file_frames (demo_hw_env (Inl InvalidFrame)) demo_client 1 3 [] [] [7, 8, 9] in
       concat (map hf_body fs) = [7, 8, 9] \<and> (hs_tcp s = fs \<and> hs_http s = [] \<or> hs_http s = fs))"
proof -
  obtain s where s: "upload_file (demo_hw_env (Inl InvalidFrame)) demo_client 1 3 [] []
      (hw_start [7, 8, 9]) = Some (s, Inr ())"
    using demo_upload by blast
  from upload_sends_whole_file [OF s] show ?thesis using s by auto
qed

text \<open>
  C25: When the transfer server closes the connection, the upload waits forever. If the first
  chunk is read and sent and the peer has closed the connection, so that every poll of the stream
  says that it is at its end, \<open>upload\<close> does not return: the loop around \<open>stream.next()\<close> spins,
  and the HTTP fallback, which a refused connection would reach, is never tried.
\<close>

theorem upload_hangs_on_close:
  assumes "he_seek env 0 = Inr ()" and "net_connect (he_net env) = Inr ()"
    and "he_read env 0 = Inr ()" and "net_send (he_net env) 0 = Inr ()"
    and "\<forall>k. net_poll (he_net env) k = None"
    and "0 < fsize"
  shows "upload_file env hc cmd fsize md5 ext_info (hw_start d) = None"
proof -
  have silent: "await_resp (net_poll (he_net env)) k = None" for k
    using await_resp_iff [of "net_poll (he_net env)" k] assms(5)
    by (cases "await_resp (net_poll (he_net env)) k") auto
  have chunk: "tcp_chunk env hc cmd fsize md5 ext_info offset s = None"
    if "hs_pos s = 0" "hs_tcp s = []" for offset s
    using that assms(3,4) silent
    by (simp add: tcp_chunk_def build_frame_def read_stream_def Let_def tcp_reply_def)
  have loop: "for_offsets (tcp_chunk env hc cmd fsize md5 ext_info) os s = None"
    if "os \<noteq> []" "hs_pos s = 0" "hs_tcp s = []" for os s
    using that chunk by (cases os) simp_all
  have nonempty: "os \<noteq> []" if "step_offsets fsize (hc_chunk_size hc) = Some os" for os
  proof -
    have "0 < unat fsize" using assms(6) by (simp add: unat_gt_0 word_gt_0)
    then have "1 \<le> (unat fsize + hc_chunk_size hc - 1) div hc_chunk_size hc"
      if "0 < hc_chunk_size hc"
      using that by (simp add: div_greater_zero_iff Suc_leI)
    then show ?thesis using that by (auto simp: step_offsets_Some)
  qed
  have "tcp_upload env hc cmd fsize md5 ext_info (hw_start d) = None"
    using assms(1,2) loop nonempty
    by (cases "step_offsets fsize (hc_chunk_size hc)")
      (simp_all add: tcp_upload_def seek_start_def hw_start_def)
  then show ?thesis by (simp add: upload_file_def)
qed

theorem upload_hangs_on_close_witness:
  "upload_file (demo_hw_env (Inr ())\<lparr>he_net := he_net (demo_hw_env (Inr ()))\<lparr>net_poll := \<lambda>_. None\<rparr>\<rparr>)
     demo_client 1 3 [] [] (hw_start [7, 8, 9]) = None"
  by (rule upload_hangs_on_close) (simp_all add: demo_hw_env_def)

end
