(* ===== verification/Chunk_Hash.thy ===== *)
theory Chunk_Hash
  imports Mania_Prelude
begin

text \<open>
  The two file digests of \<open>mania/src/core/crypto\<close>: \<open>TriSha1\<close> (\<open>tri_sha1.rs\<close>), the hash of three
  ranges of a file and its size, and \<open>StreamSha1\<close> (\<open>stream_sha1.rs\<close>), the running SHA-1 state at
  every block boundary. Both are fed by a sequence of \<open>update\<close> calls.

  SHA-1 comes from the crates sha1 and digest: for \<open>TriSha1\<close> a hasher is the bytes fed to it and
  the digest a function \<open>sha1\<close> of them; for \<open>StreamSha1\<close> the block buffer (\<open>digest_blocks\<close>), the
  compression function and the final padding are the fields of \<open>sha1_env\<close>, and
  \<open>eager_buffer\<close> is the documented behaviour of an eager block buffer of 64 bytes.

  Offsets and lengths are natural numbers: no run feeds \<open>2 ^ 64\<close> bytes. The locale
  \<open>incremental\<close> is the contract of an incremental hasher.
\<close>

section \<open>Incremental hashers\<close>

primrec update_all :: "(bytes \<Rightarrow> 's \<Rightarrow> 's option) \<Rightarrow> bytes list \<Rightarrow> 's \<Rightarrow> 's option" where
  "update_all upd [] s = Some s"
| "update_all upd (d # ds) s = Option.bind (upd d s) (update_all upd ds)"

locale incremental =
  fixes upd :: "bytes \<Rightarrow> 's \<Rightarrow> 's option" and ok :: "'s \<Rightarrow> bool"
  assumes upd_empty: "ok s \<Longrightarrow> upd [] s = Some s"
    and upd_append: "ok s \<Longrightarrow> Option.bind (upd a s) (upd b) = upd (a @ b) s"
    and upd_ok: "ok s \<Longrightarrow> \<exists>t. upd a s = Some t \<and> ok t"
begin

text \<open>Only the bytes count, not how they were cut.\<close>

lemma update_all_concat: "ok s \<Longrightarrow> update_all upd ds s = upd (concat ds) s"
proof (induction ds arbitrary: s)
  case Nil
  then show ?case by (simp add: upd_empty)
next
  case (Cons d ds)
  obtain t where t: "upd d s = Some t" "ok t" using upd_ok [OF Cons.prems] by blast
  then have "update_all upd (d # ds) s = upd (concat ds) t" using Cons.IH by simp
  also have "\<dots> = upd (d @ concat ds) s" using upd_append [OF Cons.prems, of d "concat ds"] t by simp
  finally show ?case by simp
qed

end

section \<open>TriSha1\<close>

record TriSha1 =
  ts_hasher :: bytes
  ts_offset :: nat
  ts_file_size :: nat
  ts_ranges :: "(nat \<times> nat) list"

definition TriSha1_new :: "nat \<Rightarrow> TriSha1" where
  "TriSha1_new file_size =
     \<lparr>ts_hasher = [], ts_offset = 0, ts_file_size = file_size,
      ts_ranges =
        (if file_size < 31457280 then [(0, file_size)]
         else [(0, 10485759),
               (file_size div 2 - 5242880, file_size div 2 + 5242879),
               (file_size - 10485760, file_size - 1)])\<rparr>"

text \<open>The part of the data at \<open>start\<close> that lies in a range, bounds included.\<close>

definition range_slice :: "nat \<Rightarrow> bytes \<Rightarrow> nat \<times> nat \<Rightarrow> bytes" where
  "range_slice start data r =
     (let from = max start (fst r); upto = min (start + length data) (snd r + 1) in
      if from < upto then take (upto - from) (drop (from - start) data) else [])"

fun feed_ranges :: "nat \<Rightarrow> bytes \<Rightarrow> (nat \<times> nat) list \<Rightarrow> bytes \<Rightarrow> bytes" where
  "feed_ranges start data [] hasher = hasher"
| "feed_ranges start data (r # rs) hasher =
     feed_ranges start data rs (hasher @ range_slice start data r)"

definition TriSha1_update :: "bytes \<Rightarrow> TriSha1 \<Rightarrow> TriSha1" where
  "TriSha1_update data s =
     s\<lparr>ts_hasher := feed_ranges (ts_offset s) data (ts_ranges s) (ts_hasher s),
       ts_offset := ts_offset s + length data\<rparr>"

text \<open>\<open>ne\<close> is \<open>u64::to_ne_bytes\<close>, which depends on the machine.\<close>

definition TriSha1_finalize :: "(bytes \<Rightarrow> bytes) \<Rightarrow> (u64 \<Rightarrow> bytes) \<Rightarrow> TriSha1 \<Rightarrow> bytes" where
  "TriSha1_finalize sha1 ne s = sha1 (ts_hasher s @ ne (of_nat (ts_file_size s)))"

text \<open>The bytes of a file between two offsets, both included.\<close>

definition file_range :: "bytes \<Rightarrow> nat \<times> nat \<Rightarrow> bytes" where
  "file_range d r = take (snd r + 1 - fst r) (drop (fst r) d)"

fun ascending :: "(nat \<times> nat) list \<Rightarrow> bool" where
  "ascending [] = True"
| "ascending [r] = (fst r \<le> snd r)"
| "ascending (r # q # rs) = (fst r \<le> snd r \<and> snd r < fst q \<and> ascending (q # rs))"

lemma feed_ranges_eq:
  "feed_ranges start data rs h = h @ concat (map (range_slice start data) rs)"
  by (induction rs arbitrary: h) simp_all

lemma range_slice_eq:
  "range_slice start data r = take (snd r + 1 - max start (fst r)) (drop (fst r - start) data)"
proof -
  have d: "max start (fst r) - start = fst r - start" by simp
  show ?thesis
  proof (cases "max start (fst r) < min (start + length data) (snd r + 1)")
    case True
    let ?x = "drop (fst r - start) data"
    have "take (min (start + length data) (snd r + 1) - max start (fst r)) ?x
        = take (snd r + 1 - max start (fst r)) ?x"
      by (cases "start + length data \<le> snd r + 1") auto
    then show ?thesis using True by (simp add: range_slice_def Let_def d)
  next
    case False
    then have "snd r + 1 \<le> max start (fst r) \<or> length data \<le> fst r - start" by auto
    then show ?thesis using False by (auto simp: range_slice_def Let_def)
  qed
qed

lemma file_range_append:
  "file_range (p @ d) r = file_range p r @ range_slice (length p) d r"
proof -
  have "snd r + 1 - fst r - (length p - fst r) = snd r + 1 - max (length p) (fst r)" by simp
  then show ?thesis by (simp add: file_range_def range_slice_eq)
qed

lemma ascending_hd: "ascending (r # rs) \<Longrightarrow> fst r \<le> snd r"
  by (cases rs) auto

lemma ascending_later: "ascending (r # rs) \<Longrightarrow> q \<in> set rs \<Longrightarrow> snd r < fst q"
proof (induction rs arbitrary: r)
  case (Cons r' rs)
  then show ?case
    using Cons.IH [of r'] ascending_hd [of r' rs] by (cases "q = r'") fastforce+
qed simp

lemma ascending_tl: "ascending (r # rs) \<Longrightarrow> ascending rs"
  by (cases rs) auto

text \<open>As the ranges ascend, hashing them piece by piece keeps the order of the file.\<close>

lemma ranges_append:
  "ascending rs \<Longrightarrow> concat (map (file_range (p @ d)) rs)
     = concat (map (file_range p) rs) @ concat (map (range_slice (length p) d) rs)"
proof (induction rs)
  case (Cons r rs)
  have ih: "concat (map (file_range (p @ d)) rs)
      = concat (map (file_range p) rs) @ concat (map (range_slice (length p) d) rs)"
    using Cons ascending_tl by blast
  show ?case
  proof (cases "snd r + 1 \<le> length p")
    case True
    then have "range_slice (length p) d r = []" by (simp add: range_slice_eq)
    then show ?thesis using ih file_range_append [of p d r] by simp
  next
    case False
    have "file_range p q = []" if "q \<in> set rs" for q
      using ascending_later [OF Cons.prems that] False by (simp add: file_range_def)
    then have e: "concat (map (file_range p) rs) = []" by simp
    show ?thesis
      by (simp only: list.map concat.simps ih e file_range_append [of p d r] append_Nil append_assoc)
  qed
qed simp

definition ts_ok :: "TriSha1 \<Rightarrow> bool" where
  "ts_ok s \<longleftrightarrow> ascending (ts_ranges s)"

lemma TriSha1_new_ascending: "ascending (ts_ranges (TriSha1_new n))"
proof (cases "n < 31457280")
  case False
  then have "10485759 < n div 2 - 5242880" "n div 2 + 5242879 < n - 10485760"
    "n div 2 - 5242880 \<le> n div 2 + 5242879" "n - 10485760 \<le> n - 1"
    by linarith+
  then show ?thesis using False by (simp add: TriSha1_new_def)
qed (simp add: TriSha1_new_def)

lemma slices_append:
  assumes "ascending rs"
  shows "concat (map (range_slice n (a @ b)) rs)
    = concat (map (range_slice n a) rs) @ concat (map (range_slice (n + length a) b) rs)"
proof -
  define p where "p = replicate n (0 :: u8)"
  have p: "length p = n" by (simp add: p_def)
  have "concat (map (file_range ((p @ a) @ b)) rs) = concat (map (file_range (p @ (a @ b))) rs)"
    by simp
  then show ?thesis
    using ranges_append [OF assms, of "p @ a" b] ranges_append [OF assms, of p "a @ b"]
      ranges_append [OF assms, of p a] p
    by simp
qed

interpretation tri_sha1: incremental "\<lambda>d s. Some (TriSha1_update d s)" ts_ok
proof
  fix s :: TriSha1 and a b :: bytes
  assume ok: "ts_ok s"
  then show "Some (TriSha1_update [] s) = Some s"
    by (cases s) (simp add: TriSha1_update_def feed_ranges_eq range_slice_eq)
  show "Option.bind (Some (TriSha1_update a s)) (\<lambda>s. Some (TriSha1_update b s))
      = Some (TriSha1_update (a @ b) s)"
    using ok slices_append [of "ts_ranges s" "ts_offset s" a b]
    by (simp add: TriSha1_update_def feed_ranges_eq ts_ok_def add.assoc)
  show "\<exists>t. Some (TriSha1_update a s) = Some t \<and> ts_ok t"
    using ok by (simp add: TriSha1_update_def ts_ok_def)
qed

lemma update_all_Some: "update_all (\<lambda>d s. Some (f d s)) ds s = Some (fold f ds s)"
  by (induction ds arbitrary: s) simp_all

text \<open>
  C27: \<open>TriSha1\<close> hashes the right bytes however they arrive. After any sequence of updates whose
  concatenation is the file, the digest is the SHA-1 of the whole file followed by its size when
  the file is shorter than 30 MiB, and otherwise of its first 10 MiB, the 10 MiB around its middle
  and its last 10 MiB followed by its size.
\<close>

theorem TriSha1_pieces:
  "TriSha1_finalize sha1 ne (fold TriSha1_update ds (TriSha1_new (length (concat ds)))) =
    (let d = concat ds; n = length d; M = 10485760 in
     sha1 ((if n < 3 * M then d
            else take M d @ take M (drop (n div 2 - 5242880) d) @ drop (n - M) d) @ ne (of_nat n)))"
proof -
  let ?d = "concat ds" and ?n = "length (concat ds)"
  have "fold TriSha1_update ds (TriSha1_new ?n) = TriSha1_update ?d (TriSha1_new ?n)"
    using tri_sha1.update_all_concat [of "TriSha1_new ?n" ds] TriSha1_new_ascending
    by (simp add: update_all_Some ts_ok_def)
  then have "TriSha1_finalize sha1 ne (fold TriSha1_update ds (TriSha1_new ?n))
      = sha1 (concat (map (range_slice 0 ?d) (ts_ranges (TriSha1_new ?n))) @ ne (of_nat ?n))"
    by (simp add: TriSha1_update_def TriSha1_finalize_def feed_ranges_eq TriSha1_new_def)
  moreover have "concat (map (range_slice 0 ?d) (ts_ranges (TriSha1_new ?n))) =
      (if ?n < 3 * 10485760 then ?d
       else take 10485760 ?d @ take 10485760 (drop (?n div 2 - 5242880) ?d) @ drop (?n - 10485760) ?d)"
  proof (cases "?n < 31457280")
    case False
    have "5242880 \<le> ?n div 2" using False by linarith
    then show ?thesis using False by (simp add: TriSha1_new_def range_slice_eq)
  qed (simp add: TriSha1_new_def range_slice_eq)
  ultimately show ?thesis by (simp add: Let_def)
qed

section \<open>StreamSha1\<close>

type_synonym sha_state = "u32 \<times> u32 \<times> u32 \<times> u32 \<times> u32"

text \<open>
  \<open>digest_blocks\<close> takes what the buffer holds and new input, and gives the blocks to compress and
  what the buffer holds then; \<open>pad\<close> gives the last blocks for what is buffered and the length in
  bits.
\<close>

record sha1_env =
  sha_digest_blocks :: "bytes \<Rightarrow> bytes \<Rightarrow> bytes list \<times> bytes"
  sha_compress :: "sha_state \<Rightarrow> bytes \<Rightarrow> sha_state"
  sha_pad :: "bytes \<Rightarrow> nat \<Rightarrow> bytes list"

record StreamSha1Core =
  sc_h :: sha_state
  sc_block_len :: nat
  sc_buffer :: bytes

definition StreamSha1Core_default :: StreamSha1Core where
  "StreamSha1Core_default =
     \<lparr>sc_h = (0x67452301, 0xEFCDAB89, 0x98BADCFE, 0x10325476, 0xC3D2E1F0),
      sc_block_len = 0, sc_buffer = []\<rparr>"

definition le32 :: "u32 \<Rightarrow> bytes" where "le32 w = rev (be32 w)"

fun sha_words :: "sha_state \<Rightarrow> u32 list" where
  "sha_words (a, b, c, d, e) = [a, b, c, d, e]"

definition core_hash :: "StreamSha1Core \<Rightarrow> bytes" where
  "core_hash c = concat (map le32 (sha_words (sc_h c)))"

definition core_update :: "sha1_env \<Rightarrow> bytes \<Rightarrow> StreamSha1Core \<Rightarrow> StreamSha1Core" where
  "core_update env input c =
     (let (blocks, buf) = sha_digest_blocks env (sc_buffer c) input in
      \<lparr>sc_h = fold (\<lambda>b h. sha_compress env h b) blocks (sc_h c),
       sc_block_len = sc_block_len c + length blocks, sc_buffer = buf\<rparr>)"

definition core_finalize :: "sha1_env \<Rightarrow> StreamSha1Core \<Rightarrow> bytes" where
  "core_finalize env c =
     (let bit_len = 8 * (length (sc_buffer c) + 64 * sc_block_len c);
          h = fold (\<lambda>b h. sha_compress env h b) (sha_pad env (sc_buffer c) bit_len) (sc_h c) in
      concat (map be32 (sha_words h)))"

record StreamSha1 =
  ss_hasher :: StreamSha1Core
  ss_block_size :: nat
  ss_offset :: nat
  ss_digests_stream :: "bytes list"

definition StreamSha1_new_with_size :: "nat \<Rightarrow> StreamSha1" where
  "StreamSha1_new_with_size block_size =
     \<lparr>ss_hasher = StreamSha1Core_default, ss_block_size = block_size, ss_offset = 0,
      ss_digests_stream = []\<rparr>"

definition StreamSha1_new :: StreamSha1 where
  "StreamSha1_new = StreamSha1_new_with_size (1024 * 1024)"

text \<open>
  The recursion ends if the block size is positive; for a block size of zero it does not, and
  overflows the stack. The subtraction and the slice cannot fail, as the offset is below the
  block size; the model panics otherwise.
\<close>

partial_function (option) StreamSha1_update ::
    "sha1_env \<Rightarrow> bytes \<Rightarrow> StreamSha1 \<Rightarrow> StreamSha1 option" where
  "StreamSha1_update env data s =
     (if length data + ss_offset s < ss_block_size s
      then Some (s\<lparr>ss_hasher := core_update env data (ss_hasher s),
                   ss_offset := ss_offset s + length data\<rparr>)
      else if ss_block_size s < ss_offset s then None
      else
        let range = ss_block_size s - ss_offset s;
            hasher = core_update env (take range data) (ss_hasher s) in
        StreamSha1_update env (drop range data)
          (s\<lparr>ss_hasher := hasher, ss_offset := 0,
             ss_digests_stream := ss_digests_stream s @ [core_hash hasher]\<rparr>))"

definition StreamSha1_finalize :: "sha1_env \<Rightarrow> StreamSha1 \<Rightarrow> bytes list" where
  "StreamSha1_finalize env s = ss_digests_stream s @ [core_finalize env (ss_hasher s)]"

text \<open>What an eager buffer does: it keeps fewer than 64 bytes, and cuts whole blocks.\<close>

definition eager_buffer :: "(bytes \<Rightarrow> bytes \<Rightarrow> bytes list \<times> bytes) \<Rightarrow> bool" where
  "eager_buffer db \<longleftrightarrow> (\<forall>buf input blocks rest. db buf input = (blocks, rest) \<longrightarrow>
     concat blocks @ rest = buf @ input \<and> (\<forall>b \<in> set blocks. length b = 64) \<and> length rest < 64)"

text \<open>Cutting into blocks is determined by the bytes.\<close>

lemma blocks_unique:
  assumes "concat xs @ r = concat ys @ t"
    and "\<forall>b \<in> set xs. length b = 64" "\<forall>b \<in> set ys. length b = 64"
    and "length r < 64" "length t < 64"
  shows "xs = ys \<and> r = (t :: bytes)"
  using assms
proof (induction xs arbitrary: ys)
  case Nil
  show ?case
  proof (cases ys)
    case (Cons y ys')
    then have "64 \<le> length (concat ys @ t)" using Nil.prems by simp
    then show ?thesis using Nil.prems(1,4) by (metis append_Nil concat.simps(1) not_less)
  qed (use Nil in simp)
next
  case (Cons x xs)
  show ?case
  proof (cases ys)
    case Nil
    have "64 \<le> length (concat (x # xs) @ r)" using Cons.prems(2) by simp
    then show ?thesis using Cons.prems(1,5) Nil by auto
  next
    case (Cons y ys')
    have "length x = length y" using Cons.prems local.Cons by simp
    then have "x = y" "concat xs @ r = concat ys' @ t"
      using Cons.prems(1) local.Cons by simp_all
    then show ?thesis using Cons.IH [of ys'] Cons.prems local.Cons by simp
  qed
qed

lemma digest_blocks_append:
  assumes eb: "eager_buffer db"
    and a: "db buf a = (bs, r)" and b: "db r b = (cs, t)"
  shows "db buf (a @ b) = (bs @ cs, t)"
proof -
  obtain ds u where d: "db buf (a @ b) = (ds, u)" by (cases "db buf (a @ b)")
  note spec = eb [unfolded eager_buffer_def, rule_format]
  have "concat ds @ u = concat (bs @ cs) @ t"
    using spec [OF a] spec [OF b] spec [OF d] by (metis append.assoc concat_append)
  then have "ds = bs @ cs \<and> u = t"
    using spec [OF a] spec [OF b] spec [OF d] by (intro blocks_unique) auto
  then show ?thesis using d by simp
qed

lemma core_update_append:
  assumes "eager_buffer (sha_digest_blocks env)"
  shows "core_update env b (core_update env a c) = core_update env (a @ b) c"
proof -
  obtain bs r where a: "sha_digest_blocks env (sc_buffer c) a = (bs, r)"
    by (cases "sha_digest_blocks env (sc_buffer c) a")
  obtain cs t where b: "sha_digest_blocks env r b = (cs, t)"
    by (cases "sha_digest_blocks env r b")
  show ?thesis
    using digest_blocks_append [OF assms a b] by (simp add: core_update_def a b)
qed

lemma core_update_empty:
  assumes "eager_buffer (sha_digest_blocks env)" and "length (sc_buffer c) < 64"
  shows "core_update env [] c = c"
proof -
  obtain bs r where a: "sha_digest_blocks env (sc_buffer c) [] = (bs, r)"
    by (cases "sha_digest_blocks env (sc_buffer c) []")
  note spec = assms(1) [unfolded eager_buffer_def, rule_format, OF a]
  have "bs = [] \<and> r = sc_buffer c"
    using spec assms(2) blocks_unique [of bs r "[]" "sc_buffer c"] by simp
  then show ?thesis using a by (simp add: core_update_def)
qed

lemma core_update_buffer:
  "eager_buffer (sha_digest_blocks env) \<Longrightarrow> length (sc_buffer (core_update env a c)) < 64"
  by (auto simp: core_update_def eager_buffer_def split: prod.splits)

text \<open>The state after the bytes \<open>p\<close>, whatever the updates.\<close>

definition block_digests :: "sha1_env \<Rightarrow> nat \<Rightarrow> bytes \<Rightarrow> bytes list" where
  "block_digests env block_size p =
     map (\<lambda>i. core_hash (core_update env (take (i * block_size) p) StreamSha1Core_default))
       [1..<Suc (length p div block_size)]"

definition state_of :: "sha1_env \<Rightarrow> nat \<Rightarrow> bytes \<Rightarrow> StreamSha1" where
  "state_of env block_size p =
     \<lparr>ss_hasher = core_update env p StreamSha1Core_default, ss_block_size = block_size,
      ss_offset = length p mod block_size, ss_digests_stream = block_digests env block_size p\<rparr>"

lemma state_of_new:
  "eager_buffer (sha_digest_blocks env) \<Longrightarrow>
     state_of env block_size [] = StreamSha1_new_with_size block_size"
  by (simp add: state_of_def block_digests_def StreamSha1_new_with_size_def core_update_empty
      StreamSha1Core_default_def)

lemma block_digests_same:
  assumes "0 < bs" and "length (p @ d) div bs = length p div bs"
  shows "block_digests env bs (p @ d) = block_digests env bs p"
proof -
  have t: "take (i * bs) (p @ d) = take (i * bs) p" if "i \<in> set [1..<Suc (length p div bs)]" for i
  proof -
    have "i \<le> length p div bs" using that by auto
    then have "i * bs \<le> length p div bs * bs" by (rule mult_le_mono1)
    also have "\<dots> \<le> length p" by (rule div_times_less_eq_dividend)
    finally show ?thesis by simp
  qed
  show ?thesis
    unfolding block_digests_def assms(2)
    by (rule map_cong [OF refl]) (simp only: t)
qed

lemma div_mod_parts: "x < bs \<Longrightarrow> (q * bs + x) div bs = q \<and> (q * bs + x) mod bs = (x :: nat)"
  by simp

lemma block_digests_next:
  assumes "0 < bs" and "length d = bs - length p mod bs"
  shows "block_digests env bs (p @ d) = block_digests env bs p
      @ [core_hash (core_update env (p @ d) StreamSha1Core_default)]"
    and "length (p @ d) mod bs = 0"
proof -
  define q where "q = length p div bs"
  have p: "length p = q * bs + length p mod bs" by (simp add: q_def)
  have "length p mod bs < bs" using assms(1) by simp
  then have len: "length (p @ d) = Suc q * bs"
    using p assms(2) by (simp del: mod_less_divisor)
  have t: "take (i * bs) (p @ d) = take (i * bs) p" if "i \<in> set [1..<Suc q]" for i
  proof -
    have "i \<le> q" using that by auto
    then have "i * bs \<le> q * bs" by (rule mult_le_mono1)
    then have "i * bs \<le> length p" using p by linarith
    then show ?thesis by simp
  qed
  have n: "length (p @ d) div bs = Suc q" unfolding len using assms(1) by simp
  have all: "take (Suc q * bs) (p @ d) = p @ d" using len by simp
  have "[1..<Suc (Suc q)] = [1..<Suc q] @ [Suc q]" by simp
  then show "block_digests env bs (p @ d) = block_digests env bs p
      @ [core_hash (core_update env (p @ d) StreamSha1Core_default)]"
    unfolding block_digests_def n q_def [symmetric]
    by (simp only: map_append list.map all) (rule arg_cong2 [of _ _ _ _ append],
      (rule map_cong [OF refl], simp only: t), rule refl)
  show "length (p @ d) mod bs = 0" using len by (simp del: length_append)
qed

lemma StreamSha1_update_state_of:
  assumes eb: "eager_buffer (sha_digest_blocks env)" and bs: "0 < bs"
  shows "StreamSha1_update env d (state_of env bs p) = Some (state_of env bs (p @ d))"
proof (induction "length d" arbitrary: d p rule: less_induct)
  case less
  show ?case
  proof (cases "length d + length p mod bs < bs")
    case True
    have e: "length (p @ d) = length p div bs * bs + (length d + length p mod bs)" by simp
    have "length (p @ d) div bs = length p div bs"
      and "length (p @ d) mod bs = length p mod bs + length d"
      unfolding e using div_mod_parts [OF True, of "length p div bs"] by simp_all
    then show ?thesis
      using True block_digests_same [OF bs, of p d env] core_update_append [OF eb]
      by (subst StreamSha1_update.simps) (simp add: state_of_def add.commute)
  next
    case False
    define range where "range = bs - length p mod bs"
    have r: "0 < range" "range \<le> length d" "length (take range d) = range"
      using False bs by (auto simp: range_def)
    have "length (drop range d) < length d" using r by simp
    then have ih: "StreamSha1_update env (drop range d) (state_of env bs (p @ take range d))
        = Some (state_of env bs (p @ d))"
      using less.hyps [of "drop range d" "p @ take range d"] by simp
    have lt: "\<not> bs < length p mod bs" using bs by (simp add: not_less)
    have s': "(state_of env bs p)\<lparr>ss_hasher := core_update env (take range d) (ss_hasher (state_of env bs p)),
        ss_offset := 0, ss_digests_stream := ss_digests_stream (state_of env bs p)
          @ [core_hash (core_update env (take range d) (ss_hasher (state_of env bs p)))]\<rparr>
      = state_of env bs (p @ take range d)"
      using block_digests_next(1) [OF bs, of "take range d" p env]
        block_digests_next(2) [OF bs, of "take range d" p] r(3)
      by (simp add: state_of_def core_update_append [OF eb] range_def)
    have "ss_block_size (state_of env bs p) - ss_offset (state_of env bs p) = range"
        "ss_block_size (state_of env bs p) = bs" "ss_offset (state_of env bs p) = length p mod bs"
      by (simp_all add: state_of_def range_def)
    then show ?thesis
      using False lt ih s' by (subst StreamSha1_update.simps) (simp add: Let_def)
  qed
qed

definition reachable_state :: "sha1_env \<Rightarrow> nat \<Rightarrow> StreamSha1 \<Rightarrow> bool" where
  "reachable_state env bs s \<longleftrightarrow>
     eager_buffer (sha_digest_blocks env) \<and> 0 < bs \<and> (\<exists>p. s = state_of env bs p)"

interpretation stream_sha1: incremental "StreamSha1_update env" "reachable_state env bs" for env bs
  by unfold_locales (auto simp: reachable_state_def StreamSha1_update_state_of)

lemma update_all_new:
  assumes "eager_buffer (sha_digest_blocks env)" and "0 < bs"
  shows "update_all (StreamSha1_update env) ds (StreamSha1_new_with_size bs) = Some (state_of env bs (concat ds))"
proof -
  have new: "StreamSha1_new_with_size bs = state_of env bs []" using state_of_new [OF assms(1)] by simp
  have "reachable_state env bs (state_of env bs [])" using assms by (auto simp: reachable_state_def)
  from stream_sha1.update_all_concat [OF this, of ds] show ?thesis
    using StreamSha1_update_state_of [OF assms, of "concat ds" "[]"] new by simp
qed

text \<open>
  C28: \<open>StreamSha1\<close> gives the same digests however the file is cut. For a positive block size,
  every sequence of updates returns, and \<open>finalize\<close> gives the SHA-1 chaining value after each
  whole block of the file, in order, and then the SHA-1 of the file.
\<close>

theorem StreamSha1_pieces:
  assumes "eager_buffer (sha_digest_blocks env)" and "0 < bs"
  shows "map_option (StreamSha1_finalize env)
      (update_all (StreamSha1_update env) ds (StreamSha1_new_with_size bs)) =
    (let d = concat ds in
     Some (map (\<lambda>i. core_hash (core_update env (take (i * bs) d) StreamSha1Core_default))
         [1..<Suc (length d div bs)]
       @ [core_finalize env (core_update env d StreamSha1Core_default)]))"
  using update_all_new [OF assms]
  by (simp add: StreamSha1_finalize_def state_of_def block_digests_def Let_def)

text \<open>A block buffer for examples.\<close>

fun cut64 :: "bytes \<Rightarrow> bytes list \<times> bytes" where
  "cut64 bs = (if length bs < 64 then ([], bs)
     else let (xs, r) = cut64 (drop 64 bs) in (take 64 bs # xs, r))"

declare cut64.simps [simp del]

lemma cut64_eager: "eager_buffer (\<lambda>buf input. cut64 (buf @ input))"
proof -
  have "cut64 x = (xs, r) \<Longrightarrow>
      concat xs @ r = x \<and> (\<forall>b \<in> set xs. length b = 64) \<and> length r < 64" for x xs r
  proof (induction x arbitrary: xs r rule: cut64.induct)
    case (1 x)
    show ?case
    proof (cases "length x < 64")
      case True
      then show ?thesis using "1.prems" by (simp add: cut64.simps)
    next
      case False
      obtain ys t where y: "cut64 (drop 64 x) = (ys, t)" by (cases "cut64 (drop 64 x)")
      then have "xs = take 64 x # ys \<and> r = t"
        using "1.prems" False by (subst (asm) cut64.simps) auto
      then show ?thesis using "1.IH" [OF False y] False by simp
    qed
  qed
  then show ?thesis by (simp add: eager_buffer_def)
qed

definition demo_sha1_env :: sha1_env where
  "demo_sha1_env = \<lparr>sha_digest_blocks = (\<lambda>buf input. cut64 (buf @ input)),
     sha_compress = (\<lambda>h b. h), sha_pad = (\<lambda>buf n. [])\<rparr>"

theorem StreamSha1_pieces_witness:
  "\<exists>x y. map_option (StreamSha1_finalize demo_sha1_env)
     (update_all (StreamSha1_update demo_sha1_env) [[1], [2, 3]] (StreamSha1_new_with_size 2))
   = Some [x, y]"
proof -
  have "eager_buffer (sha_digest_blocks demo_sha1_env)" "0 < (2 :: nat)"
    by (simp_all add: demo_sha1_env_def cut64_eager)
  from StreamSha1_pieces [OF this, of "[[1], [2, 3]]"]
  have "map_option (StreamSha1_finalize demo_sha1_env)
      (update_all (StreamSha1_update demo_sha1_env) [[1], [2, 3]] (StreamSha1_new_with_size 2))
    = Some [core_hash (core_update demo_sha1_env [1, 2] StreamSha1Core_default),
        core_finalize demo_sha1_env (core_update demo_sha1_env [1, 2, 3] StreamSha1Core_default)]"
    by (simp add: upt_rec del: update_all.simps)
  then show ?thesis by blast
qed

lemma StreamSha1_zero_block: "StreamSha1_update env d s = Some t \<Longrightarrow> ss_block_size s \<noteq> 0"
proof (rule StreamSha1_update.raw_induct [where P = "\<lambda>env d s t. ss_block_size s \<noteq> 0"])
  fix f and e :: sha1_env and x :: bytes and u v :: StreamSha1
  assume ih: "\<And>e x u v. f e x u = Some v \<Longrightarrow> ss_block_size u \<noteq> 0"
    and body: "(if length x + ss_offset u < ss_block_size u
      then Some (u\<lparr>ss_hasher := core_update e x (ss_hasher u), ss_offset := ss_offset u + length x\<rparr>)
      else if ss_block_size u < ss_offset u then None
      else let range = ss_block_size u - ss_offset u;
               hasher = core_update e (take range x) (ss_hasher u) in
           f e (drop range x) (u\<lparr>ss_hasher := hasher, ss_offset := 0,
             ss_digests_stream := ss_digests_stream u @ [core_hash hasher]\<rparr>)) = Some v"
  from body show "ss_block_size u \<noteq> 0"
    by (auto simp: Let_def split: if_splits dest!: ih)
qed

end
