(* ===== verification/Sso_Sequence.thy ===== *)
theory Sso_Sequence
  imports Mania_Prelude
begin

text \<open>
  \<open>SsoPacket::next_sequence\<close> of \<open>mania/src/core/packet.rs\<close>: the global counter \<open>SEQUENCE\<close>, which
  the first caller sets to a random start while the others wait, as a state machine over the
  interleavings of any number of concurrent calls. A step is one atomic access to the counter (all
  accesses are to one location, on which they are totally ordered whatever their memory
  ordering). A call is a number; \<open>sq_pc\<close> says where it is, \<open>sq_log\<close> lists the values returned so
  far.
\<close>

section \<open>The machine\<close>

datatype seq_pc = SeqStart | SeqInit | SeqWait | SeqAdd | SeqDone u32

record seq_state =
  sq_value :: u32
  sq_pc :: "nat \<Rightarrow> seq_pc"
  sq_log :: "u32 list"

definition seq_initial :: seq_state where
  "seq_initial = \<lparr>sq_value = 0, sq_pc = (\<lambda>_. SeqStart), sq_log = []\<rparr>"

definition goto :: "nat \<Rightarrow> seq_pc \<Rightarrow> seq_state \<Rightarrow> seq_state" where
  "goto i pc s = s\<lparr>sq_pc := (sq_pc s)(i := pc)\<rparr>"

inductive seq_step :: "seq_state \<Rightarrow> seq_state \<Rightarrow> bool" where
  cas_ok: "sq_pc s i = SeqStart \<Longrightarrow> sq_value s = 0 \<Longrightarrow>
    seq_step s (goto i SeqInit (s\<lparr>sq_value := 1\<rparr>))"
| cas_fail: "sq_pc s i = SeqStart \<Longrightarrow> sq_value s \<noteq> 0 \<Longrightarrow> seq_step s (goto i SeqWait s)"
| store: "sq_pc s i = SeqInit \<Longrightarrow> 5000000 \<le> offset \<Longrightarrow> offset \<le> 9900000 \<Longrightarrow>
    seq_step s (goto i SeqAdd (s\<lparr>sq_value := offset\<rparr>))"
| spin: "sq_pc s i = SeqWait \<Longrightarrow> sq_value s = 1 \<Longrightarrow> seq_step s s"
| go_on: "sq_pc s i = SeqWait \<Longrightarrow> sq_value s \<noteq> 1 \<Longrightarrow> seq_step s (goto i SeqAdd s)"
| fetch_add: "sq_pc s i = SeqAdd \<Longrightarrow>
    seq_step s (goto i (SeqDone (sq_value s))
      (s\<lparr>sq_value := sq_value s + 1, sq_log := sq_log s @ [sq_value s]\<rparr>))"

inductive seq_reachable :: "seq_state \<Rightarrow> bool" where
  seq_reachable_init: "seq_reachable seq_initial"
| seq_reachable_step: "seq_reachable s \<Longrightarrow> seq_step s t \<Longrightarrow> seq_reachable t"

inductive_cases seq_stepE: "seq_step s t"

lemma goto_simps [simp]:
  "sq_value (goto i pc s) = sq_value s" "sq_log (goto i pc s) = sq_log s"
  "sq_pc (goto i pc s) = (sq_pc s)(i := pc)"
  by (simp_all add: goto_def)

section \<open>The invariant\<close>

text \<open>The number of values handed out before the counter would come back to zero.\<close>

definition seq_limit :: nat where "seq_limit = 2 ^ 32 - 9900000 - 1"

definition counting :: "u32 \<Rightarrow> seq_state \<Rightarrow> bool" where
  "counting offset s \<longleftrightarrow>
     5000000 \<le> offset \<and> offset \<le> 9900000 \<and>
     sq_value s = offset + of_nat (length (sq_log s)) \<and>
     sq_log s = map (\<lambda>k. offset + of_nat k) [0..<length (sq_log s)] \<and>
     (\<forall>i. sq_pc s i \<noteq> SeqInit)"

definition seq_inv :: "seq_state \<Rightarrow> bool" where
  "seq_inv s \<longleftrightarrow>
     (sq_value s = 0 \<and> sq_log s = [] \<and> (\<forall>i. sq_pc s i = SeqStart)) \<or>
     (sq_value s = 1 \<and> sq_log s = [] \<and>
        (\<exists>i. sq_pc s i = SeqInit \<and> (\<forall>j. j \<noteq> i \<longrightarrow> sq_pc s j = SeqStart \<or> sq_pc s j = SeqWait))) \<or>
     (\<exists>offset. counting offset s)"

lemma unat_offset_add:
  assumes "offset \<le> (9900000 :: u32)" and "k \<le> seq_limit"
  shows "unat (offset + of_nat k) = unat offset + k"
proof -
  have "unat offset \<le> 9900000" using assms(1) by (simp add: word_le_nat_alt)
  then have "unat offset + k < 2 ^ 32" using assms(2) by (simp add: seq_limit_def)
  moreover have "unat (of_nat k :: u32) = k"
    using assms(2) by (intro unat_of_nat_small) (simp add: seq_limit_def)
  ultimately show ?thesis by (simp add: unat_word_ariths)
qed

lemma counting_value:
  assumes "counting offset s" and "length (sq_log s) \<le> seq_limit"
  shows "sq_value s \<noteq> 0" and "sq_value s \<noteq> 1"
proof -
  have "5000000 \<le> unat offset" using assms(1) by (simp add: counting_def word_le_nat_alt)
  then have "5000000 \<le> unat (sq_value s)"
    using unat_offset_add [of offset "length (sq_log s)"] assms by (simp add: counting_def)
  then show "sq_value s \<noteq> 0" "sq_value s \<noteq> 1" by auto
qed

lemma seq_step_log: "seq_step s t \<Longrightarrow> length (sq_log s) \<le> length (sq_log t)"
  by (auto elim: seq_stepE)

lemma counting_step:
  assumes "counting offset s" and "length (sq_log s) \<le> seq_limit" and "seq_step s t"
  shows "counting offset t"
  using assms(3)
proof cases
  case (fetch_add i)
  then show ?thesis using assms(1) by (simp add: counting_def algebra_simps)
qed (use assms(1) counting_value [OF assms(1,2)] in \<open>auto simp: counting_def\<close>)

lemma seq_inv_step:
  assumes "seq_inv s" and "seq_step s t" and "length (sq_log t) \<le> seq_limit"
  shows "seq_inv t"
proof -
  have len: "length (sq_log s) \<le> seq_limit" using assms(2,3) seq_step_log by fastforce
  consider (fresh) "sq_value s = 0" "sq_log s = []" "\<forall>i. sq_pc s i = SeqStart"
    | (init) i where "sq_value s = 1" "sq_log s = []" "sq_pc s i = SeqInit"
        "\<forall>j. j \<noteq> i \<longrightarrow> sq_pc s j = SeqStart \<or> sq_pc s j = SeqWait"
    | (count) offset where "counting offset s"
    using assms(1) by (auto simp: seq_inv_def)
  then show ?thesis
  proof cases
    case fresh
    then show ?thesis using assms(2) by (auto elim!: seq_stepE simp: seq_inv_def)
  next
    case (init i)
    from assms(2) show ?thesis
    proof cases
      case (store j offset)
      then have "j = i" using init(3,4) by (metis seq_pc.distinct(1) seq_pc.distinct(9))
      have "sq_pc s k \<noteq> SeqInit" if "k \<noteq> i" for k
        using init(4) that by (metis seq_pc.distinct(1) seq_pc.distinct(9))
      then have "counting offset t" using init store \<open>j = i\<close> by (simp add: counting_def)
      then show ?thesis by (auto simp: seq_inv_def)
    next
      case (cas_fail j)
      then have "sq_value t = 1 \<and> sq_log t = [] \<and> sq_pc t i = SeqInit
          \<and> (\<forall>k. k \<noteq> i \<longrightarrow> sq_pc t k = SeqStart \<or> sq_pc t k = SeqWait)"
        using init by auto
      then show ?thesis unfolding seq_inv_def by blast
    next
      case (fetch_add j)
      then have False using init(3,4) by (metis seq_pc.distinct(5) seq_pc.distinct(11) seq_pc.distinct(15) seq_pc.simps)
      then show ?thesis ..
    qed (use init assms(1) in force)+
  next
    case (count offset)
    then show ?thesis using counting_step [OF count len assms(2)] by (auto simp: seq_inv_def)
  qed
qed

lemma seq_inv_reachable: "seq_reachable s \<Longrightarrow> length (sq_log s) \<le> seq_limit \<Longrightarrow> seq_inv s"
proof (induction rule: seq_reachable.induct)
  case seq_reachable_init
  then show ?case by (simp add: seq_inv_def seq_initial_def)
next
  case (seq_reachable_step s t)
  then show ?case using seq_inv_step seq_step_log by (meson le_trans)
qed

section \<open>Properties\<close>

text \<open>
  C29: Sequence numbers are unique and consecutive. In every interleaving of any number of calls,
  as long as no more than \<open>2 ^ 32 - 9900001\<close> numbers have been handed out, the numbers returned
  so far are consecutive in the order of the atomic increments, start between 5000000 and 9900000,
  and are pairwise different: two calls that race for the initialisation cannot both perform it,
  and none sees the marker value 1.
\<close>

theorem next_sequence_unique:
  assumes "seq_reachable s" and "length (sq_log s) \<le> 2 ^ 32 - 9900001"
  shows "distinct (sq_log s) \<and> (sq_log s \<noteq> [] \<longrightarrow> 5000000 \<le> hd (sq_log s) \<and> hd (sq_log s) \<le> 9900000
    \<and> sq_log s = map (\<lambda>k. hd (sq_log s) + of_nat k) [0..<length (sq_log s)])"
proof (cases "sq_log s = []")
  case False
  have lim: "length (sq_log s) \<le> seq_limit" using assms(2) by (simp add: seq_limit_def)
  then obtain offset where c: "counting offset s"
    using seq_inv_reachable [OF assms(1)] False by (auto simp: seq_inv_def)
  then have l: "sq_log s = map (\<lambda>k. offset + of_nat k) [0..<length (sq_log s)]"
    and o: "5000000 \<le> offset" "offset \<le> 9900000"
    by (simp_all add: counting_def)
  have "hd (map (\<lambda>k. offset + of_nat k) [0..<length (sq_log s)]) = offset"
    using False by (simp add: hd_map)
  then have h: "hd (sq_log s) = offset" using l by metis
  have "inj_on (\<lambda>k. offset + of_nat k) (set [0..<length (sq_log s)])"
  proof (rule inj_onI)
    fix j k assume j: "j \<in> set [0..<length (sq_log s)]" and k: "k \<in> set [0..<length (sq_log s)]"
      and e: "offset + of_nat j = offset + of_nat k"
    have "j \<le> seq_limit" "k \<le> seq_limit" using j k lim by auto
    then have "unat offset + j = unat offset + k"
      using unat_offset_add [OF o(2)] e by metis
    then show "j = k" by simp
  qed
  then have "distinct (map (\<lambda>k. offset + of_nat k) [0..<length (sq_log s)])"
    by (simp add: distinct_map)
  then have "distinct (sq_log s)" using l by metis
  then show ?thesis using o l h by simp
qed simp

theorem next_sequence_unique_witness:
  "distinct [5000000, 5000001 :: u32] \<and> (\<exists>s. seq_reachable s \<and> sq_log s = [5000000, 5000001])"
proof -
  define s1 where "s1 = goto 0 SeqInit (seq_initial\<lparr>sq_value := 1\<rparr>)"
  define s2 where "s2 = goto 1 SeqWait s1"
  define s3 where "s3 = goto 0 SeqAdd (s2\<lparr>sq_value := 5000000\<rparr>)"
  define s4 where "s4 = goto 1 SeqAdd s3"
  define s5 where "s5 = goto 1 (SeqDone 5000000) (s4\<lparr>sq_value := 5000001, sq_log := [5000000]\<rparr>)"
  define s6 where "s6 = goto 0 (SeqDone 5000001) (s5\<lparr>sq_value := 5000002, sq_log := [5000000, 5000001]\<rparr>)"
  note d = s1_def s2_def s3_def s4_def s5_def s6_def seq_initial_def
  have "seq_step seq_initial s1" unfolding s1_def by (rule cas_ok) (simp_all add: d)
  moreover have "seq_step s1 s2" unfolding s2_def by (rule cas_fail) (simp_all add: d)
  moreover have "seq_step s2 s3" unfolding s3_def by (rule store) (simp_all add: d)
  moreover have "seq_step s3 s4" unfolding s4_def by (rule go_on) (simp_all add: d)
  moreover have "seq_step s4 s5"
    using fetch_add [of s4 1] by (simp add: d)
  moreover have "seq_step s5 s6"
    using fetch_add [of s5 0] by (simp add: d)
  ultimately have r: "seq_reachable s6" by (meson seq_reachable.intros)
  have l: "sq_log s6 = [5000000, 5000001]" by (simp add: s6_def)
  have "length (sq_log s6) \<le> 2 ^ 32 - 9900001" by (simp add: l)
  from next_sequence_unique [OF r this] show ?thesis using l r by auto
qed

section \<open>Every call can return\<close>

lemma seq_steps_return:
  assumes "sq_pc s i = SeqWait \<or> sq_pc s i = SeqAdd" and "sq_value s \<noteq> 1"
  shows "\<exists>t v. seq_step\<^sup>*\<^sup>* s t \<and> sq_pc t i = SeqDone v"
proof -
  obtain u where u: "seq_step\<^sup>*\<^sup>* s u" "sq_pc u i = SeqAdd"
  proof (cases "sq_pc s i = SeqAdd")
    case True
    then show ?thesis using that by blast
  next
    case False
    then have "seq_step s (goto i SeqAdd s)" using assms by (intro go_on) auto
    then show ?thesis using that [of "goto i SeqAdd s"] by auto
  qed
  have "seq_step u (goto i (SeqDone (sq_value u))
      (u\<lparr>sq_value := sq_value u + 1, sq_log := sq_log u @ [sq_value u]\<rparr>))"
    by (rule fetch_add [OF u(2)])
  with u(1) show ?thesis by (fastforce dest: rtranclp.rtrancl_into_rtrancl)
qed

text \<open>
  C30: No call is stuck. From every reachable state of the counter (below the same limit), every
  call, wherever it is, can be brought to return: in particular a call that spins while another
  one initialises the counter can always be released.
\<close>

theorem next_sequence_returns:
  assumes "seq_reachable s" and "length (sq_log s) \<le> 2 ^ 32 - 9900001"
  shows "\<exists>t v. seq_step\<^sup>*\<^sup>* s t \<and> sq_pc t i = SeqDone v"
proof -
  have "length (sq_log s) \<le> seq_limit" using assms(2) by (simp add: seq_limit_def)
  then have inv: "seq_inv s" using assms(1) seq_inv_reachable by blast
  obtain u where u: "seq_step\<^sup>*\<^sup>* s u" "sq_value u \<noteq> 0" "sq_value u \<noteq> 1"
      "sq_pc u i \<noteq> SeqInit"
  proof -
    consider (fresh) "sq_value s = 0" "\<forall>j. sq_pc s j = SeqStart"
      | (init) j where "sq_value s = 1" "sq_pc s j = SeqInit"
          "\<forall>k. k \<noteq> j \<longrightarrow> sq_pc s k = SeqStart \<or> sq_pc s k = SeqWait"
      | (count) offset where "counting offset s"
      using inv by (auto simp: seq_inv_def)
    then show ?thesis
    proof cases
      case fresh
      define a where "a = goto i SeqInit (s\<lparr>sq_value := 1\<rparr>)"
      have "seq_step s a" unfolding a_def by (rule cas_ok) (simp_all add: fresh)
      moreover have "seq_step a (goto i SeqAdd (a\<lparr>sq_value := 5000000\<rparr>))"
        by (rule store) (simp_all add: a_def)
      ultimately show ?thesis
        by (intro that [of "goto i SeqAdd (a\<lparr>sq_value := 5000000\<rparr>)"]) auto
    next
      case (init j)
      have "seq_step s (goto j SeqAdd (s\<lparr>sq_value := 5000000\<rparr>))"
        by (rule store) (simp_all add: init)
      then show ?thesis
        using init by (intro that [of "goto j SeqAdd (s\<lparr>sq_value := 5000000\<rparr>)"]) auto
    next
      case (count offset)
      then show ?thesis
        using that [of s] counting_value [OF count] \<open>length (sq_log s) \<le> seq_limit\<close>
        by (auto simp: counting_def)
    qed
  qed
  show ?thesis
  proof (cases "sq_pc u i")
    case SeqStart
    then have "seq_step u (goto i SeqWait u)" using u by (intro cas_fail) auto
    then have "seq_step\<^sup>*\<^sup>* s (goto i SeqWait u)" using u(1) by simp
    moreover obtain t v where "seq_step\<^sup>*\<^sup>* (goto i SeqWait u) t" "sq_pc t i = SeqDone v"
      using seq_steps_return [of "goto i SeqWait u" i] u(3) by auto
    ultimately show ?thesis by (meson rtranclp_trans)
  next
    case SeqInit
    then show ?thesis using u(4) by simp
  next
    case (SeqDone v)
    then show ?thesis using u(1) by blast
  qed (use seq_steps_return [of u i] u in \<open>meson rtranclp_trans\<close>)+
qed

theorem next_sequence_returns_witness:
  "\<exists>t v. seq_step\<^sup>*\<^sup>* seq_initial t \<and> sq_pc t 7 = SeqDone v"
  by (rule next_sequence_returns [OF seq_reachable_init]) (simp add: seq_initial_def)

end
