(* ===== verification/Id_Cache.thy ===== *)
theory Id_Cache
  imports Mania_Context
begin

text \<open>
  The entities of the contact list (\<open>mania/src/entity/bot_friend.rs\<close>, \<open>bot_group_member.rs\<close>) and
  the cache of \<open>mania/src/core/cache.rs\<close>: two tables between account numbers and uids, the friends
  and the members of each group. Which tables exist depends on the cache mode. A \<open>DashMap\<close> is a
  finite map; an \<open>Option<DashMap>\<close> that is \<open>None\<close> makes an \<open>unwrap\<close> panic. A time is its number
  of seconds.
\<close>

section \<open>Entities\<close>

record BotFriendGroup =
  bfg_group_id :: u32
  bfg_group_name :: rstring

record BotFriend =
  bf_uin :: u32
  bf_uid :: rstring
  bf_nickname :: rstring
  bf_remarks :: rstring
  bf_personal_sign :: rstring
  bf_qid :: rstring
  bf_group :: "BotFriendGroup option"
  bf_avatar :: rstring

definition avatar_url :: "u32 \<Rightarrow> rstring" where
  "avatar_url uin = str ''https://q1.qlogo.cn/g?b=qq&nk='' @ dec_str (unat uin) @ str ''&s=640''"

definition BotFriend_new ::
    "u32 \<Rightarrow> rstring \<Rightarrow> rstring \<Rightarrow> rstring \<Rightarrow> rstring \<Rightarrow> rstring \<Rightarrow> BotFriendGroup option \<Rightarrow> BotFriend" where
  "BotFriend_new uin uid nickname remarks personal_sign qid grp =
     \<lparr>bf_uin = uin, bf_uid = uid, bf_nickname = nickname, bf_remarks = remarks,
      bf_personal_sign = personal_sign, bf_qid = qid, bf_group = grp,
      bf_avatar = avatar_url uin\<rparr>"

datatype GroupMemberPermission = PermMember | PermOwner | PermAdmin

definition GroupMemberPermission_try_from :: "u32 \<Rightarrow> unit + GroupMemberPermission" where
  "GroupMemberPermission_try_from v =
     (if v = 0 then Inr PermMember else if v = 1 then Inr PermOwner
      else if v = 2 then Inr PermAdmin else Inl ())"

record BotGroupMember =
  bgm_uin :: u32
  bgm_uid :: rstring
  bgm_permission :: GroupMemberPermission
  bgm_group_level :: u32
  bgm_member_card :: "rstring option"
  bgm_special_title :: "rstring option"
  bgm_member_name :: "rstring option"
  bgm_join_time :: "int option"
  bgm_last_msg_time :: "int option"
  bgm_shut_up_timestamp :: "int option"

definition BotGroupMember_avatar :: "BotGroupMember \<Rightarrow> rstring" where
  "BotGroupMember_avatar m = avatar_url (bgm_uin m)"

section \<open>The cache\<close>

record Cache =
  ca_mode :: CacheMode
  ca_uin2uid :: "(u32 \<rightharpoonup> rstring) option"
  ca_uid2uin :: "(rstring \<rightharpoonup> u32) option"
  ca_friends :: "(u32 \<rightharpoonup> BotFriend) option"
  ca_members :: "(u32 \<rightharpoonup> BotGroupMember list) option"

definition Cache_full :: Cache where
  "Cache_full = \<lparr>ca_mode = Full, ca_uin2uid = Some (\<lambda>_. None), ca_uid2uin = Some (\<lambda>_. None),
     ca_friends = Some (\<lambda>_. None), ca_members = Some (\<lambda>_. None)\<rparr>"

definition Cache_half :: Cache where
  "Cache_half = \<lparr>ca_mode = Half, ca_uin2uid = None, ca_uid2uin = None,
     ca_friends = Some (\<lambda>_. None), ca_members = Some (\<lambda>_. None)\<rparr>"

definition Cache_none :: Cache where
  "Cache_none = \<lparr>ca_mode = NoCache, ca_uin2uid = None, ca_uid2uin = None,
     ca_friends = None, ca_members = None\<rparr>"

fun Cache_new :: "CacheMode \<Rightarrow> Cache" where
  "Cache_new Full = Cache_full"
| "Cache_new Half = Cache_half"
| "Cache_new NoCache = Cache_none"

definition insert_uin_uid :: "u32 \<Rightarrow> rstring \<Rightarrow> Cache \<Rightarrow> Cache" where
  "insert_uin_uid uin uid c =
     c\<lparr>ca_uin2uid := map_option (\<lambda>m. m(uin \<mapsto> uid)) (ca_uin2uid c),
       ca_uid2uin := map_option (\<lambda>m. m(uid \<mapsto> uin)) (ca_uid2uin c)\<rparr>"

section \<open>Well-formedness and consistency\<close>

text \<open>Exactly the tables of the mode exist.\<close>

definition cache_wf :: "Cache \<Rightarrow> bool" where
  "cache_wf c \<longleftrightarrow>
     (ca_uin2uid c \<noteq> None \<longleftrightarrow> ca_mode c = Full) \<and> (ca_uid2uin c \<noteq> None \<longleftrightarrow> ca_mode c = Full) \<and>
     (ca_friends c \<noteq> None \<longleftrightarrow> ca_mode c \<noteq> NoCache) \<and> (ca_members c \<noteq> None \<longleftrightarrow> ca_mode c \<noteq> NoCache)"

text \<open>Everything in the cache is true of the accounts, given as a relation.\<close>

definition friend_true :: "(u32 \<Rightarrow> rstring \<Rightarrow> bool) \<Rightarrow> BotFriend \<Rightarrow> bool" where
  "friend_true ids f \<longleftrightarrow> ids (bf_uin f) (bf_uid f)"

definition member_true :: "(u32 \<Rightarrow> rstring \<Rightarrow> bool) \<Rightarrow> BotGroupMember \<Rightarrow> bool" where
  "member_true ids m \<longleftrightarrow> ids (bgm_uin m) (bgm_uid m)"

definition cache_true :: "(u32 \<Rightarrow> rstring \<Rightarrow> bool) \<Rightarrow> Cache \<Rightarrow> bool" where
  "cache_true ids c \<longleftrightarrow>
     (\<forall>t. ca_uin2uid c = Some t \<longrightarrow> (\<forall>uin uid. t uin = Some uid \<longrightarrow> ids uin uid)) \<and>
     (\<forall>t. ca_uid2uin c = Some t \<longrightarrow> (\<forall>uin uid. t uid = Some uin \<longrightarrow> ids uin uid)) \<and>
     (\<forall>t. ca_friends c = Some t \<longrightarrow> (\<forall>uin f. t uin = Some f \<longrightarrow> bf_uin f = uin \<and> friend_true ids f)) \<and>
     (\<forall>t. ca_members c = Some t \<longrightarrow> (\<forall>g ms. t g = Some ms \<longrightarrow> list_all (member_true ids) ms))"

lemma cache_wf_new: "cache_wf (Cache_new mode)"
  by (cases mode) (simp_all add: cache_wf_def Cache_full_def Cache_half_def Cache_none_def)

lemma cache_true_new: "cache_true ids (Cache_new mode)"
  by (cases mode) (simp_all add: cache_true_def Cache_full_def Cache_half_def Cache_none_def)

lemma insert_uin_uid_simps [simp]:
  "ca_mode (insert_uin_uid uin uid c) = ca_mode c"
  "ca_friends (insert_uin_uid uin uid c) = ca_friends c"
  "ca_members (insert_uin_uid uin uid c) = ca_members c"
  by (simp_all add: insert_uin_uid_def)

lemma cache_wf_insert: "cache_wf c \<Longrightarrow> cache_wf (insert_uin_uid uin uid c)"
  by (simp add: cache_wf_def insert_uin_uid_def)

lemma cache_true_insert:
  "cache_true ids c \<Longrightarrow> ids uin uid \<Longrightarrow> cache_true ids (insert_uin_uid uin uid c)"
  by (auto simp: cache_true_def insert_uin_uid_def split: if_splits)

end
