(* ===== verification/Errors.thy ===== *)
theory Errors
  imports Tlv_De Highway_Frame
begin

text \<open>
  The error types the layers pass upwards: \<open>EventError\<close> (\<open>mania/src/core/event.rs\<close>),
  \<open>BusinessError\<close> (\<open>core/business.rs\<close>), \<open>ManiaError\<close> (\<open>core/error.rs\<close>), with the conversions that
  \<open>?\<close> applies (\<open>#[from]\<close>). An \<open>io::Error\<close> is its message.
\<close>

datatype EventError =
    UnsupportedEvent rstring
  | EventMissingTlv TlvError
  | ProtoParseError
  | PacketParseError PacketError
  | OtherEventError rstring
  | InternalWarning rstring
  | OidbPacketInternalError i32 rstring

datatype BusinessError =
    BusinessNetworkError rstring
  | InvalidServerResponse rstring
  | BusinessGenericError rstring
  | InternalEventError EventError

datatype ManiaError =
    NetworkError rstring
  | GenericError rstring
  | InternalEventDowncastError
  | InternalBusinessError BusinessError
  | HighWayError HighwayError

definition generic :: "string \<Rightarrow> ManiaError" where
  "generic s = GenericError (str s)"

text \<open>The conversions.\<close>

definition packet_err :: "PacketError + 'a \<Rightarrow> EventError + 'a" where
  "packet_err r = (case r of Inl e \<Rightarrow> Inl (PacketParseError e) | Inr a \<Rightarrow> Inr a)"

definition event_err :: "EventError + 'a \<Rightarrow> BusinessError + 'a" where
  "event_err r = (case r of Inl e \<Rightarrow> Inl (InternalEventError e) | Inr a \<Rightarrow> Inr a)"

definition business_err :: "BusinessError + 'a \<Rightarrow> ManiaError + 'a" where
  "business_err r = (case r of Inl e \<Rightarrow> Inl (InternalBusinessError e) | Inr a \<Rightarrow> Inr a)"

end
