(* ===== verification/Cache_Op.thy ===== *)
theory Cache_Op
  imports Id_Cache Errors
begin

text \<open>
  \<open>mania/src/core/operation/cache_op.rs\<close>: the translation between account numbers and uids and the
  contact lists, in the three cache modes, with the paged requests that fill the cache.

  The state is the cache and the number of requests sent; \<open>contact_server\<close> says what the \<open>n\<close>-th
  request answers (an error, or the event the reply carries, \<open>None\<close> for an event of another
  type). \<open>co_order\<close> is the order in which a \<open>DashMap\<close> iterates. An outcome \<open>None\<close> is a panic (an
  \<open>unwrap\<close> of a missing table) or a request loop that does not end.
\<close>

section \<open>Events, server\<close>

record FetchFriendsEvent =
  ffe_friends :: "BotFriend list"
  ffe_friend_groups :: "u32 \<rightharpoonup> rstring"
  ffe_next_uin :: "u32 option"

record FetchMembersEvent =
  fme_group_uin :: u32
  fme_group_members :: "BotGroupMember list"
  fme_token :: "rstring option"

record contact_server =
  co_friends :: "nat \<Rightarrow> u32 option \<Rightarrow> ManiaError + FetchFriendsEvent option"
  co_members :: "u32 \<Rightarrow> nat \<Rightarrow> rstring option \<Rightarrow> ManiaError + FetchMembersEvent option"
  co_order :: "(u32 \<rightharpoonup> BotFriend) \<Rightarrow> u32 list"

record contact_state =
  cs_cache :: Cache
  cs_reqs :: nat

type_synonym 'a contact_op = "(contact_state \<times> (ManiaError + 'a)) option"

text \<open>The \<open>?\<close> operator, and \<open>ok_or_else\<close>.\<close>

definition then_op :: "'a contact_op \<Rightarrow> (contact_state \<Rightarrow> 'a \<Rightarrow> 'b contact_op) \<Rightarrow> 'b contact_op" where
  "then_op r f = (case r of None \<Rightarrow> None | Some (s, Inl e) \<Rightarrow> Some (s, Inl e) | Some (s, Inr a) \<Rightarrow> f s a)"

section \<open>The paged requests\<close>

text \<open>
  The loop of \<open>iter_fetch_friends\<close> and \<open>iter_fetch_group\<close>: request a page with the key of the
  page before, run the closure on it (which updates what it captured), stop on its value or its
  error, or when the page names no next key.
\<close>

partial_function (option) iter_fetch ::
    "(nat \<Rightarrow> 'k option \<Rightarrow> ManiaError + 'e option) \<Rightarrow> ('e \<Rightarrow> 'k option)
      \<Rightarrow> ('e \<Rightarrow> 's \<Rightarrow> 's \<times> (ManiaError + 'a option)) \<Rightarrow> 'k option \<Rightarrow> nat \<Rightarrow> 's
      \<Rightarrow> (nat \<times> 's \<times> (ManiaError + 'a option)) option" where
  "iter_fetch send nxt process key n s =
     (case send n key of
        Inl e \<Rightarrow> Some (n + 1, s, Inl e)
      | Inr None \<Rightarrow> Some (n + 1, s, Inl (generic ''Downcast error''))
      | Inr (Some event) \<Rightarrow>
          (case process event s of
             (s, Inl e) \<Rightarrow> Some (n + 1, s, Inl e)
           | (s, Inr (Some v)) \<Rightarrow> Some (n + 1, s, Inr (Some v))
           | (s, Inr None) \<Rightarrow>
               (case nxt event of
                  Some k \<Rightarrow> iter_fetch send nxt process (Some k) (n + 1) s
                | None \<Rightarrow> Some (n + 1, s, Inr None))))"

definition iter_fetch_friends ::
    "contact_server \<Rightarrow> (FetchFriendsEvent \<Rightarrow> 's \<Rightarrow> 's \<times> (ManiaError + 'a option)) \<Rightarrow> nat \<Rightarrow> 's
      \<Rightarrow> (nat \<times> 's \<times> (ManiaError + 'a option)) option" where
  "iter_fetch_friends sv process n s = iter_fetch (co_friends sv) ffe_next_uin process None n s"

definition iter_fetch_group ::
    "contact_server \<Rightarrow> u32 \<Rightarrow> (FetchMembersEvent \<Rightarrow> 's \<Rightarrow> 's \<times> (ManiaError + 'a option)) \<Rightarrow> nat \<Rightarrow> 's
      \<Rightarrow> (nat \<times> 's \<times> (ManiaError + 'a option)) option" where
  "iter_fetch_group sv group_uin process n s =
     iter_fetch (co_members sv group_uin) fme_token process None n s"

section \<open>Refreshing the cache\<close>

text \<open>
  The closure of \<open>refresh_friends_cache\<close> captures the cache, the friends so far and the names of
  the friend groups so far.
\<close>

type_synonym friends_acc = "Cache \<times> (u32 \<rightharpoonup> BotFriend) \<times> (u32 \<rightharpoonup> rstring)"

definition named_friend :: "(u32 \<rightharpoonup> rstring) \<Rightarrow> BotFriend \<Rightarrow> ManiaError + BotFriend" where
  "named_friend friend_groups f =
     (case bf_group f of
        None \<Rightarrow> Inl (generic ''Missing group id'')
      | Some g \<Rightarrow>
          (case friend_groups (bfg_group_id g) of
             Some name \<Rightarrow> Inr (f\<lparr>bf_group := Some
               \<lparr>bfg_group_id = bfg_group_id g, bfg_group_name = name\<rparr>\<rparr>)
           | None \<Rightarrow> Inr f))"

fun add_friends ::
    "(u32 \<rightharpoonup> rstring) \<Rightarrow> BotFriend list \<Rightarrow> Cache \<Rightarrow> (u32 \<rightharpoonup> BotFriend)
      \<Rightarrow> Cache \<times> (u32 \<rightharpoonup> BotFriend) \<times> (ManiaError + unit option)" where
  "add_friends gs [] c friends = (c, friends, Inr None)"
| "add_friends gs (f # fs) c friends =
     (case named_friend gs f of
        Inl e \<Rightarrow> (c, friends, Inl e)
      | Inr f \<Rightarrow>
          add_friends gs fs
            (if ca_mode c = Full then insert_uin_uid (bf_uin f) (bf_uid f) c else c)
            (friends(bf_uin f \<mapsto> f)))"

definition friends_process ::
    "FetchFriendsEvent \<Rightarrow> friends_acc \<Rightarrow> friends_acc \<times> (ManiaError + unit option)" where
  "friends_process event acc =
     (let (c, friends, groups) = acc;
          groups = groups ++ ffe_friend_groups event;
          (c, friends, r) = add_friends groups (ffe_friends event) c friends
      in ((c, friends, groups), r))"

definition refresh_friends_cache :: "contact_server \<Rightarrow> contact_state \<Rightarrow> unit contact_op" where
  "refresh_friends_cache sv s =
     (if ca_mode (cs_cache s) = NoCache then Some (s, Inr ())
      else do {
        (n, (c, friends, _), r) \<leftarrow> iter_fetch_friends sv friends_process (cs_reqs s)
          (cs_cache s, (\<lambda>_. None), (\<lambda>_. None));
        (case r of
           Inl e \<Rightarrow> Some (s\<lparr>cs_cache := c, cs_reqs := n\<rparr>, Inl e)
         | Inr _ \<Rightarrow> do {
             _ \<leftarrow> ca_friends c;
             Some (s\<lparr>cs_cache := c\<lparr>ca_friends := Some friends\<rparr>, cs_reqs := n\<rparr>, Inr ()) }) })"

definition members_process ::
    "FetchMembersEvent \<Rightarrow> BotGroupMember list \<Rightarrow> BotGroupMember list \<times> (ManiaError + unit option)" where
  "members_process event ms = (ms @ fme_group_members event, Inr None)"

definition insert_members :: "BotGroupMember list \<Rightarrow> Cache \<Rightarrow> Cache" where
  "insert_members ms c = fold (\<lambda>m. insert_uin_uid (bgm_uin m) (bgm_uid m)) ms c"

definition refresh_group_members_cache ::
    "contact_server \<Rightarrow> u32 \<Rightarrow> contact_state \<Rightarrow> unit contact_op" where
  "refresh_group_members_cache sv group_uin s =
     (if ca_mode (cs_cache s) = NoCache then Some (s, Inr ())
      else do {
        (n, ms, r) \<leftarrow> iter_fetch_group sv group_uin members_process (cs_reqs s) [];
        let s = s\<lparr>cs_reqs := n\<rparr>;
        (case r of
           Inl e \<Rightarrow> Some (s, Inl e)
         | Inr _ \<Rightarrow> do {
             let c = (if ca_mode (cs_cache s) = Full then insert_members ms (cs_cache s) else cs_cache s);
             t \<leftarrow> ca_members c;
             Some (s\<lparr>cs_cache := c\<lparr>ca_members := Some (t(group_uin \<mapsto> ms))\<rparr>\<rparr>, Inr ()) }) })"

section \<open>Looking up without a cache\<close>

definition fast_fetch_friends ::
    "contact_server \<Rightarrow> (BotFriend \<Rightarrow> bool) \<Rightarrow> (BotFriend \<Rightarrow> 'a) \<Rightarrow> contact_state \<Rightarrow> 'a contact_op" where
  "fast_fetch_friends sv p g s =
     do { (n, _, r) \<leftarrow> iter_fetch_friends sv
            (\<lambda>event u. (u, Inr (map_option g (find p (ffe_friends event))))) (cs_reqs s) ();
          let s = s\<lparr>cs_reqs := n\<rparr>;
          (case r of
             Inl e \<Rightarrow> Some (s, Inl e)
           | Inr res \<Rightarrow> Some (s, ok_or (generic ''Friend not found'') res)) }"

definition fast_fetch_friends_uid :: "contact_server \<Rightarrow> u32 \<Rightarrow> contact_state \<Rightarrow> rstring contact_op" where
  "fast_fetch_friends_uid sv uin = fast_fetch_friends sv (\<lambda>f. bf_uin f = uin) bf_uid"

definition fast_fetch_friends_uin :: "contact_server \<Rightarrow> rstring \<Rightarrow> contact_state \<Rightarrow> u32 contact_op" where
  "fast_fetch_friends_uin sv uid = fast_fetch_friends sv (\<lambda>f. bf_uid f = uid) bf_uin"

definition fast_fetch_group_members ::
    "contact_server \<Rightarrow> u32 \<Rightarrow> (BotGroupMember \<Rightarrow> bool) \<Rightarrow> (BotGroupMember \<Rightarrow> 'a) \<Rightarrow> contact_state
      \<Rightarrow> 'a contact_op" where
  "fast_fetch_group_members sv group_uin p g s =
     do { (n, _, r) \<leftarrow> iter_fetch_group sv group_uin
            (\<lambda>event u. (u, Inr (map_option g (find p (fme_group_members event))))) (cs_reqs s) ();
          let s = s\<lparr>cs_reqs := n\<rparr>;
          (case r of
             Inl e \<Rightarrow> Some (s, Inl e)
           | Inr res \<Rightarrow> Some (s, ok_or (generic ''Member not found'') res)) }"

definition fast_fetch_group_members_uid ::
    "contact_server \<Rightarrow> u32 \<Rightarrow> u32 \<Rightarrow> contact_state \<Rightarrow> rstring contact_op" where
  "fast_fetch_group_members_uid sv uin group_uin =
     fast_fetch_group_members sv group_uin (\<lambda>m. bgm_uin m = uin) bgm_uid"

definition fast_fetch_group_members_uin ::
    "contact_server \<Rightarrow> rstring \<Rightarrow> u32 \<Rightarrow> contact_state \<Rightarrow> u32 contact_op" where
  "fast_fetch_group_members_uin sv uid group_uin =
     fast_fetch_group_members sv group_uin (\<lambda>m. bgm_uid m = uid) bgm_uin"

section \<open>Looking up in the cache\<close>

definition resolve_uin2uid_within_cache ::
    "Cache \<Rightarrow> u32 \<Rightarrow> u32 option \<Rightarrow> (ManiaError + rstring) option" where
  "resolve_uin2uid_within_cache c uin group_uin =
     (case Option.bind (ca_uin2uid c) (\<lambda>m. m uin) of
        Some uid \<Rightarrow> Some (Inr uid)
      | None \<Rightarrow>
          (case group_uin of
             Some group_id \<Rightarrow> do {
               t \<leftarrow> ca_members c;
               Some (case t group_id of
                  None \<Rightarrow> Inl (generic ''Group not found'')
                | Some ms \<Rightarrow> ok_or (generic ''Member not found'')
                    (map_option bgm_uid (find (\<lambda>m. bgm_uin m = uin) ms))) }
           | None \<Rightarrow> do {
               t \<leftarrow> ca_friends c;
               Some (ok_or (generic ''Friend not found'') (map_option bf_uid (t uin))) }))"

definition resolve_uid2uin_within_cache ::
    "contact_server \<Rightarrow> Cache \<Rightarrow> rstring \<Rightarrow> u32 option \<Rightarrow> (ManiaError + u32) option" where
  "resolve_uid2uin_within_cache sv c uid group_uin =
     (case Option.bind (ca_uid2uin c) (\<lambda>m. m uid) of
        Some uin \<Rightarrow> Some (Inr uin)
      | None \<Rightarrow>
          (case group_uin of
             Some group_id \<Rightarrow> do {
               t \<leftarrow> ca_members c;
               Some (case t group_id of
                  None \<Rightarrow> Inl (generic ''Group not found'')
                | Some ms \<Rightarrow> ok_or (generic ''Member not found'')
                    (map_option bgm_uin (find (\<lambda>m. bgm_uid m = uid) ms))) }
           | None \<Rightarrow> do {
               t \<leftarrow> ca_friends c;
               Some (ok_or (generic ''Friend not found'')
                 (find (\<lambda>k. case t k of Some f \<Rightarrow> bf_uid f = uid | None \<Rightarrow> False) (co_order sv t))) }))"

section \<open>The operations\<close>

text \<open>
  The common part of \<open>uin2uid\<close> and \<open>uid2uin\<close>: in the cached modes, load the friends when the
  identity table (of \<open>Full\<close>) is empty, and the members of a group that is not in the cache.
\<close>

definition group_missing :: "Cache \<Rightarrow> u32 \<Rightarrow> bool option" where
  "group_missing c g = map_option (\<lambda>t. t g = None) (ca_members c)"

definition load_group :: "contact_server \<Rightarrow> u32 option \<Rightarrow> contact_state \<Rightarrow> unit contact_op" where
  "load_group sv group_uin s =
     (case group_uin of
        None \<Rightarrow> Some (s, Inr ())
      | Some g \<Rightarrow> do {
          missing \<leftarrow> group_missing (cs_cache s) g;
          if missing then refresh_group_members_cache sv g s else Some (s, Inr ()) })"

definition uin2uid :: "contact_server \<Rightarrow> u32 \<Rightarrow> u32 option \<Rightarrow> contact_state \<Rightarrow> rstring contact_op" where
  "uin2uid sv uin group_uin s =
     (if ca_mode (cs_cache s) = NoCache
      then (case group_uin of
              Some g \<Rightarrow> fast_fetch_group_members_uid sv uin g s
            | None \<Rightarrow> fast_fetch_friends_uid sv uin s)
      else
        then_op (if ca_mode (cs_cache s) = Full
                 then do { t \<leftarrow> ca_uin2uid (cs_cache s);
                           if t = (\<lambda>_. None) then refresh_friends_cache sv s else Some (s, Inr ()) }
                 else Some (s, Inr ()))
          (\<lambda>s _. then_op (load_group sv group_uin s)
            (\<lambda>s _. map_option (\<lambda>r. (s, r)) (resolve_uin2uid_within_cache (cs_cache s) uin group_uin))))"

definition uid2uin :: "contact_server \<Rightarrow> rstring \<Rightarrow> u32 option \<Rightarrow> contact_state \<Rightarrow> u32 contact_op" where
  "uid2uin sv uid group_uin s =
     (if ca_mode (cs_cache s) = NoCache
      then (case group_uin of
              Some g \<Rightarrow> fast_fetch_group_members_uin sv uid g s
            | None \<Rightarrow> fast_fetch_friends_uin sv uid s)
      else
        then_op (if ca_mode (cs_cache s) = Full
                 then do { t \<leftarrow> ca_uid2uin (cs_cache s);
                           if t = (\<lambda>_. None) then refresh_friends_cache sv s else Some (s, Inr ()) }
                 else Some (s, Inr ()))
          (\<lambda>s _. then_op (load_group sv group_uin s)
            (\<lambda>s _. map_option (\<lambda>r. (s, r)) (resolve_uid2uin_within_cache sv (cs_cache s) uid group_uin))))"

text \<open>The \<open>_fast\<close> variants replace an error by a default.\<close>

definition uin2uid_fast ::
    "contact_server \<Rightarrow> u32 \<Rightarrow> u32 option \<Rightarrow> contact_state \<Rightarrow> (contact_state \<times> rstring) option" where
  "uin2uid_fast sv uin group_uin s =
     map_option (\<lambda>(s, r). (s, case r of Inr uid \<Rightarrow> uid | Inl _ \<Rightarrow> [])) (uin2uid sv uin group_uin s)"

definition uid2uin_fast ::
    "contact_server \<Rightarrow> rstring \<Rightarrow> u32 option \<Rightarrow> contact_state \<Rightarrow> (contact_state \<times> u32) option" where
  "uid2uin_fast sv uid group_uin s =
     map_option (\<lambda>(s, r). (s, case r of Inr uin \<Rightarrow> uin | Inl _ \<Rightarrow> 0)) (uid2uin sv uid group_uin s)"

definition fetch_maybe_cached_group_members ::
    "contact_server \<Rightarrow> u32 \<Rightarrow> ((u32 \<rightharpoonup> BotGroupMember list) \<Rightarrow> BotGroupMember list) \<Rightarrow> bool
      \<Rightarrow> contact_state \<Rightarrow> BotGroupMember list contact_op" where
  "fetch_maybe_cached_group_members sv group_uin process_fn refresh_cache s =
     (if ca_mode (cs_cache s) \<noteq> NoCache
      then
        then_op (if refresh_cache then refresh_group_members_cache sv group_uin s else Some (s, Inr ()))
          (\<lambda>s _. then_op (load_group sv (Some group_uin) s)
            (\<lambda>s _. do { t \<leftarrow> ca_members (cs_cache s); Some (s, Inr (process_fn t)) }))
      else do {
        (n, group_members, r) \<leftarrow> iter_fetch_group sv group_uin
          (\<lambda>event m. (m(group_uin \<mapsto> fme_group_members event), Inr (None :: unit option)))
          (cs_reqs s) (\<lambda>_. None);
        let s = s\<lparr>cs_reqs := n\<rparr>;
        (case r of Inl e \<Rightarrow> Some (s, Inl e) | Inr _ \<Rightarrow> Some (s, Inr (process_fn group_members))) })"

definition fetch_maybe_cached_friends ::
    "contact_server \<Rightarrow> u32 option \<Rightarrow> ((u32 \<rightharpoonup> BotFriend) \<Rightarrow> BotFriend list) \<Rightarrow> bool
      \<Rightarrow> contact_state \<Rightarrow> BotFriend list contact_op" where
  "fetch_maybe_cached_friends sv maybe_friend_uin process_fn refresh_cache s =
     (if ca_mode (cs_cache s) \<noteq> NoCache
      then
        then_op (if refresh_cache then refresh_friends_cache sv s else Some (s, Inr ()))
          (\<lambda>s _. then_op
            (case maybe_friend_uin of
               None \<Rightarrow> Some (s, Inr ())
             | Some u \<Rightarrow> do {
                 t \<leftarrow> ca_friends (cs_cache s);
                 if t u = None then refresh_friends_cache sv s else Some (s, Inr ()) })
            (\<lambda>s _. do { t \<leftarrow> ca_friends (cs_cache s); Some (s, Inr (process_fn t)) }))
      else do {
        (n, friends, r) \<leftarrow> iter_fetch_friends sv
          (\<lambda>event m. (fold (\<lambda>f m. m(bf_uin f \<mapsto> f)) (ffe_friends event) m, Inr (None :: unit option)))
          (cs_reqs s) (\<lambda>_. None);
        let s = s\<lparr>cs_reqs := n\<rparr>;
        (case r of Inl e \<Rightarrow> Some (s, Inl e) | Inr _ \<Rightarrow> Some (s, Inr (process_fn friends))) })"

section \<open>The loop on a server that answers\<close>

text \<open>
  \<open>serves\<close>: from the \<open>n\<close>-th request on, the server answers the given pages one after the other,
  the key of each found in the one before, and the last names none.
\<close>

fun serves :: "(nat \<Rightarrow> 'k option \<Rightarrow> ManiaError + 'e option) \<Rightarrow> ('e \<Rightarrow> 'k option) \<Rightarrow> 'k option \<Rightarrow> nat
    \<Rightarrow> 'e list \<Rightarrow> bool" where
  "serves send nxt key n [] = False"
| "serves send nxt key n [e] = (send n key = Inr (Some e) \<and> nxt e = None)"
| "serves send nxt key n (e # f # es) =
     (send n key = Inr (Some e) \<and> (\<exists>k. nxt e = Some k \<and> serves send nxt (Some k) (n + 1) (f # es)))"

text \<open>A closure that only collects is run on every page; the loop ends.\<close>

lemma iter_fetch_collect:
  assumes "serves send nxt key n es" and "\<And>e s. process e s = (g e s, Inr None)"
  shows "iter_fetch send nxt process key n s = Some (n + length es, fold g es s, Inr None)"
  using assms(1)
proof (induction send nxt key n es arbitrary: s rule: serves.induct)
  case (1 send nxt key n)
  then show ?case by simp
next
  case (2 send nxt key n e)
  then show ?case by (subst iter_fetch.simps) (simp add: assms(2))
next
  case (3 send nxt key n e f es)
  then obtain k where "send n key = Inr (Some e)" "nxt e = Some k"
      and ih: "iter_fetch send nxt process (Some k) (n + 1) (g e s)
        = Some (n + 1 + length (f # es), fold g (f # es) (g e s), Inr None)"
    by auto
  then show ?case by (subst iter_fetch.simps) (simp add: assms(2))
qed

text \<open>A closure that searches stops at the first page with a hit.\<close>

lemma iter_fetch_search:
  assumes "serves send nxt key n es"
  shows "\<exists>m. iter_fetch send nxt (\<lambda>e u. (u, Inr (map_option g (find p (h e))))) key n s
    = Some (m, s, Inr (map_option g (find p (concat (map h es))))) \<and> m \<le> n + length es"
  using assms
proof (induction send nxt key n es rule: serves.induct)
  case (2 send nxt key n e)
  then show ?case by (subst iter_fetch.simps) (auto split: option.split)
next
  case (3 send nxt key n e f es)
  then obtain k where a: "send n key = Inr (Some e)" "nxt e = Some k"
      and b: "serves send nxt (Some k) (n + 1) (f # es)"
    by auto
  obtain m where m: "iter_fetch send nxt (\<lambda>e u. (u, Inr (map_option g (find p (h e))))) (Some k) (n + 1) s
        = Some (m, s, Inr (map_option g (find p (concat (map h (f # es))))))"
      "m \<le> n + 1 + length (f # es)"
    using "3.IH" [OF b] by blast
  have "find p (xs @ ys) = (case find p xs of None \<Rightarrow> find p ys | Some x \<Rightarrow> Some x)" for xs ys
    by (induction xs) simp_all
  then show ?case using a m by (subst iter_fetch.simps) (auto split: option.split)
qed simp

section \<open>Invariants of the loop\<close>

text \<open>
  What every page preserves, the loop preserves, and a value the loop returns was found on a page.
\<close>

lemma iter_fetch_inv:
  fixes process :: "'e \<Rightarrow> 's \<Rightarrow> 's \<times> (ManiaError + 'a option)"
  assumes "iter_fetch send nxt process key n s = Some (m, t, r)" and "J s"
    and step: "\<And>n k e s u q. send n k = Inr (Some e) \<Longrightarrow> J s \<Longrightarrow> process e s = (u, q) \<Longrightarrow>
      J u \<and> (\<forall>v. q = Inr (Some v) \<longrightarrow> good v)"
  shows "J t \<and> (\<forall>v. r = Inr (Some v) \<longrightarrow> good v)"
proof -
  let ?P = "\<lambda>send nxt process key n s (mtr :: nat \<times> 's \<times> (ManiaError + 'a option)). J s \<longrightarrow>
    (\<forall>n k e s u q. send n k = Inr (Some e) \<longrightarrow> J s \<longrightarrow> process e s = (u, q) \<longrightarrow>
      J u \<and> (\<forall>v. q = Inr (Some v) \<longrightarrow> good v)) \<longrightarrow>
    J (fst (snd mtr)) \<and> (\<forall>v. snd (snd mtr) = Inr (Some v) \<longrightarrow> good v)"
  have "?P send nxt process key n s (m, t, r)"
  proof (rule iter_fetch.raw_induct [OF _ assms(1), where P = ?P])
    fix it and send :: "nat \<Rightarrow> 'k option \<Rightarrow> ManiaError + 'e option" and nxt
      and process :: "'e \<Rightarrow> 's \<Rightarrow> 's \<times> (ManiaError + 'a option)" and key n s y
    assume ih: "\<And>send nxt process key n s y. it send nxt process key n s = Some y \<Longrightarrow>
        ?P send nxt process key n s y"
      and body: "(case send n key of
        Inl e \<Rightarrow> Some (n + 1, s, Inl e)
      | Inr None \<Rightarrow> Some (n + 1, s, Inl (generic ''Downcast error''))
      | Inr (Some event) \<Rightarrow>
          (case process event s of
             (s, Inl e) \<Rightarrow> Some (n + 1, s, Inl e)
           | (s, Inr None) \<Rightarrow>
               (case nxt event of None \<Rightarrow> Some (n + 1, s, Inr None)
                | Some k \<Rightarrow> it send nxt process (Some k) (n + 1) s)
           | (s, Inr (Some v)) \<Rightarrow> Some (n + 1, s, Inr (Some v)))) = Some y"
    show "?P send nxt process key n s y"
    proof (intro impI)
      assume i: "J s"
        and st: "\<forall>n k e s u q. send n k = Inr (Some e) \<longrightarrow> J s \<longrightarrow> process e s = (u, q) \<longrightarrow>
          J u \<and> (\<forall>v. q = Inr (Some v) \<longrightarrow> good v)"
      show "J (fst (snd y)) \<and> (\<forall>v. snd (snd y) = Inr (Some v) \<longrightarrow> good v)"
      proof (cases "\<exists>event. send n key = Inr (Some event)")
        case False
        then show ?thesis
          using body i by (auto split: sum.split_asm option.split_asm)
      next
        case True
        then obtain event u q where e: "send n key = Inr (Some event)"
          and pq: "process event s = (u, q)"
          by (metis surj_pair)
        have u: "J u \<and> (\<forall>v. q = Inr (Some v) \<longrightarrow> good v)" using st e i pq by blast
        show ?thesis
        proof (cases "\<exists>k. q = Inr None \<and> nxt event = Some k")
          case True
          then obtain k where "it send nxt process (Some k) (n + 1) u = Some y"
            using body e pq by auto
          then show ?thesis using ih u st by blast
        next
          case False
          then show ?thesis
            using body e pq u by (auto split: sum.split_asm option.split_asm)
        qed
      qed
    qed
  qed
  then show ?thesis using assms(2) step by simp
qed

section \<open>The cache stays true\<close>

text \<open>The server only says true things about the accounts.\<close>

definition server_true :: "(u32 \<Rightarrow> rstring \<Rightarrow> bool) \<Rightarrow> contact_server \<Rightarrow> bool" where
  "server_true ids sv \<longleftrightarrow>
     (\<forall>n k e. co_friends sv n k = Inr (Some e) \<longrightarrow> list_all (friend_true ids) (ffe_friends e)) \<and>
     (\<forall>g n k e. co_members sv g n k = Inr (Some e) \<longrightarrow> list_all (member_true ids) (fme_group_members e))"

definition good_cache :: "(u32 \<Rightarrow> rstring \<Rightarrow> bool) \<Rightarrow> Cache \<Rightarrow> bool" where
  "good_cache ids c \<longleftrightarrow> cache_wf c \<and> cache_true ids c"

definition friends_true :: "(u32 \<Rightarrow> rstring \<Rightarrow> bool) \<Rightarrow> (u32 \<rightharpoonup> BotFriend) \<Rightarrow> bool" where
  "friends_true ids t \<longleftrightarrow> (\<forall>uin f. t uin = Some f \<longrightarrow> bf_uin f = uin \<and> friend_true ids f)"

lemma good_cache_insert: "good_cache ids c \<Longrightarrow> ids uin uid \<Longrightarrow> good_cache ids (insert_uin_uid uin uid c)"
  by (simp add: good_cache_def cache_wf_insert cache_true_insert)

lemma good_cache_friends:
  "good_cache ids c \<Longrightarrow> ca_friends c = Some t \<Longrightarrow> friends_true ids u \<Longrightarrow>
     good_cache ids (c\<lparr>ca_friends := Some u\<rparr>)"
  by (simp add: good_cache_def cache_wf_def cache_true_def friends_true_def)

lemma good_cache_members:
  "good_cache ids c \<Longrightarrow> ca_members c = Some t \<Longrightarrow> list_all (member_true ids) ms \<Longrightarrow>
     good_cache ids (c\<lparr>ca_members := Some (t(g \<mapsto> ms))\<rparr>)"
  by (simp add: good_cache_def cache_wf_def cache_true_def)

lemma named_friend_same:
  "named_friend gs f = Inr f' \<Longrightarrow> bf_uin f' = bf_uin f \<and> bf_uid f' = bf_uid f"
  by (auto simp: named_friend_def split: option.split_asm)

lemma add_friends_good:
  assumes "add_friends gs fs c t = (d, u, r)" and "list_all (friend_true ids) fs"
    and "good_cache ids c" and "friends_true ids t"
  shows "good_cache ids d \<and> friends_true ids u"
  using assms
proof (induction gs fs c t rule: add_friends.induct)
  case (2 gs f fs c t)
  show ?case
  proof (cases "named_friend gs f")
    case (Inl e)
    then show ?thesis using "2.prems" by simp
  next
    case (Inr f')
    let ?c = "if ca_mode c = Full then insert_uin_uid (bf_uin f') (bf_uid f') c else c"
    have f': "friend_true ids f'"
      using named_friend_same [OF Inr] "2.prems"(2) by (simp add: friend_true_def)
    then have "good_cache ids ?c"
      using "2.prems"(3) good_cache_insert by (simp add: friend_true_def)
    moreover have "friends_true ids (t(bf_uin f' \<mapsto> f'))"
      using "2.prems"(4) f' by (auto simp: friends_true_def)
    moreover have "add_friends gs fs ?c (t(bf_uin f' \<mapsto> f')) = (d, u, r)"
      using "2.prems"(1) Inr by simp
    moreover have "list_all (friend_true ids) fs" using "2.prems"(2) by simp
    ultimately show ?thesis using "2.IH" [OF Inr] by blast
  qed
qed simp

lemma refresh_friends_good:
  assumes "refresh_friends_cache sv s = Some (t, r)"
    and "server_true ids sv" and "good_cache ids (cs_cache s)"
  shows "good_cache ids (cs_cache t)"
proof (cases "ca_mode (cs_cache s) = NoCache")
  case True
  then show ?thesis using assms by (simp add: refresh_friends_cache_def)
next
  case False
  let ?J = "\<lambda>(c, t, _ :: u32 \<Rightarrow> rstring option). good_cache ids c \<and> friends_true ids t"
  obtain n c fr gs q where it: "iter_fetch_friends sv friends_process (cs_reqs s)
        (cs_cache s, (\<lambda>_. None), (\<lambda>_. None)) = Some (n, (c, fr, gs), q)"
    and res: "(case q of Inl e \<Rightarrow> Some (s\<lparr>cs_cache := c, cs_reqs := n\<rparr>, Inl e)
         | Inr _ \<Rightarrow> Option.bind (ca_friends c) (\<lambda>_.
             Some (s\<lparr>cs_cache := c\<lparr>ca_friends := Some fr\<rparr>, cs_reqs := n\<rparr>, Inr ()))) = Some (t, r)"
    using assms(1) False by (auto simp: refresh_friends_cache_def bind_eq_Some_conv)
  have "?J (c, fr, gs) \<and> (\<forall>v. q = Inr (Some v) \<longrightarrow> True)"
  proof (rule iter_fetch_inv [OF it [unfolded iter_fetch_friends_def]])
    show "?J (cs_cache s, (\<lambda>_. None), (\<lambda>_. None))"
      using assms(3) by (simp add: friends_true_def)
    fix n k e acc u p
    assume "co_friends sv n k = Inr (Some e)" "?J acc" "friends_process e acc = (u, p)"
    then show "?J u \<and> (\<forall>v. p = Inr (Some v) \<longrightarrow> True)"
      using assms(2)
      by (auto simp: friends_process_def Let_def server_true_def split: prod.split_asm
          dest!: add_friends_good)
  qed
  then show ?thesis
    using res good_cache_friends by (cases q) (auto simp: bind_eq_Some_conv)
qed

lemma insert_members_good:
  "list_all (member_true ids) ms \<Longrightarrow> good_cache ids c \<Longrightarrow> good_cache ids (insert_members ms c)"
  by (induction ms arbitrary: c)
    (simp_all add: insert_members_def good_cache_insert member_true_def)

lemma refresh_group_good:
  assumes "refresh_group_members_cache sv g s = Some (t, r)"
    and "server_true ids sv" and "good_cache ids (cs_cache s)"
  shows "good_cache ids (cs_cache t)"
proof (cases "ca_mode (cs_cache s) = NoCache")
  case True
  then show ?thesis using assms by (simp add: refresh_group_members_cache_def)
next
  case False
  obtain n ms q where it: "iter_fetch_group sv g members_process (cs_reqs s) [] = Some (n, ms, q)"
    using assms(1) False by (auto simp: refresh_group_members_cache_def bind_eq_Some_conv)
  have "list_all (member_true ids) ms \<and> (\<forall>v. q = Inr (Some v) \<longrightarrow> True)"
    by (rule iter_fetch_inv [OF it [unfolded iter_fetch_group_def]])
      (use assms(2) in \<open>auto simp: members_process_def server_true_def\<close>)
  then have "good_cache ids (if ca_mode (cs_cache s) = Full then insert_members ms (cs_cache s)
      else cs_cache s)"
    using assms(3) insert_members_good by simp
  then show ?thesis
    using assms(1,3) it False good_cache_members
      \<open>list_all (member_true ids) ms \<and> (\<forall>v. q = Inr (Some v) \<longrightarrow> True)\<close>
    by (cases q) (auto simp: refresh_group_members_cache_def bind_eq_Some_conv Let_def)
qed

lemma load_group_good:
  assumes "load_group sv g s = Some (t, r)"
    and "server_true ids sv" and "good_cache ids (cs_cache s)"
  shows "good_cache ids (cs_cache t)"
  using assms refresh_group_good
  by (auto simp: load_group_def bind_eq_Some_conv split: option.split_asm if_split_asm)

lemma then_op_Some:
  "then_op r f = Some (t, q) \<longleftrightarrow>
     (\<exists>s e. r = Some (s, Inl e) \<and> t = s \<and> q = Inl e) \<or> (\<exists>s a. r = Some (s, Inr a) \<and> f s a = Some (t, q))"
  by (auto simp: then_op_def split: option.splits prod.splits sum.splits)

lemma find_true: "find p xs = Some x \<Longrightarrow> list_all Q xs \<Longrightarrow> Q x \<and> p x"
  by (auto simp: list_all_iff find_Some_iff)

lemma ok_or_Inr: "ok_or e x = Inr v \<longleftrightarrow> x = Some v"
  by (cases x) simp_all

lemma fast_members_good:
  assumes "fast_fetch_group_members sv g p h s = Some (t, Inr v)" and "server_true ids sv"
  shows "\<exists>m. member_true ids m \<and> p m \<and> v = h m \<and> cs_cache t = cs_cache s"
proof -
  obtain n u q where it: "iter_fetch_group sv g
      (\<lambda>event u. (u, Inr (map_option h (find p (fme_group_members event))))) (cs_reqs s) () = Some (n, u, q)"
    and c: "(case q of Inl e \<Rightarrow> Some (s\<lparr>cs_reqs := n\<rparr>, Inl e)
      | Inr res \<Rightarrow> Some (s\<lparr>cs_reqs := n\<rparr>, ok_or (generic ''Member not found'') res)) = Some (t, Inr v)"
    using assms(1) by (auto simp: fast_fetch_group_members_def bind_eq_Some_conv Let_def)
  have q: "q = Inr (Some v)" and t: "cs_cache t = cs_cache s"
    using c by (cases q; auto simp: ok_or_Inr)+
  have "True \<and> (\<forall>v. q = Inr (Some v) \<longrightarrow> (\<exists>m. member_true ids m \<and> p m \<and> v = h m))"
    by (rule iter_fetch_inv [OF it [unfolded iter_fetch_group_def]], simp,
        use assms(2) in \<open>auto simp: server_true_def\<close>, metis find_true)
  then show ?thesis using q t by blast
qed

lemma fast_friends_good:
  assumes "fast_fetch_friends sv p h s = Some (t, Inr v)" and "server_true ids sv"
  shows "\<exists>f. friend_true ids f \<and> p f \<and> v = h f \<and> cs_cache t = cs_cache s"
proof -
  obtain n u q where it: "iter_fetch_friends sv
      (\<lambda>event u. (u, Inr (map_option h (find p (ffe_friends event))))) (cs_reqs s) () = Some (n, u, q)"
    and c: "(case q of Inl e \<Rightarrow> Some (s\<lparr>cs_reqs := n\<rparr>, Inl e)
      | Inr res \<Rightarrow> Some (s\<lparr>cs_reqs := n\<rparr>, ok_or (generic ''Friend not found'') res)) = Some (t, Inr v)"
    using assms(1) by (auto simp: fast_fetch_friends_def bind_eq_Some_conv Let_def)
  have q: "q = Inr (Some v)" and t: "cs_cache t = cs_cache s"
    using c by (cases q; auto simp: ok_or_Inr)+
  have "True \<and> (\<forall>v. q = Inr (Some v) \<longrightarrow> (\<exists>f. friend_true ids f \<and> p f \<and> v = h f))"
    by (rule iter_fetch_inv [OF it [unfolded iter_fetch_friends_def]], simp,
        use assms(2) in \<open>auto simp: server_true_def\<close>, metis find_true)
  then show ?thesis using q t by blast
qed

lemma cache_true_friend:
  "cache_true ids c \<Longrightarrow> ca_friends c = Some t \<Longrightarrow> t uin = Some f \<Longrightarrow> ids uin (bf_uid f)"
  by (auto simp: cache_true_def friend_true_def)

lemma cache_true_member:
  "cache_true ids c \<Longrightarrow> ca_members c = Some t \<Longrightarrow> t g = Some ms \<Longrightarrow> find p ms = Some m \<Longrightarrow>
     p m \<and> ids (bgm_uin m) (bgm_uid m)"
  by (auto simp: cache_true_def member_true_def dest!: find_true [where Q = "member_true ids"])

lemma cache_true_tables:
  "cache_true ids c \<Longrightarrow> Option.bind (ca_uin2uid c) (\<lambda>m. m uin) = Some uid \<Longrightarrow> ids uin uid"
  "cache_true ids c \<Longrightarrow> Option.bind (ca_uid2uin c) (\<lambda>m. m uid) = Some uin \<Longrightarrow> ids uin uid"
  by (auto simp: cache_true_def bind_eq_Some_conv)

lemma resolve_uin2uid_good:
  assumes "resolve_uin2uid_within_cache c uin g = Some (Inr uid)" and "cache_true ids c"
  shows "ids uin uid"
proof (cases "Option.bind (ca_uin2uid c) (\<lambda>m. m uin)")
  case (Some u)
  then show ?thesis
    using assms(1) cache_true_tables(1) [OF assms(2) Some]
    by (simp add: resolve_uin2uid_within_cache_def)
next
  case None
  note r = assms(1) [unfolded resolve_uin2uid_within_cache_def None, simplified]
  show ?thesis
  proof (cases g)
    case None
    then obtain t f where "ca_friends c = Some t" "t uin = Some f" "uid = bf_uid f"
      using r by (auto simp: bind_eq_Some_conv ok_or_Inr)
    then show ?thesis using cache_true_friend [OF assms(2)] by blast
  next
    case (Some gid)
    then obtain t ms m where "ca_members c = Some t" "t gid = Some ms"
        "find (\<lambda>m. bgm_uin m = uin) ms = Some m" "uid = bgm_uid m"
      using r by (auto simp: bind_eq_Some_conv ok_or_Inr split: option.split_asm)
    then show ?thesis using cache_true_member [OF assms(2)] by blast
  qed
qed

lemma resolve_uid2uin_good:
  assumes "resolve_uid2uin_within_cache sv c uid g = Some (Inr uin)" and "cache_true ids c"
  shows "ids uin uid"
proof (cases "Option.bind (ca_uid2uin c) (\<lambda>m. m uid)")
  case (Some u)
  then show ?thesis
    using assms(1) cache_true_tables(2) [OF assms(2) Some]
    by (simp add: resolve_uid2uin_within_cache_def)
next
  case None
  note r = assms(1) [unfolded resolve_uid2uin_within_cache_def None, simplified]
  show ?thesis
  proof (cases g)
    case None
    then obtain t where t: "ca_friends c = Some t"
      and k: "find (\<lambda>k. case t k of Some f \<Rightarrow> bf_uid f = uid | None \<Rightarrow> False) (co_order sv t) = Some uin"
      using r by (auto simp: bind_eq_Some_conv ok_or_Inr)
    then obtain f where "t uin = Some f" "bf_uid f = uid"
      by (auto simp: find_Some_iff split: option.split_asm)
    then show ?thesis using cache_true_friend [OF assms(2) t] by blast
  next
    case (Some gid)
    then obtain t ms m where "ca_members c = Some t" "t gid = Some ms"
        "find (\<lambda>m. bgm_uid m = uid) ms = Some m" "uin = bgm_uin m"
      using r by (auto simp: bind_eq_Some_conv ok_or_Inr split: option.split_asm)
    then show ?thesis using cache_true_member [OF assms(2)] by blast
  qed
qed

lemma load_identities_good:
  assumes "(if ca_mode (cs_cache s) = Full
      then do { t \<leftarrow> tab (cs_cache s);
                if t = (\<lambda>_. None) then refresh_friends_cache sv s else Some (s, Inr ()) }
      else Some (s, Inr ())) = Some (t, r)"
    and "server_true ids sv" and "good_cache ids (cs_cache s)"
  shows "good_cache ids (cs_cache t)"
  using assms refresh_friends_good
  by (auto simp: bind_eq_Some_conv split: if_split_asm)

lemma fast_fetch_keeps:
  "fast_fetch_friends sv p h s = Some (t, r) \<Longrightarrow> cs_cache t = cs_cache s"
  "fast_fetch_group_members sv g q k s = Some (t, r') \<Longrightarrow> cs_cache t = cs_cache s"
  by (auto simp: fast_fetch_friends_def fast_fetch_group_members_def bind_eq_Some_conv Let_def
      sum.case_eq_if split: if_split_asm)

text \<open>The two steps before a lookup, in either direction, and the lookup.\<close>

lemma lookup_good:
  assumes r: "then_op (if ca_mode (cs_cache s) = Full
        then do { t \<leftarrow> tab (cs_cache s);
                  if t = (\<lambda>_. None) then refresh_friends_cache sv s else Some (s, Inr ()) }
        else Some (s, Inr ()))
      (\<lambda>s _. then_op (load_group sv g s)
        (\<lambda>s _. map_option (\<lambda>r. (s, r)) (resolve (cs_cache s)))) = Some (t, r)"
    and sv: "server_true ids sv" and c: "good_cache ids (cs_cache s)"
    and res: "\<And>c v. resolve c = Some (Inr v) \<Longrightarrow> cache_true ids c \<Longrightarrow> good v"
  shows "good_cache ids (cs_cache t) \<and> (\<forall>v. r = Inr v \<longrightarrow> good v)"
proof -
  let ?A = "if ca_mode (cs_cache s) = Full
        then do { t \<leftarrow> tab (cs_cache s);
                  if t = (\<lambda>_. None) then refresh_friends_cache sv s else Some (s, Inr ()) }
        else Some (s, Inr ())"
  from r consider (err) e where "?A = Some (t, Inl e)" "r = Inl e"
    | (ok) a where "?A = Some (a, Inr ())"
        "then_op (load_group sv g a) (\<lambda>s _. map_option (\<lambda>r. (s, r)) (resolve (cs_cache s))) = Some (t, r)"
    unfolding then_op_Some by auto
  then show ?thesis
  proof cases
    case err
    then show ?thesis using load_identities_good [where tab = tab, OF err(1) sv c] by simp
  next
    case ok
    have a: "good_cache ids (cs_cache a)" by (rule load_identities_good [where tab = tab, OF ok(1) sv c])
    from ok(2) consider (err2) e where "load_group sv g a = Some (t, Inl e)" "r = Inl e"
      | (ok2) b where "load_group sv g a = Some (b, Inr ())"
          "map_option (\<lambda>r. (b, r)) (resolve (cs_cache b)) = Some (t, r)"
      unfolding then_op_Some by auto
    then show ?thesis
    proof cases
      case err2
      then show ?thesis using load_group_good [OF err2(1) sv a] by simp
    next
      case ok2
      then show ?thesis
        using load_group_good [OF ok2(1) sv a] res by (auto simp: good_cache_def)
    qed
  qed
qed

lemma uin2uid_good:
  assumes "uin2uid sv uin g s = Some (t, r)"
    and sv: "server_true ids sv" and c: "good_cache ids (cs_cache s)"
  shows "good_cache ids (cs_cache t) \<and> (\<forall>uid. r = Inr uid \<longrightarrow> ids uin uid)"
proof (cases "ca_mode (cs_cache s) = NoCache")
  case True
  show ?thesis
  proof (cases g)
    case None
    then have f: "fast_fetch_friends sv (\<lambda>f. bf_uin f = uin) bf_uid s = Some (t, r)"
      using assms(1) True by (simp add: uin2uid_def fast_fetch_friends_uid_def)
    then show ?thesis
      using fast_fetch_keeps(1) [OF f] fast_friends_good [OF _ sv] c
      by (fastforce simp: friend_true_def)
  next
    case (Some gid)
    then have f: "fast_fetch_group_members sv gid (\<lambda>m. bgm_uin m = uin) bgm_uid s = Some (t, r)"
      using assms(1) True by (simp add: uin2uid_def fast_fetch_group_members_uid_def)
    then show ?thesis
      using fast_fetch_keeps(2) [OF f] fast_members_good [OF _ sv] c
      by (fastforce simp: member_true_def)
  qed
next
  case False
  show ?thesis
    by (rule lookup_good [OF _ sv c resolve_uin2uid_good])
      (use assms(1) False in \<open>auto simp: uin2uid_def\<close>)
qed

lemma uid2uin_good:
  assumes "uid2uin sv uid g s = Some (t, r)"
    and sv: "server_true ids sv" and c: "good_cache ids (cs_cache s)"
  shows "good_cache ids (cs_cache t) \<and> (\<forall>uin. r = Inr uin \<longrightarrow> ids uin uid)"
proof (cases "ca_mode (cs_cache s) = NoCache")
  case True
  show ?thesis
  proof (cases g)
    case None
    then have f: "fast_fetch_friends sv (\<lambda>f. bf_uid f = uid) bf_uin s = Some (t, r)"
      using assms(1) True by (simp add: uid2uin_def fast_fetch_friends_uin_def)
    then show ?thesis
      using fast_fetch_keeps(1) [OF f] fast_friends_good [OF _ sv] c
      by (fastforce simp: friend_true_def)
  next
    case (Some gid)
    then have f: "fast_fetch_group_members sv gid (\<lambda>m. bgm_uid m = uid) bgm_uin s = Some (t, r)"
      using assms(1) True by (simp add: uid2uin_def fast_fetch_group_members_uin_def)
    then show ?thesis
      using fast_fetch_keeps(2) [OF f] fast_members_good [OF _ sv] c
      by (fastforce simp: member_true_def)
  qed
next
  case False
  show ?thesis
    by (rule lookup_good [OF _ sv c resolve_uid2uin_good])
      (use assms(1) False in \<open>auto simp: uid2uin_def\<close>)
qed

section \<open>Properties\<close>

datatype contact_call =
    CallUin2uid u32 "u32 option" | CallUid2uin rstring "u32 option"
  | CallRefreshFriends | CallRefreshMembers u32

fun run_call :: "contact_server \<Rightarrow> contact_call \<Rightarrow> contact_state \<Rightarrow> (contact_state \<times> (u32 \<times> rstring) list) option" where
  "run_call sv (CallUin2uid uin g) s =
     map_option (\<lambda>(s, r). (s, case r of Inr uid \<Rightarrow> [(uin, uid)] | Inl _ \<Rightarrow> [])) (uin2uid sv uin g s)"
| "run_call sv (CallUid2uin uid g) s =
     map_option (\<lambda>(s, r). (s, case r of Inr uin \<Rightarrow> [(uin, uid)] | Inl _ \<Rightarrow> [])) (uid2uin sv uid g s)"
| "run_call sv CallRefreshFriends s = map_option (\<lambda>(s, r). (s, [])) (refresh_friends_cache sv s)"
| "run_call sv (CallRefreshMembers g) s =
     map_option (\<lambda>(s, r). (s, [])) (refresh_group_members_cache sv g s)"

fun run_calls :: "contact_server \<Rightarrow> contact_call list \<Rightarrow> contact_state \<Rightarrow> (contact_state \<times> (u32 \<times> rstring) list) option" where
  "run_calls sv [] s = Some (s, [])"
| "run_calls sv (c # cs) s =
     do { (s, xs) \<leftarrow> run_call sv c s; (s, ys) \<leftarrow> run_calls sv cs s; Some (s, xs @ ys) }"

lemma run_call_good:
  assumes "run_call sv c s = Some (t, xs)"
    and sv: "server_true ids sv" and c: "good_cache ids (cs_cache s)"
  shows "good_cache ids (cs_cache t) \<and> (\<forall>(uin, uid) \<in> set xs. ids uin uid)"
proof (cases c)
  case (CallUin2uid uin g)
  then obtain r where r: "uin2uid sv uin g s = Some (t, r)"
      "xs = (case r of Inr uid \<Rightarrow> [(uin, uid)] | Inl _ \<Rightarrow> [])"
    using assms(1) by auto
  then show ?thesis using uin2uid_good [OF r(1) sv c] by (cases r) auto
next
  case (CallUid2uin uid g)
  then obtain r where r: "uid2uin sv uid g s = Some (t, r)"
      "xs = (case r of Inr uin \<Rightarrow> [(uin, uid)] | Inl _ \<Rightarrow> [])"
    using assms(1) by auto
  then show ?thesis using uid2uin_good [OF r(1) sv c] by (cases r) auto
qed (use assms refresh_friends_good refresh_group_good in auto)

lemma run_calls_good:
  assumes "run_calls sv cs s = Some (t, xs)"
    and sv: "server_true ids sv" and "good_cache ids (cs_cache s)"
  shows "good_cache ids (cs_cache t) \<and> (\<forall>(uin, uid) \<in> set xs. ids uin uid)"
  using assms(1,3)
proof (induction cs arbitrary: s xs)
  case (Cons c cs)
  then obtain u ys zs where "run_call sv c s = Some (u, ys)" "run_calls sv cs u = Some (t, zs)"
      "xs = ys @ zs"
    by (auto simp: bind_eq_Some_conv)
  then show ?case using run_call_good [OF _ sv Cons.prems(2)] Cons.IH by fastforce
qed simp

text \<open>
  C31: What the client says about identities is true. If the server only reports true pairs of
  account number and uid, then a run of translations in both directions and of refreshes, starting
  from the empty cache of any mode, keeps every table of the cache true, and every answer of
  \<open>uin2uid\<close> and \<open>uid2uin\<close> is a true pair.
\<close>

theorem identities_true:
  assumes "server_true ids sv"
    and "run_calls sv cs \<lparr>cs_cache = Cache_new mode, cs_reqs = 0\<rparr> = Some (t, answers)"
  shows "cache_true ids (cs_cache t) \<and> (\<forall>(uin, uid) \<in> set answers. ids uin uid)"
  using run_calls_good [OF assms(2,1)] cache_wf_new cache_true_new by (simp add: good_cache_def)

text \<open>A server with one page of friends and one page of members, for examples.\<close>

definition demo_friend :: BotFriend where
  "demo_friend = BotFriend_new 10 [7] [] [] [] [] (Some \<lparr>bfg_group_id = 1, bfg_group_name = []\<rparr>)"

definition demo_member :: "u32 \<Rightarrow> rstring \<Rightarrow> BotGroupMember" where
  "demo_member uin uid = \<lparr>bgm_uin = uin, bgm_uid = uid, bgm_permission = PermMember,
     bgm_group_level = 0, bgm_member_card = None, bgm_special_title = None,
     bgm_member_name = None, bgm_join_time = None, bgm_last_msg_time = None,
     bgm_shut_up_timestamp = None\<rparr>"

definition demo_pages :: "FetchMembersEvent list" where
  "demo_pages =
     [\<lparr>fme_group_uin = 5, fme_group_members = [demo_member 10 [7]], fme_token = Some [1]\<rparr>,
      \<lparr>fme_group_uin = 5, fme_group_members = [demo_member 11 [8]], fme_token = None\<rparr>]"

definition demo_server :: contact_server where
  "demo_server = \<lparr>co_friends = (\<lambda>_ _. Inr (Some \<lparr>ffe_friends = [demo_friend],
       ffe_friend_groups = [1 \<mapsto> [9]], ffe_next_uin = None\<rparr>)),
     co_members = (\<lambda>_ _ k. Inr (Some (demo_pages ! (if k = None then 0 else 1)))),
     co_order = (\<lambda>_. [])\<rparr>"

lemma demo_serves:
  "serves (co_friends demo_server) ffe_next_uin None n [\<lparr>ffe_friends = [demo_friend],
     ffe_friend_groups = [1 \<mapsto> [9]], ffe_next_uin = None\<rparr>]"
  "serves (co_members demo_server g) fme_token None n demo_pages"
  by (simp_all add: demo_server_def demo_pages_def)

theorem identities_true_witness:
  "\<exists>t. run_calls demo_server [CallUin2uid 10 None] \<lparr>cs_cache = Cache_new NoCache, cs_reqs = 0\<rparr>
      = Some (t, [(10, [7])]) \<and> cache_true (\<lambda>u d. (u, d) \<in> {(10, [7]), (11, [8])}) (cs_cache t)"
proof -
  let ?ids = "\<lambda>u d. (u, d) \<in> {(10, [7]), (11, [8])}"
  have sv: "server_true ?ids demo_server"
    by (auto simp: server_true_def demo_server_def demo_pages_def demo_friend_def demo_member_def
        BotFriend_new_def friend_true_def member_true_def)
  obtain t where t: "run_calls demo_server [CallUin2uid 10 None]
      \<lparr>cs_cache = Cache_new NoCache, cs_reqs = 0\<rparr> = Some (t, [(10, [7])])"
    by (simp add: uin2uid_def Cache_none_def fast_fetch_friends_uid_def fast_fetch_friends_def
        iter_fetch_friends_def iter_fetch.simps demo_server_def demo_friend_def BotFriend_new_def)
  from identities_true [OF sv t] show ?thesis using t by blast
qed

lemma refresh_members_exact:
  assumes "cache_wf (cs_cache s)" and "ca_mode (cs_cache s) \<noteq> NoCache"
    and "serves (co_members sv g) fme_token None (cs_reqs s) es"
  shows "\<exists>t m. refresh_group_members_cache sv g s = Some (t, Inr ())
    \<and> cs_reqs t = cs_reqs s + length es \<and> ca_members (cs_cache s) = Some m
    \<and> ca_members (cs_cache t) = Some (m(g \<mapsto> concat (map fme_group_members es)))"
proof -
  have "fold (\<lambda>e ms. ms @ fme_group_members e) es ms = ms @ concat (map fme_group_members es)" for ms
    by (induction es arbitrary: ms) simp_all
  then have it: "iter_fetch_group sv g members_process (cs_reqs s) []
      = Some (cs_reqs s + length es, concat (map fme_group_members es), Inr None)"
    using iter_fetch_collect [OF assms(3), of members_process "\<lambda>e ms. ms @ fme_group_members e" "[]"]
    by (simp add: iter_fetch_group_def members_process_def)
  have ins: "ca_members (insert_members ms c) = ca_members c" for ms c
    by (induction ms arbitrary: c) (simp_all add: insert_members_def)
  obtain m where m: "ca_members (cs_cache s) = Some m"
    using assms(1,2) by (auto simp: cache_wf_def)
  then show ?thesis
    using it assms(2) ins by (simp add: refresh_group_members_cache_def Let_def)
qed

text \<open>
  C32: A refresh loads the whole group. In a cached mode, when the server answers with a finite
  sequence of pages, \<open>fetch_maybe_cached_group_members\<close> with \<open>refresh_cache\<close> ends after one
  request per page, and the closure sees the members of all pages, in order, as the entry of the
  group, every other group as it was.
\<close>

theorem group_members_refreshed:
  assumes "cache_wf (cs_cache s)" and "ca_mode (cs_cache s) \<noteq> NoCache"
    and "serves (co_members sv g) fme_token None (cs_reqs s) es"
  shows "\<exists>t. fetch_maybe_cached_group_members sv g process_fn True s
      = Some (t, Inr (process_fn ((the (ca_members (cs_cache s)))(g \<mapsto> concat (map fme_group_members es)))))
    \<and> cs_reqs t = cs_reqs s + length es"
proof -
  obtain t m where t: "refresh_group_members_cache sv g s = Some (t, Inr ())"
      "cs_reqs t = cs_reqs s + length es" "ca_members (cs_cache s) = Some m"
      "ca_members (cs_cache t) = Some (m(g \<mapsto> concat (map fme_group_members es)))"
    using refresh_members_exact [OF assms] by blast
  then have "load_group sv (Some g) t = Some (t, Inr ())"
    by (simp add: load_group_def group_missing_def)
  then show ?thesis
    using t assms(2) by (simp add: fetch_maybe_cached_group_members_def then_op_def)
qed

theorem group_members_refreshed_witness:
  "\<exists>t. fetch_maybe_cached_group_members demo_server 5 (\<lambda>m. the (m 5)) True
      \<lparr>cs_cache = Cache_new Half, cs_reqs = 0\<rparr>
      = Some (t, Inr [demo_member 10 [7], demo_member 11 [8]]) \<and> cs_reqs t = 2"
proof -
  let ?s = "\<lparr>cs_cache = Cache_new Half, cs_reqs = 0\<rparr>"
  have "cache_wf (cs_cache ?s)" "ca_mode (cs_cache ?s) \<noteq> NoCache"
      "serves (co_members demo_server 5) fme_token None (cs_reqs ?s) demo_pages"
    using cache_wf_new [of Half] demo_serves(2) by (simp_all add: Cache_half_def)
  from group_members_refreshed [OF this, of "\<lambda>m. the (m 5)"] show ?thesis
    by (simp add: demo_pages_def numeral_2_eq_2)
qed

text \<open>
  Without a cache, only the last page is seen. In the mode without a cache, on the same
  server, \<open>fetch_maybe_cached_group_members\<close> hands the closure a table in which the group has the
  members of the last page alone: each page replaces the one before.
\<close>

theorem group_members_uncached_last_page:
  assumes "ca_mode (cs_cache s) = NoCache"
    and "serves (co_members sv g) fme_token None (cs_reqs s) es"
  shows "fetch_maybe_cached_group_members sv g process_fn refresh_cache s
    = Some (s\<lparr>cs_reqs := cs_reqs s + length es\<rparr>,
        Inr (process_fn [g \<mapsto> fme_group_members (last es)]))"
proof -
  have ne: "es \<noteq> []" using assms(2) by (cases es) auto
  have "fold (\<lambda>e m. m(g \<mapsto> fme_group_members e)) es m = m(g \<mapsto> fme_group_members (last es))"
    if "es \<noteq> []" for m :: "u32 \<rightharpoonup> BotGroupMember list" and es
    using that
  proof (induction es arbitrary: m)
    case (Cons e es)
    then show ?case by (cases es) (auto simp: fun_eq_iff)
  qed simp
  then have "iter_fetch_group sv g
      (\<lambda>event m. (m(g \<mapsto> fme_group_members event), Inr (None :: unit option))) (cs_reqs s) (\<lambda>_. None)
    = Some (cs_reqs s + length es, [g \<mapsto> fme_group_members (last es)], Inr None)"
    using iter_fetch_collect [OF assms(2),
        of "\<lambda>event m. (m(g \<mapsto> fme_group_members event), Inr (None :: unit option))"
          "\<lambda>e m. m(g \<mapsto> fme_group_members e)" "\<lambda>_. None"] ne
    by (simp add: iter_fetch_group_def)
  then show ?thesis using assms(1) by (simp add: fetch_maybe_cached_group_members_def Let_def)
qed

theorem group_members_uncached_last_page_witness:
  "fetch_maybe_cached_group_members demo_server 5 (\<lambda>m. the (m 5)) True
      \<lparr>cs_cache = Cache_new NoCache, cs_reqs = 0\<rparr>
    = Some (\<lparr>cs_cache = Cache_new NoCache, cs_reqs = 0 + length demo_pages\<rparr>, Inr [demo_member 11 [8]])"
proof -
  let ?s = "\<lparr>cs_cache = Cache_new NoCache, cs_reqs = 0\<rparr>"
  have "ca_mode (cs_cache ?s) = NoCache"
      "serves (co_members demo_server 5) fme_token None (cs_reqs ?s) demo_pages"
    using demo_serves(2) by (simp_all add: Cache_none_def)
  from group_members_uncached_last_page [OF this, of "\<lambda>m. the (m 5)" True] show ?thesis
    by (simp add: demo_pages_def)
qed

text \<open>
  In the default mode, a friend is never looked up. With a \<open>Half\<close> cache, \<open>uin2uid\<close> and
  \<open>uid2uin\<close> without a group answer from the friends that happen to be cached, and send no request
  whatever the server would say: on a fresh client both always answer \<open>Friend not found\<close>.
\<close>

theorem half_mode_never_asks:
  assumes "cache_wf (cs_cache s)" and "ca_mode (cs_cache s) = Half"
  shows "(\<exists>t. ca_friends (cs_cache s) = Some t
      \<and> uin2uid sv uin None s
        = Some (s, ok_or (generic ''Friend not found'') (map_option bf_uid (t uin)))
      \<and> uid2uin sv uid None s
        = Some (s, ok_or (generic ''Friend not found'')
            (find (\<lambda>k. case t k of Some f \<Rightarrow> bf_uid f = uid | None \<Rightarrow> False) (co_order sv t))))"
proof -
  obtain t where "ca_friends (cs_cache s) = Some t" "ca_uin2uid (cs_cache s) = None"
      "ca_uid2uin (cs_cache s) = None"
    using assms by (auto simp: cache_wf_def)
  then show ?thesis
    using assms(2)
    by (simp add: uin2uid_def uid2uin_def then_op_def load_group_def
        resolve_uin2uid_within_cache_def resolve_uid2uin_within_cache_def)
qed

theorem half_mode_never_asks_witness:
  "uin2uid demo_server 10 None \<lparr>cs_cache = Cache_new Half, cs_reqs = 0\<rparr>
    = Some (\<lparr>cs_cache = Cache_new Half, cs_reqs = 0\<rparr>, Inl (generic ''Friend not found''))"
proof -
  let ?s = "\<lparr>cs_cache = Cache_new Half, cs_reqs = 0\<rparr>"
  have "cache_wf (cs_cache ?s)" "ca_mode (cs_cache ?s) = Half"
    using cache_wf_new [of Half] by (simp_all add: Cache_half_def)
  from half_mode_never_asks [OF this, of demo_server 10 "[]"] show ?thesis
    by (auto simp: Cache_half_def)
qed

text \<open>
  C33: Without a cache, the search stops at the first hit and fails only at the end. On a server
  that answers with a finite sequence of pages of friends, \<open>uin2uid\<close> without a group returns,
  after at most one request per page, the uid of the first friend with that number on any page, or
  \<open>Friend not found\<close>, and leaves the cache as it was.
\<close>

theorem uncached_search:
  assumes "ca_mode (cs_cache s) = NoCache"
    and "serves (co_friends sv) ffe_next_uin None (cs_reqs s) es"
  shows "\<exists>n \<le> cs_reqs s + length es. uin2uid sv uin None s = Some (s\<lparr>cs_reqs := n\<rparr>,
    ok_or (generic ''Friend not found'')
      (map_option bf_uid (find (\<lambda>f. bf_uin f = uin) (concat (map ffe_friends es)))))"
proof -
  obtain n where n: "iter_fetch (co_friends sv) ffe_next_uin
      (\<lambda>e u. (u, Inr (map_option bf_uid (find (\<lambda>f. bf_uin f = uin) (ffe_friends e))))) None (cs_reqs s) ()
    = Some (n, (), Inr (map_option bf_uid (find (\<lambda>f. bf_uin f = uin) (concat (map ffe_friends es)))))"
    "n \<le> cs_reqs s + length es"
    using iter_fetch_search [OF assms(2), of bf_uid "\<lambda>f. bf_uin f = uin" ffe_friends "()"] by blast
  then show ?thesis
    using assms(1)
    by (intro exI [of _ n]) (simp add: uin2uid_def fast_fetch_friends_uid_def fast_fetch_friends_def iter_fetch_friends_def
        Let_def)
qed

theorem uncached_search_witness:
  "\<exists>n \<le> 1. uin2uid demo_server 10 None \<lparr>cs_cache = Cache_new NoCache, cs_reqs = 0\<rparr>
    = Some (\<lparr>cs_cache = Cache_new NoCache, cs_reqs = n\<rparr>, Inr [7])"
proof -
  let ?s = "\<lparr>cs_cache = Cache_new NoCache, cs_reqs = 0\<rparr>"
  have m: "ca_mode (cs_cache ?s) = NoCache" by (simp add: Cache_none_def)
  from uncached_search [OF m demo_serves(1), of 10] show ?thesis
    by (simp add: demo_friend_def BotFriend_new_def)
qed

end
