(* ===== verification/Wt_Login.thy ===== *)
theory Wt_Login
  imports Errors
begin

text \<open>
  The login events \<open>TransEmp\<close> (\<open>mania/src/core/event/login/trans_emp.rs\<close>: the QR code and its
  status) and \<open>WtLogin\<close> (\<open>wtlogin.rs\<close>: the login itself), with the packet format they share
  (\<open>build_wtlogin_packet\<close>, \<open>parse_wtlogin_packet\<close>).

  An event that changes the context returns the new context beside its result; \<open>None\<close> is a panic.
  The clock, MD5, the hexadecimal coding and the protobuf codecs are parameters. The key exchange
  of \<open>crypto/ecdh.rs\<close> is done once, its result the field \<open>ctx_crypto\<close>; \<open>ecdh_encrypt\<close> and
  \<open>ecdh_decrypt\<close> are its two methods.
\<close>

section \<open>Types\<close>

datatype TransEmpStatus = QueryResult | FetchQrCode

record TransEmp12ConfirmedData =
  ec_tgtgt_key :: bytes
  ec_temp_password :: bytes
  ec_no_pic_sig :: bytes

datatype TransEmp12Res =
    Confirmed TransEmp12ConfirmedData | CodeExpired | WaitingForScan | WaitingForConfirm | Canceled

record TransEmp31Res =
  e31_qr_code :: bytes
  e31_expiration :: u32
  e31_url :: rstring
  e31_qr_sig :: rstring
  e31_signature :: bytes

datatype TransEmpResult = Emp12 TransEmp12Res | Emp31 TransEmp31Res

record TransEmp =
  te_status :: TransEmpStatus
  te_result :: "TransEmpResult option"

record WtLogin =
  wl_code :: i32
  wl_msg :: "rstring option"

definition new_fetch_qr_code :: TransEmp where
  "new_fetch_qr_code = \<lparr>te_status = FetchQrCode, te_result = None\<rparr>"

definition new_query_result :: TransEmp where
  "new_query_result = \<lparr>te_status = QueryResult, te_result = None\<rparr>"

definition TLVS :: "u16 list" where
  "TLVS = [0x016, 0x01B, 0x01D, 0x033, 0x035, 0x066, 0x0D1]"

definition TLVS_PASSWORD :: "u16 list" where
  "TLVS_PASSWORD = [0x011, 0x016, 0x01B, 0x01D, 0x033, 0x035, 0x066, 0x0D1]"

definition BUILD_TLVS :: "u16 list" where
  "BUILD_TLVS = [0x106, 0x144, 0x116, 0x142, 0x145, 0x018, 0x141, 0x177, 0x191, 0x100, 0x107,
     0x318, 0x16A, 0x166, 0x521]"

record wt_env =
  we_tlv :: tlv_env
  we_tlv_de :: tlv_de_env
  we_hex :: "bytes \<Rightarrow> rstring"
  we_md5 :: "bytes \<Rightarrow> bytes"
  we_fill :: "nat \<Rightarrow> u8"
  we_now :: int

definition ecdh_encrypt :: "(nat \<Rightarrow> u8) \<Rightarrow> Crypto \<Rightarrow> bytes \<Rightarrow> bytes option" where
  "ecdh_encrypt fill c data = tea_encrypt fill data (cr_shared c)"

definition ecdh_decrypt :: "Crypto \<Rightarrow> bytes \<Rightarrow> bytes option" where
  "ecdh_decrypt c data = tea_decrypt data (cr_shared c)"

section \<open>The packet\<close>

text \<open>The timestamp is in seconds; the cast to \<open>u32\<close> truncates.\<close>

definition build_trans_emp_body :: "wt_env \<Rightarrow> Context \<Rightarrow> u16 \<Rightarrow> bytes \<Rightarrow> bytes option" where
  "build_trans_emp_body env ctx qr_cmd tlvs =
     do { new_packet \<leftarrow> pb_build (chain
            [pb_u8 2, pb_u16 (of_nat (43 + length tlvs + 1)), pb_u16 qr_cmd,
             pb_bytes (replicate 21 0), pb_u8 0x03, pb_u16 0x00, pb_u16 0x32, pb_u32 0, pb_u64 0,
             pb_bytes tlvs, pb_u8 3]);
          request_body \<leftarrow> pb_build (chain
            [pb_u32 (word_of_int (we_now env div 10 ^ 9)), pb_bytes new_packet]);
          pb_build (chain
            [pb_u8 0x00, pb_u16 (of_nat (length request_body)),
             pb_u32 (ai_app_id (ctx_app_info ctx)), pb_u32 0x72,
             write_with_length (PREFIX_U16 OR PREFIX_LENGTH_ONLY) 0 (pb_bytes []),
             write_with_length (PREFIX_U8 OR PREFIX_LENGTH_ONLY) 0 (pb_bytes []),
             pb_bytes request_body]) }"

text \<open>The closure takes the sequence number from the session, which it advances.\<close>

definition build_wtlogin_packet :: "wt_env \<Rightarrow> u16 \<Rightarrow> bytes \<Rightarrow> Context \<Rightarrow> (Context \<times> bytes) option" where
  "build_wtlogin_packet env cmd body ctx =
     (let (seqno, session) = Session_next_sequence (ctx_session ctx) in
      do { encrypted \<leftarrow> ecdh_encrypt (we_fill env) (ctx_crypto ctx) body;
           out \<leftarrow> pb_build (chain
             [pb_u8 2,
              write_with_length (PREFIX_U16 OR PREFIX_WITH) 1 (chain
                [pb_u16 8001, pb_u16 cmd, pb_u16 seqno, pb_u32 (ks_uin (ctx_key_store ctx)),
                 pb_u8 3, pb_u8 135, pb_u32 0, pb_u8 19, pb_u16 0,
                 pb_u16 (ai_app_client_version (ctx_app_info ctx)), pb_u32 0,
                 pb_u8 2, pb_u8 1, pb_bytes (kc_random_key (se_stub (ctx_session ctx))),
                 pb_u16 0x0131, pb_u16 0x0001,
                 pb_u16 (of_nat (length (cr_public (ctx_crypto ctx)))),
                 pb_bytes (cr_public (ctx_crypto ctx)),
                 pb_bytes encrypted, pb_u8 3])]);
           Some (ctx\<lparr>ctx_session := session\<rparr>, out) })"

definition parse_wtlogin_packet :: "Context \<Rightarrow> bytes \<Rightarrow> (PacketError + bytes) option" where
  "parse_wtlogin_packet ctx packet =
     do { (header, rd) \<leftarrow> rd_u8 packet;
          if header \<noteq> 2
          then Some (Inl (OtherPacketError
            (str ''invalid packet header when parse_wtlogin_packet'')))
          else do {
            (_, rd) \<leftarrow> rd_u16 rd;
            (_, rd) \<leftarrow> rd_u16 rd;
            (_, rd) \<leftarrow> rd_u16 rd;
            (_, rd) \<leftarrow> rd_u16 rd;
            (_, rd) \<leftarrow> rd_u32 rd;
            (_, rd) \<leftarrow> rd_u8 rd;
            (_, rd) \<leftarrow> rd_u16 rd;
            (encrypted, rd) \<leftarrow> rd_bytes rd;
            check (encrypted \<noteq> []);
            if last encrypted \<noteq> 3
            then Some (Inl (OtherPacketError
              (str ''invalid packet end when parse_wtlogin_packet'')))
            else map_option Inr (ecdh_decrypt (ctx_crypto ctx) (butlast encrypted)) } }"

section \<open>TransEmp\<close>

definition trans_emp_data :: "wt_env \<Rightarrow> Context \<Rightarrow> TransEmpStatus \<Rightarrow> bytes option" where
  "trans_emp_data env ctx status =
     (case status of
        QueryResult \<Rightarrow>
          do { qrsign \<leftarrow> se_qr_sign (ctx_session ctx);
               data \<leftarrow> pb_build (chain
                 [pb_u16 0, pb_u32 (ai_app_id (ctx_app_info ctx)),
                  write_with_length (PREFIX_U16 OR PREFIX_LENGTH_ONLY) 0 (pb_bytes (qs_sign qrsign)),
                  pb_u64 0, pb_u8 0,
                  write_with_length (PREFIX_U16 OR PREFIX_LENGTH_ONLY) 0 (pb_bytes []),
                  pb_u16 0]);
               build_trans_emp_body env ctx 0x12 data }
      | FetchQrCode \<Rightarrow>
          do { let tlvs = (if se_unusual_sign (ctx_session ctx) = None then TLVS else TLVS_PASSWORD);
               data \<leftarrow> pb_build (chain
                 [pb_u16 0, pb_u32 (ai_app_id (ctx_app_info ctx)), pb_u64 0, pb_bytes [], pb_u8 0,
                  write_with_length (PREFIX_U16 OR PREFIX_LENGTH_ONLY) 0 (pb_bytes []),
                  pb_packet (serialize_qrcode_tlv_set (we_tlv env) ctx tlvs)]);
               build_trans_emp_body env ctx 0x31 data })"

definition TransEmp_build :: "wt_env \<Rightarrow> TransEmp \<Rightarrow> Context \<Rightarrow> (Context \<times> bytes) option" where
  "TransEmp_build env event ctx =
     do { body \<leftarrow> trans_emp_data env ctx (te_status event);
          build_wtlogin_packet env 2066 body ctx }"

text \<open>\<open>tlvs.get::<T>().map_err(TlvError::MissingTlv)?\<close>\<close>

definition get_tlv ::
    "u16 \<Rightarrow> (TlvDe \<Rightarrow> 't option) \<Rightarrow> TlvSet \<Rightarrow> ('t \<Rightarrow> (EventError + 'a) option) \<Rightarrow> (EventError + 'a) option" where
  "get_tlv tag downcast tlvs f =
     try_res (case TlvSet_get tag downcast tlvs of
                Inl t \<Rightarrow> Inl (EventMissingTlv (MissingTlv t)) | Inr v \<Rightarrow> Inr v) f"

fun as_017q :: "TlvDe \<Rightarrow> T017q option" where "as_017q (De017q t) = Some t" | "as_017q _ = None"
fun as_018q :: "TlvDe \<Rightarrow> T018q option" where "as_018q (De018q t) = Some t" | "as_018q _ = None"
fun as_019q :: "TlvDe \<Rightarrow> T019q option" where "as_019q (De019q t) = Some t" | "as_019q _ = None"
fun as_01cq :: "TlvDe \<Rightarrow> T01cq option" where "as_01cq (De01cq t) = Some t" | "as_01cq _ = None"
fun as_01eq :: "TlvDe \<Rightarrow> T01eq option" where "as_01eq (De01eq t) = Some t" | "as_01eq _ = None"
fun as_0d1 :: "TlvDe \<Rightarrow> T0d1Resp option" where "as_0d1 (De0d1Resp t) = Some t" | "as_0d1 _ = None"
fun as_106 :: "TlvDe \<Rightarrow> T106 option" where "as_106 (De106 t) = Some t" | "as_106 _ = None"
fun as_10A :: "TlvDe \<Rightarrow> T10A option" where "as_10A (De10A t) = Some t" | "as_10A _ = None"
fun as_119 :: "TlvDe \<Rightarrow> T119 option" where "as_119 (De119 t) = Some t" | "as_119 _ = None"
fun as_143 :: "TlvDe \<Rightarrow> T143 option" where "as_143 (De143 t) = Some t" | "as_143 _ = None"
fun as_146 :: "TlvDe \<Rightarrow> T146 option" where "as_146 (De146 t) = Some t" | "as_146 _ = None"
fun as_305 :: "TlvDe \<Rightarrow> T305 option" where "as_305 (De305 t) = Some t" | "as_305 _ = None"
fun as_543 :: "TlvDe \<Rightarrow> T543 option" where "as_543 (De543 t) = Some t" | "as_543 _ = None"
fun as_11A :: "TlvDe \<Rightarrow> T11A option" where "as_11A (De11A t) = Some t" | "as_11A _ = None"

definition parse_emp31 :: "tlv_de_env \<Rightarrow> bytes \<Rightarrow> (EventError + TransEmp) option" where
  "parse_emp31 env packet =
     do { (_, rd) \<leftarrow> rd_u8 packet;
          (signature, rd) \<leftarrow> rd_section_16_with_addition 0 rd_bytes rd;
          (rest, _) \<leftarrow> rd_bytes rd;
          tlvs \<leftarrow> TlvSet_deserialize_qrcode env rest;
          get_tlv 0x017 as_017q tlvs (\<lambda>t017.
          get_tlv 0x01c as_01cq tlvs (\<lambda>t01c.
          get_tlv 0x0d1 as_0d1 tlvs (\<lambda>t0d1.
            Some (Inr \<lparr>te_status = FetchQrCode, te_result = Some (Emp31
              \<lparr>e31_qr_code = t017q_qr_code t017, e31_expiration = t01cq_expire_sec t01c,
               e31_url = qd1r_url (t0d1r_proto t0d1), e31_qr_sig = qd1r_qr_sig (t0d1r_proto t0d1),
               e31_signature = signature\<rparr>)\<rparr>)))) }"

definition parse_confirmed :: "tlv_de_env \<Rightarrow> bytes \<Rightarrow> (EventError + TransEmp12Res) option" where
  "parse_confirmed env rd =
     do { (_, rd) \<leftarrow> rd_skip 12 rd;
          (rest, _) \<leftarrow> rd_bytes rd;
          tlvs \<leftarrow> TlvSet_deserialize_qrcode env rest;
          get_tlv 0x01e as_01eq tlvs (\<lambda>t01e.
          get_tlv 0x018 as_018q tlvs (\<lambda>t018.
          get_tlv 0x019 as_019q tlvs (\<lambda>t019.
            Some (Inr (Confirmed
              \<lparr>ec_tgtgt_key = t01eq_tgtgt_key t01e, ec_temp_password = t018q_temp_password t018,
               ec_no_pic_sig = t019q_no_pic_sig t019\<rparr>))))) }"

definition parse_emp12 :: "tlv_de_env \<Rightarrow> bytes \<Rightarrow> (EventError + TransEmp) option" where
  "parse_emp12 env packet =
     do { (state, rd) \<leftarrow> rd_u8 packet;
          result \<leftarrow>
            (if state = 0 then parse_confirmed env rd
             else if state = 17 then Some (Inr CodeExpired)
             else if state = 48 then Some (Inr WaitingForScan)
             else if state = 53 then Some (Inr WaitingForConfirm)
             else if state = 54 then Some (Inr Canceled)
             else Some (Inl (OtherEventError
               (str ''unknown trans_emp ret code: '' @ dec_str (unat state)))));
          try_res result (\<lambda>result.
            Some (Inr \<lparr>te_status = QueryResult, te_result = Some (Emp12 result)\<rparr>)) }"

definition parse_trans_emp_body :: "tlv_de_env \<Rightarrow> bytes \<Rightarrow> (EventError + TransEmp) option" where
  "parse_trans_emp_body env packet =
     do { (_, rd) \<leftarrow> rd_u32 packet;
          (_, rd) \<leftarrow> rd_u32 rd;
          (command, rd) \<leftarrow> rd_u16 rd;
          (_, rd) \<leftarrow> rd_skip 40 rd;
          (_, rd) \<leftarrow> rd_u32 rd;
          (packet, rd) \<leftarrow> rd_bytes rd;
          if command = 0x31 then parse_emp31 env packet
          else if command = 0x12 then parse_emp12 env packet
          else Some (Inl (OtherEventError
            (str ''unsupported trans_emp command: 0x'' @ hex_fmt (unat command)))) }"

definition TransEmp_parse :: "wt_env \<Rightarrow> Context \<Rightarrow> bytes \<Rightarrow> (EventError + TransEmp) option" where
  "TransEmp_parse env ctx packet =
     do { r \<leftarrow> parse_wtlogin_packet ctx packet;
          try_res (packet_err r) (parse_trans_emp_body (we_tlv_de env)) }"

section \<open>WtLogin\<close>

definition WtLogin_build :: "wt_env \<Rightarrow> Context \<Rightarrow> (Context \<times> bytes) option" where
  "WtLogin_build env ctx =
     do { body \<leftarrow> pb_build (chain
            [pb_u16 0x09,
             pb_packet (serialize_tlv_set (we_tlv env) (we_hex env) ctx BUILD_TLVS)]);
          build_wtlogin_packet env 2064 body ctx }"

text \<open>The values a successful login stores.\<close>

record login_keys =
  lk_tgt :: bytes
  lk_d2 :: bytes
  lk_d2_key :: bytes
  lk_temp_pwd :: bytes
  lk_uid :: rstring
  lk_self_info :: T11A

definition read_login_keys :: "tlv_de_env \<Rightarrow> bytes \<Rightarrow> (EventError + login_keys) option" where
  "read_login_keys env dec_tlvs_data =
     do { tlvs \<leftarrow> TlvSet_deserialize env dec_tlvs_data;
          get_tlv 0x10A as_10A tlvs (\<lambda>t10a.
          get_tlv 0x143 as_143 tlvs (\<lambda>t143.
          get_tlv 0x305 as_305 tlvs (\<lambda>t305.
          do { check (length (t305_d2key t305) = 16);
          get_tlv 0x106 as_106 tlvs (\<lambda>t106.
          get_tlv 0x543 as_543 tlvs (\<lambda>t543.
          get_tlv 0x11A as_11A tlvs (\<lambda>self_info.
            Some (Inr \<lparr>lk_tgt = t10a_tgt t10a, lk_d2 = t143_d2 t143, lk_d2_key = t305_d2key t305,
              lk_temp_pwd = t106_temp t106, lk_uid = t543_uid t543, lk_self_info = self_info\<rparr>)))) }))) }"

definition store_login :: "wt_env \<Rightarrow> login_keys \<Rightarrow> Context \<Rightarrow> Context" where
  "store_login env k ctx =
     ctx\<lparr>ctx_session := (ctx_session ctx)\<lparr>se_stub :=
           (se_stub (ctx_session ctx))\<lparr>kc_tgtgt_key := we_md5 env (lk_d2_key k)\<rparr>\<rparr>,
         ctx_key_store := (ctx_key_store ctx)\<lparr>
           ks_uid := Some (lk_uid k),
           ks_session := (ks_session (ctx_key_store ctx))\<lparr>
             wt_tgt := lk_tgt k, wt_d2 := lk_d2 k, wt_d2_key := lk_d2_key k,
             wt_temp_password := Some (lk_temp_pwd k), wt_session_date := we_now env\<rparr>,
           ks_info := \<lparr>acc_age = t11a_age (lk_self_info k), acc_gender = t11a_gender (lk_self_info k),
             acc_name = t11a_nick_name (lk_self_info k)\<rparr>\<rparr>\<rparr>"

definition parse_wt_login_body ::
    "wt_env \<Rightarrow> Context \<Rightarrow> bytes \<Rightarrow> (Context \<times> (EventError + WtLogin)) option" where
  "parse_wt_login_body env ctx packet =
     do { (_, rd) \<leftarrow> rd_skip 2 packet;
          (typ, rd) \<leftarrow> rd_u8 rd;
          (rest, _) \<leftarrow> rd_bytes rd;
          original_tlvs \<leftarrow> TlvSet_deserialize (we_tlv_de env) rest;
          if typ = 0 then
            do { r \<leftarrow> get_tlv 0x119 as_119 original_tlvs (\<lambda>t119.
                   do { dec \<leftarrow> tea_decrypt (t119_encrypted_tlv t119)
                          (kc_tgtgt_key (se_stub (ctx_session ctx)));
                        read_login_keys (we_tlv_de env) dec });
                 Some (case r of
                    Inl e \<Rightarrow> (ctx, Inl e)
                  | Inr k \<Rightarrow> (store_login env k ctx, Inr \<lparr>wl_code = 0, wl_msg = None\<rparr>)) }
          else
            do { r \<leftarrow> get_tlv 0x146 as_146 original_tlvs (\<lambda>t146.
                   Some (Inr \<lparr>wl_code = ucast typ, wl_msg = Some (t146_message t146)\<rparr>));
                 Some (ctx, r) } }"

definition WtLogin_parse ::
    "wt_env \<Rightarrow> Context \<Rightarrow> bytes \<Rightarrow> (Context \<times> (EventError + WtLogin)) option" where
  "WtLogin_parse env ctx packet =
     do { r \<leftarrow> parse_wtlogin_packet ctx packet;
          (case r of
             Inl e \<Rightarrow> Some (ctx, Inl (PacketParseError e))
           | Inr packet \<Rightarrow> parse_wt_login_body env ctx packet) }"

section \<open>Packets: lemmas\<close>

text \<open>What \<open>build_wtlogin_packet\<close> writes between the length and the ciphertext.\<close>

definition wtlogin_head :: "u16 \<Rightarrow> Context \<Rightarrow> bytes" where
  "wtlogin_head cmd ctx =
     be16 8001 @ be16 cmd @ be16 (se_sequence (ctx_session ctx)) @ be32 (ks_uin (ctx_key_store ctx))
       @ [3, 135] @ be32 0 @ [19] @ be16 0 @ be16 (ai_app_client_version (ctx_app_info ctx))
       @ be32 0 @ [2, 1] @ kc_random_key (se_stub (ctx_session ctx)) @ be16 0x0131 @ be16 0x0001
       @ be16 (of_nat (length (cr_public (ctx_crypto ctx)))) @ cr_public (ctx_crypto ctx)"

lemma ecdh_round_trip:
  assumes "length (cr_shared c) = 16"
  obtains e where "ecdh_encrypt fill c m = Some e" and "ecdh_decrypt c e = Some m"
proof -
  obtain t where "tea16_new (cr_shared c) = Some t" using assms by (auto simp: tea16_new_def)
  from tea_round_trip_aux [OF this, of fill m] that show thesis
    by (auto simp: ecdh_encrypt_def ecdh_decrypt_def)
qed

lemma wtlogin_packet_built:
  assumes "wf_context ctx"
  shows "\<exists>c p. build_wtlogin_packet env cmd body ctx = Some
        (ctx\<lparr>ctx_session := (ctx_session ctx)\<lparr>se_sequence := se_sequence (ctx_session ctx) + 1\<rparr>\<rparr>, p)
      \<and> p = [2] @ be16 (of_nat (length p)) @ wtlogin_head cmd ctx @ c @ [3]
      \<and> ecdh_decrypt (ctx_crypto ctx) c = Some body"
proof -
  have "length (cr_shared (ctx_crypto ctx)) = 16" using assms by (simp add: wf_context_def)
  then obtain c where c: "ecdh_encrypt (we_fill env) (ctx_crypto ctx) body = Some c"
      "ecdh_decrypt (ctx_crypto ctx) c = Some body"
    by (rule ecdh_round_trip)
  define p where "p = [2] @ be16 (of_nat (length (wtlogin_head cmd ctx @ c @ [3]) + 3))
    @ wtlogin_head cmd ctx @ c @ [3]"
  have "emits (chain
             [pb_u8 2,
              write_with_length (PREFIX_U16 OR PREFIX_WITH) 1 (chain
                [pb_u16 8001, pb_u16 cmd, pb_u16 (se_sequence (ctx_session ctx)),
                 pb_u32 (ks_uin (ctx_key_store ctx)),
                 pb_u8 3, pb_u8 135, pb_u32 0, pb_u8 19, pb_u16 0,
                 pb_u16 (ai_app_client_version (ctx_app_info ctx)), pb_u32 0,
                 pb_u8 2, pb_u8 1, pb_bytes (kc_random_key (se_stub (ctx_session ctx))),
                 pb_u16 0x0131, pb_u16 0x0001,
                 pb_u16 (of_nat (length (cr_public (ctx_crypto ctx)))),
                 pb_bytes (cr_public (ctx_crypto ctx)),
                 pb_bytes c, pb_u8 3])]) p"
    by (rule emits_eq, (rule emit_intros)+) (simp add: p_def wtlogin_head_def)
  moreover have "p = [2] @ be16 (of_nat (length p)) @ wtlogin_head cmd ctx @ c @ [3]"
    by (simp add: p_def)
  ultimately show ?thesis
    using c by (intro exI [of _ c] exI [of _ p])
      (simp add: build_wtlogin_packet_def Session_next_sequence_def pb_build_emits)
qed

text \<open>
  A login packet describes itself. With a 16-byte shared secret \<open>build_wtlogin_packet\<close>
  returns, advances the login sequence by one and leaves the rest of the context alone; the packet
  is the start byte, its own total length (modulo 65536), the version, command, sequence number,
  account and key exchange header, a ciphertext that the shared secret decrypts to the body, and
  the end byte.
\<close>

theorem build_wtlogin_packet_layout:
  assumes "wf_context ctx"
  shows "\<exists>c p. build_wtlogin_packet env cmd body ctx = Some
        (ctx\<lparr>ctx_session := (ctx_session ctx)\<lparr>se_sequence := se_sequence (ctx_session ctx) + 1\<rparr>\<rparr>, p)
      \<and> p = [2] @ be16 (of_nat (length p)) @ wtlogin_head cmd ctx @ c @ [3]
      \<and> ecdh_decrypt (ctx_crypto ctx) c = Some body"
  by (rule wtlogin_packet_built [OF assms])

definition demo_wt_env :: wt_env where
  "demo_wt_env = \<lparr>
     we_tlv = \<lparr>env_encode_qr_d1 = (\<lambda>_. []), env_tlv_fill = (\<lambda>_. 220)\<rparr>,
     we_tlv_de = \<lparr>env_decode_qr_d1 = (\<lambda>_. None), env_decode_543 = (\<lambda>_. None)\<rparr>,
     we_hex = (\<lambda>_. []), we_md5 = (\<lambda>_. replicate 16 0), we_fill = (\<lambda>_. 220), we_now = 0\<rparr>"

theorem build_wtlogin_packet_layout_witness:
  "\<exists>c p. build_wtlogin_packet demo_wt_env 2066 [1, 2] demo_context = Some
        (demo_context\<lparr>ctx_session := (ctx_session demo_context)\<lparr>se_sequence := 1\<rparr>\<rparr>, p)
      \<and> p = [2] @ be16 (of_nat (length p)) @ wtlogin_head 2066 demo_context @ c @ [3]
      \<and> ecdh_decrypt (ctx_crypto demo_context) c = Some [1, 2]"
proof -
  have "se_sequence (ctx_session demo_context) + 1 = 1"
    by (simp add: demo_context_def Session_new_def)
  then show ?thesis
    using build_wtlogin_packet_layout [OF wf_demo_context, of demo_wt_env 2066 "[1, 2]"] by simp
qed

text \<open>The parser in closed form: fifteen bytes after the first are read and ignored.\<close>

lemma rd_u8_hd: "rd_u8 bs = (if bs = [] then None else Some (hd bs, tl bs))"
  by (cases bs) (simp_all add: rd_u8_def)

lemma parse_wtlogin_packet_eq:
  "parse_wtlogin_packet ctx packet =
     (if packet = [] then None
      else if hd packet \<noteq> 2 then Some (Inl (OtherPacketError
        (str ''invalid packet header when parse_wtlogin_packet'')))
      else if length packet < 17 then None
      else if last packet \<noteq> 3 then Some (Inl (OtherPacketError
        (str ''invalid packet end when parse_wtlogin_packet'')))
      else map_option Inr (ecdh_decrypt (ctx_crypto ctx) (butlast (drop 16 packet))))"
proof (cases packet)
  case (Cons h p)
  then show ?thesis
    by (auto simp: parse_wtlogin_packet_def rd_u8_hd rd_u16_def rd_u32_def rd_bytes_def
        split_to_def tl_drop drop_Suc [symmetric])
qed (simp add: parse_wtlogin_packet_def rd_u8_def split_to_def)

lemma wtlogin_reply_opens:
  assumes "wf_context ctx" and "length hdr = 15"
  obtains c where "ecdh_encrypt fill (ctx_crypto ctx) body = Some c"
    and "parse_wtlogin_packet ctx (2 # hdr @ c @ [3]) = Some (Inr body)"
proof -
  have "length (cr_shared (ctx_crypto ctx)) = 16" using assms(1) by (simp add: wf_context_def)
  then obtain c where c: "ecdh_encrypt fill (ctx_crypto ctx) body = Some c"
      "ecdh_decrypt (ctx_crypto ctx) c = Some body"
    by (rule ecdh_round_trip)
  have "drop 15 (hdr @ c @ [3]) = c @ [3]" using assms(2) by simp
  then show thesis
    using c assms(2) by (intro that [of c]) (simp_all add: parse_wtlogin_packet_eq del: drop_append)
qed

text \<open>
  A login reply is opened or rejected. Whatever the fifteen header bytes are, a packet around
  a body encrypted with the shared secret gives that body back; a wrong start or end byte is
  reported as an error and nothing is decrypted. A packet of fewer than 17 bytes is not rejected:
  unless it has a wrong start byte the parser panics on it.
\<close>

theorem parse_wtlogin_packet_reply:
  assumes "wf_context ctx" and "length hdr = 15"
  shows "\<exists>c. ecdh_encrypt fill (ctx_crypto ctx) body = Some c
      \<and> (\<forall>first final. parse_wtlogin_packet ctx (first # hdr @ c @ [final]) = Some
            (if first \<noteq> 2 then Inl (OtherPacketError
               (str ''invalid packet header when parse_wtlogin_packet''))
             else if final \<noteq> 3 then Inl (OtherPacketError
               (str ''invalid packet end when parse_wtlogin_packet''))
             else Inr body))
      \<and> (\<forall>p. length p < 17 \<and> (p = [] \<or> hd p = 2) \<longrightarrow> parse_wtlogin_packet ctx p = None)"
proof -
  have "length (cr_shared (ctx_crypto ctx)) = 16" using assms(1) by (simp add: wf_context_def)
  then obtain c where c: "ecdh_encrypt fill (ctx_crypto ctx) body = Some c"
      "ecdh_decrypt (ctx_crypto ctx) c = Some body"
    by (rule ecdh_round_trip)
  have "drop 15 (hdr @ c @ [final]) = c @ [final]" for final :: u8
    using assms(2) by simp
  then show ?thesis
    using c assms(2)
    by (intro exI [of _ c]) (auto simp: parse_wtlogin_packet_eq simp del: drop_append)
qed

theorem parse_wtlogin_packet_reply_witness:
  "\<exists>c. ecdh_encrypt (\<lambda>_. 220) (ctx_crypto demo_context) [7] = Some c
      \<and> parse_wtlogin_packet demo_context (2 # replicate 15 0 @ c @ [3]) = Some (Inr [7])
      \<and> parse_wtlogin_packet demo_context [2, 3] = None"
proof -
  from parse_wtlogin_packet_reply [OF wf_demo_context, of "replicate 15 0" "\<lambda>_. 220" "[7]"]
  obtain c where "ecdh_encrypt (\<lambda>_. 220) (ctx_crypto demo_context) [7] = Some c"
      "parse_wtlogin_packet demo_context (2 # replicate 15 0 @ c @ [3]) = Some (Inr [7])"
      "parse_wtlogin_packet demo_context [2, 3] = None"
    by auto
  then show ?thesis by blast
qed

section \<open>TransEmp replies\<close>

text \<open>The body of a TransEmp reply around its payload.\<close>

definition trans_emp_body :: "u32 \<Rightarrow> u32 \<Rightarrow> u16 \<Rightarrow> bytes \<Rightarrow> u32 \<Rightarrow> bytes \<Rightarrow> bytes" where
  "trans_emp_body len misc command unknown app_id payload =
     be32 len @ be32 misc @ be16 command @ unknown @ be32 app_id @ payload"

lemma parse_trans_emp_body_eq:
  "length unknown = 40 \<Longrightarrow>
   parse_trans_emp_body env (trans_emp_body len misc command unknown app_id payload) =
     (if command = 0x31 then parse_emp31 env payload
      else if command = 0x12 then parse_emp12 env payload
      else Some (Inl (OtherEventError
        (str ''unsupported trans_emp command: 0x'' @ hex_fmt (unat command)))))"
  by (simp add: parse_trans_emp_body_def trans_emp_body_def read_simps)

text \<open>What a reader of a set finds under a tag of its registry has the type it asks for.\<close>

lemma known_entries_mem:
  "(t, d) \<in> set (known_entries val es) \<Longrightarrow> \<exists>v. val t v = Some (Inr d)"
  by (auto simp: known_entries_def split: option.splits sum.splits)

lemma entry_value: "map_of (rev (known_entries val es)) t = Some d \<Longrightarrow> \<exists>v. val t v = Some (Inr d)"
  by (metis known_entries_mem map_of_SomeD set_rev)

lemma map_sum_Inr: "map_sum f g x = Inr d \<longleftrightarrow> (\<exists>y. x = Inr y \<and> d = g y)"
  by (cases x) auto

lemma qrcode_entry_types:
  assumes "map_of (rev (known_entries (qrcode_value env) es)) t = Some d"
  shows "t = 0x017 \<Longrightarrow> \<exists>x. d = De017q x" "t = 0x018 \<Longrightarrow> \<exists>x. d = De018q x"
    "t = 0x019 \<Longrightarrow> \<exists>x. d = De019q x" "t = 0x01c \<Longrightarrow> \<exists>x. d = De01cq x"
    "t = 0x01e \<Longrightarrow> \<exists>x. d = De01eq x" "t = 0x0d1 \<Longrightarrow> \<exists>x. d = De0d1Resp x"
  using entry_value [OF assms]
  by (auto simp: qrcode_value_def dest: value_of_tag simp: map_sum_Inr)

lemma login_entry_types:
  assumes "map_of (rev (known_entries (login_value env) es)) t = Some d"
  shows "t = 0x106 \<Longrightarrow> \<exists>x. d = De106 x" "t = 0x10A \<Longrightarrow> \<exists>x. d = De10A x"
    "t = 0x119 \<Longrightarrow> \<exists>x. d = De119 x" "t = 0x143 \<Longrightarrow> \<exists>x. d = De143 x"
    "t = 0x146 \<Longrightarrow> \<exists>x. d = De146 x" "t = 0x305 \<Longrightarrow> \<exists>x. d = De305 x"
    "t = 0x543 \<Longrightarrow> \<exists>x. d = De543 x" "t = 0x11A \<Longrightarrow> \<exists>x. d = De11A x"
  using entry_value [OF assms]
  by (auto simp: login_value_def dest: value_of_tag)


lemma get_tlv_eq:
  "get_tlv tag dc tlvs f = (case Option.bind (tlvs tag) dc of
     None \<Rightarrow> Some (Inl (EventMissingTlv (MissingTlv tag))) | Some x \<Rightarrow> f x)"
  by (cases "Option.bind (tlvs tag) dc") (simp_all add: get_tlv_def TlvSet_get_def)

text \<open>The table \<open>TlvSet\<close> makes of the entries of a set.\<close>

definition qrcode_table :: "tlv_de_env \<Rightarrow> (u16 \<times> bytes) list \<Rightarrow> TlvSet" where
  "qrcode_table env es = map_of (rev (known_entries (qrcode_value env) es))"

definition login_table :: "tlv_de_env \<Rightarrow> (u16 \<times> bytes) list \<Rightarrow> TlvSet" where
  "login_table env es = map_of (rev (known_entries (login_value env) es))"

lemma None_or_Some: "(\<And>d. m = Some d \<Longrightarrow> \<exists>x. d = f x) \<Longrightarrow> m = None \<or> (\<exists>x. m = Some (f x))"
  by (cases m) auto

lemma qrcode_table_cases:
  "qrcode_table env es 0x017 = None \<or> (\<exists>x. qrcode_table env es 0x017 = Some (De017q x))"
  "qrcode_table env es 0x018 = None \<or> (\<exists>x. qrcode_table env es 0x018 = Some (De018q x))"
  "qrcode_table env es 0x019 = None \<or> (\<exists>x. qrcode_table env es 0x019 = Some (De019q x))"
  "qrcode_table env es 0x01c = None \<or> (\<exists>x. qrcode_table env es 0x01c = Some (De01cq x))"
  "qrcode_table env es 0x01e = None \<or> (\<exists>x. qrcode_table env es 0x01e = Some (De01eq x))"
  "qrcode_table env es 0x0d1 = None \<or> (\<exists>x. qrcode_table env es 0x0d1 = Some (De0d1Resp x))"
  unfolding qrcode_table_def by (rule None_or_Some, erule qrcode_entry_types, rule refl)+

lemma login_table_cases:
  "login_table env es 0x106 = None \<or> (\<exists>x. login_table env es 0x106 = Some (De106 x))"
  "login_table env es 0x10A = None \<or> (\<exists>x. login_table env es 0x10A = Some (De10A x))"
  "login_table env es 0x119 = None \<or> (\<exists>x. login_table env es 0x119 = Some (De119 x))"
  "login_table env es 0x143 = None \<or> (\<exists>x. login_table env es 0x143 = Some (De143 x))"
  "login_table env es 0x146 = None \<or> (\<exists>x. login_table env es 0x146 = Some (De146 x))"
  "login_table env es 0x305 = None \<or> (\<exists>x. login_table env es 0x305 = Some (De305 x))"
  "login_table env es 0x543 = None \<or> (\<exists>x. login_table env es 0x543 = Some (De543 x))"
  "login_table env es 0x11A = None \<or> (\<exists>x. login_table env es 0x11A = Some (De11A x))"
  unfolding login_table_def by (rule None_or_Some, erule login_entry_types, rule refl)+

text \<open>Sets that fit the wire format and whose values can be read without a panic.\<close>

definition good_set :: "(u16 \<Rightarrow> bytes \<Rightarrow> (TlvError + TlvDe) option) \<Rightarrow> (u16 \<times> bytes) list \<Rightarrow> bool" where
  "good_set val es \<longleftrightarrow> length es < 2 ^ 16 \<and> (\<forall>(t, v) \<in> set es. length v < 2 ^ 16 \<and> val t v \<noteq> None)"

lemma qrcode_set_read:
  "good_set (qrcode_value env) es \<Longrightarrow>
     TlvSet_deserialize_qrcode env (tlv_set_wire es @ rest) = Some (qrcode_table env es)"
  unfolding good_set_def qrcode_table_def by (rule TlvSet_deserialize_qrcode_wire) auto

lemma login_set_read:
  assumes "good_set (login_value env) es"
  shows "TlvSet_deserialize env (tlv_set_wire es @ rest) = Some (login_table env es)"
  using login_registry.tlv_loop_entries [of es env "\<lambda>_. None" rest] assms count16 [of "length es"]
  by (simp add: TlvSet_deserialize_def tlv_set_wire_def read_simps deserialize_tlv_def fits16_def
      good_set_def login_table_def)

lemma parse_emp31_eq:
  assumes "fits16 sig" and "good_set (qrcode_value env) es"
  shows "\<exists>r. parse_emp31 env (x # frame16 sig @ tlv_set_wire es @ rest) = Some r
      \<and> (case find (\<lambda>t. qrcode_table env es t = None) [0x017, 0x01c, 0x0d1] of
           Some t \<Rightarrow> r = Inl (EventMissingTlv (MissingTlv t))
         | None \<Rightarrow> \<exists>q e d. qrcode_table env es 0x017 = Some (De017q q)
              \<and> qrcode_table env es 0x01c = Some (De01cq e)
              \<and> qrcode_table env es 0x0d1 = Some (De0d1Resp d)
              \<and> r = Inr \<lparr>te_status = FetchQrCode, te_result = Some (Emp31
                  \<lparr>e31_qr_code = t017q_qr_code q, e31_expiration = t01cq_expire_sec e,
                   e31_url = qd1r_url (t0d1r_proto d), e31_qr_sig = qd1r_qr_sig (t0d1r_proto d),
                   e31_signature = sig\<rparr>)\<rparr>)"
proof -
  let ?T = "qrcode_table env es"
  have "parse_emp31 env (x # frame16 sig @ tlv_set_wire es @ rest) =
      get_tlv 0x017 as_017q ?T (\<lambda>t017.
      get_tlv 0x01c as_01cq ?T (\<lambda>t01c.
      get_tlv 0x0d1 as_0d1 ?T (\<lambda>t0d1.
        Some (Inr \<lparr>te_status = FetchQrCode, te_result = Some (Emp31
          \<lparr>e31_qr_code = t017q_qr_code t017, e31_expiration = t01cq_expire_sec t01c,
           e31_url = qd1r_url (t0d1r_proto t0d1), e31_qr_sig = qd1r_qr_sig (t0d1r_proto t0d1),
           e31_signature = sig\<rparr>)\<rparr>))))"
    using assms by (simp add: parse_emp31_def read_simps qrcode_set_read)
  then show ?thesis
    using qrcode_table_cases(1,4,6) [of env es] by (elim disjE exE) (simp_all add: get_tlv_eq)
qed

text \<open>
  The QR code reply. On a reply to the request for a QR code whose TLV set is readable,
  parsing never panics: the first of the three TLVs it needs that is missing is reported by its
  tag; with all three, the result holds the image, the lifetime, the URL and the signature string
  of the set and the signature of the header.
\<close>

theorem trans_emp_qrcode_reply:
  assumes "parse_wtlogin_packet ctx packet = Some (Inr
      (trans_emp_body len misc 0x31 unknown app_id (x # frame16 sig @ tlv_set_wire es @ rest)))"
    and "length unknown = 40" and "fits16 sig" and "good_set (qrcode_value (we_tlv_de env)) es"
  shows "\<exists>r. TransEmp_parse env ctx packet = Some r
      \<and> (case find (\<lambda>t. qrcode_table (we_tlv_de env) es t = None) [0x017, 0x01c, 0x0d1] of
           Some t \<Rightarrow> r = Inl (EventMissingTlv (MissingTlv t))
         | None \<Rightarrow> \<exists>q e d. qrcode_table (we_tlv_de env) es 0x017 = Some (De017q q)
              \<and> qrcode_table (we_tlv_de env) es 0x01c = Some (De01cq e)
              \<and> qrcode_table (we_tlv_de env) es 0x0d1 = Some (De0d1Resp d)
              \<and> r = Inr \<lparr>te_status = FetchQrCode, te_result = Some (Emp31
                  \<lparr>e31_qr_code = t017q_qr_code q, e31_expiration = t01cq_expire_sec e,
                   e31_url = qd1r_url (t0d1r_proto d), e31_qr_sig = qd1r_qr_sig (t0d1r_proto d),
                   e31_signature = sig\<rparr>)\<rparr>)"
proof -
  have "TransEmp_parse env ctx packet
      = parse_emp31 (we_tlv_de env) (x # frame16 sig @ tlv_set_wire es @ rest)"
    by (simp add: TransEmp_parse_def assms(1) packet_err_def parse_trans_emp_body_eq [OF assms(2)])
  then show ?thesis using parse_emp31_eq [OF assms(3,4), of x rest] by (simp only:)
qed

lemma demo_set:
  "good_set (qrcode_value (we_tlv_de demo_wt_env)) [(0x017, [5])]"
  "qrcode_table (we_tlv_de demo_wt_env) [(0x017, [5])] = [0x017 \<mapsto> De017q \<lparr>t017q_qr_code = [5]\<rparr>]"
  by (simp_all add: good_set_def qrcode_table_def known_entries_def qrcode_value_def value_of_def
      T017q_value_def rd_map_def rd_bytes_def)

theorem trans_emp_qrcode_reply_witness:
  "\<exists>packet. parse_wtlogin_packet demo_context packet = Some (Inr
        (trans_emp_body 0 0 0x31 (replicate 40 0) 0 (0 # frame16 [] @ tlv_set_wire [(0x017, [5])] @ [])))
      \<and> TransEmp_parse demo_wt_env demo_context packet
        = Some (Inl (EventMissingTlv (MissingTlv 0x01c)))"
proof -
  let ?b = "trans_emp_body 0 0 0x31 (replicate 40 0) 0
    (0 # frame16 [] @ tlv_set_wire [(0x017, [5])] @ [])"
  have l: "length (replicate 15 0 :: bytes) = 15" by simp
  obtain c where c: "parse_wtlogin_packet demo_context (2 # replicate 15 0 @ c @ [3]) = Some (Inr ?b)"
    by (rule wtlogin_reply_opens [OF wf_demo_context l, of "\<lambda>_. 220" ?b])
  have s: "length (replicate 40 0 :: bytes) = 40" "fits16 []" by (simp_all add: fits16_def)
  have "(0x01c :: u16) \<noteq> 0x017" by simp
  then show ?thesis
    using c trans_emp_qrcode_reply [OF c s demo_set(1)] by (auto simp: demo_set(2))
qed

text \<open>
  The scan status reply. The state byte decides: 17, 48, 53 and 54 are the four states
  without data, an unknown state is an error that names it, and state 0 is confirmed with the
  three values of the TLV set, or the first of their TLVs that is missing is reported.
\<close>

theorem trans_emp_status_reply:
  assumes "parse_wtlogin_packet ctx packet = Some (Inr
      (trans_emp_body len misc 0x12 unknown app_id (state # misc12 @ tlv_set_wire es @ rest)))"
    and "length unknown = 40" and "length misc12 = 12"
    and "good_set (qrcode_value (we_tlv_de env)) es"
  shows "\<exists>r. TransEmp_parse env ctx packet = Some r
      \<and> (if state = 0 then
           (case find (\<lambda>t. qrcode_table (we_tlv_de env) es t = None) [0x01e, 0x018, 0x019] of
              Some t \<Rightarrow> r = Inl (EventMissingTlv (MissingTlv t))
            | None \<Rightarrow> \<exists>k p s. qrcode_table (we_tlv_de env) es 0x01e = Some (De01eq k)
                 \<and> qrcode_table (we_tlv_de env) es 0x018 = Some (De018q p)
                 \<and> qrcode_table (we_tlv_de env) es 0x019 = Some (De019q s)
                 \<and> r = Inr \<lparr>te_status = QueryResult, te_result = Some (Emp12 (Confirmed
                     \<lparr>ec_tgtgt_key = t01eq_tgtgt_key k, ec_temp_password = t018q_temp_password p,
                      ec_no_pic_sig = t019q_no_pic_sig s\<rparr>))\<rparr>)
         else r = (case map_of [(17, CodeExpired), (48, WaitingForScan), (53, WaitingForConfirm),
                                (54, Canceled)] state of
             Some s \<Rightarrow> Inr \<lparr>te_status = QueryResult, te_result = Some (Emp12 s)\<rparr>
           | None \<Rightarrow> Inl (OtherEventError
               (str ''unknown trans_emp ret code: '' @ dec_str (unat state)))))"
proof -
  let ?T = "qrcode_table (we_tlv_de env) es"
  let ?p = "state # misc12 @ tlv_set_wire es @ rest"
  have "TransEmp_parse env ctx packet = parse_emp12 (we_tlv_de env) ?p"
    by (simp add: TransEmp_parse_def assms(1) packet_err_def parse_trans_emp_body_eq [OF assms(2)])
  moreover have "parse_confirmed (we_tlv_de env) (misc12 @ tlv_set_wire es @ rest) =
      get_tlv 0x01e as_01eq ?T (\<lambda>t01e.
      get_tlv 0x018 as_018q ?T (\<lambda>t018.
      get_tlv 0x019 as_019q ?T (\<lambda>t019.
        Some (Inr (Confirmed
          \<lparr>ec_tgtgt_key = t01eq_tgtgt_key t01e, ec_temp_password = t018q_temp_password t018,
           ec_no_pic_sig = t019q_no_pic_sig t019\<rparr>)))))"
    using assms(3,4) by (simp add: parse_confirmed_def read_simps qrcode_set_read)
  ultimately show ?thesis
    using qrcode_table_cases(5,2,3) [of "we_tlv_de env" es]
    by (cases "state = 0"; elim disjE exE) (simp_all add: parse_emp12_def rd_ints get_tlv_eq)
qed

theorem trans_emp_status_reply_witness:
  "\<exists>packet. parse_wtlogin_packet demo_context packet = Some (Inr
        (trans_emp_body 0 0 0x12 (replicate 40 0) 0 (48 # replicate 12 0 @ tlv_set_wire [(0x017, [5])] @ [])))
      \<and> TransEmp_parse demo_wt_env demo_context packet
        = Some (Inr \<lparr>te_status = QueryResult, te_result = Some (Emp12 WaitingForScan)\<rparr>)"
proof -
  let ?b = "trans_emp_body 0 0 0x12 (replicate 40 0) 0
    (48 # replicate 12 0 @ tlv_set_wire [(0x017, [5])] @ [])"
  have l: "length (replicate 15 0 :: bytes) = 15" by simp
  obtain c where c: "parse_wtlogin_packet demo_context (2 # replicate 15 0 @ c @ [3]) = Some (Inr ?b)"
    by (rule wtlogin_reply_opens [OF wf_demo_context l, of "\<lambda>_. 220" ?b])
  have s: "length (replicate 40 0 :: bytes) = 40" "length (replicate 12 0 :: bytes) = 12" by simp_all
  show ?thesis
    using c trans_emp_status_reply [OF c s demo_set(1)] by auto
qed

section \<open>WtLogin\<close>

text \<open>A reply of the login service: two bytes that are skipped, the result code and a set.\<close>

lemma parse_wt_login_body_eq:
  assumes "length skipped = 2" and "good_set (login_value (we_tlv_de env)) es"
  shows "parse_wt_login_body env ctx (skipped @ typ # tlv_set_wire es @ rest) =
    (if typ = 0 then
       do { r \<leftarrow> get_tlv 0x119 as_119 (login_table (we_tlv_de env) es) (\<lambda>t119.
              do { dec \<leftarrow> tea_decrypt (t119_encrypted_tlv t119)
                     (kc_tgtgt_key (se_stub (ctx_session ctx)));
                   read_login_keys (we_tlv_de env) dec });
            Some (case r of
               Inl e \<Rightarrow> (ctx, Inl e)
             | Inr k \<Rightarrow> (store_login env k ctx, Inr \<lparr>wl_code = 0, wl_msg = None\<rparr>)) }
     else
       do { r \<leftarrow> get_tlv 0x146 as_146 (login_table (we_tlv_de env) es) (\<lambda>t146.
              Some (Inr \<lparr>wl_code = ucast typ, wl_msg = Some (t146_message t146)\<rparr>));
            Some (ctx, r) })"
  using assms by (simp add: parse_wt_login_body_def read_simps login_set_read)

text \<open>The TLVs a successful login needs, in the order in which they are read.\<close>

definition LOGIN_KEYS :: "u16 list" where
  "LOGIN_KEYS = [0x10A, 0x143, 0x305, 0x106, 0x543, 0x11A]"

lemma read_login_keys_eq:
  assumes "good_set (login_value env) es"
    and "\<forall>x. login_table env es 0x305 = Some (De305 x) \<longrightarrow> length (t305_d2key x) = 16"
  shows "\<exists>r. read_login_keys env (tlv_set_wire es @ rest) = Some r
    \<and> (case find (\<lambda>t. login_table env es t = None) LOGIN_KEYS of
         Some t \<Rightarrow> r = Inl (EventMissingTlv (MissingTlv t))
       | None \<Rightarrow> \<exists>a d k p u i. login_table env es 0x10A = Some (De10A a)
            \<and> login_table env es 0x143 = Some (De143 d) \<and> login_table env es 0x305 = Some (De305 k)
            \<and> login_table env es 0x106 = Some (De106 p) \<and> login_table env es 0x543 = Some (De543 u)
            \<and> login_table env es 0x11A = Some (De11A i)
            \<and> r = Inr \<lparr>lk_tgt = t10a_tgt a, lk_d2 = t143_d2 d, lk_d2_key = t305_d2key k,
                lk_temp_pwd = t106_temp p, lk_uid = t543_uid u, lk_self_info = i\<rparr>)"
  using login_table_cases(2,4,6,1,7,8) [of env es] assms(2)
  by (elim disjE exE) (simp_all add: read_login_keys_def login_set_read [OF assms(1)] get_tlv_eq
    LOGIN_KEYS_def)

text \<open>
  C34: A successful login stores what the server sent. On a reply with result code 0 whose nested,
  encrypted TLV set is readable and whose D2 key has 16 bytes, the first missing TLV of the six is
  reported and the context stays as it was; with all six, the tickets, the keys, the identity and
  the time are stored and the result is code 0.
\<close>

theorem wt_login_success:
  assumes "parse_wtlogin_packet ctx packet
      = Some (Inr (skipped @ 0 # tlv_set_wire es @ rest))"
    and "length skipped = 2" and "good_set (login_value (we_tlv_de env)) es"
    and "login_table (we_tlv_de env) es 0x119 = Some (De119 t119)"
    and "tea_decrypt (t119_encrypted_tlv t119) (kc_tgtgt_key (se_stub (ctx_session ctx)))
      = Some (tlv_set_wire inner @ rest')"
    and "good_set (login_value (we_tlv_de env)) inner"
    and "\<forall>x. login_table (we_tlv_de env) inner 0x305 = Some (De305 x) \<longrightarrow> length (t305_d2key x) = 16"
  shows "case find (\<lambda>t. login_table (we_tlv_de env) inner t = None) LOGIN_KEYS of
      Some t \<Rightarrow> WtLogin_parse env ctx packet = Some (ctx, Inl (EventMissingTlv (MissingTlv t)))
    | None \<Rightarrow> \<exists>ctx' a d k p u i.
          login_table (we_tlv_de env) inner 0x10A = Some (De10A a)
        \<and> login_table (we_tlv_de env) inner 0x143 = Some (De143 d)
        \<and> login_table (we_tlv_de env) inner 0x305 = Some (De305 k)
        \<and> login_table (we_tlv_de env) inner 0x106 = Some (De106 p)
        \<and> login_table (we_tlv_de env) inner 0x543 = Some (De543 u)
        \<and> login_table (we_tlv_de env) inner 0x11A = Some (De11A i)
        \<and> WtLogin_parse env ctx packet = Some (ctx', Inr \<lparr>wl_code = 0, wl_msg = None\<rparr>)
        \<and> kc_tgtgt_key (se_stub (ctx_session ctx')) = we_md5 env (t305_d2key k)
        \<and> wt_tgt (ks_session (ctx_key_store ctx')) = t10a_tgt a
        \<and> wt_d2 (ks_session (ctx_key_store ctx')) = t143_d2 d
        \<and> wt_d2_key (ks_session (ctx_key_store ctx')) = t305_d2key k
        \<and> wt_temp_password (ks_session (ctx_key_store ctx')) = Some (t106_temp p)
        \<and> ks_uid (ctx_key_store ctx') = Some (t543_uid u)
        \<and> acc_name (ks_info (ctx_key_store ctx')) = t11a_nick_name i
        \<and> \<not> is_session_expired (we_now env) (ctx_key_store ctx')"
proof -
  let ?T = "login_table (we_tlv_de env) inner"
  have "WtLogin_parse env ctx packet =
      do { r \<leftarrow> read_login_keys (we_tlv_de env) (tlv_set_wire inner @ rest');
           Some (case r of Inl e \<Rightarrow> (ctx, Inl e)
             | Inr k \<Rightarrow> (store_login env k ctx, Inr \<lparr>wl_code = 0, wl_msg = None\<rparr>)) }"
    by (simp add: WtLogin_parse_def assms(1,4,5) parse_wt_login_body_eq [OF assms(2,3)] get_tlv_eq)
  moreover obtain r where "read_login_keys (we_tlv_de env) (tlv_set_wire inner @ rest') = Some r"
    "case find (\<lambda>t. ?T t = None) LOGIN_KEYS of
         Some t \<Rightarrow> r = Inl (EventMissingTlv (MissingTlv t))
       | None \<Rightarrow> \<exists>a d k p u i. ?T 0x10A = Some (De10A a)
            \<and> ?T 0x143 = Some (De143 d) \<and> ?T 0x305 = Some (De305 k)
            \<and> ?T 0x106 = Some (De106 p) \<and> ?T 0x543 = Some (De543 u)
            \<and> ?T 0x11A = Some (De11A i)
            \<and> r = Inr \<lparr>lk_tgt = t10a_tgt a, lk_d2 = t143_d2 d, lk_d2_key = t305_d2key k,
                lk_temp_pwd = t106_temp p, lk_uid = t543_uid u, lk_self_info = i\<rparr>"
    using read_login_keys_eq [OF assms(6,7), of rest'] by blast
  ultimately show ?thesis
    by (cases "find (\<lambda>t. ?T t = None) LOGIN_KEYS")
      (auto simp: store_login_def is_session_expired_iff)
qed

lemma read_login_keys_d2_key:
  "read_login_keys env dec = Some (Inr k) \<Longrightarrow> length (lk_d2_key k) = 16"
  by (auto simp: read_login_keys_def get_tlv_eq split: Option.bind_splits option.splits if_splits)

lemma wf_store_login:
  "wf_context ctx \<Longrightarrow> length (lk_d2_key k) = 16 \<Longrightarrow> wf_context (store_login env k ctx)"
  by (simp add: wf_context_def store_login_def)

lemma parse_wt_login_body_cases:
  assumes "parse_wt_login_body env ctx body = Some (ctx', r)"
  shows "(\<exists>k. length (lk_d2_key k) = 16 \<and> ctx' = store_login env k ctx
        \<and> r = Inr \<lparr>wl_code = 0, wl_msg = None\<rparr>)
    \<or> ctx' = ctx \<and> (case r of Inl _ \<Rightarrow> True | Inr w \<Rightarrow> wl_msg w \<noteq> None \<and> wl_code w \<noteq> 0)"
proof -
  have nz: "(ucast b :: i32) = 0 \<longleftrightarrow> b = 0" for b :: u8
    by transfer (simp add: take_bit_eq_mod)
  show ?thesis
    using assms
    by (auto simp: parse_wt_login_body_def get_tlv_eq nz
      split: Option.bind_splits option.splits if_splits sum.splits)
      (use read_login_keys_d2_key in blast)+
qed

lemma wt_login_cases:
  assumes "WtLogin_parse env ctx packet = Some (ctx', r)"
  shows "((\<exists>k. length (lk_d2_key k) = 16 \<and> ctx' = store_login env k ctx
          \<and> r = Inr \<lparr>wl_code = 0, wl_msg = None\<rparr>)
      \<or> ctx' = ctx \<and> (case r of Inl _ \<Rightarrow> True | Inr w \<Rightarrow> wl_msg w \<noteq> None \<and> wl_code w \<noteq> 0))
    \<and> (wf_context ctx \<longrightarrow> wf_context ctx')"
proof -
  obtain p where p: "parse_wtlogin_packet ctx packet = Some p"
    using assms by (auto simp: WtLogin_parse_def split: Option.bind_splits)
  show ?thesis
  proof (cases p)
    case (Inl e)
    then show ?thesis using assms p by (auto simp: WtLogin_parse_def)
  next
    case (Inr body)
    then have "parse_wt_login_body env ctx body = Some (ctx', r)"
      using assms p by (simp add: WtLogin_parse_def)
    from parse_wt_login_body_cases [OF this] show ?thesis by (auto intro: wf_store_login)
  qed
qed

text \<open>
  C35: A login is all or nothing. When parsing returns, either the whole result of the login has
  been stored, with a D2 key of 16 bytes, and the result is code 0 without a message, or the
  context is exactly as before and the result is an error or a non-zero code with the message of
  the server. Either way the context stays well-formed.
\<close>

theorem wt_login_all_or_nothing:
  assumes "WtLogin_parse env ctx packet = Some (ctx', r)"
  shows "((\<exists>k. length (lk_d2_key k) = 16 \<and> ctx' = store_login env k ctx
          \<and> r = Inr \<lparr>wl_code = 0, wl_msg = None\<rparr>)
      \<or> ctx' = ctx \<and> (case r of Inl _ \<Rightarrow> True | Inr w \<Rightarrow> wl_msg w \<noteq> None \<and> wl_code w \<noteq> 0))
    \<and> (wf_context ctx \<longrightarrow> wf_context ctx')"
  by (rule wt_login_cases [OF assms])

theorem wt_login_all_or_nothing_witness:
  "\<exists>ctx' r. WtLogin_parse demo_wt_env demo_context [7] = Some (ctx', r) \<and> ctx' = demo_context"
proof -
  have e: "WtLogin_parse demo_wt_env demo_context [7] = Some (demo_context,
      Inl (PacketParseError (OtherPacketError
        (str ''invalid packet header when parse_wtlogin_packet''))))"
    by (simp add: WtLogin_parse_def parse_wtlogin_packet_eq)
  from wt_login_all_or_nothing [OF e] e show ?thesis by auto
qed

text \<open>The request.\<close>

lemma emits_BUILD_TLVS:
  assumes "tlv_ready ctx"
  obtains vs where "length vs = length BUILD_TLVS"
    and "emits (serialize_tlv_set env hex ctx BUILD_TLVS)
      (be16 15 @ concat (map2 tlv_wire BUILD_TLVS vs))"
proof -
  have "set BUILD_TLVS \<subseteq> set LOGIN_TAGS" by (simp add: BUILD_TLVS_def LOGIN_TAGS_def)
  then have "emits_le (serialize_tlv_set env hex ctx BUILD_TLVS) (2 + sum_list (map (\<lambda>_. 65539) BUILD_TLVS))"
    unfolding serialize_tlv_set_def
    by (intro emits_le_tlv_set) (use assms new_tlv_ready in blast)
  then obtain out where o: "emits (serialize_tlv_set env hex ctx BUILD_TLVS) out"
    by (auto simp: emits_le_def)
  have "tlv_set_with (new_tlv env hex ctx) BUILD_TLVS [] = Some out"
    using emitsD [OF o, of "[]"] by (simp add: serialize_tlv_set_def)
  from tlv_set_with_wire [OF _ this] new_tlv_writes
  obtain vs where "length vs = length BUILD_TLVS"
      "out = be16 (of_nat (length BUILD_TLVS)) @ concat (map2 tlv_wire BUILD_TLVS vs)"
    by fastforce
  then show thesis using o that by (simp add: BUILD_TLVS_def)
qed

text \<open>
  The login request is always built, and what it carries is what was asked for. On a
  well-formed context that holds what the login TLVs need, \<open>build\<close> returns, advances the login
  sequence by one and changes nothing else; the ciphertext of the packet decrypts to the
  sub-command 9 and the set of the fifteen login TLVs in the order of \<open>BUILD_TLVS\<close>.
\<close>

theorem wt_login_build_total:
  assumes "wf_context ctx" and "tlv_ready ctx"
  shows "\<exists>c vs p. WtLogin_build env ctx = Some
        (ctx\<lparr>ctx_session := (ctx_session ctx)\<lparr>se_sequence := se_sequence (ctx_session ctx) + 1\<rparr>\<rparr>, p)
      \<and> p = [2] @ be16 (of_nat (length p)) @ wtlogin_head 2064 ctx @ c @ [3]
      \<and> length vs = 15
      \<and> ecdh_decrypt (ctx_crypto ctx) c
        = Some (be16 9 @ be16 15 @ concat (map2 tlv_wire BUILD_TLVS vs))"
proof -
  obtain vs where vs: "length vs = length BUILD_TLVS"
      "emits (serialize_tlv_set (we_tlv env) (we_hex env) ctx BUILD_TLVS)
        (be16 15 @ concat (map2 tlv_wire BUILD_TLVS vs))"
    by (rule emits_BUILD_TLVS [OF assms(2)])
  let ?body = "be16 9 @ be16 15 @ concat (map2 tlv_wire BUILD_TLVS vs)"
  have "emits (chain [pb_u16 9,
      pb_packet (serialize_tlv_set (we_tlv env) (we_hex env) ctx BUILD_TLVS)]) ?body"
    by (rule emits_eq, (rule emit_intros vs(2))+) simp
  then have "WtLogin_build env ctx = build_wtlogin_packet env 2064 ?body ctx"
    by (simp add: WtLogin_build_def pb_build_emits)
  moreover have "length vs = 15" using vs(1) by (simp add: BUILD_TLVS_def)
  ultimately show ?thesis
    using wtlogin_packet_built [OF assms(1), of env 2064 ?body] by auto
qed

lemma tlv_ready_demo: "tlv_ready demo_context"
  by (simp add: tlv_ready_def demo_context_def Session_new_def KeyCollection_new_def
      short_def LINUX_def str_lengths)

theorem wt_login_build_total_witness:
  "\<exists>c vs p. WtLogin_build demo_wt_env demo_context = Some
        (demo_context\<lparr>ctx_session := (ctx_session demo_context)\<lparr>se_sequence := 1\<rparr>\<rparr>, p)
      \<and> p = [2] @ be16 (of_nat (length p)) @ wtlogin_head 2064 demo_context @ c @ [3]
      \<and> length vs = 15
      \<and> ecdh_decrypt (ctx_crypto demo_context) c
        = Some (be16 9 @ be16 15 @ concat (map2 tlv_wire BUILD_TLVS vs))"
proof -
  have "se_sequence (ctx_session demo_context) + 1 = 1"
    by (simp add: demo_context_def Session_new_def)
  then show ?thesis
    using wt_login_build_total [OF wf_demo_context tlv_ready_demo, of demo_wt_env] by simp
qed

theorem wt_login_success_witness:
  "\<exists>packet. WtLogin_parse demo_wt_env demo_context packet
      = Some (demo_context, Inl (EventMissingTlv (MissingTlv 0x10A)))"
proof -
  let ?env = "we_tlv_de demo_wt_env"
  have key: "length (kc_tgtgt_key (se_stub (ctx_session demo_context))) = 16"
    by (simp add: demo_context_def Session_new_def KeyCollection_new_def)
  then obtain k where "tea16_new (kc_tgtgt_key (se_stub (ctx_session demo_context))) = Some k"
    using tea16_new_iff by blast
  from tea_round_trip_aux [OF this, of "\<lambda>_. 220" "tlv_set_wire [] @ []"]
  obtain e where e: "tea_decrypt e (kc_tgtgt_key (se_stub (ctx_session demo_context)))
        = Some (tlv_set_wire [] @ [])"
      and le: "length e = length (padded (\<lambda>_. 220) (tlv_set_wire [] @ []))"
    by blast
  have "length e = 16"
    using le by (simp add: length_padded fill_count_def tlv_set_wire_def)
  then have g: "good_set (login_value ?env) [(0x119, e)]"
      "login_table ?env [(0x119, e)] 0x119 = Some (De119 \<lparr>t119_encrypted_tlv = e\<rparr>)"
    by (simp_all add: good_set_def login_table_def known_entries_def login_value_def value_of_def
        T119_value_def rd_map_def rd_bytes_def)
  have i: "good_set (login_value ?env) []" "login_table ?env [] = (\<lambda>_. None)"
    by (simp_all add: good_set_def login_table_def known_entries_def)
  have l: "length (replicate 15 0 :: bytes) = 15" "length ([0, 9] :: bytes) = 2" by simp_all
  obtain c where c: "parse_wtlogin_packet demo_context (2 # replicate 15 0 @ c @ [3])
      = Some (Inr ([0, 9] @ 0 # tlv_set_wire [(0x119, e)] @ []))"
    by (rule wtlogin_reply_opens [OF wf_demo_context l(1), of "\<lambda>_. 220"
        "[0, 9] @ 0 # tlv_set_wire [(0x119, e)] @ []"])
  have d: "tea_decrypt (t119_encrypted_tlv \<lparr>t119_encrypted_tlv = e\<rparr>)
      (kc_tgtgt_key (se_stub (ctx_session demo_context))) = Some (tlv_set_wire [] @ [])"
    using e by simp
  have n: "\<forall>x. login_table ?env [] 0x305 = Some (De305 x) \<longrightarrow> length (t305_d2key x) = 16"
    by (simp add: i(2))
  from wt_login_success [OF c l(2) g d i(1) n] show ?thesis
    by (auto simp: i(2) LOGIN_KEYS_def)
qed

end
