(* ===== verification/Ecdh.thy ===== *)
theory Ecdh
  imports Wt_Login
begin

text \<open>
  The key exchange of \<open>mania/src/core/crypto/ecdh.rs\<close>. The curve arithmetic (\<open>p256\<close>), the random
  secret and MD5 are parameters: \<open>dh_secret a B\<close> is the raw shared secret of the private key \<open>a\<close>
  and the public key \<open>B\<close>, \<open>dh_point\<close> and \<open>dh_parse\<close> the SEC1 coding of public keys.
\<close>

record ('sk, 'pk) dh_env =
  dh_parse :: "bytes \<Rightarrow> 'pk option"
  dh_point :: "'pk \<Rightarrow> bytes"
  dh_public :: "'sk \<Rightarrow> 'pk"
  dh_secret :: "'sk \<Rightarrow> 'pk \<Rightarrow> bytes"
  dh_md5 :: "bytes \<Rightarrow> bytes"

definition ECDH_256_PEER_LOGIN_KEY :: bytes where
  "ECDH_256_PEER_LOGIN_KEY = [
     0x04, 0xEB, 0xCA, 0x94, 0xD7, 0x33, 0xE3, 0x99, 0xB2, 0xDB, 0x96, 0xEA, 0xCD, 0xD3, 0xF6, 0x9A,
     0x8B, 0xB0, 0xF7, 0x42, 0x24, 0xE2, 0xB4, 0x4E, 0x33, 0x57, 0x81, 0x22, 0x11, 0xD2, 0xE6, 0x2E,
     0xFB, 0xC9, 0x1B, 0xB5, 0x53, 0x09, 0x8E, 0x25, 0xE3, 0x3A, 0x79, 0x9A, 0xDC, 0x7F, 0x76, 0xFE,
     0xB2, 0x08, 0xDA, 0x7C, 0x65, 0x22, 0xCD, 0xB0, 0x71, 0x9A, 0x30, 0x51, 0x80, 0xCC, 0x54, 0xA8,
     0x2E]"

definition ECDH_256_PEER_EXCHANGE_KEY :: bytes where
  "ECDH_256_PEER_EXCHANGE_KEY = [
     0x04, 0x9D, 0x14, 0x23, 0x33, 0x27, 0x35, 0x98, 0x0E, 0xDA, 0xBE, 0x7E, 0x9E, 0xA4, 0x51, 0xB3,
     0x39, 0x5B, 0x6F, 0x35, 0x25, 0x0D, 0xB8, 0xFC, 0x56, 0xF2, 0x58, 0x89, 0xF6, 0x28, 0xCB, 0xAE,
     0x3E, 0x8E, 0x73, 0x07, 0x79, 0x14, 0x07, 0x1E, 0xEE, 0xBC, 0x10, 0x8F, 0x4E, 0x01, 0x70, 0x05,
     0x77, 0x92, 0xBB, 0x17, 0xAA, 0x30, 0x3A, 0xF6, 0x52, 0x31, 0x3D, 0x17, 0xC1, 0xAC, 0x81, 0x5E,
     0x79]"

definition ECDH_192_PEER_KEY :: bytes where
  "ECDH_192_PEER_KEY = [
     0x04, 0x92, 0x8D, 0x88, 0x50, 0x67, 0x30, 0x88, 0xB3, 0x43, 0x26, 0x4E, 0x0C, 0x6B, 0xAC, 0xB8,
     0x49, 0x6D, 0x69, 0x77, 0x99, 0xF3, 0x72, 0x11, 0xDE, 0xB2, 0x5B, 0xB7, 0x39, 0x06, 0xCB, 0x08,
     0x9F, 0xEA, 0x96, 0x39, 0xB4, 0xE0, 0x26, 0x04, 0x98, 0xB5, 0x1A, 0x99, 0x2D, 0x50, 0x81, 0x3D,
     0xA8]"

text \<open>
  \<open>[0..16]\<close> panics on a shorter secret; \<open>copy_from_slice\<close> panics unless the digest has 16 bytes.
\<close>

definition key_exchange :: "('sk, 'pk) dh_env \<Rightarrow> 'sk \<Rightarrow> 'pk \<Rightarrow> bytes option" where
  "key_exchange env c_pri_key s_pub_key =
     (let share = dh_secret env c_pri_key s_pub_key in
      do { check (16 \<le> length share);
           let result = dh_md5 env (take 16 share);
           check (length result = 16);
           Some result })"

definition P256_new :: "('sk, 'pk) dh_env \<Rightarrow> 'sk \<Rightarrow> bytes \<Rightarrow> Crypto option" where
  "P256_new env c_pri_key server_public_key =
     do { s_pub_key \<leftarrow> dh_parse env server_public_key;
          share_key \<leftarrow> key_exchange env c_pri_key s_pub_key;
          Some \<lparr>cr_public = dh_point env (dh_public env c_pri_key), cr_shared = share_key\<rparr> }"

text \<open>
  Both ends of the key exchange can talk to each other. If the curve is a key exchange (the
  two secrets agree, every public key survives its coding, secrets have at least 16 bytes) and
  digests have 16 bytes, then a client built on the public key of a server and a server built on
  the public key the client sends exist, hold the same 16-byte key, and each reads what the other
  encrypts.
\<close>

theorem key_exchange_agreement:
  assumes "\<And>k. dh_parse env (dh_point env k) = Some k"
    and "\<And>a b. dh_secret env a (dh_public env b) = dh_secret env b (dh_public env a)"
    and "\<And>a k. 16 \<le> length (dh_secret env a k)"
    and "\<And>m. length (dh_md5 env m) = 16"
  shows "\<exists>client server.
      P256_new env c (dh_point env (dh_public env s)) = Some client
    \<and> P256_new env s (cr_public client) = Some server
    \<and> cr_shared client = cr_shared server \<and> length (cr_shared client) = 16
    \<and> (\<forall>fill m. \<exists>e. ecdh_encrypt fill client m = Some e \<and> ecdh_decrypt server e = Some m)
    \<and> (\<forall>fill m. \<exists>e. ecdh_encrypt fill server m = Some e \<and> ecdh_decrypt client e = Some m)"
proof -
  define k where "k = dh_md5 env (take 16 (dh_secret env c (dh_public env s)))"
  define client where "client = \<lparr>cr_public = dh_point env (dh_public env c), cr_shared = k\<rparr>"
  define server where "server = \<lparr>cr_public = dh_point env (dh_public env s), cr_shared = k\<rparr>"
  have l: "length k = 16" by (simp add: k_def assms(4))
  have "P256_new env c (dh_point env (dh_public env s)) = Some client"
    by (simp add: P256_new_def key_exchange_def assms(1,3,4) Let_def client_def k_def)
  moreover have "P256_new env s (cr_public client) = Some server"
    using assms(2) [of s c]
    by (simp add: P256_new_def key_exchange_def assms(1,3,4) Let_def client_def server_def k_def)
  moreover have "\<exists>e. ecdh_encrypt fill x m = Some e \<and> ecdh_decrypt y e = Some m"
    if "cr_shared x = k" "cr_shared y = k" for fill m x y
    using ecdh_round_trip [of x fill m] that l by (auto simp: ecdh_decrypt_def)
  ultimately show ?thesis
    using l by (intro exI [of _ client] exI [of _ server]) (simp add: client_def server_def)
qed

definition demo_dh :: "(u8, u8) dh_env" where
  "demo_dh = \<lparr>dh_parse = (\<lambda>bs. Some (hd bs)), dh_point = (\<lambda>k. [k]), dh_public = (\<lambda>a. 5 * a),
     dh_secret = (\<lambda>a k. replicate 32 (a * k)), dh_md5 = (\<lambda>m. replicate 16 (hd m))\<rparr>"

theorem key_exchange_agreement_witness:
  "\<exists>client server. P256_new demo_dh 3 [35] = Some client
    \<and> P256_new demo_dh 7 (cr_public client) = Some server
    \<and> cr_shared client = cr_shared server \<and> length (cr_shared client) = 16"
proof -
  have "dh_parse demo_dh (dh_point demo_dh k) = Some k"
      "dh_secret demo_dh a (dh_public demo_dh b) = dh_secret demo_dh b (dh_public demo_dh a)"
      "16 \<le> length (dh_secret demo_dh a k)" "length (dh_md5 demo_dh m) = 16" for a b k m
    by (simp_all add: demo_dh_def)
  from key_exchange_agreement [of demo_dh, OF this, of 3 7] show ?thesis
    by (auto simp: demo_dh_def)
qed

end
