(* ===== verification/Wt_Op.thy ===== *)
theory Wt_Op
  imports Wt_Login
begin

text \<open>
  The login operations of \<open>mania/src/core/operation/wt_op.rs\<close>: fetching the QR code, asking for its
  status, the login itself, and \<open>login_by_qrcode\<close>, which polls every two seconds for at most 120.

  Time is in milliseconds. The server is a function of the time and the request: how long the
  answer takes (\<open>None\<close>: it never comes) and what it is. An operation runs against a deadline (the
  surrounding \<open>timeout\<close>, if any). It returns, it panics, or from some time on it only waits (\<open>Waits\<close>),
  for longer than the deadline or forever; a \<open>timeout\<close> ends the waiting. A reply that makes the parser
  panic kills the task that parses it and leaves the request unanswered, so the operation waits.

  Signing a packet is not a wait: \<open>block_in_place\<close> (\<open>core/sign/linux.rs\<close>) holds the thread until the
  signing server has answered, and no deadline interrupts it. If it never answers, the operation \<open>Hangs\<close>.
\<close>

section \<open>Requests\<close>

datatype 'a run = Returns nat Context "ManiaError + 'a" | Waits nat Context | Panics | Hangs

text \<open>What comes back for a request: an error, the reply of another command, or the reply.\<close>

datatype reply = ReplyError BusinessError | ReplyOther | ReplyData bytes

record NTLoginHttpRequest =
  nlq_appid :: u64
  nlq_face_update_time :: u64
  nlq_qrsig :: rstring

record NTLoginHttpResponse =
  nlp_ret_code :: i32
  nlp_err_msg :: rstring
  nlp_qr_sig :: rstring
  nlp_uin :: u32
  nlp_face_url :: rstring
  nlp_face_update_time :: u64

text \<open>
  \<open>ws_sign\<close> is how long it takes to build the SSO packet with its signature (no time when no signing
  server is configured), \<open>ws_sso\<close> posts packets and answers them, and \<open>ws_http\<close> is the
  POST request to \<open>ntlogin.qq.com\<close>, the coding as JSON included: the errors of the request and of the
  decoding are its errors.
\<close>

record wt_server =
  ws_sign :: "nat \<Rightarrow> bytes \<Rightarrow> nat option"
  ws_sso :: "nat \<Rightarrow> bytes \<Rightarrow> nat option \<times> reply"
  ws_http :: "nat \<Rightarrow> NTLoginHttpRequest \<Rightarrow> nat option \<times> (rstring + NTLoginHttpResponse)"

text \<open>
  The time at which an \<open>await\<close> of the given duration is over, if it is within the deadline. What is
  ready at once is not interrupted: \<open>timeout\<close> polls its future before it looks at the clock.
\<close>

definition await :: "nat option \<Rightarrow> nat \<Rightarrow> nat option \<Rightarrow> nat option" where
  "await deadline now d =
     (case d of
        None \<Rightarrow> None
      | Some d \<Rightarrow> (case deadline of
          None \<Rightarrow> Some (now + d)
        | Some e \<Rightarrow> if d = 0 \<or> now + d \<le> e then Some (now + d) else None))"

definition wait_for :: "nat option \<Rightarrow> nat \<Rightarrow> nat option \<Rightarrow> Context \<Rightarrow> (nat \<Rightarrow> 'a run) \<Rightarrow> 'a run" where
  "wait_for deadline now d ctx f =
     (case await deadline now d of None \<Rightarrow> Waits now ctx | Some now \<Rightarrow> f now)"

text \<open>
  \<open>send_event\<close> followed by \<open>downcast_major_event\<close>, for an event that has no logic handlers: the event
  is built and signed, its answer awaited, and parsed against the context of that moment.
\<close>

definition request ::
    "wt_server \<Rightarrow> (Context \<Rightarrow> (Context \<times> bytes) option)
      \<Rightarrow> (Context \<Rightarrow> bytes \<Rightarrow> (Context \<times> (EventError + 'e)) option)
      \<Rightarrow> nat option \<Rightarrow> nat \<Rightarrow> Context \<Rightarrow> 'e run" where
  "request srv build parse deadline now ctx =
     (case build ctx of
        None \<Rightarrow> Panics
      | Some (ctx, packet) \<Rightarrow>
          (case ws_sign srv now packet of
             None \<Rightarrow> Hangs
           | Some s \<Rightarrow>
               (let now = now + s; (d, reply) = ws_sso srv now packet in
                wait_for deadline now d ctx (\<lambda>now.
                  case reply of
                    ReplyError e \<Rightarrow> Returns now ctx (Inl (InternalBusinessError e))
                  | ReplyOther \<Rightarrow> Returns now ctx (Inl InternalEventDowncastError)
                  | ReplyData payload \<Rightarrow>
                      (case parse ctx payload of
                         None \<Rightarrow> Waits now ctx
                       | Some (ctx, r) \<Rightarrow> Returns now ctx (business_err (event_err r)))))))"

text \<open>The \<open>?\<close> operator after a request.\<close>

definition then_run :: "'a run \<Rightarrow> (nat \<Rightarrow> Context \<Rightarrow> 'a \<Rightarrow> 'b run) \<Rightarrow> 'b run" where
  "then_run r f =
     (case r of
        Returns now ctx (Inl e) \<Rightarrow> Returns now ctx (Inl e)
      | Returns now ctx (Inr a) \<Rightarrow> f now ctx a
      | Waits now ctx \<Rightarrow> Waits now ctx
      | Panics \<Rightarrow> Panics
      | Hangs \<Rightarrow> Hangs)"

definition send_trans_emp ::
    "wt_env \<Rightarrow> wt_server \<Rightarrow> TransEmp \<Rightarrow> nat option \<Rightarrow> nat \<Rightarrow> Context \<Rightarrow> TransEmp run" where
  "send_trans_emp env srv event =
     request srv (TransEmp_build env event)
       (\<lambda>ctx payload. map_option (\<lambda>r. (ctx, r)) (TransEmp_parse env ctx payload))"

section \<open>The operations\<close>

definition fetch_qrcode ::
    "wt_env \<Rightarrow> wt_server \<Rightarrow> nat option \<Rightarrow> nat \<Rightarrow> Context \<Rightarrow> (rstring \<times> bytes) run" where
  "fetch_qrcode env srv deadline now ctx =
     then_run (send_trans_emp env srv new_fetch_qr_code deadline now ctx) (\<lambda>now ctx event.
       case te_result event of
         None \<Rightarrow> Returns now ctx (Inl (generic ''Emp result not found''))
       | Some (Emp31 emp31) \<Rightarrow>
           if length (e31_signature emp31) = 24
           then Returns now
             (ctx\<lparr>ctx_session := (ctx_session ctx)\<lparr>se_qr_sign := Some
                \<lparr>qs_sign = e31_signature emp31, qs_string = e31_qr_sig emp31, qs_url = e31_url emp31\<rparr>\<rparr>\<rparr>)
             (Inr (e31_url emp31, e31_qr_code emp31))
           else Returns now ctx (Inl (generic ''invalid QR signature''))
       | Some (Emp12 _) \<Rightarrow> Panics)"

definition query_trans_tmp_status ::
    "wt_env \<Rightarrow> wt_server \<Rightarrow> nat option \<Rightarrow> nat \<Rightarrow> Context \<Rightarrow> TransEmp12Res run" where
  "query_trans_tmp_status env srv deadline now ctx =
     (case se_qr_sign (ctx_session ctx) of
        None \<Rightarrow> Returns now ctx (Inl (generic ''QR code not fetched''))
      | Some qr_sign \<Rightarrow>
          (let (d, response) = ws_http srv now
             \<lparr>nlq_appid = ucast (ai_app_id (ctx_app_info ctx)), nlq_face_update_time = 0,
              nlq_qrsig = qs_string qr_sign\<rparr> in
           wait_for deadline now d ctx (\<lambda>now.
             case response of
               Inl e \<Rightarrow> Returns now ctx (Inl (GenericError e))
             | Inr info \<Rightarrow>
                 then_run (send_trans_emp env srv new_query_result deadline now
                   (ctx\<lparr>ctx_key_store := (ctx_key_store ctx)\<lparr>ks_uin := nlp_uin info\<rparr>\<rparr>))
                 (\<lambda>now ctx res.
                   case te_result res of
                     None \<Rightarrow> Returns now ctx (Inl (generic ''Emp result not found''))
                   | Some (Emp12 emp12) \<Rightarrow> Returns now ctx (Inr emp12)
                   | Some (Emp31 _) \<Rightarrow> Panics))))"

text \<open>\<open>failed\<close> is the message with the code and the server's text.\<close>

definition do_wt_login ::
    "wt_env \<Rightarrow> wt_server \<Rightarrow> (WtLogin \<Rightarrow> rstring) \<Rightarrow> nat option \<Rightarrow> nat \<Rightarrow> Context \<Rightarrow> unit run" where
  "do_wt_login env srv failed deadline now ctx =
     then_run (request srv (WtLogin_build env) (WtLogin_parse env) deadline now ctx)
       (\<lambda>now ctx event.
         if wl_code event = 0 then Returns now ctx (Inr ())
         else Returns now ctx (Inl (GenericError (failed event))))"

definition store_confirmed :: "TransEmp12ConfirmedData \<Rightarrow> Context \<Rightarrow> Context" where
  "store_confirmed data ctx =
     ctx\<lparr>ctx_session := (ctx_session ctx)\<lparr>se_stub :=
           (se_stub (ctx_session ctx))\<lparr>kc_tgtgt_key := ec_tgtgt_key data\<rparr>\<rparr>,
         ctx_key_store := (ctx_key_store ctx)\<lparr>ks_session :=
           (ks_session (ctx_key_store ctx))\<lparr>wt_temp_password := Some (ec_temp_password data),
             wt_no_pic_sig := Some (ec_no_pic_sig data)\<rparr>\<rparr>\<rparr>"

section \<open>The polling loop\<close>

text \<open>
  The polling loop, with the number of queries made so far. It goes round again only after the
  two seconds of sleep, within the deadline.
\<close>

function poll_loop ::
    "wt_env \<Rightarrow> wt_server \<Rightarrow> (WtLogin \<Rightarrow> rstring) \<Rightarrow> nat \<Rightarrow> nat \<Rightarrow> nat \<Rightarrow> Context \<Rightarrow> nat \<times> unit run" where
  "poll_loop env srv failed deadline n now ctx =
     (case query_trans_tmp_status env srv (Some deadline) now ctx of
        Panics \<Rightarrow> (Suc n, Panics)
      | Hangs \<Rightarrow> (Suc n, Hangs)
      | Waits now ctx \<Rightarrow> (Suc n, Waits now ctx)
      | Returns now ctx (Inl e) \<Rightarrow> (Suc n, Returns now ctx (Inl e))
      | Returns now ctx (Inr (Confirmed data)) \<Rightarrow>
          (Suc n, do_wt_login env srv failed (Some deadline) now (store_confirmed data ctx))
      | Returns now ctx (Inr CodeExpired) \<Rightarrow>
          (Suc n, Returns now ctx (Inl (generic ''QR code expired'')))
      | Returns now ctx (Inr Canceled) \<Rightarrow>
          (Suc n, Returns now ctx (Inl (generic ''QR code login canceled by user'')))
      | Returns now ctx (Inr _) \<Rightarrow>
          if now + 2000 \<le> deadline
          then poll_loop env srv failed deadline (Suc n) (now + 2000) ctx
          else (Suc n, Waits now ctx))"
  by pat_completeness auto

lemma await_time:
  "await deadline now d = Some t \<Longrightarrow> now \<le> t \<and> (\<forall>e. deadline = Some e \<longrightarrow> t \<le> max now e)"
  by (auto simp: await_def max_def split: option.splits if_splits)

text \<open>
  A run that begins at \<open>now\<close> returns, or begins to wait, no earlier, and not after \<open>lim\<close>; it hangs only if
  signing does.
\<close>

definition within :: "bool \<Rightarrow> nat \<Rightarrow> nat option \<Rightarrow> 'a run \<Rightarrow> bool" where
  "within signs now lim r \<longleftrightarrow>
     (case r of
        Returns t _ _ \<Rightarrow> now \<le> t \<and> (\<forall>l. lim = Some l \<longrightarrow> t \<le> l)
      | Waits t _ \<Rightarrow> now \<le> t \<and> (\<forall>l. lim = Some l \<longrightarrow> t \<le> l)
      | Panics \<Rightarrow> True
      | Hangs \<Rightarrow> \<not> signs)"

lemma within_simps [simp]:
  "within signs now lim (Returns t ctx a) \<longleftrightarrow> now \<le> t \<and> (\<forall>l. lim = Some l \<longrightarrow> t \<le> l)"
  "within signs now lim (Waits t ctx) \<longleftrightarrow> now \<le> t \<and> (\<forall>l. lim = Some l \<longrightarrow> t \<le> l)"
  "within signs now lim Panics" "within signs now lim Hangs \<longleftrightarrow> \<not> signs"
  by (simp_all add: within_def)

lemma within_earlier: "within signs t lim r \<Longrightarrow> now \<le> t \<Longrightarrow> within signs now lim r"
  by (cases r) auto

lemma within_wait_for:
  assumes "\<And>t. now \<le> t \<Longrightarrow> t \<le> max now e \<Longrightarrow> within signs t (Some l) (f t)" and "now \<le> l"
  shows "within signs now (Some l) (wait_for (Some e) now d ctx f)"
  using assms by (auto simp: wait_for_def split: option.split dest!: await_time intro: within_earlier)

lemma within_wait_for_later:
  assumes "\<And>t. now \<le> t \<Longrightarrow> within signs t None (f t)"
  shows "within signs now None (wait_for deadline now d ctx f)"
  using assms by (auto simp: wait_for_def split: option.split dest!: await_time intro: within_earlier)

lemma within_then_run:
  assumes "within signs now lim r"
    and "\<And>t ctx a. now \<le> t \<Longrightarrow> \<forall>l. lim = Some l \<longrightarrow> t \<le> l \<Longrightarrow> within signs t lim (f t ctx a)"
  shows "within signs now lim (then_run r f)"
proof (cases r)
  case (Returns t ctx a)
  then show ?thesis
    using assms by (cases a) (auto simp: then_run_def intro: within_earlier [of signs t])
qed (use assms(1) in \<open>simp_all add: then_run_def\<close>)

text \<open>Without a bound on the signing: nothing happens before it begins.\<close>

lemma request_later: "within False now None (request srv build parse deadline now ctx)"
  by (auto simp: request_def Let_def split: option.splits reply.splits prod.splits
      intro!: within_earlier [OF within_wait_for_later])

lemma query_within_later: "within False now None (query_trans_tmp_status env srv deadline now ctx)"
  by (auto simp: query_trans_tmp_status_def send_trans_emp_def Let_def
      split: option.splits sum.splits prod.splits TransEmpResult.splits
      intro!: within_wait_for_later within_then_run request_later)

lemma query_later:
  "query_trans_tmp_status env srv deadline now ctx = Returns t ctx' a \<Longrightarrow> now \<le> t"
  using query_within_later [of now env srv deadline ctx] by simp

termination poll_loop
  by (relation "measure (\<lambda>(_, _, _, deadline, _, now, _). deadline - now)")
    (auto dest!: query_later)

declare poll_loop.simps [simp del]

definition login_by_qrcode ::
    "wt_env \<Rightarrow> wt_server \<Rightarrow> (WtLogin \<Rightarrow> rstring) \<Rightarrow> nat \<Rightarrow> Context \<Rightarrow> nat \<times> unit run" where
  "login_by_qrcode env srv failed now ctx =
     (case poll_loop env srv failed (now + 120000) 0 now ctx of
        (n, Waits t ctx) \<Rightarrow> (n, Returns (max t (now + 120000)) ctx
          (Inl (generic ''QR code scan timed out after 120s!'')))
      | (n, r) \<Rightarrow> (n, r))"

section \<open>How long a login takes\<close>

text \<open>The signing server answers every request in at most so many milliseconds.\<close>

definition signs_in :: "nat \<Rightarrow> wt_server \<Rightarrow> bool" where
  "signs_in m srv \<longleftrightarrow> (\<forall>t packet. \<exists>d \<le> m. ws_sign srv t packet = Some d)"

lemma within_request:
  assumes "signs_in m srv" and "now + m \<le> l" "e \<le> l"
  shows "within True now (Some l) (request srv build parse (Some e) now ctx)"
proof (cases "build ctx")
  case (Some cp)
  obtain c p where cp: "cp = (c, p)" by (cases cp)
  obtain d where d: "ws_sign srv now p = Some d" "d \<le> m" using assms(1) by (auto simp: signs_in_def)
  show ?thesis
    using Some cp d assms(2,3)
    by (auto simp: request_def Let_def split: option.splits reply.splits prod.splits
        intro!: within_earlier [OF within_wait_for])
qed (simp add: request_def)

lemma within_query:
  assumes "signs_in m srv" and "now \<le> e"
  shows "within True now (Some (e + m)) (query_trans_tmp_status env srv (Some e) now ctx)"
  using assms
  by (auto simp: query_trans_tmp_status_def send_trans_emp_def Let_def
      split: option.splits sum.splits prod.splits TransEmpResult.splits
      intro!: within_wait_for within_then_run within_request [OF assms(1)])

lemma within_do_wt_login:
  assumes "signs_in m srv" and "now + m \<le> l" "e \<le> l"
  shows "within True now (Some l) (do_wt_login env srv failed (Some e) now ctx)"
  by (auto simp: do_wt_login_def intro!: within_then_run within_request [OF assms])

text \<open>The number of queries, however long signing takes.\<close>

lemma poll_loop_count:
  assumes "poll_loop env srv failed deadline n now ctx = (q, r)"
    and "start + 2000 * n \<le> now" and "now \<le> deadline" and "deadline = start + 120000"
  shows "n < q \<and> q \<le> 61"
  using assms
proof (induction env srv failed deadline n now ctx arbitrary: q r rule: poll_loop.induct)
  case (1 env srv failed deadline n now ctx)
  note step = poll_loop.simps [of env srv failed deadline n now]
  have n: "Suc n \<le> 61" using "1.prems"(2,3,4) by simp
  show ?case
  proof (cases "query_trans_tmp_status env srv (Some deadline) now ctx")
    case (Returns t ctx' a)
    have t: "now \<le> t" using query_later [OF Returns] .
    have go: "n < q \<and> q \<le> 61" if s: "a = Inr WaitingForScan \<or> a = Inr WaitingForConfirm"
    proof (cases "t + 2000 \<le> deadline")
      case True
      then have p: "poll_loop env srv failed deadline (Suc n) (t + 2000) ctx' = (q, r)"
        using "1.prems"(1) s Returns by (auto simp: step)
      have b: "start + 2000 * Suc n \<le> t + 2000" using t "1.prems"(2) by simp
      have "Suc n < q \<and> q \<le> 61"
        using s "1.IH"(1) [OF Returns _ refl True p b True "1.prems"(4)]
          "1.IH"(2) [OF Returns _ refl True p b True "1.prems"(4)] by blast
      then show ?thesis by simp
    qed (use "1.prems"(1) s Returns n in \<open>auto simp: step\<close>)
    then show ?thesis
      using "1.prems"(1) Returns n by (cases a; cases "projr a") (auto simp: step)
  qed (use "1.prems"(1) n in \<open>auto simp: step\<close>)
qed

text \<open>
  Once the deadline has passed, at most two packets are still signed: the one of a status query, and the
  one of the login that follows it.
\<close>

lemma poll_loop_within:
  assumes "poll_loop env srv failed deadline n now ctx = (q, r)"
    and "now \<le> deadline" and "signs_in m srv"
  shows "within True now (Some (deadline + 2 * m)) r"
  using assms
proof (induction env srv failed deadline n now ctx arbitrary: q r rule: poll_loop.induct)
  case (1 env srv failed deadline n now ctx)
  note step = poll_loop.simps [of env srv failed deadline n now]
  note w = within_query [OF "1.prems"(3,2), of env ctx]
  show ?case
  proof (cases "query_trans_tmp_status env srv (Some deadline) now ctx")
    case (Returns t ctx' a)
    have t: "now \<le> t" "t \<le> deadline + m" using w Returns by simp_all
    have go: "within True now (Some (deadline + 2 * m)) r"
      if s: "a = Inr WaitingForScan \<or> a = Inr WaitingForConfirm"
    proof (cases "t + 2000 \<le> deadline")
      case True
      then have p: "poll_loop env srv failed deadline (Suc n) (t + 2000) ctx' = (q, r)"
        using "1.prems"(1) s Returns by (auto simp: step)
      have "within True (t + 2000) (Some (deadline + 2 * m)) r"
        using s "1.IH"(1) [OF Returns _ refl True p True "1.prems"(3)]
          "1.IH"(2) [OF Returns _ refl True p True "1.prems"(3)] by blast
      then show ?thesis using t by (auto intro: within_earlier)
    qed (use "1.prems"(1) s Returns t in \<open>auto simp: step\<close>)
    have "within True t (Some (deadline + 2 * m)) (do_wt_login env srv failed (Some deadline) t c)" for c
      using t by (intro within_do_wt_login [OF "1.prems"(3)]) simp_all
    then have "within True now (Some (deadline + 2 * m)) (do_wt_login env srv failed (Some deadline) t c)" for c
      using t by (auto intro: within_earlier)
    then show ?thesis
      using "1.prems"(1) Returns t go by (cases a; cases "projr a") (auto simp: step)
  qed (use "1.prems"(1) w in \<open>auto simp: step\<close>)
qed

text \<open>
  C36: A login by QR code comes to an end, if signing does. Let the signing server answer every request
  within \<open>m\<close> milliseconds (0 when none is configured). Whatever the other servers answer, and whether they
  answer at all, \<open>login_by_qrcode\<close> asks for the status at least once and at most 61 times, and has returned
  a result or panicked within 120 seconds and twice the time \<open>m\<close>: the limit of 120 seconds does not
  interrupt the signing of a packet.
\<close>

theorem login_by_qrcode_bounded:
  assumes "signs_in m srv"
  shows "case login_by_qrcode env srv failed now ctx of (n, r) \<Rightarrow>
     1 \<le> n \<and> n \<le> 61
     \<and> (case r of Returns t _ _ \<Rightarrow> now \<le> t \<and> t \<le> now + 120000 + 2 * m | Panics \<Rightarrow> True | _ \<Rightarrow> False)"
proof -
  obtain n r where p: "poll_loop env srv failed (now + 120000) 0 now ctx = (n, r)"
    by (cases "poll_loop env srv failed (now + 120000) 0 now ctx") auto
  have "0 < n \<and> n \<le> 61" using poll_loop_count [OF p, of now] by simp
  moreover have "within True now (Some (now + 120000 + 2 * m)) r"
    using poll_loop_within [OF p _ assms] by simp
  ultimately show ?thesis by (cases r) (simp_all add: login_by_qrcode_def p)
qed

definition demo_wt_server :: wt_server where
  "demo_wt_server = \<lparr>ws_sign = (\<lambda>_ _. Some 0), ws_sso = (\<lambda>_ _. (None, ReplyOther)),
     ws_http = (\<lambda>_ _. (Some 5, Inl (str ''connection refused'')))\<rparr>"

theorem login_by_qrcode_bounded_witness:
  "case login_by_qrcode demo_wt_env demo_wt_server (\<lambda>_. []) 100 demo_context of (n, r) \<Rightarrow>
     1 \<le> n \<and> n \<le> 61
     \<and> (case r of Returns t _ _ \<Rightarrow> 100 \<le> t \<and> t \<le> 100 + 120000 + 2 * 0 | Panics \<Rightarrow> True | _ \<Rightarrow> False)"
  by (rule login_by_qrcode_bounded) (simp add: signs_in_def demo_wt_server_def)

text \<open>
  Without a bound on the signing there is none on the login: if the signing server does not answer for
  the first status query, \<open>login_by_qrcode\<close> never returns.
\<close>

lemma login_hangs_on_signing:
  assumes "se_qr_sign (ctx_session ctx) = Some qr_sign"
    and "\<And>q. ws_http srv now q = (Some d, Inr info)" and "d \<le> 120000"
    and "TransEmp_build env new_query_result
      (ctx\<lparr>ctx_key_store := (ctx_key_store ctx)\<lparr>ks_uin := nlp_uin info\<rparr>\<rparr>) = Some (ctx', packet)"
    and "ws_sign srv (now + d) packet = None"
  shows "login_by_qrcode env srv failed now ctx = (1, Hangs)"
proof -
  have "query_trans_tmp_status env srv (Some (now + 120000)) now ctx = Hangs"
    using assms by (simp add: query_trans_tmp_status_def wait_for_def await_def send_trans_emp_def request_def
        then_run_def)
  then show ?thesis by (simp add: login_by_qrcode_def poll_loop.simps [of env srv failed _ 0 now])
qed

section \<open>What a login stores\<close>

text \<open>The values only a successful login may set.\<close>

definition login_secrets :: "Context \<Rightarrow> bytes \<times> bytes \<times> bytes \<times> rstring option" where
  "login_secrets ctx =
     (wt_tgt (ks_session (ctx_key_store ctx)), wt_d2 (ks_session (ctx_key_store ctx)),
      wt_d2_key (ks_session (ctx_key_store ctx)), ks_uid (ctx_key_store ctx))"

text \<open>Runs that leave these values as they are.\<close>

definition keeps_secrets :: "Context \<Rightarrow> 'a run \<Rightarrow> bool" where
  "keeps_secrets ctx r \<longleftrightarrow>
     (case r of Returns _ ctx' _ \<Rightarrow> login_secrets ctx' = login_secrets ctx
      | Waits _ ctx' \<Rightarrow> login_secrets ctx' = login_secrets ctx | Panics \<Rightarrow> True | Hangs \<Rightarrow> True)"

lemma keeps_secrets_simps [simp]:
  "keeps_secrets ctx (Returns t ctx' a) \<longleftrightarrow> login_secrets ctx' = login_secrets ctx"
  "keeps_secrets ctx (Waits t ctx') \<longleftrightarrow> login_secrets ctx' = login_secrets ctx"
  "keeps_secrets ctx Panics" "keeps_secrets ctx Hangs"
  by (simp_all add: keeps_secrets_def)

lemma keeps_secrets_then_run:
  assumes "keeps_secrets ctx r"
    and "\<And>t ctx' a. login_secrets ctx' = login_secrets ctx \<Longrightarrow> keeps_secrets ctx (f t ctx' a)"
  shows "keeps_secrets ctx (then_run r f)"
  using assms by (cases r) (auto simp: then_run_def split: sum.split)

lemma build_wtlogin_key_store:
  "build_wtlogin_packet env cmd body ctx = Some (ctx', p) \<Longrightarrow> ctx_key_store ctx' = ctx_key_store ctx"
  by (auto simp: build_wtlogin_packet_def Session_next_sequence_def split: Option.bind_splits)

lemma TransEmp_build_key_store:
  "TransEmp_build env event ctx = Some (ctx', p) \<Longrightarrow> ctx_key_store ctx' = ctx_key_store ctx"
  by (auto simp: TransEmp_build_def split: Option.bind_splits dest: build_wtlogin_key_store)

lemma WtLogin_build_key_store:
  "WtLogin_build env ctx = Some (ctx', p) \<Longrightarrow> ctx_key_store ctx' = ctx_key_store ctx"
  by (auto simp: WtLogin_build_def split: Option.bind_splits dest: build_wtlogin_key_store)

lemma keeps_secrets_trans_emp:
  assumes "login_secrets ctx' = login_secrets ctx"
  shows "keeps_secrets ctx (send_trans_emp env srv event deadline now ctx')"
  using assms
  by (auto simp: send_trans_emp_def request_def wait_for_def Let_def login_secrets_def
      dest!: TransEmp_build_key_store split: option.splits reply.splits prod.splits)

lemma keeps_secrets_query:
  "keeps_secrets ctx (query_trans_tmp_status env srv deadline now ctx)"
proof -
  have "login_secrets (ctx\<lparr>ctx_key_store := (ctx_key_store ctx)\<lparr>ks_uin := u\<rparr>\<rparr>) = login_secrets ctx" for u
    by (simp add: login_secrets_def)
  note * = keeps_secrets_then_run [OF keeps_secrets_trans_emp [OF this]]
  show ?thesis
    by (auto simp: query_trans_tmp_status_def wait_for_def Let_def
        split: option.splits sum.splits prod.splits TransEmpResult.splits intro!: *)
qed

lemma do_wt_login_result:
  assumes "login_secrets ctx' = login_secrets ctx"
  shows "(\<exists>k t ctx1. do_wt_login env srv failed deadline now ctx' = Returns t (store_login env k ctx1) (Inr ())
        \<and> length (lk_d2_key k) = 16)
    \<or> keeps_secrets ctx (do_wt_login env srv failed deadline now ctx')
        \<and> (\<forall>t c. do_wt_login env srv failed deadline now ctx' \<noteq> Returns t c (Inr ()))"
proof (cases "WtLogin_build env ctx'")
  case (Some cp)
  obtain c p where cp: "cp = (c, p)" by (cases cp)
  then have ks: "login_secrets c = login_secrets ctx"
    using WtLogin_build_key_store Some assms by (auto simp: login_secrets_def)
  show ?thesis
  proof (cases "ws_sign srv now p")
    case None
    then show ?thesis
      using \<open>WtLogin_build env ctx' = Some cp\<close> cp by (simp add: do_wt_login_def request_def then_run_def)
  next
    case (Some u)
    obtain d reply where s: "ws_sso srv (now + u) p = (d, reply)" by (cases "ws_sso srv (now + u) p")
    note run = do_wt_login_def request_def \<open>WtLogin_build env ctx' = Some cp\<close> cp Some s wait_for_def then_run_def
    show ?thesis
    proof (cases "await deadline (now + u) d")
      case None
      then show ?thesis using ks by (simp add: run)
    next
      case (Some t)
      note a = this
      show ?thesis
      proof (cases "\<exists>payload c' r. reply = ReplyData payload \<and> WtLogin_parse env c payload = Some (c', r)")
        case True
        then obtain payload c' r where r: "reply = ReplyData payload"
            "WtLogin_parse env c payload = Some (c', r)" by blast
        from wt_login_cases [OF r(2)] show ?thesis
          using ks by (cases r) (auto simp: run a r event_err_def business_err_def)
      next
        case False
        then show ?thesis using ks by (cases reply) (auto simp: run a split: option.splits)
      qed
    qed
  qed
qed (simp add: do_wt_login_def request_def then_run_def)

lemma store_confirmed_secrets [simp]: "login_secrets (store_confirmed data ctx) = login_secrets ctx"
  by (simp add: store_confirmed_def login_secrets_def)

lemma poll_loop_result:
  assumes "poll_loop env srv failed deadline n now ctx' = (m, r)"
    and "login_secrets ctx' = login_secrets ctx"
  shows "(\<exists>k t ctx1. r = Returns t (store_login env k ctx1) (Inr ()) \<and> length (lk_d2_key k) = 16)
    \<or> keeps_secrets ctx r \<and> (\<forall>t c. r \<noteq> Returns t c (Inr ()))"
  using assms
proof (induction env srv failed deadline n now ctx' arbitrary: m r rule: poll_loop.induct)
  case (1 env srv failed deadline n now ctx')
  note q = keeps_secrets_query [of ctx' env srv "Some deadline" now]
  note step = poll_loop.simps [of env srv failed deadline n now ctx']
  show ?case
  proof (cases "query_trans_tmp_status env srv (Some deadline) now ctx'")
    case (Returns t c a)
    have c: "login_secrets c = login_secrets ctx" using q Returns "1.prems"(2) by simp
    show ?thesis
    proof (cases a)
      case (Inr status)
      note ret = Returns [unfolded Inr]
      show ?thesis
      proof (cases status)
        case (Confirmed data)
        then have "r = do_wt_login env srv failed (Some deadline) t (store_confirmed data c)"
          using "1.prems"(1) ret by (simp add: step)
        then show ?thesis
          using do_wt_login_result [of "store_confirmed data c" ctx env srv failed "Some deadline" t] c
          by auto
      next
        case WaitingForScan
        show ?thesis
        proof (cases "t + 2000 \<le> deadline")
          case True
          then have p: "poll_loop env srv failed deadline (Suc n) (t + 2000) c = (m, r)"
            using "1.prems"(1) ret WaitingForScan by (simp add: step)
          show ?thesis by (rule "1.IH"(1) [OF Returns Inr WaitingForScan True p c])
        qed (use "1.prems"(1) ret WaitingForScan c in \<open>auto simp: step\<close>)
      next
        case WaitingForConfirm
        show ?thesis
        proof (cases "t + 2000 \<le> deadline")
          case True
          then have p: "poll_loop env srv failed deadline (Suc n) (t + 2000) c = (m, r)"
            using "1.prems"(1) ret WaitingForConfirm by (simp add: step)
          show ?thesis by (rule "1.IH"(2) [OF Returns Inr WaitingForConfirm True p c])
        qed (use "1.prems"(1) ret WaitingForConfirm c in \<open>auto simp: step\<close>)
      qed (use "1.prems"(1) ret c in \<open>auto simp: step\<close>)
    qed (use "1.prems"(1) Returns c in \<open>auto simp: step\<close>)
  qed (use "1.prems" q in \<open>auto simp: step\<close>)
qed

text \<open>
  C37: Only a confirmed login changes the login. If \<open>login_by_qrcode\<close> succeeds, the context is the
  one in which the result of a login reply, with a D2 key of 16 bytes, has just been stored; if it
  fails in any way (an error, an expired or cancelled code, the time limit), the TGT, the D2
  ticket, its key and the uid are those from before.
\<close>

theorem login_by_qrcode_stores:
  assumes "login_by_qrcode env srv failed now ctx = (n, Returns t ctx' result)"
  shows "case result of
      Inr _ \<Rightarrow> \<exists>k ctx1. ctx' = store_login env k ctx1 \<and> length (lk_d2_key k) = 16
    | Inl _ \<Rightarrow> login_secrets ctx' = login_secrets ctx"
proof -
  obtain m r where p: "poll_loop env srv failed (now + 120000) 0 now ctx = (m, r)"
    by (cases "poll_loop env srv failed (now + 120000) 0 now ctx") auto
  from poll_loop_result [OF p refl] assms p show ?thesis
    by (cases r) (auto simp: login_by_qrcode_def split: sum.splits)
qed

theorem login_by_qrcode_stores_witness:
  "\<exists>ctx'. login_by_qrcode demo_wt_env demo_wt_server (\<lambda>_. []) 100 demo_context
        = (1, Returns 105 ctx' (Inl (generic ''connection refused'')))
      \<and> login_secrets ctx' = login_secrets demo_context"
proof -
  have e: "login_by_qrcode demo_wt_env demo_wt_server (\<lambda>_. []) 100 demo_context
      = (1, Returns 105 demo_context (Inl (generic ''connection refused'')))"
    by (simp add: login_by_qrcode_def poll_loop.simps [of _ _ _ _ 0 100] query_trans_tmp_status_def demo_wt_server_def
        wait_for_def await_def demo_context_def Session_new_def generic_def)
  from login_by_qrcode_stores [OF e] e show ?thesis by simp
qed

end
