(* ===== verification/Socket.thy ===== *)
theory Socket
  imports Packet_Reader
begin

text \<open>
  The connection of \<open>mania/src/core/socket.rs\<close>: the loop that cuts the incoming byte stream into
  packets, the loop that writes the outgoing ones, and the two halves the client holds. The stream
  is the bytes that arrive before the connection ends; the channels are the lists of what went
  through them, in order (their capacity of 32 only delays the sending side). \<open>SockPanic\<close> is a panic of
  the task that runs both loops; like an error it drops the \<open>DropSync\<close>, after which the client's
  halves report a closed socket.
\<close>

section \<open>Receiving\<close>

datatype sock_end = SockEof | SockPanic

text \<open>
  A packet longer than 64 MiB is not skipped: the loop reads its next length from the body. The
  length is written back into the buffer, which panics when the buffer is shorter than four bytes.
\<close>

function recv_loop :: "bytes \<Rightarrow> bytes list \<times> sock_end" where
  "recv_loop stream =
     (case rd_u32 stream of
        None \<Rightarrow> ([], SockEof)
      | Some (packet_length, stream') \<Rightarrow>
          if packet_length > 1024 * 1024 * 64 then recv_loop stream'
          else let buffer = replicate (unat packet_length) (0 :: u8) in
            case patch 0 (be32 packet_length) buffer of
              None \<Rightarrow> ([], SockPanic)
            | Some buffer \<Rightarrow>
                (case split_to (length buffer - 4) stream' of
                   None \<Rightarrow> ([], SockEof)
                 | Some (body, rest) \<Rightarrow>
                     let (packets, e) = recv_loop rest in ((take 4 buffer @ body) # packets, e)))"
  by pat_completeness auto

lemma rd_u32_shorter: "rd_u32 s = Some (n, r) \<Longrightarrow> length s = length r + 4"
  by (auto simp: rd_u32_def split_to_def split: if_splits)

lemma split_to_shorter: "split_to n s = Some (a, r) \<Longrightarrow> length r \<le> length s"
  by (auto simp: split_to_def split: if_splits)

termination recv_loop
  by (relation "measure length") (auto dest!: rd_u32_shorter split_to_shorter)

declare recv_loop.simps [simp del]

section \<open>Sending\<close>

text \<open>The bytes the loop writes for the packets that come out of the channel.\<close>

fun send_loop :: "bytes list \<Rightarrow> bytes" where
  "send_loop [] = []"
| "send_loop (packet # packets) = packet @ send_loop packets"

section \<open>The client's halves\<close>

text \<open>
  \<open>sk_alive\<close>: the task still holds the \<open>DropSync\<close>; \<open>sk_queue\<close>: received packets not yet taken.
  A \<open>recv\<close> that finds the socket alive and the queue empty waits; if the task ends while it waits,
  the channel closes under it and \<open>expect\<close> panics.
\<close>

record socket =
  sk_alive :: bool
  sk_sent :: "bytes list"
  sk_queue :: "bytes list"

datatype 'a sock_result = SockOk 'a | BrokenPipe | ChannelClosed | SockWaits

definition PacketSender_send :: "bytes \<Rightarrow> socket \<Rightarrow> socket \<times> unit sock_result" where
  "PacketSender_send packet s =
     (if \<not> sk_alive s then (s, BrokenPipe)
      else (s\<lparr>sk_sent := sk_sent s @ [packet]\<rparr>, SockOk ()))"

definition PacketReceiver_recv :: "bool \<Rightarrow> socket \<Rightarrow> socket \<times> bytes sock_result" where
  "PacketReceiver_recv ends_meanwhile s =
     (if \<not> sk_alive s then (s, BrokenPipe)
      else (case sk_queue s of
          p # ps \<Rightarrow> (s\<lparr>sk_queue := ps\<rparr>, SockOk p)
        | [] \<Rightarrow> if ends_meanwhile then (s\<lparr>sk_alive := False\<rparr>, ChannelClosed) else (s, SockWaits)))"

section \<open>What arrives\<close>

text \<open>Packets as the protocol has them: they start with their own length.\<close>

definition framed :: "bytes \<Rightarrow> bool" where
  "framed p \<longleftrightarrow> length p \<le> 64 * 1024 * 1024 \<and> 4 \<le> length p \<and> take 4 p = be32 (of_nat (length p))"

lemma framed_frame32: "length x + 4 \<le> 64 * 1024 * 1024 \<Longrightarrow> framed (frame32 x)"
  by (simp add: framed_def frame32_def add.commute)

lemma framed_split:
  assumes "framed p"
  obtains body where "p = be32 (of_nat (length p)) @ body" "length body = length p - 4"
    "unat (of_nat (length p) :: u32) = length p"
proof -
  have "unat (of_nat (length p) :: u32) = length p"
    using assms by (intro unat_len32) (simp add: framed_def)
  moreover have "p = be32 (of_nat (length p)) @ drop 4 p"
    using assms append_take_drop_id [of 4 p] by (simp add: framed_def)
  ultimately show thesis using that [of "drop 4 p"] by simp
qed

lemma patch_front: "4 \<le> n \<Longrightarrow> patch 0 (be32 w) (replicate n b) = Some (be32 w @ replicate (n - 4) b)"
  by (simp add: patch_def)

lemma recv_loop_packet:
  assumes "framed p"
  shows "recv_loop (p @ rest) = (p # fst (recv_loop rest), snd (recv_loop rest))"
proof -
  obtain body where p: "p = be32 (of_nat (length p)) @ body" "length body = length p - 4"
      "unat (of_nat (length p) :: u32) = length p"
    using assms by (rule framed_split)
  have r: "rd_u32 (p @ rest) = Some (of_nat (length p), body @ rest)"
    by (subst p(1)) (simp add: rd_ints)
  have small: "\<not> (of_nat (length p) :: u32) > 1024 * 1024 * 64"
    using p(3) assms by (simp add: word_less_nat_alt framed_def)
  have "4 \<le> length p" using assms by (simp add: framed_def)
  with r small p(2,3) show ?thesis
    by (subst recv_loop.simps) (simp add: patch_front split_to_append' p(1) [symmetric] Let_def
      split: prod.split)
qed

lemma send_loop_concat: "send_loop ps = concat ps"
  by (induction ps) simp_all

lemma recv_loop_concat:
  "list_all framed ps \<Longrightarrow>
     recv_loop (concat ps @ rest) = (ps @ fst (recv_loop rest), snd (recv_loop rest))"
  by (induction ps) (simp_all add: recv_loop_packet)

text \<open>
  C38: Packets arrive whole and in order. What the sending loop writes for packets that start with
  their own length, of 4 bytes to 64 MiB, the receiving loop of the other end cuts into exactly
  these packets, whatever bytes follow; when only part of one more packet follows, nothing else is
  delivered.
\<close>

theorem recv_loop_send_loop:
  assumes "list_all framed ps"
  shows "recv_loop (send_loop ps @ rest) = (ps @ fst (recv_loop rest), snd (recv_loop rest))
    \<and> (framed p \<and> n < length p \<longrightarrow> recv_loop (send_loop ps @ take n p) = (ps, SockEof))"
proof -
  have cut: "recv_loop (take n p) = ([], SockEof)" if p: "framed p" and n: "n < length p"
  proof (cases "n < 4")
    case True
    then show ?thesis
      by (subst recv_loop.simps) (simp add: rd_u32_def split_to_def)
  next
    case False
    obtain body where b: "p = be32 (of_nat (length p)) @ body" "length body = length p - 4"
        "unat (of_nat (length p) :: u32) = length p"
      using p by (rule framed_split)
    have t: "take n p = be32 (of_nat (length p)) @ take (n - 4) body"
      by (subst b(1)) (use False in simp)
    have small: "\<not> (of_nat (length p) :: u32) > 1024 * 1024 * 64"
      using b(3) p by (simp add: word_less_nat_alt framed_def)
    have "4 \<le> length p" "\<not> length p - 4 \<le> n - 4" using p n False by (auto simp: framed_def)
    with small b(2,3) n False show ?thesis
      by (subst recv_loop.simps) (simp add: t rd_ints patch_front split_to_def Let_def)
  qed
  show ?thesis
    using recv_loop_concat [OF assms, of rest] recv_loop_concat [OF assms, of "take n p"] cut
    by (simp add: send_loop_concat)
qed

theorem recv_loop_send_loop_witness:
  "recv_loop (send_loop [frame32 [1, 2], frame32 []] @ [0, 0, 0])
     = ([frame32 [1, 2], frame32 []], SockEof)"
proof -
  have "list_all framed [frame32 [1, 2], frame32 []]" by (simp add: framed_frame32)
  from recv_loop_send_loop [OF this, of "[0, 0, 0]"] show ?thesis
    by (simp add: recv_loop.simps [of "[0, 0, 0]"] rd_u32_def split_to_def)
qed

text \<open>The two lengths the protocol does not have: the loop dies, or reads the body as packets.\<close>

lemma recv_loop_short_length:
  "unat len < 4 \<Longrightarrow> recv_loop (be32 len @ rest) = ([], SockPanic)"
  by (subst recv_loop.simps)
    (simp add: rd_ints patch_def word_less_nat_alt Let_def)

lemma recv_loop_too_large:
  "len > 64 * 1024 * 1024 \<Longrightarrow> recv_loop (be32 len @ rest) = recv_loop rest"
  by (subst recv_loop.simps) (simp add: rd_ints)

end
