(* ===== verification/Business.thy ===== *)
theory Business
  imports Errors Sso_Packet
begin

text \<open>
  The business handle of \<open>mania/src/core/business.rs\<close>: finding the parser of an incoming packet
  (\<open>resolve_event\<close> of \<open>core/event.rs\<close>), running the logic handlers on its events, and giving the
  result to the request that waits for it.

  The events are a type parameter \<open>'e\<close>, and so is what they work on, the world \<open>'w\<close> (context,
  cache, dispatcher). The two registries are parameters: \<open>EVENT_MAP\<close> by command and \<open>LOGIC_MAP\<close> by
  the type of the event. \<open>None\<close> is a panic, which kills the task that dispatches the packet.

  A request has a number of its own; its channel is a slot: the sender is in the table of pending
  requests, under the sequence number of the packet, and the receiver with the caller.
\<close>

section \<open>Registries and handlers\<close>

datatype LogicFlow = InComing | OutGoing

type_synonym 'e ce_parse = "'e \<times> 'e list option"

type_synonym ('e, 'w) handler =
  "'w \<Rightarrow> 'e \<Rightarrow> LogicFlow \<Rightarrow> ('w \<times> 'e \<times> (BusinessError + unit)) option"

record ('e, 'w) logic_env =
  EVENT_MAP :: "rstring \<Rightarrow> (bytes \<Rightarrow> 'w \<Rightarrow> ('w \<times> (EventError + 'e ce_parse)) option) option"
  LOGIC_MAP :: "'e \<Rightarrow> ('e, 'w) handler list option"

text \<open>\<open>Lazy\<close> builds the maps from the registered items: of two parsers of one command the later wins.\<close>

fun event_map :: "(rstring \<times> 'p) list \<Rightarrow> (rstring \<rightharpoonup> 'p)" where
  "event_map [] = Map.empty"
| "event_map ((command, parse_fn) # items) =
     (case event_map items command of
        None \<Rightarrow> (event_map items)(command \<mapsto> parse_fn) | Some _ \<Rightarrow> event_map items)"

text \<open>Handlers of one type are called in the order of their registration.\<close>

fun logic_map :: "('t \<times> 'h) list \<Rightarrow> ('t \<rightharpoonup> 'h list)" where
  "logic_map [] = Map.empty"
| "logic_map ((tid, h) # items) =
     (logic_map items)(tid \<mapsto> h # (case logic_map items tid of None \<Rightarrow> [] | Some hs \<Rightarrow> hs))"

fun run_handlers ::
    "('e, 'w) handler list \<Rightarrow> LogicFlow \<Rightarrow> 'w \<Rightarrow> 'e \<Rightarrow> ('w \<times> 'e \<times> (BusinessError + unit)) option" where
  "run_handlers [] flow w event = Some (w, event, Inr ())"
| "run_handlers (handle_fn # fns) flow w event =
     do { (w, event, r) \<leftarrow> handle_fn w event flow;
          (case r of Inl e \<Rightarrow> Some (w, event, Inl e) | Inr _ \<Rightarrow> run_handlers fns flow w event) }"

definition dispatch_logic ::
    "('e, 'w) logic_env \<Rightarrow> LogicFlow \<Rightarrow> 'w \<Rightarrow> 'e \<Rightarrow> ('w \<times> 'e \<times> (BusinessError + unit)) option" where
  "dispatch_logic env flow w event =
     (case LOGIC_MAP env event of
        Some fns \<Rightarrow> run_handlers fns flow w event
      | None \<Rightarrow> Some (w, event, Inr ()))"

text \<open>The loop over the extra events; the events it does not reach stay as they were.\<close>

fun dispatch_extras ::
    "('e, 'w) logic_env \<Rightarrow> 'w \<Rightarrow> 'e list \<Rightarrow> ('w \<times> 'e list \<times> (BusinessError + unit)) option" where
  "dispatch_extras env w [] = Some (w, [], Inr ())"
| "dispatch_extras env w (event # events) =
     do { (w, event, r) \<leftarrow> dispatch_logic env InComing w event;
          (case r of
             Inl e \<Rightarrow> Some (w, event # events, Inl e)
           | Inr _ \<Rightarrow> do { (w, events, r) \<leftarrow> dispatch_extras env w events;
                           Some (w, event # events, r) }) }"

definition resolve_event ::
    "('e, 'w) logic_env \<Rightarrow> SsoPacket \<Rightarrow> 'w \<Rightarrow> ('w \<times> (EventError + 'e ce_parse)) option" where
  "resolve_event env packet w =
     do { payload \<leftarrow> event_payload packet;
          (case EVENT_MAP env (sso_command packet) of
             None \<Rightarrow> Some (w, Inl (UnsupportedEvent (sso_command packet)))
           | Some parse \<Rightarrow> parse payload w) }"

text \<open>The \<open>async\<close> block of \<open>dispatch_sso_packet\<close>.\<close>

definition process_packet ::
    "('e, 'w) logic_env \<Rightarrow> SsoPacket \<Rightarrow> 'w \<Rightarrow> ('w \<times> (BusinessError + 'e ce_parse)) option" where
  "process_packet env packet w =
     do { (w, r) \<leftarrow> resolve_event env packet w;
          (case event_err r of
             Inl e \<Rightarrow> Some (w, Inl e)
           | Inr (major_event, extra_events) \<Rightarrow> do {
               (w, major_event, r) \<leftarrow> dispatch_logic env InComing w major_event;
               (case r of
                  Inl e \<Rightarrow> Some (w, Inl e)
                | Inr _ \<Rightarrow>
                    (case extra_events of
                       None \<Rightarrow> Some (w, Inr (major_event, None))
                     | Some events \<Rightarrow> do {
                         (w, events, r) \<leftarrow> dispatch_extras env w events;
                         Some (w, case r of
                             Inl e \<Rightarrow> Inl e
                           | Inr _ \<Rightarrow> Inr (major_event, Some events)) })) }) }"

section \<open>The table of pending requests\<close>

text \<open>
  \<open>Waiting\<close>: the caller awaits the channel. \<open>SenderDropped\<close>: the sender is gone without an answer,
  \<open>expect("response not received")\<close> panics. \<open>ReceiverDropped\<close>: the caller is gone (its packet could
  not be posted, or its future was dropped), the sender is still in the table.
\<close>

datatype 'e slot =
    Unused | Waiting | Answered "BusinessError + 'e ce_parse" | SenderDropped | ReceiverDropped

record ('e, 'w) business =
  bz_world :: 'w
  bz_pending :: "u32 \<rightharpoonup> nat"
  bz_slots :: "nat \<Rightarrow> 'e slot"

definition business_init :: "'w \<Rightarrow> ('e, 'w) business" where
  "business_init w = \<lparr>bz_world = w, bz_pending = Map.empty, bz_slots = (\<lambda>_. Unused)\<rparr>"

text \<open>
  \<open>send_packet\<close> up to its \<open>await\<close>: \<open>insert\<close> drops the sender that was under the number before. When
  \<open>post_packet\<close> fails, the function returns and the entry stays.
\<close>

definition send_packet :: "nat \<Rightarrow> u32 \<Rightarrow> bool \<Rightarrow> ('e, 'w) business \<Rightarrow> ('e, 'w) business" where
  "send_packet rid seqno posted s =
     (let slots = (case bz_pending s seqno of
          None \<Rightarrow> bz_slots s
        | Some old \<Rightarrow> if bz_slots s old = Waiting then (bz_slots s)(old := SenderDropped)
                      else bz_slots s)
      in s\<lparr>bz_pending := (bz_pending s)(seqno \<mapsto> rid),
           bz_slots := slots(rid := if posted then Waiting else ReceiverDropped)\<rparr>)"

definition cancel :: "nat \<Rightarrow> ('e, 'w) business \<Rightarrow> ('e, 'w) business" where
  "cancel rid s =
     (if bz_slots s rid = Waiting then s\<lparr>bz_slots := (bz_slots s)(rid := ReceiverDropped)\<rparr> else s)"

text \<open>
  \<open>send_event\<close> up to the \<open>await\<close>, and \<open>push_event\<close>, which expects no answer. \<open>build\<close> is the event's
  own \<open>build\<close>; the packet gets its sequence number when it is made. \<open>posted\<close> says whether the
  socket takes it.
\<close>

definition post_result :: "bool \<Rightarrow> BusinessError + unit" where
  "post_result posted = (if posted then Inr () else Inl (BusinessNetworkError (str ''socket closed'')))"

definition send_event ::
    "('e, 'w) logic_env \<Rightarrow> ('w \<Rightarrow> 'e \<Rightarrow> ('w \<times> (EventError + bytes)) option) \<Rightarrow> nat \<Rightarrow> u32 \<Rightarrow> bool
      \<Rightarrow> 'e \<Rightarrow> ('e, 'w) business \<Rightarrow> (('e, 'w) business \<times> 'e \<times> (BusinessError + unit)) option" where
  "send_event env build rid seqno posted event s =
     do { (w, event, r) \<leftarrow> dispatch_logic env OutGoing (bz_world s) event;
          (case r of
             Inl e \<Rightarrow> Some (s\<lparr>bz_world := w\<rparr>, event, Inl e)
           | Inr _ \<Rightarrow> do {
               (w, packet) \<leftarrow> build w event;
               (case event_err packet of
                  Inl e \<Rightarrow> Some (s\<lparr>bz_world := w\<rparr>, event, Inl e)
                | Inr _ \<Rightarrow> Some (send_packet rid seqno posted (s\<lparr>bz_world := w\<rparr>), event,
                    post_result posted)) }) }"

definition push_event ::
    "('w \<Rightarrow> 'e \<Rightarrow> ('w \<times> (EventError + bytes)) option) \<Rightarrow> bool \<Rightarrow> 'e \<Rightarrow> ('e, 'w) business
      \<Rightarrow> (('e, 'w) business \<times> (BusinessError + unit)) option" where
  "push_event build posted event s =
     do { (w, packet) \<leftarrow> build (bz_world s) event;
          Some (s\<lparr>bz_world := w\<rparr>, case event_err packet of
              Inl e \<Rightarrow> Inl e | Inr _ \<Rightarrow> post_result posted) }"

datatype dispatched = Sent nat | Warned EventError | LoggedError BusinessError | Quiet | TaskPanics

text \<open>\<open>tx.send(result).expect("receiver dropped")\<close>, or the classification of an error nobody waits for.\<close>

definition finish_dispatch ::
    "u32 \<Rightarrow> BusinessError + 'e ce_parse \<Rightarrow> ('e, 'w) business \<Rightarrow> ('e, 'w) business \<times> dispatched" where
  "finish_dispatch seqno result s =
     (case bz_pending s seqno of
        Some rid \<Rightarrow>
          (let s = s\<lparr>bz_pending := (bz_pending s)(seqno := None)\<rparr> in
           if bz_slots s rid = Waiting
           then (s\<lparr>bz_slots := (bz_slots s)(rid := Answered result)\<rparr>, Sent rid)
           else (s, TaskPanics))
      | None \<Rightarrow> (s, case result of
            Inl (InternalEventError (UnsupportedEvent c)) \<Rightarrow> Warned (UnsupportedEvent c)
          | Inl (InternalEventError (InternalWarning m)) \<Rightarrow> Warned (InternalWarning m)
          | Inl e \<Rightarrow> LoggedError e
          | Inr _ \<Rightarrow> Quiet))"

text \<open>
  A panic while the packet is processed ends the task before the table is looked at: the world is
  left as it was (what a panicking handler had changed already is not modelled).
\<close>

definition dispatch_sso_packet ::
    "('e, 'w) logic_env \<Rightarrow> SsoPacket \<Rightarrow> ('e, 'w) business \<Rightarrow> ('e, 'w) business \<times> dispatched" where
  "dispatch_sso_packet env packet s =
     (case process_packet env packet (bz_world s) of
        None \<Rightarrow> (s, TaskPanics)
      | Some (w, result) \<Rightarrow> finish_dispatch (sso_sequence packet) result (s\<lparr>bz_world := w\<rparr>))"

text \<open>
  One round of the loop of \<open>Business::spawn\<close> on a received packet: a packet that cannot be parsed
  is logged and forgotten; a panic of the parser (\<open>None\<close>) ends the loop.
\<close>

definition handle_raw_packet ::
    "('e, 'w) logic_env \<Rightarrow> sso_env \<Rightarrow> ('w \<Rightarrow> Context) \<Rightarrow> bytes \<Rightarrow> ('e, 'w) business
      \<Rightarrow> ('e, 'w) business option" where
  "handle_raw_packet env senv context raw_packet s =
     do { r \<leftarrow> sso_parse senv (context (bz_world s)) raw_packet;
          Some (case r of
             Inl _ \<Rightarrow> s
           | Inr packet \<Rightarrow> fst (dispatch_sso_packet env packet s)) }"

section \<open>Runs\<close>

text \<open>What can happen to the handle; requests are numbered by the caller of \<open>biz_run\<close>.\<close>

datatype biz_event = Send nat u32 bool | Receive SsoPacket | Cancel nat

fun biz_next :: "('e, 'w) logic_env \<Rightarrow> biz_event \<Rightarrow> ('e, 'w) business \<Rightarrow> ('e, 'w) business" where
  "biz_next env (Send rid seqno posted) s = send_packet rid seqno posted s"
| "biz_next env (Receive packet) s = fst (dispatch_sso_packet env packet s)"
| "biz_next env (Cancel rid) s = cancel rid s"

definition biz_run :: "('e, 'w) logic_env \<Rightarrow> biz_event list \<Rightarrow> ('e, 'w) business \<Rightarrow> ('e, 'w) business" where
  "biz_run env evs s = fold (biz_next env) evs s"

definition sent_ids :: "biz_event list \<Rightarrow> nat list" where
  "sent_ids evs = concat (map (\<lambda>e. case e of Send rid _ _ \<Rightarrow> [rid] | _ \<Rightarrow> []) evs)"

definition sent_seqs :: "biz_event list \<Rightarrow> u32 list" where
  "sent_seqs evs = concat (map (\<lambda>e. case e of Send _ q _ \<Rightarrow> [q] | _ \<Rightarrow> []) evs)"

section \<open>Reconnecting\<close>

text \<open>
  \<open>reconnect\<close> against the results of its connection attempts: the waits in seconds, and whether it
  got through to \<open>todo!\<close>, which panics.
\<close>

definition next_interval :: "nat \<Rightarrow> nat" where
  "next_interval try_interval = (if try_interval < 30 then try_interval * 2 else try_interval)"

fun reconnect_loop :: "nat \<Rightarrow> bool list \<Rightarrow> nat list \<times> bool" where
  "reconnect_loop try_interval [] = ([], False)"
| "reconnect_loop try_interval (True # _) = ([], True)"
| "reconnect_loop try_interval (False # attempts) =
     (let (waits, panics) = reconnect_loop (next_interval try_interval) attempts
      in (try_interval # waits, panics))"

definition reconnect :: "bool list \<Rightarrow> nat list \<times> bool" where
  "reconnect attempts = reconnect_loop 1 attempts"

section \<open>The specification: mailboxes\<close>

text \<open>
  The table is to behave as if every request had a mailbox with its sequence number as address: a
  reply goes to the mailboxes with its address that still wait, and nothing else changes them.
\<close>

record ('e, 'w) mailboxes =
  mb_world :: 'w
  mb_addr :: "nat \<rightharpoonup> u32"
  mb_box :: "nat \<Rightarrow> 'e slot"

definition mailboxes_init :: "'w \<Rightarrow> ('e, 'w) mailboxes" where
  "mailboxes_init w = \<lparr>mb_world = w, mb_addr = Map.empty, mb_box = (\<lambda>_. Unused)\<rparr>"

fun mb_next :: "('e, 'w) logic_env \<Rightarrow> biz_event \<Rightarrow> ('e, 'w) mailboxes \<Rightarrow> ('e, 'w) mailboxes" where
  "mb_next env (Send rid seqno posted) m =
     m\<lparr>mb_addr := (mb_addr m)(rid \<mapsto> seqno),
       mb_box := (mb_box m)(rid := if posted then Waiting else ReceiverDropped)\<rparr>"
| "mb_next env (Receive packet) m =
     (case process_packet env packet (mb_world m) of
        None \<Rightarrow> m
      | Some (w, result) \<Rightarrow> m\<lparr>mb_world := w,
          mb_box := (\<lambda>rid. if mb_box m rid = Waiting \<and> mb_addr m rid = Some (sso_sequence packet)
                           then Answered result else mb_box m rid)\<rparr>)"
| "mb_next env (Cancel rid) m =
     (if mb_box m rid = Waiting then m\<lparr>mb_box := (mb_box m)(rid := ReceiverDropped)\<rparr> else m)"

definition mb_run :: "('e, 'w) logic_env \<Rightarrow> biz_event list \<Rightarrow> ('e, 'w) mailboxes \<Rightarrow> ('e, 'w) mailboxes" where
  "mb_run env evs m = fold (mb_next env) evs m"

text \<open>
  The simulation. \<open>seqs\<close> and \<open>ids\<close> are the numbers used so far.
\<close>

definition mailbox_sim :: "u32 set \<Rightarrow> nat set \<Rightarrow> ('e, 'w) business \<Rightarrow> ('e, 'w) mailboxes \<Rightarrow> bool" where
  "mailbox_sim seqs ids s m \<longleftrightarrow>
     bz_world s = mb_world m \<and> bz_slots s = mb_box m
     \<and> dom (mb_addr m) \<subseteq> ids \<and> ran (mb_addr m) \<subseteq> seqs
     \<and> (\<forall>q r. bz_pending s q = Some r \<longrightarrow> mb_addr m r = Some q)
     \<and> (\<forall>r. mb_box m r = Waiting \<longrightarrow> (\<exists>q. mb_addr m r = Some q \<and> bz_pending s q = Some r))
     \<and> (\<forall>r. mb_box m r \<noteq> SenderDropped)"

lemma mailbox_sim_init: "mailbox_sim {} {} (business_init w) (mailboxes_init w)"
  by (simp add: mailbox_sim_def business_init_def mailboxes_init_def)

lemma mailbox_sim_send:
  assumes "mailbox_sim seqs ids s m" and "q \<notin> seqs" and "rid \<notin> ids"
  shows "mailbox_sim (insert q seqs) (insert rid ids)
    (send_packet rid q posted s) (mb_next env (Send rid q posted) m)"
proof -
  have free: "bz_pending s q = None"
  proof (rule ccontr)
    assume "bz_pending s q \<noteq> None"
    then obtain r where "bz_pending s q = Some r" by auto
    then have "mb_addr m r = Some q" using assms(1) by (simp add: mailbox_sim_def)
    then have "q \<in> seqs" using assms(1) ranI [of "mb_addr m" r q] by (auto simp: mailbox_sim_def)
    then show False using assms(2) by simp
  qed
  have new: "mb_addr m rid = None" using assms(1,3) by (auto simp: mailbox_sim_def)
  have other: "bz_pending s q' = Some r \<Longrightarrow> r \<noteq> rid" for q' r
    using assms(1) new by (auto simp: mailbox_sim_def)
  have s': "send_packet rid q posted s = s\<lparr>bz_pending := (bz_pending s)(q \<mapsto> rid),
      bz_slots := (bz_slots s)(rid := if posted then Waiting else ReceiverDropped)\<rparr>"
    by (simp add: send_packet_def free)
  have keep: "\<exists>q'. mb_addr m r = Some q' \<and> ((bz_pending s)(q \<mapsto> rid)) q' = Some r"
    if "mb_box m r = Waiting" for r
  proof -
    have "\<exists>q'. mb_addr m r = Some q' \<and> bz_pending s q' = Some r"
      using assms(1) that by (simp add: mailbox_sim_def)
    then obtain q' where "mb_addr m r = Some q'" "bz_pending s q' = Some r" by blast
    moreover from this free have "q' \<noteq> q" by auto
    ultimately show ?thesis by auto
  qed
  have "ran ((mb_addr m)(rid \<mapsto> q)) = insert q (ran (mb_addr m))"
    using new by (rule ran_map_upd)
  moreover have "ran (mb_addr m) \<subseteq> seqs" "dom (mb_addr m) \<subseteq> ids"
      "bz_world s = mb_world m" "bz_slots s = mb_box m" "\<And>r. mb_box m r \<noteq> SenderDropped"
    using assms(1) by (simp_all add: mailbox_sim_def)
  moreover have "((bz_pending s)(q \<mapsto> rid)) q' = Some r \<Longrightarrow> ((mb_addr m)(rid \<mapsto> q)) r = Some q'" for q' r
    using assms(1) other by (auto simp: mailbox_sim_def split: if_splits)
  moreover have "\<exists>q'. ((mb_addr m)(rid \<mapsto> q)) r = Some q' \<and> ((bz_pending s)(q \<mapsto> rid)) q' = Some r"
    if "((mb_box m)(rid := x)) r = Waiting" for r x
    using keep [of r] that by (cases "r = rid") simp_all
  ultimately show ?thesis
    unfolding mailbox_sim_def s' mb_next.simps
    by (intro conjI allI impI) (simp_all add: insert_mono subset_insertI2 del: fun_upd_apply, simp)
qed

lemma mailbox_sim_cancel:
  "mailbox_sim seqs ids s m \<Longrightarrow>
     mailbox_sim seqs ids (cancel rid s) (mb_next env (Cancel rid) m)"
  by (auto simp: mailbox_sim_def cancel_def)

lemma mailbox_sim_receive:
  assumes "mailbox_sim seqs ids s m"
  shows "mailbox_sim seqs ids (fst (dispatch_sso_packet env packet s)) (mb_next env (Receive packet) m)"
proof (cases "process_packet env packet (bz_world s)")
  case None
  then show ?thesis using assms by (simp add: dispatch_sso_packet_def mailbox_sim_def)
next
  case (Some wr)
  obtain w result where wr: "wr = (w, result)" by (cases wr)
  have p: "process_packet env packet (mb_world m) = Some (w, result)"
    using assms Some wr by (simp add: mailbox_sim_def)
  let ?q = "sso_sequence packet"
  show ?thesis
  proof (cases "bz_pending s ?q")
    case None
    then have "\<not> (mb_box m r = Waiting \<and> mb_addr m r = Some ?q)" for r
      using assms by (auto simp: mailbox_sim_def)
    then have "(\<lambda>r. if mb_box m r = Waiting \<and> mb_addr m r = Some ?q then Answered result
        else mb_box m r) = mb_box m" by (auto simp: fun_eq_iff)
    then have "mb_next env (Receive packet) m = m\<lparr>mb_world := w\<rparr>" using p by simp
    then show ?thesis
      using assms None Some wr
      by (simp add: dispatch_sso_packet_def finish_dispatch_def mailbox_sim_def)
  next
    case (Some rid)
    have a: "mb_addr m rid = Some ?q" using assms Some by (simp add: mailbox_sim_def)
    have only: "mb_box m r = Waiting \<and> mb_addr m r = Some ?q \<longleftrightarrow> r = rid \<and> mb_box m rid = Waiting" for r
      using assms a Some by (auto simp: mailbox_sim_def)
    have m': "mb_next env (Receive packet) m = m\<lparr>mb_world := w,
        mb_box := (if mb_box m rid = Waiting then (mb_box m)(rid := Answered result) else mb_box m)\<rparr>"
      using p only by (auto simp: fun_eq_iff)
    have keep: "\<exists>q. q \<noteq> ?q \<and> mb_addr m r = Some q \<and> bz_pending s q = Some r"
      if "r \<noteq> rid" "mb_box m r = Waiting" for r
      using assms that Some by (auto simp: mailbox_sim_def) (metis option.inject)
    show ?thesis
      unfolding m'
      using keep assms Some \<open>process_packet env packet (bz_world s) = Some wr\<close> wr a
      by (auto simp: dispatch_sso_packet_def finish_dispatch_def mailbox_sim_def Let_def)
        (metis keep)+
  qed
qed

lemma mailbox_sim_run:
  assumes "mailbox_sim seqs ids s m"
    and "distinct (sent_seqs evs)" and "set (sent_seqs evs) \<inter> seqs = {}"
    and "distinct (sent_ids evs)" and "set (sent_ids evs) \<inter> ids = {}"
  shows "\<exists>seqs ids. mailbox_sim seqs ids (biz_run env evs s) (mb_run env evs m)"
  using assms
proof (induction evs arbitrary: seqs ids s m)
  case Nil
  then show ?case by (auto simp: biz_run_def mb_run_def)
next
  case (Cons e evs)
  show ?case
  proof (cases e)
    case (Send rid q posted)
    have "mailbox_sim (insert q seqs) (insert rid ids)
        (send_packet rid q posted s) (mb_next env (Send rid q posted) m)"
      using Cons.prems Send
      by (intro mailbox_sim_send) (auto simp: sent_seqs_def sent_ids_def)
    from Cons.IH [OF this] show ?thesis
      using Cons.prems(2-5) Send
      by (auto simp: sent_seqs_def sent_ids_def biz_run_def mb_run_def)
  next
    case (Receive packet)
    from Cons.IH [OF mailbox_sim_receive [OF Cons.prems(1), of env packet]] show ?thesis
      using Cons.prems(2-5) Receive by (auto simp: sent_seqs_def sent_ids_def biz_run_def mb_run_def)
  next
    case (Cancel rid)
    from Cons.IH [OF mailbox_sim_cancel [OF Cons.prems(1), of rid env]] show ?thesis
      using Cons.prems(2-5) Cancel by (auto simp: sent_seqs_def sent_ids_def biz_run_def mb_run_def)
  qed
qed

text \<open>
  C6: The table of pending requests implements mailboxes. As long as every request has a sequence
  number of its own, the handle and the specification go through the same worlds and show every
  caller the same channel after any sequence of sends, failed sends, incoming packets and dropped
  callers; no caller ever sees its sender dropped.
\<close>

theorem business_refines_mailboxes:
  assumes "distinct (sent_seqs evs)" and "distinct (sent_ids evs)"
  shows "bz_slots (biz_run env evs (business_init w)) = mb_box (mb_run env evs (mailboxes_init w))
    \<and> bz_world (biz_run env evs (business_init w)) = mb_world (mb_run env evs (mailboxes_init w))
    \<and> (\<forall>rid. bz_slots (biz_run env evs (business_init w)) rid \<noteq> SenderDropped)"
proof -
  obtain seqs ids where "mailbox_sim seqs ids (biz_run env evs (business_init w))
      (mb_run env evs (mailboxes_init w))"
    using mailbox_sim_run [OF mailbox_sim_init [of w] assms(1) _ assms(2), of env] by auto
  then show ?thesis by (simp add: mailbox_sim_def)
qed

definition demo_logic_env :: "(nat, unit) logic_env" where
  "demo_logic_env = \<lparr>EVENT_MAP = (\<lambda>c. if c = [1] then Some (\<lambda>payload w. Some (w, Inr (length payload, None)))
       else None), LOGIC_MAP = (\<lambda>_. None)\<rparr>"

definition demo_reply :: "u32 \<Rightarrow> SsoPacket" where
  "demo_reply q = with_sequence T12 [1] q (frame32 [7, 7, 7])"

lemma process_demo_reply: "process_packet demo_logic_env (demo_reply q) () = Some ((), Inr (3, None))"
  by (simp add: process_packet_def resolve_event_def demo_reply_def event_payload_frame32 fits32_def
      demo_logic_env_def with_sequence_def event_err_def dispatch_logic_def
      event_payload_frame32 [unfolded with_sequence_def])

theorem business_refines_mailboxes_witness:
  "bz_slots (biz_run demo_logic_env [Send 1 50 True, Send 2 51 True, Receive (demo_reply 51)]
      (business_init ())) 2 = Answered (Inr (3, None))"
proof -
  let ?evs = "[Send 1 50 True, Send 2 51 True, Receive (demo_reply 51)]"
  have "distinct (sent_seqs ?evs)" "distinct (sent_ids ?evs)"
    by (simp_all add: sent_seqs_def sent_ids_def)
  from business_refines_mailboxes [OF this, of demo_logic_env "()"] show ?thesis
    by (simp add: mb_run_def mailboxes_init_def process_demo_reply)
      (simp add: demo_reply_def with_sequence_def)
qed

section \<open>Whose answer a caller gets\<close>

text \<open>Where the contents of the mailboxes come from.\<close>

definition answer_origin ::
    "('e, 'w) logic_env \<Rightarrow> biz_event list \<Rightarrow> nat \<Rightarrow> BusinessError + 'e ce_parse \<Rightarrow> bool" where
  "answer_origin env evs rid r \<longleftrightarrow>
     (\<exists>packet w w'. Send rid (sso_sequence packet) True \<in> set evs \<and> Receive packet \<in> set evs
        \<and> process_packet env packet w = Some (w', r))"

definition box_origin :: "('e, 'w) logic_env \<Rightarrow> biz_event list \<Rightarrow> ('e, 'w) mailboxes \<Rightarrow> bool" where
  "box_origin env evs m \<longleftrightarrow>
     (\<forall>rid. mb_box m rid = Waiting \<longrightarrow> (\<exists>q. mb_addr m rid = Some q \<and> Send rid q True \<in> set evs))
     \<and> (\<forall>rid r. mb_box m rid = Answered r \<longrightarrow> answer_origin env evs rid r)"

lemma answer_origin_mono: "answer_origin env evs rid r \<Longrightarrow> answer_origin env (evs @ [e]) rid r"
  by (fastforce simp: answer_origin_def)

lemma box_origin_mono: "box_origin env evs m \<Longrightarrow> box_origin env (evs @ [e]) m"
  by (auto simp: box_origin_def intro: answer_origin_mono)

lemma box_origin_step:
  assumes "box_origin env evs m"
  shows "box_origin env (evs @ [e]) (mb_next env e m)"
proof (cases e)
  case (Receive packet)
  show ?thesis
  proof (cases "process_packet env packet (mb_world m)")
    case None
    then show ?thesis using box_origin_mono [OF assms] Receive by simp
  next
    case (Some wr)
    obtain w' r where wr: "process_packet env packet (mb_world m) = Some (w', r)"
      using Some by (cases wr) simp
    have "answer_origin env (evs @ [e]) rid r"
      if "mb_box m rid = Waiting" "mb_addr m rid = Some (sso_sequence packet)" for rid
    proof -
      have "\<exists>q. mb_addr m rid = Some q \<and> Send rid q True \<in> set evs"
        using assms that(1) by (simp add: box_origin_def)
      then show ?thesis
        unfolding answer_origin_def using that(2) wr Receive by (intro exI [of _ packet]) auto
    qed
    then show ?thesis
      using box_origin_mono [OF assms, of e] by (auto simp: Receive wr box_origin_def split: if_splits)
  qed
qed (use box_origin_mono [OF assms, of e] in \<open>auto simp: box_origin_def split: if_splits\<close>)

lemma box_origin_run: "box_origin env evs (mb_run env evs (mailboxes_init w))"
proof (induction evs rule: rev_induct)
  case Nil
  then show ?case by (simp add: box_origin_def mb_run_def mailboxes_init_def)
next
  case (snoc e evs)
  then show ?case using box_origin_step [OF snoc] by (simp add: mb_run_def)
qed

lemma business_mailboxes:
  assumes "distinct (sent_seqs evs)" and "distinct (sent_ids evs)"
  shows "bz_slots (biz_run env evs (business_init w)) = mb_box (mb_run env evs (mailboxes_init w))"
  using mailbox_sim_run [OF mailbox_sim_init [of w] assms(1) _ assms(2), of env]
  by (auto simp: mailbox_sim_def)

text \<open>
  C39: Nobody gets somebody else's answer. As long as every request has a sequence number of its
  own, whatever is answered to a caller is the result of processing a packet that arrived, and
  that packet carries the number the caller's request was sent with.
\<close>

theorem answer_is_for_its_request:
  assumes "distinct (sent_seqs evs)" and "distinct (sent_ids evs)"
    and "bz_slots (biz_run env evs (business_init w)) rid = Answered r"
  shows "\<exists>packet w1 w2. Send rid (sso_sequence packet) True \<in> set evs \<and> Receive packet \<in> set evs
    \<and> process_packet env packet w1 = Some (w2, r)"
  using box_origin_run [of env evs w] assms(3) business_mailboxes [OF assms(1,2), of env w]
  by (simp add: box_origin_def answer_origin_def)

theorem answer_is_for_its_request_witness:
  "\<exists>packet w1 w2. Send 1 50 True \<in> set [Send 1 50 True, Receive (demo_reply 50)]
     \<and> sso_sequence packet = 50 \<and> process_packet demo_logic_env packet w1 = Some (w2, Inr (3, None))"
proof -
  let ?evs = "[Send 1 50 True, Receive (demo_reply 50)]"
  have d: "distinct (sent_seqs ?evs)" "distinct (sent_ids ?evs)"
    by (simp_all add: sent_seqs_def sent_ids_def)
  have q: "sso_sequence (demo_reply 50) = 50" by (simp add: demo_reply_def with_sequence_def)
  have "bz_slots (biz_run demo_logic_env ?evs (business_init ())) 1 = Answered (Inr (3, None))"
    by (simp add: biz_run_def send_packet_def business_init_def dispatch_sso_packet_def
        process_demo_reply finish_dispatch_def q)
  from answer_is_for_its_request [OF d this] show ?thesis by auto
qed

text \<open>An event that fails before its packet is made leaves the table alone.\<close>

lemma failed_event_not_pending:
  assumes "send_event env build rid q True event s = Some (s', event', Inl e)"
  shows "bz_pending s' = bz_pending s \<and> bz_slots s' = bz_slots s"
  using assms by (auto simp: send_event_def post_result_def split: Option.bind_splits sum.splits)

text \<open>A number that is used again while its request waits drops that request's sender.\<close>

lemma reused_number_drops_sender:
  assumes "bz_pending s q = Some old" and "bz_slots s old = Waiting" and "rid \<noteq> old"
  shows "bz_slots (send_packet rid q posted s) old = SenderDropped"
  using assms by (simp add: send_packet_def)

text \<open>A request that could not be posted stays in the table; a reply to it makes the task panic.\<close>

lemma unposted_request_stays:
  "bz_pending (send_packet rid q False s) q = Some rid"
  "snd (finish_dispatch q result (send_packet rid q False s)) = TaskPanics"
  by (simp_all add: send_packet_def finish_dispatch_def)

section \<open>From the wire to the caller\<close>

lemma parsed_reply:
  assumes "EVENT_MAP env command = Some parse" and "parse d w = Some (w', Inr (event, None))"
    and "LOGIC_MAP env event = None" and "fits32 d"
  shows "process_packet env (with_sequence ty command q (frame32 d)) w = Some (w', Inr (event, None))"
  using assms event_payload_frame32 [OF assms(4), of ty command q]
  by (simp add: process_packet_def resolve_event_def with_sequence_def event_err_def dispatch_logic_def)

text \<open>
  C7: A reply reaches its caller, or is lost. Take a T12 packet in the server's layout for this
  account, whose data the parser of its command turns into one event that has no handlers, and
  whose sequence number is that of a waiting request. With return code zero the caller gets the
  event and the request leaves the table. With any other return code the packet is dropped before
  the table is looked at: nothing changes, and the caller waits on.
\<close>

theorem reply_delivered_or_lost:
  assumes "opens (context (bz_world s)) auth_flag c
      (response_body len seqno ret extra command unknown compressed hdr (frame32 data))"
    and "fits32 extra" "fits32 command" "fits32 unknown" "fits32 data" "length hdr < 2 ^ 32"
    and "valid_utf8 extra" "valid_utf8 command"
    and "delivered senv compressed data = Inr (frame32 d)" and "fits32 d"
    and "EVENT_MAP env command = Some parse"
    and "parse d (bz_world s) = Some (w', Inr (event, None))" and "LOGIC_MAP env event = None"
    and "bz_pending s seqno = Some rid" and "bz_slots s rid = Waiting"
  shows "handle_raw_packet env senv context
      (response_packet len' 12 auth_flag flag
         (dec_str (unat (ks_uin (ctx_key_store (context (bz_world s)))))) c) s
    = Some (if ret = 0
        then s\<lparr>bz_world := w', bz_pending := (bz_pending s)(seqno := None),
               bz_slots := (bz_slots s)(rid := Answered (Inr (event, None)))\<rparr>
        else s)"
proof -
  have "sso_parse senv (context (bz_world s)) (response_packet len' 12 auth_flag flag
         (dec_str (unat (ks_uin (ctx_key_store (context (bz_world s)))))) c)
      = Some (if ret = 0 then Inr (with_sequence T12 command seqno (frame32 d))
          else Inl (SsoPacketRetFailed command seqno ret extra))"
    using sso_parse_packet [OF _ assms(1-8), of 12 senv len' flag] assms(9)
    by (simp add: response_result_def)
  then show ?thesis
    using parsed_reply [where parse = parse, OF assms(11-13,10), of T12 seqno] assms(14,15)
    by (simp add: handle_raw_packet_def dispatch_sso_packet_def finish_dispatch_def with_sequence_def)
qed

theorem reply_delivered_or_lost_witness:
  "\<exists>s. bz_slots s 1 = Waiting \<and> handle_raw_packet demo_logic_env demo_env (\<lambda>_. demo_context)
      (response_packet 0 12 0 0 (dec_str (unat (ks_uin (ctx_key_store demo_context))))
        (response_body 0 50 9 [] [1] [] 0 [] (frame32 [7, 7, 7]))) s = Some s"
proof -
  define s where "s = (send_packet 1 50 True (business_init ()) :: (nat, unit) business)"
  have s: "bz_pending s 50 = Some 1" "bz_slots s 1 = Waiting"
    by (simp_all add: s_def send_packet_def business_init_def)
  let ?b = "response_body 0 50 9 [] [1] [] 0 [] (frame32 [7, 7, 7])"
  have o: "opens ((\<lambda>_. demo_context) (bz_world s)) 0 ?b ?b" by (simp add: opens_def)
  have v: "valid_utf8 []" "valid_utf8 [1]" by (rule valid_utf8_ascii, simp)+
  from reply_delivered_or_lost [OF o, where senv = demo_env
      and env = demo_logic_env and d = "[7, 7, 7]" and rid = 1 and flag = 0 and len' = 0]
  have "handle_raw_packet demo_logic_env demo_env (\<lambda>_. demo_context)
      (response_packet 0 12 0 0 (dec_str (unat (ks_uin (ctx_key_store demo_context)))) ?b) s = Some s"
    using s v by (simp add: fits32_def delivered_def demo_logic_env_def)
  then show ?thesis using s by blast
qed

section \<open>Reconnecting: the waits\<close>

lemma reconnect_waits:
  "fst (reconnect (replicate (k + 5) False)) = [1, 2, 4, 8, 16] @ replicate k 32"
proof -
  have w: "fst (reconnect_loop 32 (replicate n False)) = replicate n 32" for n
    by (induction n) (simp_all add: Let_def split_beta next_interval_def)
  have n: "k + 5 = Suc (Suc (Suc (Suc (Suc k))))" by simp
  show ?thesis unfolding n by (simp add: reconnect_def split_beta next_interval_def w)
qed

lemma reconnect_never_succeeds: "snd (reconnect attempts) \<longleftrightarrow> True \<in> set attempts"
proof -
  have "snd (reconnect_loop i attempts) \<longleftrightarrow> True \<in> set attempts" for i
  proof (induction attempts arbitrary: i)
    case (Cons a attempts)
    then show ?case by (cases a) (auto simp: split_beta Let_def)
  qed simp
  then show ?thesis by (simp add: reconnect_def)
qed

end
