(* ===== verification/System_Events.thy ===== *)
theory System_Events
  imports Cache_Op Sso_Packet
begin

text \<open>
  Events of \<open>mania/src/core/event/system/\<close>: the contact lists (\<open>fetch_friend.rs\<close>,
  \<open>fetch_members.rs\<close>), user information (\<open>fetch_user_info.rs\<close>), group requests
  (\<open>fetch_group_requests.rs\<close>, \<open>fetch_filtered_group_request.rs\<close>), the highway ticket and the
  events without content, and \<open>fetch_group_requests\<close> of \<open>operation/common_op.rs\<close>.

  The protobuf codecs are parameters (\<open>prost\<close> generates them from the \<open>.proto\<close> files); their
  messages are records with the fields the code uses. An \<open>option\<close> is an optional message field.
  A reply of the OIDB service is unwrapped first. \<open>None\<close> is a panic; a time is in seconds.
\<close>

record 'r oidb_codec =
  oc_base :: "bytes \<Rightarrow> OidbSvcTrpcTcpBase option"
  oc_body :: "bytes \<Rightarrow> 'r option"

definition oidb_reply :: "'r oidb_codec \<Rightarrow> bytes \<Rightarrow> EventError + 'r" where
  "oidb_reply codec packet = packet_err (oidb_parse_into (oc_base codec) (oc_body codec) packet)"

definition oidb_request ::
    "(OidbSvcTrpcTcpBase \<Rightarrow> bytes) \<Rightarrow> ('q \<Rightarrow> bytes) \<Rightarrow> u32 \<Rightarrow> u32 \<Rightarrow> 'q \<Rightarrow> bool \<Rightarrow> bool \<Rightarrow> bytes" where
  "oidb_request encode encode_body command sub_command request is_lafter is_uid =
     oidb_to_binary encode \<lparr>oidb_commend = command, oidb_sub_commend = sub_command,
       oidb_body = encode_body request, oidb_is_lafter = is_lafter, oidb_is_uid = is_uid\<rparr>"

definition other_err :: "string \<Rightarrow> EventError" where
  "other_err s = OtherEventError (str s)"

text \<open>\<open>collect::<Result<Vec<_>, _>>()\<close> and a loop with \<open>?\<close>: the first error ends it.\<close>

fun collect_results :: "('a \<Rightarrow> 'e + 'b) \<Rightarrow> 'a list \<Rightarrow> 'e + 'b list" where
  "collect_results f [] = Inr []"
| "collect_results f (x # xs) =
     (case f x of
        Inl e \<Rightarrow> Inl e
      | Inr y \<Rightarrow> (case collect_results f xs of Inl e \<Rightarrow> Inl e | Inr ys \<Rightarrow> Inr (y # ys)))"

section \<open>Friends\<close>

record OidbFriendProperty = ofp_code :: u32  ofp_value :: rstring

record OidbFriendAdditional =
  ofa_type :: u32
  ofa_layer1 :: "OidbFriendProperty list option"

record OidbFriend =
  of_uid :: rstring
  of_custom_group :: u32
  of_uin :: u32
  of_additional :: "OidbFriendAdditional list"

record FriendsRequest =
  fdq_field2 :: u32
  fdq_field4 :: u32
  fdq_next_uin :: "u32 option"
  fdq_field6 :: u32
  fdq_body :: "(u32 \<times> u32 list) list"
  fdq_field10002 :: "u32 list"
  fdq_field10003 :: u32

record FriendsResponse =
  fdr_friends :: "OidbFriend list"
  fdr_groups :: "OidbFriendProperty list"
  fdr_next :: "u32 option"

definition FetchFriends_request :: "u32 option \<Rightarrow> FriendsRequest" where
  "FetchFriends_request next_uin =
     \<lparr>fdq_field2 = 300, fdq_field4 = 0, fdq_next_uin = next_uin, fdq_field6 = 1,
      fdq_body = [(1, [103, 102, 20002, 27394]), (4, [100, 101, 102])],
      fdq_field10002 = [13578, 13579, 13573, 13572, 13568], fdq_field10003 = 4051\<rparr>"

definition FetchFriends_build ::
    "(OidbSvcTrpcTcpBase \<Rightarrow> bytes) \<Rightarrow> (FriendsRequest \<Rightarrow> bytes) \<Rightarrow> u32 option \<Rightarrow> bytes" where
  "FetchFriends_build encode encode_body next_uin =
     oidb_request encode encode_body 0xfd4 1 (FetchFriends_request next_uin) False False"

text \<open>The loop over the properties, which keeps the last value of each of its four codes.\<close>

record friend_props =
  fp_display_name :: "rstring option"
  fp_remark :: "rstring option"
  fp_signature :: "rstring option"
  fp_qid :: "rstring option"

definition note_property :: "OidbFriendProperty \<Rightarrow> friend_props \<Rightarrow> friend_props" where
  "note_property p s =
     (if ofp_code p = 20002 then s\<lparr>fp_display_name := Some (ofp_value p)\<rparr>
      else if ofp_code p = 103 then s\<lparr>fp_remark := Some (ofp_value p)\<rparr>
      else if ofp_code p = 102 then s\<lparr>fp_signature := Some (ofp_value p)\<rparr>
      else if ofp_code p = 27394 then s\<lparr>fp_qid := Some (ofp_value p)\<rparr>
      else s)"

definition friend_properties :: "OidbFriendProperty list \<Rightarrow> friend_props" where
  "friend_properties ps = fold note_property ps
     \<lparr>fp_display_name = None, fp_remark = None, fp_signature = None, fp_qid = None\<rparr>"

definition or_empty :: "rstring option \<Rightarrow> rstring" where
  "or_empty s = (case s of None \<Rightarrow> [] | Some v \<Rightarrow> v)"

definition parse_friend :: "OidbFriend \<Rightarrow> EventError + BotFriend" where
  "parse_friend friend =
     (case find (\<lambda>a. ofa_type a = 1) (of_additional friend) of
        None \<Rightarrow> Inl (other_err ''Missing additional with type 1'')
      | Some additional \<Rightarrow>
          (case ofa_layer1 additional of
             None \<Rightarrow> Inl (other_err ''Missing layer1 in additional'')
           | Some properties \<Rightarrow>
               (let p = friend_properties properties;
                    display_name = (case fp_display_name p of
                        None \<Rightarrow> dec_str (unat (of_uin friend)) | Some n \<Rightarrow> n)
                in Inr (BotFriend_new (of_uin friend) (of_uid friend) display_name
                     (or_empty (fp_remark p)) (or_empty (fp_signature p)) (or_empty (fp_qid p))
                     (Some \<lparr>bfg_group_id = of_custom_group friend, bfg_group_name = []\<rparr>)))))"

definition FetchFriends_parse :: "FriendsResponse oidb_codec \<Rightarrow> bytes \<Rightarrow> EventError + FetchFriendsEvent" where
  "FetchFriends_parse codec packet =
     (case oidb_reply codec packet of
        Inl e \<Rightarrow> Inl e
      | Inr response \<Rightarrow>
          (case collect_results parse_friend (fdr_friends response) of
             Inl e \<Rightarrow> Inl e
           | Inr friends \<Rightarrow> Inr \<lparr>ffe_friends = friends,
               ffe_friend_groups = map_of (rev (map (\<lambda>g. (ofp_code g, ofp_value g)) (fdr_groups response))),
               ffe_next_uin = fdr_next response\<rparr>))"

section \<open>Group members\<close>

record Fe7Member =
  fm_uin :: "(rstring \<times> u32) option"
  fm_member_name :: rstring
  fm_member_card :: "rstring option option"
  fm_level :: "u32 option"
  fm_special_title :: "bytes option"
  fm_join_timestamp :: u32
  fm_last_msg_timestamp :: u32
  fm_shut_up_timestamp :: "u32 option"
  fm_permission :: u32

record MembersRequest =
  mq_group_uin :: u32
  mq_field2 :: u32
  mq_field3 :: u32
  mq_body :: "string list"
  mq_token :: "rstring option"

record MembersResponse =
  mr_group_uin :: u32
  mr_members :: "Fe7Member list"
  mr_token :: "rstring option"

text \<open>\<open>mq_body\<close> lists the flags that are set.\<close>

definition FetchMembers_request :: "u32 \<Rightarrow> rstring option \<Rightarrow> MembersRequest" where
  "FetchMembers_request group_uin token =
     \<lparr>mq_group_uin = group_uin, mq_field2 = 5, mq_field3 = 2,
      mq_body = [''member_name'', ''member_card'', ''level'', ''special_title'', ''join_timestamp'',
        ''last_msg_timestamp'', ''shut_up_timestamp'', ''permission''],
      mq_token = token\<rparr>"

definition FetchMembers_build ::
    "(OidbSvcTrpcTcpBase \<Rightarrow> bytes) \<Rightarrow> (MembersRequest \<Rightarrow> bytes) \<Rightarrow> u32 \<Rightarrow> rstring option \<Rightarrow> bytes" where
  "FetchMembers_build encode encode_body group_uin token =
     oidb_request encode encode_body 0xfe7 3 (FetchMembers_request group_uin token) False True"

text \<open>Every 32-bit number of seconds is a valid time.\<close>

definition parse_member :: "Fe7Member \<Rightarrow> EventError + BotGroupMember" where
  "parse_member member =
     (case fm_uin member of
        None \<Rightarrow> Inl (other_err ''Missing uin'')
      | Some (uid, uin) \<Rightarrow>
          (case GroupMemberPermission_try_from (fm_permission member) of
             Inl _ \<Rightarrow> Inl (other_err ''Invalid permission'')
           | Inr permission \<Rightarrow> Inr
               \<lparr>bgm_uin = uin, bgm_uid = uid, bgm_permission = permission,
                bgm_group_level = (case fm_level member of None \<Rightarrow> 0 | Some l \<Rightarrow> l),
                bgm_member_card = Option.bind (fm_member_card member) id,
                bgm_special_title = map_option utf8_lossy (fm_special_title member),
                bgm_member_name = Some (fm_member_name member),
                bgm_join_time = Some (uint (fm_join_timestamp member)),
                bgm_last_msg_time = Some (uint (fm_last_msg_timestamp member)),
                bgm_shut_up_timestamp = Some (case fm_shut_up_timestamp member of
                    None \<Rightarrow> 0 | Some t \<Rightarrow> uint t)\<rparr>))"

definition FetchMembers_parse :: "MembersResponse oidb_codec \<Rightarrow> bytes \<Rightarrow> EventError + FetchMembersEvent" where
  "FetchMembers_parse codec packet =
     (case oidb_reply codec packet of
        Inl e \<Rightarrow> Inl e
      | Inr response \<Rightarrow>
          (case collect_results parse_member (mr_members response) of
             Inl e \<Rightarrow> Inl e
           | Inr members \<Rightarrow> Inr \<lparr>fme_group_uin = mr_group_uin response,
               fme_group_members = members, fme_token = mr_token response\<rparr>))"

section \<open>User information\<close>

datatype GenderInfo = GenderUnset | Male | Female | GenderUnknown

record BusinessCustom =
  bc_bus_type :: u32
  bc_level :: u32
  bc_icon :: "rstring option"
  bc_is_year :: u32
  bc_is_pro :: u32

record BotStatus =
  bst_status_id :: u32
  bst_face_id :: "u32 option"
  bst_msg :: "rstring option"

text \<open>A birthday is a year, a month and a day, at midnight.\<close>

record BotUserInfo =
  bui_uin :: u32
  bui_avatar :: rstring
  bui_nickname :: rstring
  bui_birthday :: "nat \<times> nat \<times> nat"
  bui_city :: rstring
  bui_country :: rstring
  bui_school :: rstring
  bui_age :: u32
  bui_register_time :: int
  bui_gender :: GenderInfo
  bui_qid :: "rstring option"
  bui_level :: u32
  bui_sign :: rstring
  bui_status :: BotStatus
  bui_business :: "BusinessCustom list"

record FetchUserInfoEvent =
  fui_user_info :: BotUserInfo
  fui_uin :: u32
  fui_uid :: "rstring option"

definition KEYS :: "u32 list" where
  "KEYS = [20002, 27394, 20009, 20031, 101, 103, 102, 20022, 20023, 20024, 24002, 27037, 27049, 20011,
     20016, 20021, 20003, 20004, 20005, 20006, 20020, 20026, 24007, 104, 105, 42432, 42362, 41756,
     41757, 42257, 27372, 42315, 107, 45160, 45161, 27406, 62026, 20037]"

datatype BusinessIcon = Icon1 rstring | Icon2 rstring

record BusinessList =
  bl_type :: u32
  bl_is_year :: bool
  bl_level :: u32
  bl_is_pro :: bool
  bl_icon :: "BusinessIcon option"

record UserInfoResponse =
  uir_uin :: u32
  uir_properties :: "((u32 \<times> u32) list \<times> (u32 \<times> bytes) list) option"

text \<open>The decoders of the nested messages: custom status, avatar URL, business list.\<close>

record user_info_codec =
  uc_response :: "UserInfoResponse option oidb_codec"
  uc_custom_status :: "bytes \<Rightarrow> (u32 \<times> rstring option) option"
  uc_avatar :: "bytes \<Rightarrow> rstring option option"
  uc_business :: "bytes \<Rightarrow> BusinessList list option option"

datatype UserInfoRequest = ByUid rstring "u32 list" | ByUin u32 "u32 list"

definition FetchUserInfo_build ::
    "(OidbSvcTrpcTcpBase \<Rightarrow> bytes) \<Rightarrow> (UserInfoRequest \<Rightarrow> bytes) \<Rightarrow> u32 \<Rightarrow> rstring option \<Rightarrow> bytes" where
  "FetchUserInfo_build encode encode_body uin uid =
     (case uid of
        Some uid \<Rightarrow> oidb_request encode encode_body 0xfe1 2 (ByUid uid KEYS) False False
      | None \<Rightarrow> oidb_request encode encode_body 0xfe1 2 (ByUin uin KEYS) False True)"

definition from_utf8 :: "bytes \<Rightarrow> rstring option" where
  "from_utf8 v = (if valid_utf8 v then Some v else None)"

definition leap_year :: "nat \<Rightarrow> bool" where
  "leap_year y \<longleftrightarrow> 4 dvd y \<and> (\<not> 100 dvd y \<or> 400 dvd y)"

definition days_in_month :: "nat \<Rightarrow> nat \<Rightarrow> nat" where
  "days_in_month y m =
     (if m \<in> {1, 3, 5, 7, 8, 10, 12} then 31 else if m \<in> {4, 6, 9, 11} then 30
      else if m = 2 then (if leap_year y then 29 else 28) else 0)"

definition UNIX_DATE :: "nat \<times> nat \<times> nat" where "UNIX_DATE = (1970, 1, 1)"

text \<open>\<open>with_ymd_and_hms(..).single()\<close> is a date when month and day exist.\<close>

definition get_birthday :: "rstring \<Rightarrow> (nat \<times> nat \<times> nat) option" where
  "get_birthday birthday =
     do { (year, rd) \<leftarrow> rd_u16 birthday;
          (month, rd) \<leftarrow> rd_u8 rd;
          (day, rd) \<leftarrow> rd_u8 rd;
          Some (if 1 \<le> unat day \<and> unat day \<le> days_in_month (unat year) (unat month)
                then (unat year, unat month, unat day) else UNIX_DATE) }"

definition text_property :: "(u32 \<rightharpoonup> bytes) \<Rightarrow> u32 \<Rightarrow> rstring" where
  "text_property props code = or_empty (Option.bind (props code) from_utf8)"

definition number_property :: "(u32 \<rightharpoonup> u32) \<Rightarrow> u32 \<Rightarrow> u32" where
  "number_property props code = (case props code of None \<Rightarrow> 0 | Some n \<Rightarrow> n)"

definition business_custom :: "BusinessList \<Rightarrow> BusinessCustom" where
  "business_custom b =
     \<lparr>bc_bus_type = bl_type b, bc_level = bl_level b,
      bc_icon = (case bl_icon b of
          Some (Icon1 s) \<Rightarrow> if s = [] then None else Some s
        | Some (Icon2 s) \<Rightarrow> if s = [] then None else Some s
        | None \<Rightarrow> None),
      bc_is_year = (if bl_is_year b then 1 else 0), bc_is_pro = (if bl_is_pro b then 1 else 0)\<rparr>"

definition status_id :: "u32 \<Rightarrow> u32" where
  "status_id n = (if n > 268435455 then n - 268435456 else n)"

definition gender_of :: "u32 \<Rightarrow> GenderInfo" where
  "gender_of n = (if n = 1 then Male else if n = 2 then Female else GenderUnset)"

definition FetchUserInfo_parse ::
    "user_info_codec \<Rightarrow> bytes \<Rightarrow> (EventError + FetchUserInfoEvent) option" where
  "FetchUserInfo_parse codec packet =
     (case oidb_reply (uc_response codec) packet of
        Inl e \<Rightarrow> Some (Inl e)
      | Inr None \<Rightarrow> Some (Inl (other_err ''Missing response body''))
      | Inr (Some body) \<Rightarrow>
          (case uir_properties body of
             None \<Rightarrow> Some (Inl (other_err ''Missing properties''))
           | Some (numbers, blobs) \<Rightarrow>
               (let bytes_props = map_of (rev blobs);
                    number_props = map_of (rev numbers);
                    customs = (case bytes_props 27406 of
                        None \<Rightarrow> None | Some b \<Rightarrow> if b = [] then None else uc_custom_status codec b);
                    avatar = (case Option.bind (bytes_props 101) (uc_avatar codec) of
                        None \<Rightarrow> None | Some url \<Rightarrow> url);
                    business = (case Option.bind (bytes_props 107) (uc_business codec) of
                        None \<Rightarrow> [] | Some None \<Rightarrow> [] | Some (Some items) \<Rightarrow> map business_custom items)
                in do { birthday \<leftarrow> (case Option.bind (bytes_props 20031) from_utf8 of
                            None \<Rightarrow> Some UNIX_DATE | Some s \<Rightarrow> get_birthday s);
                        Some (Inr \<lparr>
                          fui_user_info = \<lparr>
                            bui_uin = uir_uin body,
                            bui_avatar = or_empty avatar @ str ''640'',
                            bui_nickname = text_property bytes_props 20002,
                            bui_birthday = birthday,
                            bui_city = text_property bytes_props 20020,
                            bui_country = text_property bytes_props 20003,
                            bui_school = text_property bytes_props 20021,
                            bui_age = number_property number_props 20037,
                            bui_register_time = uint (number_property number_props 20026),
                            bui_gender = gender_of (number_property number_props 20009),
                            bui_qid = Option.bind (bytes_props 27394) from_utf8,
                            bui_level = number_property number_props 105,
                            bui_sign = text_property bytes_props 102,
                            bui_status = \<lparr>
                              bst_status_id = status_id (number_property number_props 27372),
                              bst_face_id = map_option fst customs,
                              bst_msg = Option.bind customs snd\<rparr>,
                            bui_business = business\<rparr>,
                          fui_uin = uir_uin body, fui_uid = None\<rparr>) })))"

section \<open>Group requests\<close>

record GroupRequestUser = gru_uid :: rstring  gru_name :: rstring

record GroupRequestMessage =
  grm_sequence :: u64
  grm_event_type :: u32
  grm_state :: u32
  grm_group :: "(u32 \<times> rstring) option"
  grm_target :: "GroupRequestUser option"
  grm_invitor :: "GroupRequestUser option"
  grm_operator :: "GroupRequestUser option"
  grm_comment :: rstring

record FetchGroupRequests =
  fgr_group_uin :: u32
  fgr_invitor_member_uid :: "rstring option"
  fgr_invitor_member_card :: "rstring option"
  fgr_target_member_uid :: rstring
  fgr_target_member_card :: rstring
  fgr_operator_uid :: "rstring option"
  fgr_operator_name :: "rstring option"
  fgr_sequence :: u64
  fgr_state :: u32
  fgr_event_type :: u32
  fgr_comment :: "rstring option"
  fgr_is_filtered :: bool

text \<open>\<open>Option::take\<close>: the value, and what is left.\<close>

definition opt_take :: "'a option \<Rightarrow> 'a option \<times> 'a option" where
  "opt_take v = (v, None)"

definition parse_group_request :: "bool \<Rightarrow> GroupRequestMessage \<Rightarrow> FetchGroupRequests" where
  "parse_group_request filtered req =
     (let (grp, _) = opt_take (grm_group req);
          (invitor1, invitor) = opt_take (grm_invitor req);
          (invitor2, invitor) = opt_take invitor;
          (target1, target) = opt_take (grm_target req);
          (target2, target) = opt_take target;
          (operator1, op) = opt_take (grm_operator req);
          (operator2, op) = opt_take op
      in \<lparr>fgr_group_uin = (case grp of None \<Rightarrow> 0 | Some (uin, _) \<Rightarrow> uin),
          fgr_invitor_member_uid = map_option gru_uid invitor1,
          fgr_invitor_member_card = map_option gru_name invitor2,
          fgr_target_member_uid = (case target1 of None \<Rightarrow> [] | Some t \<Rightarrow> gru_uid t),
          fgr_target_member_card = (case target2 of None \<Rightarrow> [] | Some t \<Rightarrow> gru_name t),
          fgr_operator_uid = map_option gru_uid operator1,
          fgr_operator_name = map_option gru_name operator2,
          fgr_sequence = grm_sequence req, fgr_state = grm_state req,
          fgr_event_type = grm_event_type req, fgr_comment = Some (grm_comment req),
          fgr_is_filtered = filtered\<rparr>)"

definition FetchGroupRequests_build ::
    "(OidbSvcTrpcTcpBase \<Rightarrow> bytes) \<Rightarrow> (u32 \<times> u32 \<Rightarrow> bytes) \<Rightarrow> bytes" where
  "FetchGroupRequests_build encode encode_body = oidb_request encode encode_body 0x10c0 1 (20, 0) False False"

definition FetchFilteredGroupRequests_build ::
    "(OidbSvcTrpcTcpBase \<Rightarrow> bytes) \<Rightarrow> (u32 \<times> u32 \<Rightarrow> bytes) \<Rightarrow> bytes" where
  "FetchFilteredGroupRequests_build encode encode_body =
     oidb_request encode encode_body 0x10c0 2 (20, 0) False False"

definition FetchGroupRequests_parse ::
    "GroupRequestMessage list oidb_codec \<Rightarrow> bytes \<Rightarrow> EventError + FetchGroupRequests list" where
  "FetchGroupRequests_parse codec packet =
     (case oidb_reply codec packet of
        Inl e \<Rightarrow> Inl e | Inr reqs \<Rightarrow> Inr (map (parse_group_request False) reqs))"

definition FetchFilteredGroupRequests_parse ::
    "GroupRequestMessage list oidb_codec \<Rightarrow> bytes \<Rightarrow> EventError + FetchGroupRequests list" where
  "FetchFilteredGroupRequests_parse codec packet =
     (case oidb_reply codec packet of
        Inl e \<Rightarrow> Inl e | Inr reqs \<Rightarrow> Inr (map (parse_group_request True) reqs))"

record BotGroupRequest =
  bgr_group_uin :: u32
  bgr_invitor_member_uin :: "u32 option"
  bgr_invitor_member_card :: "rstring option"
  bgr_target_member_uin :: u32
  bgr_target_member_card :: rstring
  bgr_operator_uin :: "u32 option"
  bgr_operator_name :: "rstring option"
  bgr_sequence :: u64
  bgr_state :: u32
  bgr_event_type :: u32
  bgr_comment :: "rstring option"
  bgr_is_filtered :: bool

text \<open>
  \<open>fetch_group_requests\<close> of \<open>common_op.rs\<close>, from what the two requests and the resolution of each
  uid give. \<open>resolve\<close> is \<open>resolve_stranger_uid2uin\<close>.
\<close>

definition stranger_uid2uin_fast :: "(rstring \<Rightarrow> ManiaError + u32) \<Rightarrow> rstring \<Rightarrow> u32" where
  "stranger_uid2uin_fast resolve uid = (case resolve uid of Inl _ \<Rightarrow> 0 | Inr uin \<Rightarrow> uin)"

definition resolved :: "ManiaError + u32 \<Rightarrow> u32 option" where
  "resolved r = (case r of Inl _ \<Rightarrow> None | Inr uin \<Rightarrow> Some uin)"

definition bot_group_request :: "(rstring \<Rightarrow> ManiaError + u32) \<Rightarrow> FetchGroupRequests \<Rightarrow> BotGroupRequest" where
  "bot_group_request resolve req =
     \<lparr>bgr_group_uin = fgr_group_uin req,
      bgr_invitor_member_uin = resolved (resolve (or_empty (fgr_invitor_member_uid req))),
      bgr_invitor_member_card = fgr_invitor_member_card req,
      bgr_target_member_uin = stranger_uid2uin_fast resolve (fgr_target_member_uid req),
      bgr_target_member_card = fgr_target_member_card req,
      bgr_operator_uin = resolved (resolve (or_empty (fgr_operator_uid req))),
      bgr_operator_name = fgr_operator_name req,
      bgr_sequence = fgr_sequence req, bgr_state = fgr_state req,
      bgr_event_type = fgr_event_type req, bgr_comment = fgr_comment req,
      bgr_is_filtered = fgr_is_filtered req\<rparr>"

definition fetch_group_requests ::
    "ManiaError + FetchGroupRequests list \<Rightarrow> ManiaError + FetchGroupRequests list
      \<Rightarrow> (rstring \<Rightarrow> ManiaError + u32) \<Rightarrow> ManiaError + BotGroupRequest list" where
  "fetch_group_requests plain filtered resolve =
     (case plain of
        Inl e \<Rightarrow> Inl e
      | Inr rs \<Rightarrow> (case filtered of
          Inl e \<Rightarrow> Inl e
        | Inr fs \<Rightarrow> Inr (map (bot_group_request resolve) (rs @ fs))))"

section \<open>Small events\<close>

definition AliveEvent_build :: bytes where "AliveEvent_build = be32 4"

definition AliveEvent_packet_type :: PacketType where "AliveEvent_packet_type = T13"

definition NtSsoAliveEvent_build :: "(u32 \<Rightarrow> bytes) \<Rightarrow> bytes" where
  "NtSsoAliveEvent_build encode = encode 1"

text \<open>The ticket for the highway.\<close>

record HttpConn =
  hc_field1 :: u32
  hc_field2 :: u32
  hc_field3 :: u32
  hc_field4 :: u32
  hc_field6 :: u32
  hc_service_types :: "u32 list"
  hc_field9 :: u32
  hc_field10 :: u32
  hc_field11 :: u32
  hc_ver :: rstring

definition FetchHighwayTicket_build :: "(HttpConn \<Rightarrow> bytes) \<Rightarrow> bytes" where
  "FetchHighwayTicket_build encode = encode
     \<lparr>hc_field1 = 0, hc_field2 = 0, hc_field3 = 16, hc_field4 = 1, hc_field6 = 3,
      hc_service_types = [1, 5, 10, 21], hc_field9 = 2, hc_field10 = 9, hc_field11 = 8,
      hc_ver = str ''1.0.1''\<rparr>"

definition FetchHighwayTicket_parse ::
    "(bytes \<Rightarrow> bytes option option) \<Rightarrow> bytes \<Rightarrow> EventError + bytes" where
  "FetchHighwayTicket_parse decode packet =
     (case decode packet of
        None \<Rightarrow> Inl ProtoParseError
      | Some None \<Rightarrow> Inl (other_err ''No http_conn in response'')
      | Some (Some sig_session) \<Rightarrow> Inr sig_session)"

section \<open>What the replies lose\<close>

lemma parse_group_request_cards:
  "fgr_invitor_member_card (parse_group_request f req) = None"
  "fgr_target_member_card (parse_group_request f req) = []"
  "fgr_operator_name (parse_group_request f req) = None"
  by (simp_all add: parse_group_request_def opt_take_def)

lemma set_collect_results:
  "collect_results f xs = Inr ys \<Longrightarrow> list_all2 (\<lambda>x y. f x = Inr y) xs ys"
  by (induction xs arbitrary: ys) (auto split: sum.splits)

text \<open>The two bytes of a year from 1920 to 2047 and an ASCII month are no UTF-8 text.\<close>

lemma recent_year_no_utf8:
  assumes "0x80 \<le> lo" and "m < 0x80"
  shows "from_utf8 (7 # lo # m # rest) = None"
proof -
  have "m < 0xA0" "m < 0x90" by (rule less_trans [OF assms(2)], simp)+
  then have "\<not> utf8_cont m" "\<not> utf8_second lo m"
    using assms(2) by (simp_all add: utf8_cont_def utf8_second_def not_le)
  moreover have "\<not> lo < 0x80" using assms(1) by simp
  ultimately have "fst (utf8_head (lo # m # rest)) = False"
    by (simp only: utf8_head_def byte_at_def Let_def) simp
  then have "\<not> valid_utf8 (lo # m # rest)"
    by (simp add: split_beta split: bool.split)
  then show ?thesis by (simp add: from_utf8_def utf8_head_def byte_at_def)
qed

text \<open>
  The list of group requests is complete, without the names. When both replies are read, the
  result lists the requests of the plain reply and then those of the filtered one, in order, each
  with its sequence number and with the uid of its inviter resolved (\<open>None\<close> where that fails), but
  the cards of inviter and target and the name of the operator are empty whatever the replies
  say: the user has been taken out of the message when its name is asked for.
\<close>

theorem group_requests_without_names:
  assumes "oidb_reply codec p1 = Inr plain" and "oidb_reply codec p2 = Inr filtered"
  shows "\<exists>out. fetch_group_requests
        (business_err (event_err (FetchGroupRequests_parse codec p1)))
        (business_err (event_err (FetchFilteredGroupRequests_parse codec p2))) resolve = Inr out
    \<and> map bgr_sequence out = map grm_sequence (plain @ filtered)
    \<and> map bgr_invitor_member_uin out = map (\<lambda>req. resolved (resolve
        (case grm_invitor req of None \<Rightarrow> [] | Some u \<Rightarrow> gru_uid u))) (plain @ filtered)
    \<and> (\<forall>r \<in> set out. bgr_invitor_member_card r = None \<and> bgr_target_member_card r = []
        \<and> bgr_operator_name r = None)"
proof -
  have u: "or_empty (fgr_invitor_member_uid (parse_group_request f req))
      = (case grm_invitor req of None \<Rightarrow> [] | Some u \<Rightarrow> gru_uid u)" for f req
    by (cases "grm_invitor req") (simp_all add: parse_group_request_def opt_take_def or_empty_def)
  have q: "fgr_sequence (parse_group_request f req) = grm_sequence req" for f req
    by (simp add: parse_group_request_def opt_take_def)
  show ?thesis
    using assms
    by (auto simp: FetchGroupRequests_parse_def FetchFilteredGroupRequests_parse_def event_err_def
        business_err_def fetch_group_requests_def bot_group_request_def parse_group_request_cards u q)
qed

definition demo_codec :: "'r \<Rightarrow> 'r oidb_codec" where
  "demo_codec r = \<lparr>oc_base = (\<lambda>bs. Some (oidb_base \<lparr>oidb_commend = 1, oidb_sub_commend = 1,
     oidb_body = bs, oidb_is_lafter = False, oidb_is_uid = False\<rparr>)), oc_body = (\<lambda>_. Some r)\<rparr>"

lemma demo_codec_reply: "oidb_reply (demo_codec r) packet = Inr r"
  by (simp add: oidb_reply_def demo_codec_def oidb_parse_into_def oidb_parse_def oidb_base_def
      packet_err_def)

definition demo_group_request :: GroupRequestMessage where
  "demo_group_request = \<lparr>grm_sequence = 5, grm_event_type = 1, grm_state = 1, grm_group = Some (77, [1]),
     grm_target = Some \<lparr>gru_uid = [2], gru_name = [3]\<rparr>, grm_invitor = Some \<lparr>gru_uid = [4], gru_name = [5]\<rparr>,
     grm_operator = None, grm_comment = []\<rparr>"

theorem group_requests_without_names_witness:
  "\<exists>r. fetch_group_requests
        (business_err (event_err (FetchGroupRequests_parse (demo_codec [demo_group_request]) [])))
        (business_err (event_err (FetchFilteredGroupRequests_parse (demo_codec [demo_group_request]) [])))
        (\<lambda>uid. Inr 9) = Inr r
      \<and> map bgr_invitor_member_uin r = [Some 9, Some 9] \<and> bgr_invitor_member_card (hd r) = None"
proof -
  from group_requests_without_names [OF demo_codec_reply demo_codec_reply,
      of "[demo_group_request]" "[]" "[]" "\<lambda>_. Inr 9"]
  obtain out where o: "fetch_group_requests
        (business_err (event_err (FetchGroupRequests_parse (demo_codec [demo_group_request]) [])))
        (business_err (event_err (FetchFilteredGroupRequests_parse (demo_codec [demo_group_request]) [])))
        (\<lambda>uid. Inr 9) = Inr out"
      "map bgr_invitor_member_uin out = [Some 9, Some 9]"
      "\<forall>r \<in> set out. bgr_invitor_member_card r = None"
    by (auto simp: resolved_def)
  then have "out \<noteq> []" by auto
  then have "hd out \<in> set out" by simp
  then show ?thesis using o by (intro exI [of _ out]) simp
qed

text \<open>
  Nobody's birthday is read. A birthday arrives as two bytes of year, a month and a day, but
  is taken for UTF-8 text first: for every year from 1920 to 2047 that fails, and the user
  information says 1 January 1970, whatever else the reply holds.
\<close>

theorem birthday_never_read:
  assumes "oidb_reply (uc_response codec) packet = Inr (Some body)"
    and "uir_properties body = Some (numbers, blobs)"
    and "map_of (rev blobs) 20031 = Some [7, lo, month, day]" and "0x80 \<le> lo" and "month < 0x80"
  shows "\<exists>e. FetchUserInfo_parse codec packet = Some (Inr e)
    \<and> bui_birthday (fui_user_info e) = (1970, 1, 1) \<and> bui_uin (fui_user_info e) = uir_uin body"
  using assms(1-3) recent_year_no_utf8 [OF assms(4,5), of "[day]"]
  by (simp add: FetchUserInfo_parse_def Let_def UNIX_DATE_def)

definition demo_user_info_codec :: user_info_codec where
  "demo_user_info_codec = \<lparr>
     uc_response = demo_codec (Some \<lparr>uir_uin = 10001, uir_properties = Some ([], [(20031, [7, 0xD0, 2, 29])])\<rparr>),
     uc_custom_status = (\<lambda>_. None), uc_avatar = (\<lambda>_. None), uc_business = (\<lambda>_. None)\<rparr>"

theorem birthday_never_read_witness:
  "\<exists>e. FetchUserInfo_parse demo_user_info_codec [] = Some (Inr e)
    \<and> bui_birthday (fui_user_info e) = (1970, 1, 1)"
proof -
  have r: "oidb_reply (uc_response demo_user_info_codec) [] = Inr (Some
      \<lparr>uir_uin = 10001, uir_properties = Some ([], [(20031, [7, 0xD0, 2, 29])])\<rparr>)"
    by (simp add: demo_user_info_codec_def demo_codec_reply)
  have p: "uir_properties \<lparr>uir_uin = 10001, uir_properties = Some ([], [(20031, [7, 0xD0, 2, 29])])\<rparr>
      = Some ([], [(20031, [7, 0xD0, 2, 29])])" by simp
  have m: "map_of (rev [(20031, [7, 0xD0, 2, 29])]) 20031 = Some [7, 0xD0, 2, 29 :: u8]" by simp
  from birthday_never_read [OF r p m] show ?thesis by auto
qed

end
