(* ===== verification/Message_Elems.thy ===== *)
theory Message_Elems
  imports Mania_Prelude
begin

text \<open>
  The protobuf messages a chat message is made of (\<open>core/protos/message/element.proto\<close>,
  \<open>component.proto\<close>, \<open>service/oidb/NTV2RichMediaReq.proto\<close>), with the fields
  that the program reads or sets, and the third-party code the message entities call, as the
  fields of \<open>msg_env\<close>: the generated protobuf codecs, zlib, hex, the JSON and XML parsers and the
  random number of a default \<open>ClientSequence\<close>.
\<close>

section \<open>Media information\<close>

record FileType =
  ft_type :: u32
  ft_pic_format :: u32
  ft_video_format :: u32
  ft_voice_format :: u32

record FileInfo =
  fi_file_size :: u32
  fi_file_hash :: rstring
  fi_file_sha1 :: rstring
  fi_file_name :: rstring
  fi_type :: "FileType option"
  fi_width :: u32
  fi_height :: u32
  fi_time :: u32
  fi_original :: u32

record IndexNode =
  in_info :: "FileInfo option"
  in_file_uuid :: rstring
  in_store_id :: u32
  in_upload_time :: u32
  in_ttl :: u32
  in_sub_type :: u32

record MsgInfoBody =
  mib_index :: "IndexNode option"
  mib_troop_group_uin :: "u32 option"   \<comment> \<open>the group of \<open>hash_sum.troop_source\<close>\<close>

record PicExtBizInfo =
  pic_biz_type :: u32
  pic_text_summary :: rstring
  pic_has_troop_reserve :: bool

record MsgInfo =
  mi_bodies :: "MsgInfoBody list"
  mi_ext_biz_info :: "PicExtBizInfo option option"   \<comment> \<open>\<open>ext_biz_info\<close> and its \<open>pic\<close>\<close>

definition MsgInfo_default :: MsgInfo where
  "MsgInfo_default = \<lparr>mi_bodies = [], mi_ext_biz_info = None\<rparr>"

section \<open>Elements\<close>

record Text =
  tx_str :: "rstring option"
  tx_attr6_buf :: "bytes option"
  tx_pb_reserve :: "bytes option"

record Face =
  fc_index :: "i32 option"
  fc_old :: "bytes option"

record PbReserve =
  pbr_sub_type :: i32
  pbr_summary :: rstring

record NotOnlineImage =
  noi_file_path :: rstring
  noi_file_len :: u32
  noi_pic_md5 :: bytes
  noi_pic_height :: u32
  noi_pic_width :: u32
  noi_orig_url :: rstring
  noi_pb_res :: "PbReserve option"

record CustomFace =
  cf_file_path :: rstring
  cf_md5 :: bytes
  cf_orig_url :: rstring
  cf_width :: i32
  cf_height :: i32
  cf_size :: u32
  cf_pb_res :: "PbReserve option"

record TransElem =
  te_elem_type :: i32
  te_elem_value :: bytes

record MarketFace =
  mf_face_name :: "rstring option"
  mf_face_id :: "bytes option"
  mf_tab_id :: "u32 option"
  mf_key :: "rstring option"

record RichMsg =
  rm_template1 :: "bytes option"
  rm_service_id :: "i32 option"

record ExtraInfo = xi_sender_title :: "bytes option"

record VideoFile =
  vf_file_uuid :: rstring
  vf_file_md5 :: bytes
  vf_file_size :: i32
  vf_file_width :: i32
  vf_file_height :: i32

record LevelPermission =
  lp_permission :: "u32 option"
  lp_new_level :: "u32 option"

record GeneralFlags =
  gf_long_text_flag :: i32
  gf_long_text_res_id :: "rstring option"
  gf_pb_reserve :: "LevelPermission option option"   \<comment> \<open>\<open>pb_reserve\<close> and its \<open>level_permission\<close>\<close>

record LightAppElem = la_data :: bytes

record CommonElem =
  ce_service_type :: i32
  ce_pb_elem :: bytes
  ce_business_type :: u32

text \<open>A quoted message carries elements of its own: \<open>Elem\<close> and \<open>SrcMsg\<close> are recursive.\<close>

datatype Elem = Elem
    (el_text: "Text option") (el_face: "Face option") (el_not_online_image: "NotOnlineImage option")
    (el_trans_elem: "TransElem option") (el_market_face: "MarketFace option")
    (el_custom_face: "CustomFace option") (el_rich_msg: "RichMsg option")
    (el_extra_info: "ExtraInfo option") (el_video_file: "VideoFile option")
    (el_general_flags: "GeneralFlags option") (el_src_msg: "SrcMsg option")
    (el_light_app_elem: "LightAppElem option") (el_common_elem: "CommonElem option")
and SrcMsg = SrcMsg
    (sm_orig_seqs: "u32 list") (sm_sender_uin: u64) (sm_time: "i32 option") (sm_elems: "Elem list")
    (sm_pb_reserve: "bytes option") (sm_to_uin: "u64 option")

text \<open>Elements with one part set, as \<open>dda!(Elem { .. })\<close> builds them.\<close>

definition text_elem :: "Text \<Rightarrow> Elem" where
  "text_elem t = Elem (Some t) None None None None None None None None None None None None"

definition rich_elem :: "RichMsg \<Rightarrow> Elem" where
  "rich_elem r = Elem None None None None None None (Some r) None None None None None None"

definition src_elem :: "SrcMsg \<Rightarrow> Elem" where
  "src_elem s = Elem None None None None None None None None None None (Some s) None None"

definition light_app_elem :: "LightAppElem \<Rightarrow> Elem" where
  "light_app_elem l = Elem None None None None None None None None None None None (Some l) None"

definition common_elem :: "CommonElem \<Rightarrow> Elem" where
  "common_elem c = Elem None None None None None None None None None None None None (Some c)"

definition picture_elem :: "NotOnlineImage \<Rightarrow> CustomFace \<Rightarrow> Elem" where
  "picture_elem n c = Elem None None (Some n) None None (Some c) None None None None None None None"

lemmas elem_defs = text_elem_def rich_elem_def src_elem_def light_app_elem_def common_elem_def
  picture_elem_def

section \<open>Nested messages and third-party code\<close>

record Preserve =
  pv_message_id :: u64
  pv_sender_uid :: "rstring option"
  pv_client_sequence :: "u32 option"

record MentionExtra =
  mx_type :: "i32 option"
  mx_uin :: "u32 option"
  mx_field5 :: "i32 option"
  mx_uid :: "rstring option"

record GroupFileExtraInfo =
  gfe_file_id :: rstring
  gfe_file_size :: u64
  gfe_file_name :: rstring
  gfe_file_md5 :: rstring

record msg_env =
  me_msg_info :: "bytes \<Rightarrow> MsgInfo option"
  me_enc_msg_info :: "MsgInfo \<Rightarrow> bytes"
  me_preserve :: "bytes \<Rightarrow> Preserve option"
  me_enc_preserve :: "Preserve \<Rightarrow> bytes"
  me_enc_mention :: "MentionExtra \<Rightarrow> bytes"
  me_big_face :: "bytes \<Rightarrow> i32 option option"    \<comment> \<open>\<open>face_id\<close> of \<open>QBigFaceExtra\<close>\<close>
  me_small_face :: "bytes \<Rightarrow> u32 option"          \<comment> \<open>\<open>face_id\<close> of \<open>QSmallFaceExtra\<close>\<close>
  me_group_file :: "bytes \<Rightarrow> GroupFileExtraInfo option option"   \<comment> \<open>\<open>inner.info\<close> of \<open>GroupFileExtra\<close>\<close>
  me_deflate :: "bytes \<Rightarrow> bytes"
  me_inflate :: "bytes \<Rightarrow> bytes option"
  me_hex :: "bytes \<Rightarrow> rstring"
  me_unhex :: "rstring \<Rightarrow> bytes option"
  me_json_app :: "rstring \<Rightarrow> rstring option"      \<comment> \<open>the string under \<open>app\<close> of a JSON object\<close>
  me_xml_res_id :: "rstring \<Rightarrow> rstring option option" \<comment> \<open>\<open>m_resid\<close> of a parsed \<open>MultiMessage\<close>\<close>
  me_random_seq :: u32

end
