(* ===== verification/Message_Entity.thy ===== *)
theory Message_Entity
  imports Message_Elems System_Events "HOL-Library.Sublist"
begin

text \<open>
  Message entities (\<open>mania/src/message/entity.rs\<close> and \<open>message/entity/\<close>) and the message chain
  (\<open>message/chain.rs\<close>): the data types, \<open>pack_element\<close> and \<open>unpack_element\<close> of every entity, the
  order in which \<open>Entity::unpack_element\<close> tries them, the preview text, the streams of the media,
  the builder of \<open>message/builder.rs\<close>.

  An \<open>AsyncStream\<close> is named by the file it was opened on, by the number of the stream the user
  handed in, or by the bytes of a generated thumbnail. A function that may panic returns an
  option; \<open>unpack\<close> functions then return \<open>None\<close> for a panic, \<open>Some None\<close> for "not mine".
\<close>

section \<open>Entities and chains\<close>

datatype stream = FileStream rstring | UserStream nat | MemoryStream bytes

record JsonEntity = js_json :: rstring  js_res_id :: rstring

record ImageEntity =
  im_height :: u32
  im_width :: u32
  im_file_path :: "rstring option"
  im_md5 :: bytes
  im_size :: u32
  im_url :: rstring
  im_stream :: "stream option"
  im_msg_info :: "MsgInfo option"
  im_not_online_image :: NotOnlineImage
  im_custom_face :: CustomFace
  im_summary :: "rstring option"
  im_sub_type :: u32
  im_is_group :: bool

record FaceEntity =
  fe_face_id :: u16
  fe_is_large_face :: bool

record ForwardEntity =
  fw_time :: int
  fw_message_id :: u64
  fw_sequence :: u32
  fw_client_sequence :: u32
  fw_uid :: "rstring option"
  fw_target_uin :: u32
  fw_elems :: "Elem list"
  fw_self_uid :: "rstring option"

record MarketFaceEntity =
  mfe_emoji_id :: rstring
  mfe_emoji_package_id :: u32
  mfe_key :: rstring
  mfe_summary :: rstring

record LightAppEntity = lae_app_name :: rstring  lae_payload :: rstring

record MentionEntity =
  me_uin :: u32
  me_uid :: rstring
  me_name :: "rstring option"

datatype FileUnique = GroupFile "rstring option" | C2CFile "rstring option" "rstring option"

record FileEntity =
  fl_file_size :: u64
  fl_file_name :: rstring
  fl_file_md5 :: bytes
  fl_file_url :: "rstring option"
  fl_file_sha1 :: bytes
  fl_extra :: "FileUnique option"

record RecordEntity =
  rc_audio_length :: u32
  rc_audio_md5 :: bytes
  rc_audio_name :: rstring
  rc_audio_url :: rstring
  rc_file_path :: "rstring option"
  rc_file_size :: u32
  rc_audio_stream :: "stream option"
  rc_audio_uuid :: "rstring option"
  rc_file_sha1 :: "rstring option"
  rc_msg_info :: "MsgInfo option"
  rc_compat :: "Elem list option"   \<comment> \<open>a \<open>RichText\<close>, by its elements\<close>

record VideoEntity =
  vd_file_name :: rstring
  vd_video_hash :: rstring
  vd_height :: i32
  vd_width :: i32
  vd_video_size :: i32
  vd_video_length :: i32
  vd_thumb_size :: i32
  vd_thumb_height :: i32
  vd_thumb_width :: i32
  vd_url :: rstring
  vd_path :: "rstring option"
  vd_stream :: "stream option"
  vd_thumb_path :: "rstring option"
  vd_thumb_stream :: "stream option"
  vd_node :: "IndexNode option"
  vd_video_uuid :: "rstring option"
  vd_msg_info :: "MsgInfo option"
  vd_compat :: "VideoFile option"

record XmlEntity = xm_xml :: rstring  xm_service_id :: i32

record ExtraGeneralFlagsEntity =
  eg_permission :: GroupMemberPermission
  eg_new_group_level :: u32

record GroupMessageUniqueElem =
  gm_group_uin :: u32
  gm_group_member_info :: "BotGroupMember option"

record FriendMessageUniqueElem =
  fm_friend_info :: "BotFriend option"
  fm_client_sequence :: u32

datatype MessageType =
  MsgFriend FriendMessageUniqueElem | MsgGroup GroupMessageUniqueElem | MsgTemp | MsgNone

datatype Entity =
    EText rstring
  | EJson JsonEntity
  | EImage ImageEntity
  | EFace FaceEntity
  | EForward ForwardEntity
  | EMarketFace MarketFaceEntity
  | ELightApp LightAppEntity
  | EMultiMsg (mm_res_id: rstring) (mm_chains: "MessageChain list")
  | EMention MentionEntity
  | EFile FileEntity
  | ERecord RecordEntity
  | EVideo VideoEntity
  | EXml XmlEntity
  | ELongMsg (lm_res_id: rstring) (lm_chain: MessageChain)
  | EExtraInfo "rstring option"
  | EExtraGeneralFlags ExtraGeneralFlagsEntity
and MessageChain = MessageChain
    (mc_typ: MessageType) (mc_uid: rstring) (mc_self_uid: rstring) (mc_target_uin: u32)
    (mc_friend_uin: u32) (mc_message_id: u64) (mc_time: int) (mc_sequence: u32)
    (mc_elements: "Elem list") (mc_entities: "Entity list")

text \<open>Assignments to the fields of a chain.\<close>

fun set_typ :: "MessageType \<Rightarrow> MessageChain \<Rightarrow> MessageChain" where
  "set_typ x (MessageChain t u s g f i m q e es) = MessageChain x u s g f i m q e es"

fun set_uid :: "rstring \<Rightarrow> MessageChain \<Rightarrow> MessageChain" where
  "set_uid x (MessageChain t u s g f i m q e es) = MessageChain t x s g f i m q e es"

fun set_entities :: "Entity list \<Rightarrow> MessageChain \<Rightarrow> MessageChain" where
  "set_entities x (MessageChain t u s g f i m q e es) = MessageChain t u s g f i m q e x"

lemma set_typ_simps [simp]:
  "mc_typ (set_typ x c) = x" "mc_uid (set_typ x c) = mc_uid c" "mc_entities (set_typ x c) = mc_entities c"
  "mc_friend_uin (set_typ x c) = mc_friend_uin c" "mc_sequence (set_typ x c) = mc_sequence c"
  "mc_message_id (set_typ x c) = mc_message_id c" "mc_time (set_typ x c) = mc_time c"
  by (cases c; simp)+

lemma set_uid_simps [simp]:
  "mc_typ (set_uid x c) = mc_typ c" "mc_uid (set_uid x c) = x" "mc_entities (set_uid x c) = mc_entities c"
  "mc_friend_uin (set_uid x c) = mc_friend_uin c" "mc_sequence (set_uid x c) = mc_sequence c"
  "mc_message_id (set_uid x c) = mc_message_id c" "mc_time (set_uid x c) = mc_time c"
  by (cases c; simp)+

lemma set_entities_simps [simp]:
  "mc_typ (set_entities x c) = mc_typ c" "mc_uid (set_entities x c) = mc_uid c"
  "mc_entities (set_entities x c) = x" "mc_friend_uin (set_entities x c) = mc_friend_uin c"
  "mc_sequence (set_entities x c) = mc_sequence c"
  by (cases c; simp)+

text \<open>The defaults. The time is the number of seconds since the epoch.\<close>

definition MessageId_default :: "msg_env \<Rightarrow> u64" where
  "MessageId_default env = push_bit 32 0x01000000 OR ucast (me_random_seq env)"

definition MessageChain_default :: "msg_env \<Rightarrow> MessageChain" where
  "MessageChain_default env = MessageChain MsgNone [] [] 0 0 (MessageId_default env) 0 0 [] []"

definition is_group :: "MessageChain \<Rightarrow> bool" where
  "is_group c = (case mc_typ c of MsgGroup _ \<Rightarrow> True | _ \<Rightarrow> False)"

definition chain_friend :: "msg_env \<Rightarrow> u32 \<Rightarrow> rstring \<Rightarrow> rstring \<Rightarrow> MessageChain" where
  "chain_friend env friend_uin friend_uid self_uid =
     MessageChain (MsgFriend \<lparr>fm_friend_info = None, fm_client_sequence = me_random_seq env\<rparr>)
       friend_uid self_uid 0 friend_uin (MessageId_default env) 0 0 [] []"

definition chain_group :: "msg_env \<Rightarrow> u32 \<Rightarrow> MessageChain" where
  "chain_group env group_uin =
     set_typ (MsgGroup \<lparr>gm_group_uin = group_uin, gm_group_member_info = None\<rparr>)
       (MessageChain_default env)"

definition NotOnlineImage_default :: NotOnlineImage where
  "NotOnlineImage_default = \<lparr>noi_file_path = [], noi_file_len = 0, noi_pic_md5 = [],
     noi_pic_height = 0, noi_pic_width = 0, noi_orig_url = [], noi_pb_res = None\<rparr>"

definition CustomFace_default :: CustomFace where
  "CustomFace_default = \<lparr>cf_file_path = [], cf_md5 = [], cf_orig_url = [], cf_width = 0,
     cf_height = 0, cf_size = 0, cf_pb_res = None\<rparr>"

definition ImageEntity_default :: ImageEntity where
  "ImageEntity_default = \<lparr>im_height = 0, im_width = 0, im_file_path = None, im_md5 = [],
     im_size = 0, im_url = [], im_stream = None, im_msg_info = None,
     im_not_online_image = NotOnlineImage_default, im_custom_face = CustomFace_default,
     im_summary = None, im_sub_type = 0, im_is_group = False\<rparr>"

definition FileEntity_default :: FileEntity where
  "FileEntity_default = \<lparr>fl_file_size = 0, fl_file_name = [], fl_file_md5 = [],
     fl_file_url = None, fl_file_sha1 = [], fl_extra = None\<rparr>"

definition RecordEntity_default :: RecordEntity where
  "RecordEntity_default = \<lparr>rc_audio_length = 0, rc_audio_md5 = [], rc_audio_name = [],
     rc_audio_url = [], rc_file_path = None, rc_file_size = 0, rc_audio_stream = None,
     rc_audio_uuid = None, rc_file_sha1 = None, rc_msg_info = None, rc_compat = None\<rparr>"

definition VideoEntity_default :: VideoEntity where
  "VideoEntity_default = \<lparr>vd_file_name = [], vd_video_hash = [], vd_height = 0, vd_width = 0,
     vd_video_size = 0, vd_video_length = 0, vd_thumb_size = 0, vd_thumb_height = 0, vd_thumb_width = 0, vd_url = [], vd_path = None,
     vd_stream = None, vd_thumb_path = None, vd_thumb_stream = None, vd_node = None,
     vd_video_uuid = None, vd_msg_info = None, vd_compat = None\<rparr>"

section \<open>Packing\<close>

definition text_part :: "rstring option \<Rightarrow> bytes option \<Rightarrow> Elem" where
  "text_part s reserve = text_elem \<lparr>tx_str = s, tx_attr6_buf = None, tx_pb_reserve = reserve\<rparr>"

definition JsonEntity_pack :: "msg_env \<Rightarrow> JsonEntity \<Rightarrow> Elem list" where
  "JsonEntity_pack env j =
     [text_part (Some (js_res_id j)) None,
      rich_elem \<lparr>rm_template1 = Some (1 # me_deflate env (js_json j)), rm_service_id = Some 1\<rparr>]"

definition packed_msg_info :: "msg_env \<Rightarrow> MsgInfo option \<Rightarrow> bytes" where
  "packed_msg_info env info =
     (case info of None \<Rightarrow> me_enc_msg_info env MsgInfo_default | Some i \<Rightarrow> me_enc_msg_info env i)"

definition ImageEntity_pack :: "msg_env \<Rightarrow> ImageEntity \<Rightarrow> Elem list" where
  "ImageEntity_pack env im =
     (let grp = (case im_msg_info im of
          None \<Rightarrow> False
        | Some info \<Rightarrow> mi_bodies info \<noteq> [] \<and>
            (case mib_troop_group_uin (mi_bodies info ! 0) of None \<Rightarrow> False | Some g \<Rightarrow> g \<noteq> 0))
      in [picture_elem (im_not_online_image im) (im_custom_face im),
          common_elem \<lparr>ce_service_type = 48, ce_pb_elem = packed_msg_info env (im_msg_info im),
                       ce_business_type = (if grp then 20 else 10)\<rparr>])"

definition ForwardEntity_pack :: "msg_env \<Rightarrow> ForwardEntity \<Rightarrow> Elem list" where
  "ForwardEntity_pack env fw =
     (let pb_reserve = me_enc_preserve env \<lparr>pv_message_id = fw_message_id fw,
        pv_sender_uid = fw_uid fw, pv_client_sequence = None\<rparr>
      in [src_elem (SrcMsg [ucast (fw_message_id fw)] (ucast (fw_target_uin fw))
            (Some (word_of_int (fw_time fw))) (fw_elems fw) (Some pb_reserve) (Some 0))])"

definition LightAppEntity_pack :: "msg_env \<Rightarrow> LightAppEntity \<Rightarrow> Elem list" where
  "LightAppEntity_pack env la = [light_app_elem \<lparr>la_data = 1 # me_deflate env (lae_payload la)\<rparr>]"

definition MentionEntity_pack :: "msg_env \<Rightarrow> MentionEntity \<Rightarrow> Elem list" where
  "MentionEntity_pack env m =
     [text_part (me_name m) (Some (me_enc_mention env
        \<lparr>mx_type = Some (if me_uin m = 0 then 1 else 2), mx_uin = Some (me_uin m),
         mx_field5 = Some 0, mx_uid = Some (me_uid m)\<rparr>))]"

definition media_elem :: "msg_env \<Rightarrow> MsgInfo option \<Rightarrow> u32 \<Rightarrow> Elem" where
  "media_elem env info business_type =
     common_elem \<lparr>ce_service_type = 48, ce_pb_elem = packed_msg_info env info,
                  ce_business_type = business_type\<rparr>"

definition XmlEntity_pack :: "msg_env \<Rightarrow> XmlEntity \<Rightarrow> Elem list" where
  "XmlEntity_pack env x =
     [rich_elem \<lparr>rm_template1 = Some (1 # me_deflate env (xm_xml x)), rm_service_id = Some (xm_service_id x)\<rparr>]"

text \<open>\<open>Entity::pack_element\<close>: six entities have no packing yet (\<open>todo!\<close>, \<open>unreachable!\<close>).\<close>

fun pack_element :: "msg_env \<Rightarrow> Entity \<Rightarrow> Elem list option" where
  "pack_element env (EText t) = Some [text_part (Some t) None]"
| "pack_element env (EJson j) = Some (JsonEntity_pack env j)"
| "pack_element env (EImage im) = Some (ImageEntity_pack env im)"
| "pack_element env (EFace _) = None"
| "pack_element env (EForward fw) = Some (ForwardEntity_pack env fw)"
| "pack_element env (EMarketFace _) = None"
| "pack_element env (ELightApp la) = Some (LightAppEntity_pack env la)"
| "pack_element env (EMultiMsg _ _) = None"
| "pack_element env (EMention m) = Some (MentionEntity_pack env m)"
| "pack_element env (EFile _) = None"
| "pack_element env (ERecord r) = Some [media_elem env (rc_msg_info r) 22]"
| "pack_element env (EVideo v) = Some [media_elem env (vd_msg_info v) 21]"
| "pack_element env (EXml x) = Some (XmlEntity_pack env x)"
| "pack_element env (ELongMsg _ _) = None"
| "pack_element env (EExtraInfo _) = None"
| "pack_element env (EExtraGeneralFlags _) = None"

text \<open>
  \<open>need_pack\<close> as the macro \<open>pack_content\<close> generates it, and \<open>pack_content\<close>: generated as \<open>None\<close>
  for every entity but \<open>FileEntity\<close>, which has a \<open>todo!\<close>.
\<close>

definition need_pack :: "Entity \<Rightarrow> bool" where "need_pack e = True"

definition need_pack_content :: "Entity list \<Rightarrow> bool" where
  "need_pack_content es = list_ex need_pack es"

fun pack_content :: "Entity \<Rightarrow> bytes option option" where
  "pack_content (EFile _) = None"
| "pack_content _ = Some None"

section \<open>Unpacking\<close>

text \<open>\<open>?\<close> in a function that returns an \<open>Option\<close>, and \<open>&data[1..]\<close>.\<close>

definition or_not :: "'a option \<Rightarrow> ('a \<Rightarrow> 'b option option) \<Rightarrow> 'b option option" where
  "or_not x f = (case x of None \<Rightarrow> Some None | Some a \<Rightarrow> f a)"

lemma or_not_simps [simp]: "or_not None f = Some None" "or_not (Some a) f = f a"
  by (simp_all add: or_not_def)

definition after_first :: "bytes \<Rightarrow> bytes option" where
  "after_first bs = (case bs of [] \<Rightarrow> None | b # bs \<Rightarrow> Some bs)"

lemma after_first_simps [simp]: "after_first [] = None" "after_first (b # bs) = Some bs"
  by (simp_all add: after_first_def)

definition TextEntity_unpack :: "Elem \<Rightarrow> rstring option" where
  "TextEntity_unpack elem =
     do { text \<leftarrow> el_text elem;
          (case (tx_str text, tx_attr6_buf text) of
             (Some s, None) \<Rightarrow> Some s
           | (Some s, Some buf) \<Rightarrow> if buf = [] then Some s else None
           | _ \<Rightarrow> None) }"

definition inflated_text :: "msg_env \<Rightarrow> bytes \<Rightarrow> rstring option option" where
  "inflated_text env data =
     do { z \<leftarrow> after_first data; Some (Option.bind (me_inflate env z) from_utf8) }"

definition JsonEntity_unpack :: "msg_env \<Rightarrow> Elem \<Rightarrow> JsonEntity option option" where
  "JsonEntity_unpack env elem =
     or_not (el_rich_msg elem) (\<lambda>rich.
     or_not (rm_service_id rich) (\<lambda>sid.
       if sid = 1 then
         or_not (rm_template1 rich) (\<lambda>template1.
           do { json \<leftarrow> inflated_text env template1;
                Some (map_option (\<lambda>j. \<lparr>js_json = j, js_res_id = []\<rparr>) json) })
       else Some None))"

definition image_url :: "rstring \<Rightarrow> rstring" where
  "image_url orig =
     (if sublist (str ''&fileid='') orig then str ''https://multimedia.nt.qq.com.cn'' @ orig
      else str ''https://gchat.qpic.cn'' @ orig)"

definition pb_reserve_or_default :: "PbReserve option \<Rightarrow> PbReserve" where
  "pb_reserve_or_default r = (case r of Some p \<Rightarrow> p | None \<Rightarrow> \<lparr>pbr_sub_type = 0, pbr_summary = []\<rparr>)"

definition PICTURE :: rstring where
  "PICTURE = [0x5B, 0xE5, 0x9B, 0xBE, 0xE7, 0x89, 0x87, 0x5D]"

definition image_of_common :: "msg_env \<Rightarrow> CommonElem \<Rightarrow> ImageEntity option option" where
  "image_of_common env common =
     or_not (me_msg_info env (ce_pb_elem common)) (\<lambda>extra.
     or_not (mi_ext_biz_info extra) (\<lambda>ext_biz_info.
       do { body \<leftarrow> (case mi_bodies extra of [] \<Rightarrow> None | b # _ \<Rightarrow> Some b);
            Some (do {
              index \<leftarrow> mib_index body;
              info \<leftarrow> in_info index;
              md5 \<leftarrow> me_unhex env (fi_file_hash info);
              pic \<leftarrow> ext_biz_info;
              Some (ImageEntity_default\<lparr>im_height := fi_height info, im_width := fi_width info,
                im_file_path := Some (fi_file_name info), im_md5 := md5,
                im_size := fi_file_size info, im_msg_info := Some extra,
                im_sub_type := pic_biz_type pic, im_is_group := pic_has_troop_reserve pic,
                im_summary := Some (if pic_text_summary pic = [] then PICTURE
                                    else pic_text_summary pic)\<rparr>) }) }))"

definition image_of_not_online :: "NotOnlineImage \<Rightarrow> ImageEntity" where
  "image_of_not_online img =
     (let pb = pb_reserve_or_default (noi_pb_res img) in
      ImageEntity_default\<lparr>im_height := noi_pic_height img, im_width := noi_pic_width img,
        im_file_path := Some (noi_file_path img), im_md5 := noi_pic_md5 img,
        im_size := noi_file_len img, im_url := image_url (noi_orig_url img),
        im_not_online_image := img, im_sub_type := pbr_sub_type pb, im_is_group := False,
        im_summary := Some (pbr_summary pb)\<rparr>)"

definition image_of_custom_face :: "CustomFace \<Rightarrow> ImageEntity" where
  "image_of_custom_face face =
     (let pb = pb_reserve_or_default (cf_pb_res face) in
      ImageEntity_default\<lparr>im_height := cf_height face, im_width := cf_width face,
        im_file_path := Some (cf_file_path face), im_md5 := cf_md5 face,
        im_size := cf_size face, im_url := image_url (cf_orig_url face),
        im_custom_face := face, im_sub_type := pbr_sub_type pb, im_is_group := True,
        im_summary := Some (pbr_summary pb)\<rparr>)"

definition is_image_common :: "CommonElem \<Rightarrow> bool" where
  "is_image_common c \<longleftrightarrow> ce_service_type c = 48 \<and> (ce_business_type c = 10 \<or> ce_business_type c = 20)"

definition ImageEntity_unpack :: "msg_env \<Rightarrow> Elem \<Rightarrow> ImageEntity option option" where
  "ImageEntity_unpack env elem =
     (let others = (case el_not_online_image elem of
          Some img \<Rightarrow> Some (Some (image_of_not_online img))
        | None \<Rightarrow> Some (map_option image_of_custom_face (el_custom_face elem)))
      in case el_common_elem elem of
           Some common \<Rightarrow> if is_image_common common then image_of_common env common else others
         | None \<Rightarrow> others)"

definition FaceEntity_unpack :: "msg_env \<Rightarrow> Elem \<Rightarrow> FaceEntity option" where
  "FaceEntity_unpack env elem =
     (let common = Option.bind (el_common_elem elem) (\<lambda>c.
          if ce_service_type c = 37 then
            map_option (\<lambda>i. \<lparr>fe_face_id = ucast i, fe_is_large_face = True\<rparr>)
              (Option.bind (me_big_face env (ce_pb_elem c)) id)
          else if ce_service_type c = 33 then
            map_option (\<lambda>i. \<lparr>fe_face_id = ucast i, fe_is_large_face = False\<rparr>)
              (me_small_face env (ce_pb_elem c))
          else None)
      in case el_face elem of
           Some face \<Rightarrow>
             (case (fc_old face, fc_index face) of
                (Some _, Some index) \<Rightarrow> Some \<lparr>fe_face_id = ucast index, fe_is_large_face = False\<rparr>
              | _ \<Rightarrow> common)
         | None \<Rightarrow> common)"

text \<open>\<open>src.orig_seqs[0]\<close> is evaluated whether or not \<open>client_sequence\<close> is set.\<close>

definition ForwardEntity_unpack :: "msg_env \<Rightarrow> Elem \<Rightarrow> ForwardEntity option option" where
  "ForwardEntity_unpack env elem =
     or_not (el_src_msg elem) (\<lambda>src.
     or_not (sm_pb_reserve src) (\<lambda>pb.
     or_not (me_preserve env pb) (\<lambda>reserve.
       do { seq0 \<leftarrow> (case sm_orig_seqs src of [] \<Rightarrow> None | q # _ \<Rightarrow> Some q);
            Some (Some
              \<lparr>fw_time = sint (case sm_time src of None \<Rightarrow> 0 | Some t \<Rightarrow> t),
               fw_message_id = pv_message_id reserve,
               fw_sequence = (case pv_client_sequence reserve of None \<Rightarrow> seq0 | Some q \<Rightarrow> q),
               fw_client_sequence = me_random_seq env, fw_uid = None,
               fw_target_uin = ucast (sm_sender_uin src), fw_elems = [], fw_self_uid = None\<rparr>) })))"

definition MarketFaceEntity_unpack :: "msg_env \<Rightarrow> Elem \<Rightarrow> MarketFaceEntity option" where
  "MarketFaceEntity_unpack env elem =
     do { market_face \<leftarrow> el_market_face elem;
          face_id \<leftarrow> mf_face_id market_face;
          tab_id \<leftarrow> mf_tab_id market_face;
          key \<leftarrow> mf_key market_face;
          name \<leftarrow> mf_face_name market_face;
          Some \<lparr>mfe_emoji_id = me_hex env face_id, mfe_emoji_package_id = tab_id,
                mfe_key = key, mfe_summary = name\<rparr> }"

definition LightAppEntity_unpack :: "msg_env \<Rightarrow> Elem \<Rightarrow> LightAppEntity option option" where
  "LightAppEntity_unpack env elem =
     or_not (el_light_app_elem elem) (\<lambda>light_app.
       do { payload \<leftarrow> inflated_text env (la_data light_app);
            Some (do { p \<leftarrow> payload;
                       app \<leftarrow> me_json_app env p;
                       Some \<lparr>lae_app_name = app, lae_payload = p\<rparr> }) })"

definition MultiMsgEntity_unpack :: "msg_env \<Rightarrow> Elem \<Rightarrow> rstring option option" where
  "MultiMsgEntity_unpack env elem =
     or_not (el_rich_msg elem) (\<lambda>rich.
       (case (rm_service_id rich, rm_template1 rich) of
          (Some sid, Some template) \<Rightarrow>
            if sid = 35 then
              do { xml \<leftarrow> inflated_text env template;
                   Some (Option.bind xml (\<lambda>x. Option.bind (me_xml_res_id env x) id)) }
            else Some None
        | _ \<Rightarrow> Some None))"

definition MentionEntity_unpack :: "Elem \<Rightarrow> MentionEntity option" where
  "MentionEntity_unpack elem =
     do { text \<leftarrow> el_text elem;
          (case (tx_str text, tx_attr6_buf text) of
             (Some s, Some buf) \<Rightarrow>
               if 11 \<le> length buf
               then Some \<lparr>me_uin = of_be (take 4 (drop 7 buf)), me_uid = [], me_name = Some s\<rparr>
               else None
           | _ \<Rightarrow> None) }"

definition FileEntity_unpack :: "msg_env \<Rightarrow> Elem \<Rightarrow> FileEntity option option" where
  "FileEntity_unpack env elem =
     or_not (el_trans_elem elem) (\<lambda>trans.
       if te_elem_type trans = 24 then
         do { (_, payload) \<leftarrow> rd_skip 1 (te_elem_value trans);
              (data, _) \<leftarrow> read_with_length (PREFIX_U16 OR PREFIX_LENGTH_ONLY) rd_bytes payload;
              Some (do {
                extra \<leftarrow> Option.bind (me_group_file env data) id;
                md5 \<leftarrow> me_unhex env (gfe_file_md5 extra);
                Some (FileEntity_default\<lparr>fl_file_size := gfe_file_size extra, fl_file_md5 := md5,
                  fl_file_name := gfe_file_name extra,
                  fl_extra := Some (GroupFile (Some (gfe_file_id extra)))\<rparr>) }) }
       else Some None)"

definition RecordEntity_unpack :: "msg_env \<Rightarrow> Elem \<Rightarrow> RecordEntity option" where
  "RecordEntity_unpack env elem =
     do { common \<leftarrow> el_common_elem elem;
          (if ce_service_type common = 48 \<and> (ce_business_type common = 22 \<or> ce_business_type common = 12)
           then do {
             extra \<leftarrow> me_msg_info env (ce_pb_elem common);
             body \<leftarrow> (case mi_bodies extra of [] \<Rightarrow> None | b # _ \<Rightarrow> Some b);
             index \<leftarrow> mib_index body;
             info \<leftarrow> in_info index;
             md5 \<leftarrow> me_unhex env (fi_file_hash info);
             Some (RecordEntity_default\<lparr>rc_audio_uuid := Some (in_file_uuid index),
               rc_audio_name := fi_file_name info, rc_audio_md5 := md5,
               rc_audio_length := fi_time info, rc_file_sha1 := Some (fi_file_hash info),
               rc_msg_info := Some extra\<rparr>) }
           else None) }"

text \<open>The value built from \<open>video_file\<close> is dropped by the code; only common elements count.\<close>

definition VideoEntity_unpack :: "msg_env \<Rightarrow> Elem \<Rightarrow> VideoEntity option" where
  "VideoEntity_unpack env elem =
     do { common \<leftarrow> el_common_elem elem;
          (if ce_service_type common = 48 then do {
             msg_info \<leftarrow> me_msg_info env (ce_pb_elem common);
             body \<leftarrow> (case mi_bodies msg_info of [] \<Rightarrow> None | b # _ \<Rightarrow> Some b);
             node \<leftarrow> mib_index body;
             info \<leftarrow> in_info node;
             Some (VideoEntity_default\<lparr>vd_file_name := fi_file_name info, vd_height := fi_height info,
               vd_width := fi_width info, vd_video_size := fi_file_size info,
               vd_video_length := fi_time info, vd_node := Some node\<rparr>) }
           else None) }"

definition XmlEntity_unpack :: "msg_env \<Rightarrow> Elem \<Rightarrow> XmlEntity option option" where
  "XmlEntity_unpack env elem =
     or_not (el_rich_msg elem) (\<lambda>rich.
     or_not (rm_service_id rich) (\<lambda>sid.
     or_not (rm_template1 rich) (\<lambda>template1.
       do { xml \<leftarrow> inflated_text env template1;
            Some (map_option (\<lambda>x. \<lparr>xm_xml = x, xm_service_id = sid\<rparr>) xml) })))"

definition LongMsgEntity_unpack :: "Elem \<Rightarrow> rstring option" where
  "LongMsgEntity_unpack elem =
     do { general \<leftarrow> el_general_flags elem;
          res_id \<leftarrow> gf_long_text_res_id general;
          (if gf_long_text_flag general = 1 then Some res_id else None) }"

definition ExtraInfoEntity_unpack :: "Elem \<Rightarrow> rstring option option" where
  "ExtraInfoEntity_unpack elem =
     map_option (\<lambda>extra. map_option utf8_lossy (xi_sender_title extra)) (el_extra_info elem)"

definition ExtraGeneralFlagsEntity_unpack :: "Elem \<Rightarrow> ExtraGeneralFlagsEntity option" where
  "ExtraGeneralFlagsEntity_unpack elem =
     do { flags \<leftarrow> el_general_flags elem;
          pb \<leftarrow> gf_pb_reserve flags;
          pr \<leftarrow> pb;
          p \<leftarrow> lp_permission pr;
          l \<leftarrow> lp_new_level pr;
          Some \<lparr>eg_permission = (case GroupMemberPermission_try_from p of
                   Inl _ \<Rightarrow> PermMember | Inr q \<Rightarrow> q),
                eg_new_group_level = l\<rparr> }"

text \<open>
  \<open>Entity::unpack_element\<close>: the entities are tried in the order of \<open>impl_common_entity_unpack!\<close>, the
  first that takes the element wins; a panic of one tried before is a panic of the whole.
\<close>

fun first_match :: "(Elem \<Rightarrow> 'a option option) list \<Rightarrow> Elem \<Rightarrow> 'a option option" where
  "first_match [] elem = Some None"
| "first_match (f # fs) elem =
     (case f elem of
        None \<Rightarrow> None
      | Some None \<Rightarrow> first_match fs elem
      | Some (Some e) \<Rightarrow> Some (Some e))"

definition total_unpack :: "('a \<Rightarrow> Entity) \<Rightarrow> (Elem \<Rightarrow> 'a option) \<Rightarrow> Elem \<Rightarrow> Entity option option" where
  "total_unpack mk f elem = Some (map_option mk (f elem))"

definition partial_unpack :: "('a \<Rightarrow> Entity) \<Rightarrow> (Elem \<Rightarrow> 'a option option) \<Rightarrow> Elem \<Rightarrow> Entity option option" where
  "partial_unpack mk f elem = map_option (map_option mk) (f elem)"

definition UNPACKERS :: "msg_env \<Rightarrow> (Elem \<Rightarrow> Entity option option) list" where
  "UNPACKERS env =
     [total_unpack EText TextEntity_unpack,
      partial_unpack EJson (JsonEntity_unpack env),
      partial_unpack EImage (ImageEntity_unpack env),
      total_unpack EFace (FaceEntity_unpack env),
      partial_unpack EForward (ForwardEntity_unpack env),
      total_unpack EMarketFace (MarketFaceEntity_unpack env),
      partial_unpack ELightApp (LightAppEntity_unpack env),
      partial_unpack (\<lambda>r. EMultiMsg r []) (MultiMsgEntity_unpack env),
      total_unpack EMention MentionEntity_unpack,
      partial_unpack EFile (FileEntity_unpack env),
      total_unpack ERecord (RecordEntity_unpack env),
      total_unpack EVideo (VideoEntity_unpack env),
      partial_unpack EXml (XmlEntity_unpack env),
      total_unpack (\<lambda>r. ELongMsg r (MessageChain_default env)) LongMsgEntity_unpack]"

definition unpack_element :: "msg_env \<Rightarrow> Elem \<Rightarrow> Entity option option" where
  "unpack_element env = first_match (UNPACKERS env)"

definition unpack_extra_element :: "Elem \<Rightarrow> Entity option option" where
  "unpack_extra_element =
     first_match [total_unpack EExtraInfo ExtraInfoEntity_unpack,
                  total_unpack EExtraGeneralFlags ExtraGeneralFlagsEntity_unpack]"

text \<open>\<open>elems.iter().filter_map(..).collect()\<close>.\<close>

fun filter_map :: "('a \<Rightarrow> 'b option option) \<Rightarrow> 'a list \<Rightarrow> 'b list option" where
  "filter_map f [] = Some []"
| "filter_map f (x # xs) =
     do { y \<leftarrow> f x; ys \<leftarrow> filter_map f xs;
          Some (case y of None \<Rightarrow> ys | Some e \<Rightarrow> e # ys) }"

definition from_elems :: "msg_env \<Rightarrow> Elem list \<Rightarrow> Entity list option" where
  "from_elems env elems = filter_map (unpack_element env) elems"

section \<open>Preview text\<close>

text \<open>The Chinese literals are their UTF-8 bytes.\<close>

definition ImageEntity_preview :: "ImageEntity \<Rightarrow> rstring" where
  "ImageEntity_preview im =
     (case im_summary im of
        Some s \<Rightarrow> if s \<noteq> [] then s
                  else if im_sub_type im = 1
                  then [0x5B, 0xE5, 0x8A, 0xA8, 0xE7, 0x94, 0xBB, 0xE8, 0xA1, 0xA8, 0xE6, 0x83, 0x85, 0x5D]
                  else PICTURE
      | None \<Rightarrow> if im_sub_type im = 1
                then [0x5B, 0xE5, 0x8A, 0xA8, 0xE7, 0x94, 0xBB, 0xE8, 0xA1, 0xA8, 0xE6, 0x83, 0x85, 0x5D]
                else PICTURE)"

definition MESSAGE :: rstring where
  "MESSAGE = [0xE6, 0xB6, 0x88, 0xE6, 0x81, 0xAF, 0x5D]"

fun preview :: "Entity \<Rightarrow> rstring" where
  "preview (EText t) = t"
| "preview (EJson _) = str ''[Json'' @ MESSAGE"
| "preview (EImage im) = ImageEntity_preview im"
| "preview (EFace _) = [0x5B, 0xE8, 0xA1, 0xA8, 0xE6, 0x83, 0x85, 0x5D]"
| "preview (EForward _) = [0x5B, 0xE5, 0x9B, 0x9E, 0xE5, 0xA4, 0x8D] @ MESSAGE"
| "preview (EMarketFace m) = mfe_summary m"
| "preview (ELightApp _) = [0x5B, 0xE8, 0xBD, 0xBB, 0xE5, 0xBA, 0x94, 0xE7, 0x94, 0xA8] @ MESSAGE"
| "preview (EMultiMsg _ _) =
     [0x5B, 0xE8, 0x81, 0x8A, 0xE5, 0xA4, 0xA9, 0xE8, 0xAE, 0xB0, 0xE5, 0xBD, 0x95, 0x5D]"
| "preview (EMention m) = str ''@'' @ (case me_name m of None \<Rightarrow> [] | Some n \<Rightarrow> n)"
| "preview (EFile f) = [0x5B, 0xE6, 0x96, 0x87, 0xE4, 0xBB, 0xB6, 0x5D, 0x20] @ fl_file_name f"
| "preview (ERecord _) = [0x5B, 0xE8, 0xAF, 0xAD, 0xE9, 0x9F, 0xB3, 0x5D]"
| "preview (EVideo _) = [0x5B, 0xE8, 0xA7, 0x86, 0xE9, 0xA2, 0x91, 0x5D]"
| "preview (EXml _) = str ''[xml'' @ MESSAGE"
| "preview (ELongMsg _ _) = [0x5B, 0xE9, 0x95, 0xBF] @ MESSAGE"
| "preview (EExtraInfo _) = []"
| "preview (EExtraGeneralFlags _) = []"

definition chain_preview :: "MessageChain \<Rightarrow> rstring" where
  "chain_preview c = concat (map preview (mc_entities c))"

section \<open>Streams\<close>

text \<open>
  \<open>file_size path\<close> is the length of the file, \<open>None\<close> when it cannot be opened. The thumbnail task
  fails to join (\<open>Inl\<close>), or gives the image data or an error.
\<close>

definition image_resolve_stream ::
    "(rstring \<Rightarrow> nat option) \<Rightarrow> ImageEntity \<Rightarrow> ImageEntity \<times> stream option" where
  "image_resolve_stream file_size im =
     (case im_file_path im of
        Some path \<Rightarrow>
          (case file_size path of
             None \<Rightarrow> (im, None)
           | Some n \<Rightarrow> (im\<lparr>im_size := of_nat n\<rparr>, Some (FileStream path)))
      | None \<Rightarrow> (im, im_stream im))"

definition record_resolve_stream ::
    "(rstring \<Rightarrow> nat option) \<Rightarrow> RecordEntity \<Rightarrow> RecordEntity \<times> stream option" where
  "record_resolve_stream file_size r =
     (case rc_file_path r of
        Some path \<Rightarrow>
          (case file_size path of
             None \<Rightarrow> (r, None)
           | Some n \<Rightarrow> (r\<lparr>rc_file_size := of_nat n\<rparr>, Some (FileStream path)))
      | None \<Rightarrow> (r, rc_audio_stream r))"

definition video_resolve_stream ::
    "(rstring \<Rightarrow> nat option) \<Rightarrow> rstring + bytes option \<Rightarrow> VideoEntity
      \<Rightarrow> (VideoEntity \<times> (rstring + stream option \<times> stream option)) option" where
  "video_resolve_stream file_size thumbnail v =
     (let (v, video_stream) =
        (case vd_path v of
           Some path \<Rightarrow>
             (case file_size path of
                None \<Rightarrow> (v, None)
              | Some n \<Rightarrow> (v\<lparr>vd_video_size := of_nat n\<rparr>, Some (FileStream path)))
         | None \<Rightarrow> (v, vd_stream v))
      in case vd_thumb_path v of
           Some path \<Rightarrow>
             Some (case file_size path of
                None \<Rightarrow> (v, Inr (video_stream, None))
              | Some n \<Rightarrow> (v\<lparr>vd_thumb_size := of_nat n\<rparr>, Inr (video_stream, Some (FileStream path))))
         | None \<Rightarrow>
             (case vd_thumb_stream v of
                Some s \<Rightarrow> Some (v, Inr (video_stream, Some s))
              | None \<Rightarrow>
                  (case thumbnail of
                     Inr (Some thumb) \<Rightarrow>
                       Some (v\<lparr>vd_thumb_size := of_nat (length thumb)\<rparr>,
                             Inr (video_stream, Some (MemoryStream thumb)))
                   | Inr None \<Rightarrow> None
                   | Inl e \<Rightarrow> Some (v, Inl e))))"

section \<open>The builder\<close>

datatype build_step =
    AddText rstring
  | AddImage rstring
  | AddImageStream nat u32
  | AddVideo rstring i32
  | AddVideoWithThumb rstring i32 rstring
  | AddVideoStream nat i32
  | AddVideoStreamWithThumb nat i32 nat
  | AddRecord rstring
  | AddRecordStream nat

fun built_entity :: "build_step \<Rightarrow> Entity" where
  "built_entity (AddText content) = EText content"
| "built_entity (AddImage path) = EImage (ImageEntity_default\<lparr>im_file_path := Some path\<rparr>)"
| "built_entity (AddImageStream st n) =
     EImage (ImageEntity_default\<lparr>im_stream := Some (UserStream st), im_size := n\<rparr>)"
| "built_entity (AddVideo path len) =
     EVideo (VideoEntity_default\<lparr>vd_path := Some path, vd_video_length := len\<rparr>)"
| "built_entity (AddVideoWithThumb path len thumb) =
     EVideo (VideoEntity_default\<lparr>vd_path := Some path, vd_video_length := len, vd_thumb_path := Some thumb\<rparr>)"
| "built_entity (AddVideoStream st len) =
     EVideo (VideoEntity_default\<lparr>vd_stream := Some (UserStream st), vd_video_length := len\<rparr>)"
| "built_entity (AddVideoStreamWithThumb st len thumb) =
     EVideo (VideoEntity_default\<lparr>vd_stream := Some (UserStream st),
       vd_thumb_stream := Some (UserStream thumb), vd_video_length := len\<rparr>)"
| "built_entity (AddRecord path) = ERecord (RecordEntity_default\<lparr>rc_file_path := Some path\<rparr>)"
| "built_entity (AddRecordStream st) =
     ERecord (RecordEntity_default\<lparr>rc_audio_stream := Some (UserStream st)\<rparr>)"

definition builder_friend :: "msg_env \<Rightarrow> u32 \<Rightarrow> MessageChain" where
  "builder_friend env friend_uin = chain_friend env friend_uin [] []"

definition builder_group :: "msg_env \<Rightarrow> u32 \<Rightarrow> MessageChain" where
  "builder_group env group_uin = chain_group env group_uin"

definition build_push :: "build_step \<Rightarrow> MessageChain \<Rightarrow> MessageChain" where
  "build_push s c = set_entities (mc_entities c @ [built_entity s]) c"

text \<open>\<open>build\<close> takes the chain out and leaves the default one behind.\<close>

definition builder_build :: "msg_env \<Rightarrow> MessageChain \<Rightarrow> MessageChain \<times> MessageChain" where
  "builder_build env c = (c, MessageChain_default env)"

lemma build_push_entities: "mc_entities (fold build_push steps c) = mc_entities c @ map built_entity steps"
  by (induction steps arbitrary: c) (simp_all add: build_push_def)

end
