(* ===== verification/Message_Packer.thy ===== *)
theory Message_Packer
  imports Message_Entity
begin

text \<open>
  \<open>MessagePacker\<close> (\<open>mania/src/message/packer.rs\<close>): the protobuf message sent for a chain, and the
  chains parsed from a pushed message, from an entry of a forwarded record, and from a private
  file message. Results are \<open>Inl\<close> the error text or \<open>Inr\<close> the chain; \<open>None\<close> is a panic.
\<close>

section \<open>Protobuf messages\<close>

record RoutingHead =
  rh_c2c :: "(u32 option \<times> rstring option) option"          \<comment> \<open>\<open>uin\<close>, \<open>uid\<close>\<close>
  rh_grp :: "u32 option option"                              \<comment> \<open>\<open>group_code\<close>\<close>
  rh_trans0_x211 :: "(u32 option \<times> rstring option) option"  \<comment> \<open>\<open>cc_cmd\<close>, \<open>uid\<close>\<close>

record ContentHead =
  ch_type :: u32
  ch_sub_type :: "u32 option"
  ch_c2c_cmd :: "u32 option"
  ch_sequence :: "u32 option"
  ch_time_stamp :: "u32 option"
  ch_nt_msg_seq :: "u32 option"
  ch_msg_uid :: "u64 option"

record MessageBody =
  mb_rich_text :: "Elem list option"
  mb_msg_content :: "bytes option"

record Message =
  ms_routing_head :: "RoutingHead option"
  ms_content_head :: "ContentHead option"
  ms_body :: "MessageBody option"
  ms_client_sequence :: "u32 option"
  ms_random :: "u32 option"
  ms_ctrl :: "i32 option"   \<comment> \<open>\<open>msg_flag\<close>\<close>

record ResponseGrp =
  rg_group_code :: "u64 option"
  rg_group_card :: "rstring option"

record ResponseHead =
  re_from_uin :: u32
  re_from_uid :: "rstring option"
  re_to_uin :: u32
  re_to_uid :: "rstring option"
  re_grp :: "ResponseGrp option"

record PushMsgBody =
  pm_response_head :: "ResponseHead option"
  pm_content_head :: "ContentHead option"
  pm_body :: "MessageBody option"

record NotOnlineFile =
  nf_file_uuid :: "rstring option"
  nf_file_md5 :: "bytes option"
  nf_file_name :: "rstring option"
  nf_file_size :: "64 word option"
  nf_file_hash :: "rstring option"

definition ContentHead_default :: ContentHead where
  "ContentHead_default = \<lparr>ch_type = 0, ch_sub_type = None, ch_c2c_cmd = None, ch_sequence = None,
     ch_time_stamp = None, ch_nt_msg_seq = None, ch_msg_uid = None\<rparr>"

section \<open>Building\<close>

text \<open>\<open>entities.iter().filter_map(pack_content).next()\<close> stops at the first content.\<close>

fun first_content :: "Entity list \<Rightarrow> bytes option option" where
  "first_content [] = Some None"
| "first_content (e # es) =
     (case pack_content e of
        None \<Rightarrow> None
      | Some None \<Rightarrow> first_content es
      | Some (Some c) \<Rightarrow> Some (Some c))"

definition pack_elements :: "msg_env \<Rightarrow> Entity list \<Rightarrow> Elem list option" where
  "pack_elements env es = map_option concat (sequence (map (pack_element env) es))"

definition routing_head :: "MessageChain \<Rightarrow> RoutingHead" where
  "routing_head c =
     \<lparr>rh_c2c = (case (mc_typ c, need_pack_content (mc_entities c)) of
          (MsgFriend friend, False) \<Rightarrow>
            Some (Some (mc_friend_uin c), map_option bf_uid (fm_friend_info friend))
        | _ \<Rightarrow> None),
      rh_grp = (case mc_typ c of MsgGroup g \<Rightarrow> Some (Some (gm_group_uin g)) | _ \<Rightarrow> None),
      rh_trans0_x211 = (if need_pack_content (mc_entities c)
        then Some (Some 4, Some (mc_uid c)) else None)\<rparr>"

definition build_packet_base :: "msg_env \<Rightarrow> int \<Rightarrow> MessageChain \<Rightarrow> Message option" where
  "build_packet_base env now c =
     do { elems \<leftarrow> pack_elements env (mc_entities c);
          content \<leftarrow> first_content (mc_entities c);
          Some \<lparr>ms_routing_head = Some (routing_head c),
            ms_content_head = Some (ContentHead_default\<lparr>ch_type := 1, ch_sub_type := Some 0,
              ch_c2c_cmd := Some 0\<rparr>),
            ms_body = Some \<lparr>mb_rich_text = Some elems, mb_msg_content = content\<rparr>,
            ms_client_sequence = (case mc_typ c of
                MsgFriend _ \<Rightarrow> Some (mc_sequence c) | _ \<Rightarrow> Some 0),
            ms_random = Some (ucast (mc_message_id c AND 0xFFFFFFFF)),
            ms_ctrl = (case mc_typ c of
                MsgFriend _ \<Rightarrow> Some (word_of_int now) | _ \<Rightarrow> None)\<rparr> }"

definition message_build :: "msg_env \<Rightarrow> int \<Rightarrow> MessageChain \<Rightarrow> Message option" where
  "message_build env now c = build_packet_base env now c"

section \<open>Parsing\<close>

definition rich_elems :: "PushMsgBody \<Rightarrow> Elem list" where
  "rich_elems body =
     (case Option.bind (pm_body body) mb_rich_text of None \<Rightarrow> [] | Some elems \<Rightarrow> elems)"

text \<open>The last flags and the last extra information of the message win.\<close>

fun note_extra ::
    "Entity \<Rightarrow> ExtraGeneralFlagsEntity option \<times> rstring option option
      \<Rightarrow> ExtraGeneralFlagsEntity option \<times> rstring option option" where
  "note_extra (EExtraGeneralFlags inner) (gf, info) = (Some inner, info)"
| "note_extra (EExtraInfo inner) (gf, info) = (gf, Some inner)"
| "note_extra _ (gf, info) = (gf, info)"

definition extras_of ::
    "Elem list \<Rightarrow> (ExtraGeneralFlagsEntity option \<times> rstring option option) option" where
  "extras_of elems =
     map_option (\<lambda>es. fold note_extra es (None, None)) (filter_map unpack_extra_element elems)"

definition sender_of ::
    "ResponseHead \<Rightarrow> ResponseGrp \<Rightarrow> ExtraGeneralFlagsEntity option \<times> rstring option option
      \<Rightarrow> BotGroupMember" where
  "sender_of res_head grp ex =
     \<lparr>bgm_uin = re_from_uin res_head, bgm_uid = or_empty (re_from_uid res_head),
      bgm_permission = (case fst ex of None \<Rightarrow> PermMember | Some gf \<Rightarrow> eg_permission gf),
      bgm_group_level = (case fst ex of None \<Rightarrow> 0 | Some gf \<Rightarrow> eg_new_group_level gf),
      bgm_member_card = rg_group_card grp,
      bgm_special_title = Option.bind (snd ex) id, bgm_member_name = None,
      bgm_join_time = None, bgm_last_msg_time = None, bgm_shut_up_timestamp = None\<rparr>"

definition or_zero :: "'a::len word option \<Rightarrow> 'a word" where
  "or_zero x = (case x of None \<Rightarrow> 0 | Some v \<Rightarrow> v)"

definition parse_chain ::
    "msg_env \<Rightarrow> Context \<Rightarrow> PushMsgBody \<Rightarrow> (rstring + MessageChain) option" where
  "parse_chain env ctx body =
     try_res (ok_or (str ''missing ResponseHead'') (pm_response_head body)) (\<lambda>response_head.
     try_res (ok_or (str ''missing ContentHead'') (pm_content_head body)) (\<lambda>content_head.
       do { entities \<leftarrow> from_elems env (rich_elems body);
            let time = int (unat (or_zero (ch_time_stamp content_head)));
            (case re_grp response_head of
               Some grp \<Rightarrow>
                 do { member \<leftarrow> (case cfg_fetch_group_member_strategy (ctx_config ctx) of
                          StrategySimple \<Rightarrow>
                            do { ex \<leftarrow> extras_of (rich_elems body);
                                 Some (Some (sender_of response_head grp ex)) }
                        | StrategyFull \<Rightarrow> Some None);
                      Some (Inr (MessageChain
                        (MsgGroup \<lparr>gm_group_uin = ucast (or_zero (rg_group_code grp)),
                                   gm_group_member_info = member\<rparr>)
                        [] [] 0 (re_from_uin response_head) (or_zero (ch_msg_uid content_head))
                        time (or_zero (ch_sequence content_head)) [] entities)) }
             | None \<Rightarrow>
                 Some (Inr (MessageChain
                   (if ch_type content_head = 141 then MsgTemp
                    else MsgFriend \<lparr>fm_friend_info = None,
                      fm_client_sequence = or_zero (ch_sequence content_head)\<rparr>)
                   (or_empty (re_from_uid response_head)) (or_empty (re_to_uid response_head))
                   (re_to_uin response_head) (re_from_uin response_head)
                   (or_zero (ch_msg_uid content_head)) time (or_zero (ch_nt_msg_seq content_head))
                   [] entities))) }))"

text \<open>
  An entry of a forwarded record: the type is made first, then the chain is parsed and its type
  replaced.
\<close>

definition BotFriend_default :: BotFriend where
  "BotFriend_default = \<lparr>bf_uin = 0, bf_uid = [], bf_nickname = [], bf_remarks = [],
     bf_personal_sign = [], bf_qid = [], bf_group = None, bf_avatar = []\<rparr>"

definition BotGroupMember_default :: BotGroupMember where
  "BotGroupMember_default = \<lparr>bgm_uin = 0, bgm_uid = [], bgm_permission = PermMember,
     bgm_group_level = 0, bgm_member_card = None, bgm_special_title = None,
     bgm_member_name = None, bgm_join_time = None, bgm_last_msg_time = None,
     bgm_shut_up_timestamp = None\<rparr>"

definition make_group_extra :: "PushMsgBody \<Rightarrow> GroupMessageUniqueElem option" where
  "make_group_extra body =
     do { response_head \<leftarrow> pm_response_head body;
          grp \<leftarrow> re_grp response_head;
          card \<leftarrow> rg_group_card grp;
          Some \<lparr>gm_group_uin = ucast (or_zero (rg_group_code grp)),
                gm_group_member_info = Some (BotGroupMember_default\<lparr>bgm_member_card := Some card,
                  bgm_member_name := Some card, bgm_uid := or_empty (re_from_uid response_head)\<rparr>)\<rparr> }"

definition make_friend_extra :: "PushMsgBody \<Rightarrow> FriendMessageUniqueElem option" where
  "make_friend_extra body =
     do { content_head \<leftarrow> pm_content_head body;
          response_head \<leftarrow> pm_response_head body;
          Some \<lparr>fm_friend_info = Some (BotFriend_default\<lparr>
                  bf_nickname := or_empty (re_from_uid response_head)\<rparr>),
                fm_client_sequence = or_zero (ch_sequence content_head)\<rparr> }"

definition parse_fake_chain ::
    "msg_env \<Rightarrow> Context \<Rightarrow> PushMsgBody \<Rightarrow> (rstring + MessageChain) option" where
  "parse_fake_chain env ctx body =
     try_res (ok_or (str ''missing response_head'') (pm_response_head body)) (\<lambda>response_head.
     try_res
       (case re_grp response_head of
          Some _ \<Rightarrow> ok_or (str ''failed to make_group_extra'') (map_option MsgGroup (make_group_extra body))
        | None \<Rightarrow> ok_or (str ''failed to make_friend_extra'') (map_option MsgFriend (make_friend_extra body)))
       (\<lambda>typ.
         do { r \<leftarrow> parse_chain env ctx body;
              try_res r (\<lambda>chain'. Some (Inr (set_typ typ chain'))) }))"

text \<open>A private file message: \<open>decode_extra\<close> reads \<open>FileExtra\<close> and gives its \<open>file\<close>.\<close>

definition file_of_extra :: "NotOnlineFile \<Rightarrow> FileEntity option" where
  "file_of_extra file =
     do { file_size \<leftarrow> nf_file_size file;
          file_name \<leftarrow> nf_file_name file;
          file_md5 \<leftarrow> nf_file_md5 file;
          file_uuid \<leftarrow> nf_file_uuid file;
          file_hash \<leftarrow> nf_file_hash file;
          Some (FileEntity_default\<lparr>fl_file_size := file_size, fl_file_name := file_name,
            fl_file_md5 := file_md5, fl_extra := Some (C2CFile (Some file_uuid) (Some file_hash))\<rparr>) }"

definition parse_private_file ::
    "msg_env \<Rightarrow> (bytes \<Rightarrow> rstring + NotOnlineFile option) \<Rightarrow> Context \<Rightarrow> PushMsgBody
      \<Rightarrow> (rstring + MessageChain) option" where
  "parse_private_file env decode_extra ctx body =
     try_res (ok_or (str ''missing msg_content'') (Option.bind (pm_body body) mb_msg_content)) (\<lambda>msg_content.
       do { r \<leftarrow> parse_chain env ctx body;
            try_res r (\<lambda>base_chain.
            try_res (case decode_extra msg_content of
                       Inl e \<Rightarrow> Inl (str ''failed to decode FileExtra: '' @ e) | Inr f \<Rightarrow> Inr f) (\<lambda>extra.
            try_res (ok_or (str ''missing file'') extra) (\<lambda>file.
              Some (case file_of_extra file of
                      None \<Rightarrow> Inl (str ''missing file fields'')
                    | Some f \<Rightarrow> Inr (set_entities (mc_entities base_chain @ [EFile f]) base_chain))))) })"

section \<open>Reading back what was sent\<close>


lemma filter_map_append:
  "filter_map f (xs @ ys) = do { a \<leftarrow> filter_map f xs; b \<leftarrow> filter_map f ys; Some (a @ b) }"
proof (induction xs)
  case Nil
  show ?case by (cases "filter_map f ys") simp_all
next
  case (Cons x xs)
  then show ?case
    by (cases "f x"; cases "filter_map f xs"; cases "filter_map f ys") (auto split: option.splits)
qed

lemma filter_map_total: "(\<And>x. f x \<noteq> None) \<Longrightarrow> filter_map f xs \<noteq> None"
proof (induction xs)
  case Nil
  show ?case by simp
next
  case (Cons x xs)
  obtain y ys where "f x = Some y" "filter_map f xs = Some ys"
    using Cons.prems [of x] Cons.IH [OF Cons.prems] by blast
  then show ?case by simp
qed

lemma unpack_extra_total: "unpack_extra_element elem \<noteq> None"
  by (simp add: unpack_extra_element_def total_unpack_def split: option.splits)

lemma extras_of_total: "\<exists>ex. extras_of elems = Some ex"
  using filter_map_total [of unpack_extra_element elems] unpack_extra_total
  by (auto simp: extras_of_def)

lemmas unpacker_defs = unpack_element_def UNPACKERS_def total_unpack_def partial_unpack_def
  TextEntity_unpack_def JsonEntity_unpack_def ImageEntity_unpack_def FaceEntity_unpack_def
  ForwardEntity_unpack_def MarketFaceEntity_unpack_def LightAppEntity_unpack_def
  MultiMsgEntity_unpack_def MentionEntity_unpack_def FileEntity_unpack_def RecordEntity_unpack_def
  VideoEntity_unpack_def XmlEntity_unpack_def LongMsgEntity_unpack_def is_image_common_def

lemma unpack_text_part:
  "unpack_element env (text_part s r) = Some (map_option EText s)"
  by (cases s) (simp_all add: unpacker_defs text_part_def text_elem_def Let_def)

lemma unpack_rich:
  assumes "me_inflate env z = Some t" "valid_utf8 t"
  shows "unpack_element env (rich_elem \<lparr>rm_template1 = Some (1 # z), rm_service_id = Some sid\<rparr>)
    = Some (Some (if sid = 1 then EJson \<lparr>js_json = t, js_res_id = []\<rparr>
                  else case (if sid = 35 then me_xml_res_id env t else None) of
                    Some (Some r) \<Rightarrow> EMultiMsg r []
                  | _ \<Rightarrow> EXml \<lparr>xm_xml = t, xm_service_id = sid\<rparr>))"
  using assms
  by (simp add: unpacker_defs elem_defs inflated_text_def from_utf8_def Let_def split: option.splits)

lemma unpack_light_app:
  assumes "me_inflate env z = Some t" "valid_utf8 t" "me_json_app env t = Some app"
  shows "unpack_element env (light_app_elem \<lparr>la_data = 1 # z\<rparr>)
    = Some (Some (ELightApp \<lparr>lae_app_name = app, lae_payload = t\<rparr>))"
  using assms
  by (simp add: unpacker_defs elem_defs inflated_text_def from_utf8_def Let_def)

lemma unpack_src:
  assumes "me_preserve env pb = Some reserve"
  shows "unpack_element env (src_elem (SrcMsg (q # qs) uin (Some t) es (Some pb) to))
    = Some (Some (EForward
        \<lparr>fw_time = sint t, fw_message_id = pv_message_id reserve,
         fw_sequence = (case pv_client_sequence reserve of None \<Rightarrow> q | Some c \<Rightarrow> c),
         fw_client_sequence = me_random_seq env, fw_uid = None,
         fw_target_uin = ucast uin, fw_elems = [], fw_self_uid = None\<rparr>))"
  using assms by (simp add: unpacker_defs elem_defs Let_def)

lemma unpack_media:
  assumes "me_msg_info env (me_enc_msg_info env info) = Some info"
    and "mi_bodies info = b # bs" "mib_index b = Some ix" "in_info ix = Some fi"
  shows "unpack_element env (media_elem env (Some info) 21)
      = Some (Some (EVideo (VideoEntity_default\<lparr>vd_file_name := fi_file_name fi,
          vd_height := fi_height fi, vd_width := fi_width fi, vd_video_size := fi_file_size fi,
          vd_video_length := fi_time fi, vd_node := Some ix\<rparr>)))" (is ?video)
    and "me_unhex env (fi_file_hash fi) = Some md5 \<Longrightarrow>
      unpack_element env (media_elem env (Some info) 22)
      = Some (Some (ERecord (RecordEntity_default\<lparr>rc_audio_uuid := Some (in_file_uuid ix),
          rc_audio_name := fi_file_name fi, rc_audio_md5 := md5, rc_audio_length := fi_time fi,
          rc_file_sha1 := Some (fi_file_hash fi), rc_msg_info := Some info\<rparr>)))"
proof -
  show ?video
    using assms by (simp add: unpacker_defs elem_defs media_elem_def packed_msg_info_def Let_def)
  show "unpack_element env (media_elem env (Some info) 22)
      = Some (Some (ERecord (RecordEntity_default\<lparr>rc_audio_uuid := Some (in_file_uuid ix),
          rc_audio_name := fi_file_name fi, rc_audio_md5 := md5, rc_audio_length := fi_time fi,
          rc_file_sha1 := Some (fi_file_hash fi), rc_msg_info := Some info\<rparr>)))"
    if "me_unhex env (fi_file_hash fi) = Some md5"
    using assms that by (simp add: unpacker_defs elem_defs media_elem_def packed_msg_info_def Let_def)
qed


text \<open>The codecs give back what they encoded, for the contents of an entity.\<close>

fun codecs_work :: "msg_env \<Rightarrow> Entity \<Rightarrow> bool" where
  "codecs_work env (EJson j) \<longleftrightarrow> me_inflate env (me_deflate env (js_json j)) = Some (js_json j)"
| "codecs_work env (ELightApp la) \<longleftrightarrow>
     me_inflate env (me_deflate env (lae_payload la)) = Some (lae_payload la)"
| "codecs_work env (EXml x) \<longleftrightarrow> me_inflate env (me_deflate env (xm_xml x)) = Some (xm_xml x)"
| "codecs_work env (EForward fw) \<longleftrightarrow>
     (let p = \<lparr>pv_message_id = fw_message_id fw, pv_sender_uid = fw_uid fw, pv_client_sequence = None\<rparr>
      in me_preserve env (me_enc_preserve env p) = Some p)"
| "codecs_work env (EVideo v) \<longleftrightarrow>
     (case vd_msg_info v of None \<Rightarrow> True | Some i \<Rightarrow> me_msg_info env (me_enc_msg_info env i) = Some i)"
| "codecs_work env (ERecord r) \<longleftrightarrow>
     (case rc_msg_info r of None \<Rightarrow> True | Some i \<Rightarrow> me_msg_info env (me_enc_msg_info env i) = Some i)"
| "codecs_work env _ \<longleftrightarrow> True"

text \<open>What an entity reads back as, for the entities that can be packed and whose content is text.\<close>

definition first_file :: "MsgInfo option \<Rightarrow> (MsgInfo \<times> IndexNode \<times> FileInfo) option" where
  "first_file info =
     do { i \<leftarrow> info;
          b \<leftarrow> (case mi_bodies i of [] \<Rightarrow> None | b # _ \<Rightarrow> Some b);
          ix \<leftarrow> mib_index b;
          fi \<leftarrow> in_info ix;
          Some (i, ix, fi) }"

fun read_back :: "msg_env \<Rightarrow> Entity \<Rightarrow> Entity list option" where
  "read_back env (EText t) = Some [EText t]"
| "read_back env (EJson j) =
     (if valid_utf8 (js_json j)
      then Some [EText (js_res_id j), EJson \<lparr>js_json = js_json j, js_res_id = []\<rparr>] else None)"
| "read_back env (EForward fw) =
     Some [EForward (fw\<lparr>fw_time := sint (word_of_int (fw_time fw) :: i32),
       fw_sequence := ucast (fw_message_id fw), fw_client_sequence := me_random_seq env,
       fw_uid := None, fw_elems := [], fw_self_uid := None\<rparr>)]"
| "read_back env (ELightApp la) =
     (if valid_utf8 (lae_payload la) \<and> me_json_app env (lae_payload la) = Some (lae_app_name la)
      then Some [ELightApp la] else None)"
| "read_back env (EMention m) = Some (case me_name m of None \<Rightarrow> [] | Some n \<Rightarrow> [EText n])"
| "read_back env (EXml x) =
     (if valid_utf8 (xm_xml x)
      then Some [if xm_service_id x = 1 then EJson \<lparr>js_json = xm_xml x, js_res_id = []\<rparr>
                 else case (if xm_service_id x = 35 then me_xml_res_id env (xm_xml x) else None) of
                   Some (Some r) \<Rightarrow> EMultiMsg r []
                 | _ \<Rightarrow> EXml x]
      else None)"
| "read_back env (EVideo v) =
     map_option (\<lambda>(i, ix, fi). [EVideo (VideoEntity_default\<lparr>vd_file_name := fi_file_name fi,
          vd_height := fi_height fi, vd_width := fi_width fi, vd_video_size := fi_file_size fi,
          vd_video_length := fi_time fi, vd_node := Some ix\<rparr>)]) (first_file (vd_msg_info v))"
| "read_back env (ERecord r) =
     do { (i, ix, fi) \<leftarrow> first_file (rc_msg_info r);
          md5 \<leftarrow> me_unhex env (fi_file_hash fi);
          Some [ERecord (RecordEntity_default\<lparr>rc_audio_uuid := Some (in_file_uuid ix),
            rc_audio_name := fi_file_name fi, rc_audio_md5 := md5, rc_audio_length := fi_time fi,
            rc_file_sha1 := Some (fi_file_hash fi), rc_msg_info := Some i\<rparr>)] }"
| "read_back env _ = None"

lemma first_fileD:
  "first_file info = Some (i, ix, fi) \<Longrightarrow>
    \<exists>b bs. info = Some i \<and> mi_bodies i = b # bs \<and> mib_index b = Some ix \<and> in_info ix = Some fi"
  by (cases info; cases "mi_bodies (the info)") (auto simp: first_file_def bind_eq_Some_conv)

lemma u32_through_u64 [simp]: "ucast (ucast (w :: u32) :: u64) = w"
  by (rule bit_word_eqI) (simp add: bit_ucast_iff)

lemma entity_reads_back:
  assumes codecs: "codecs_work env e" and rb: "read_back env e = Some es"
  shows "\<exists>elems. pack_element env e = Some elems \<and> from_elems env elems = Some es \<and> pack_content e = Some None"
proof (cases e)
  case (EText t)
  then show ?thesis using rb by (simp add: from_elems_def unpack_text_part)
next
  case (EJson j)
  then show ?thesis
    using rb codecs
    by (cases j) (auto simp: from_elems_def JsonEntity_pack_def unpack_text_part unpack_rich split: if_splits)
next
  case (EForward fw)
  have "unpack_element env (hd (ForwardEntity_pack env fw)) = Some (Some (hd es))"
    using EForward rb codecs
    by (cases fw) (auto simp: ForwardEntity_pack_def Let_def unpack_src)
  then show ?thesis
    using EForward rb by (auto simp: from_elems_def ForwardEntity_pack_def Let_def)
next
  case (ELightApp la)
  then show ?thesis
    using rb codecs
    by (cases la) (auto simp: from_elems_def LightAppEntity_pack_def unpack_light_app split: if_splits)
next
  case (EMention m)
  then show ?thesis
    using rb by (cases "me_name m") (auto simp: from_elems_def MentionEntity_pack_def unpack_text_part)
next
  case (EXml x)
  then show ?thesis
    using rb codecs
    by (cases x) (auto simp: from_elems_def XmlEntity_pack_def unpack_rich split: if_splits)
next
  case (EVideo v)
  then obtain i ix fi where ff: "first_file (vd_msg_info v) = Some (i, ix, fi)"
    using rb by (auto split: prod.splits)
  from first_fileD [OF ff] obtain b bs where "vd_msg_info v = Some i" "mi_bodies i = b # bs"
    "mib_index b = Some ix" "in_info ix = Some fi" by blast
  then show ?thesis
    using EVideo rb codecs ff by (auto simp: from_elems_def unpack_media(1))
next
  case (ERecord r)
  then obtain i ix fi md5 where ff: "first_file (rc_msg_info r) = Some (i, ix, fi)"
    and md5: "me_unhex env (fi_file_hash fi) = Some md5"
    using rb by (auto simp: bind_eq_Some_conv)
  from first_fileD [OF ff] obtain b bs where "rc_msg_info r = Some i" "mi_bodies i = b # bs"
    "mib_index b = Some ix" "in_info ix = Some fi" by blast
  then show ?thesis
    using ERecord rb codecs ff md5 by (auto simp: from_elems_def unpack_media(2))
qed (use rb in simp_all)

lemma entities_read_back:
  assumes codecs: "list_all (codecs_work env) es" and rb: "sequence (map (read_back env) es) = Some bs"
  shows "\<exists>elems. pack_elements env es = Some elems \<and> from_elems env elems = Some (concat bs)
    \<and> first_content es = Some None"
  using rb codecs
proof (induction es arbitrary: bs)
  case Nil
  then show ?case by (simp add: pack_elements_def from_elems_def)
next
  case (Cons e es)
  then obtain b bs' where b: "read_back env e = Some b" and bs': "sequence (map (read_back env) es) = Some bs'"
    and bs: "bs = b # bs'" by (auto simp: bind_eq_Some_conv)
  obtain elems where e: "pack_element env e = Some elems" "from_elems env elems = Some b"
    "pack_content e = Some None" using entity_reads_back [OF _ b] Cons.prems by auto
  obtain elems' where es: "pack_elements env es = Some elems'" "from_elems env elems' = Some (concat bs')"
    "first_content es = Some None" using Cons.IH [OF bs'] Cons.prems by auto
  then obtain ess where "sequence (map (pack_element env) es) = Some ess" "elems' = concat ess"
    by (auto simp: pack_elements_def)
  then have "pack_elements env (e # es) = Some (elems @ elems')"
    using e by (simp add: pack_elements_def)
  moreover have "from_elems env (elems @ elems') = Some (concat bs)"
    using e es bs by (simp add: from_elems_def filter_map_append)
  ultimately show ?case using e es by simp
qed

lemma parse_chain_entities:
  assumes "from_elems env (rich_elems body) = Some es"
    and "pm_response_head body = Some rh" "pm_content_head body = Some ch"
  shows "\<exists>c. parse_chain env ctx body = Some (Inr c) \<and> mc_entities c = es"
proof -
  obtain ex where "extras_of (rich_elems body) = Some ex" using extras_of_total by blast
  then show ?thesis
    using assms
    by (cases "re_grp rh"; cases "cfg_fetch_group_member_strategy (ctx_config ctx)")
      (simp_all add: parse_chain_def Let_def)
qed

text \<open>C8: a chain of text, JSON, light app, mention, quote, XML, record or video entities can be
  sent, and a pushed message with the body that was sent parses into the entities \<open>read_back\<close> says:
  the entities themselves, but a mention comes back as its text, a quote without its sender and with
  the low half of the message id for its sequence, XML under service 1 as JSON, and of a video only what
  its file information says.\<close>

theorem sent_chain_reads_back:
  assumes "list_all (codecs_work env) (mc_entities c)"
    and "sequence (map (read_back env) (mc_entities c)) = Some bs"
  shows "\<exists>msg. message_build env now c = Some msg \<and>
    (\<forall>body rh ch. pm_body body = ms_body msg \<and> pm_response_head body = Some rh \<and> pm_content_head body = Some ch
      \<longrightarrow> (\<exists>c'. parse_chain env ctx body = Some (Inr c') \<and> mc_entities c' = concat bs))"
proof -
  obtain elems where el: "pack_elements env (mc_entities c) = Some elems"
    and rb: "from_elems env elems = Some (concat bs)" and fc: "first_content (mc_entities c) = Some None"
    using entities_read_back [OF assms] by blast
  obtain msg where msg: "message_build env now c = Some msg"
    and body: "ms_body msg = Some \<lparr>mb_rich_text = Some elems, mb_msg_content = None\<rparr>"
    using el fc by (simp add: message_build_def build_packet_base_def)
  have "\<exists>c'. parse_chain env ctx b = Some (Inr c') \<and> mc_entities c' = concat bs"
    if "pm_body b = ms_body msg" "pm_response_head b = Some rh" "pm_content_head b = Some ch" for b rh ch
    using that body rb by (intro parse_chain_entities) (auto simp: rich_elems_def)
  then show ?thesis using msg by blast
qed


lemma first_content_None: "first_content es = Some x \<Longrightarrow> x = None"
proof (induction es)
  case (Cons e es)
  then show ?case by (cases e) auto
qed simp

lemma need_pack_content_iff: "need_pack_content es \<longleftrightarrow> es \<noteq> []"
  by (cases es) (simp_all add: need_pack_content_def need_pack_def)

text \<open>A chain with any entity in it is never routed as a friend message: \<open>need_pack\<close> is true of every
  entity, so the head has the file-transfer part (command 4 and the chain's uid) instead of the part
  for a friend, while there is no packed content.\<close>

theorem message_routing:
  assumes "message_build env now c = Some msg"
  shows "ms_routing_head msg = Some (routing_head c)
    \<and> (if mc_entities c = [] then rh_trans0_x211 (routing_head c) = None
       else rh_c2c (routing_head c) = None
         \<and> rh_trans0_x211 (routing_head c) = Some (Some 4, Some (mc_uid c)))
    \<and> (\<exists>body. ms_body msg = Some body \<and> mb_msg_content body = None)"
proof -
  obtain elems content where e: "pack_elements env (mc_entities c) = Some elems"
    and f: "first_content (mc_entities c) = Some content"
    using assms by (auto simp: message_build_def build_packet_base_def bind_eq_Some_conv)
  have "ms_routing_head msg = Some (routing_head c)
      \<and> ms_body msg = Some \<lparr>mb_rich_text = Some elems, mb_msg_content = content\<rparr>"
    using assms e f by (auto simp: message_build_def build_packet_base_def)
  then show ?thesis
    using first_content_None [OF f]
    by (simp add: routing_head_def need_pack_content_iff split: MessageType.splits)
qed

text \<open>The parts whose decoding indexes or slices without a check.\<close>

definition bad_rich :: "Elem \<Rightarrow> bool" where
  "bad_rich elem \<longleftrightarrow> (case el_rich_msg elem of None \<Rightarrow> False
     | Some r \<Rightarrow> rm_service_id r \<noteq> None \<and> rm_template1 r = Some [])"

definition bad_image :: "msg_env \<Rightarrow> Elem \<Rightarrow> bool" where
  "bad_image env elem \<longleftrightarrow> (case el_common_elem elem of None \<Rightarrow> False
     | Some c \<Rightarrow> is_image_common c \<and> (case me_msg_info env (ce_pb_elem c) of None \<Rightarrow> False
         | Some i \<Rightarrow> mi_ext_biz_info i \<noteq> None \<and> mi_bodies i = []))"

definition bad_quote :: "msg_env \<Rightarrow> Elem \<Rightarrow> bool" where
  "bad_quote env elem \<longleftrightarrow> (case el_src_msg elem of None \<Rightarrow> False
     | Some s \<Rightarrow> sm_orig_seqs s = [] \<and> (case sm_pb_reserve s of None \<Rightarrow> False
         | Some pb \<Rightarrow> me_preserve env pb \<noteq> None))"

definition bad_light_app :: "Elem \<Rightarrow> bool" where
  "bad_light_app elem \<longleftrightarrow> (case el_light_app_elem elem of None \<Rightarrow> False | Some l \<Rightarrow> la_data l = [])"

definition bad_file :: "Elem \<Rightarrow> bool" where
  "bad_file elem \<longleftrightarrow> (case el_trans_elem elem of None \<Rightarrow> False
     | Some t \<Rightarrow> te_elem_type t = 24 \<and>
         (length (te_elem_value t) < 3
          \<or> length (te_elem_value t) < 3 + unat (of_be (take 2 (drop 1 (te_elem_value t))) :: u16)))"

lemma file_header:
  "(do { (u, payload) \<leftarrow> rd_skip 1 v; read_with_length (PREFIX_U16 OR PREFIX_LENGTH_ONLY) rd_bytes payload }) = None
    \<longleftrightarrow> length v < 3 \<or> length v < 3 + unat (of_be (take 2 (drop 1 v)) :: u16)"
  by (auto simp: rd_skip_def read_with_length_def sub_reader_def split_to_def rd_u16_def rd_bytes_def
      PREFIX_U16_def PREFIX_LENGTH_ONLY_def PREFIX_WITH_def)


definition bad_part :: "msg_env \<Rightarrow> Elem \<Rightarrow> bool" where
  "bad_part env elem \<longleftrightarrow>
     bad_rich elem \<or> bad_image env elem \<or> bad_quote env elem \<or> bad_light_app elem \<or> bad_file elem"

lemma first_match_total: "(\<And>f. f \<in> set fs \<Longrightarrow> f elem \<noteq> None) \<Longrightarrow> first_match fs elem \<noteq> None"
  by (induction fs) (auto split: option.splits)

lemma total_unpack_total [simp]: "\<exists>r. total_unpack mk f elem = Some r"
  by (simp add: total_unpack_def)

lemma inflated_text_None [simp]: "inflated_text env data = None \<longleftrightarrow> data = []"
  by (cases data) (simp_all add: inflated_text_def)

lemma partial_unpack_None: "partial_unpack mk f elem = None \<longleftrightarrow> f elem = None"
  by (simp add: partial_unpack_def)

lemma or_not_None: "or_not x f = None \<longleftrightarrow> (\<exists>a. x = Some a \<and> f a = None)"
  by (cases x) auto

lemma first_elem_None [simp]: "(case xs of [] \<Rightarrow> None | x # _ \<Rightarrow> Some x) = None \<longleftrightarrow> xs = []"
  by (cases xs) simp_all

lemma panics_Json: "JsonEntity_unpack env elem = None \<Longrightarrow> bad_rich elem"
  by (auto simp: JsonEntity_unpack_def or_not_None bad_rich_def bind_eq_None_conv split: if_splits)

lemma panics_MultiMsg: "MultiMsgEntity_unpack env elem = None \<Longrightarrow> bad_rich elem"
  by (cases "el_rich_msg elem"; cases "rm_service_id (the (el_rich_msg elem))";
      cases "rm_template1 (the (el_rich_msg elem))")
    (auto simp: MultiMsgEntity_unpack_def bad_rich_def bind_eq_None_conv split: if_splits)

lemma panics_Xml: "XmlEntity_unpack env elem = None \<Longrightarrow> bad_rich elem"
  by (auto simp: XmlEntity_unpack_def or_not_None bad_rich_def bind_eq_None_conv)

lemma panics_LightApp: "LightAppEntity_unpack env elem = None \<Longrightarrow> bad_light_app elem"
  by (auto simp: LightAppEntity_unpack_def or_not_None bad_light_app_def bind_eq_None_conv)

lemma panics_Forward: "ForwardEntity_unpack env elem = None \<Longrightarrow> bad_quote env elem"
  by (auto simp: ForwardEntity_unpack_def or_not_None bad_quote_def bind_eq_None_conv)

lemma panics_Image: "ImageEntity_unpack env elem = None \<Longrightarrow> bad_image env elem"
  by (auto simp: ImageEntity_unpack_def image_of_common_def or_not_None bad_image_def
      bind_eq_None_conv Let_def split: option.splits if_splits)

lemma panics_File: "FileEntity_unpack env elem = None \<longleftrightarrow> bad_file elem"
proof (cases "el_trans_elem elem")
  case None
  then show ?thesis by (simp add: FileEntity_unpack_def bad_file_def)
next
  case (Some t)
  have "FileEntity_unpack env elem = None \<longleftrightarrow> te_elem_type t = 24 \<and>
      (do { (u, payload) \<leftarrow> rd_skip 1 (te_elem_value t);
            read_with_length (PREFIX_U16 OR PREFIX_LENGTH_ONLY) rd_bytes payload }) = None"
    by (auto simp: FileEntity_unpack_def Some bind_eq_None_conv split: prod.splits)
  then show ?thesis by (simp only: file_header) (simp add: bad_file_def Some)
qed

lemma unpack_returns:
  assumes "\<not> bad_part env elem"
  shows "unpack_element env elem \<noteq> None"
proof -
  have "JsonEntity_unpack env elem \<noteq> None" "MultiMsgEntity_unpack env elem \<noteq> None"
    "XmlEntity_unpack env elem \<noteq> None" "LightAppEntity_unpack env elem \<noteq> None"
    "ForwardEntity_unpack env elem \<noteq> None" "ImageEntity_unpack env elem \<noteq> None"
    "FileEntity_unpack env elem \<noteq> None"
    using assms panics_Json panics_MultiMsg panics_Xml panics_LightApp panics_Forward panics_Image
      panics_File unfolding bad_part_def by blast+
  then show ?thesis
    unfolding unpack_element_def UNPACKERS_def
    by (intro first_match_total) (auto simp: partial_unpack_def)
qed

text \<open>C19: \<open>unpack_element\<close> returns on every element without a malformed part; an element that is
  just a rich message, common element, quote or light app makes it panic exactly if that part is
  malformed (empty data to skip a byte of, an image without media, a quote without a sequence).\<close>

theorem unpack_element_domain:
  "(\<not> bad_part env elem \<longrightarrow> unpack_element env elem \<noteq> None)
   \<and> (unpack_element env (rich_elem r) = None \<longleftrightarrow> bad_rich (rich_elem r))
   \<and> (unpack_element env (common_elem c) = None \<longleftrightarrow> bad_image env (common_elem c))
   \<and> (unpack_element env (src_elem q) = None \<longleftrightarrow> bad_quote env (src_elem q))
   \<and> (unpack_element env (light_app_elem l) = None \<longleftrightarrow> la_data l = [])"
proof -
  have "unpack_element env elem \<noteq> None" if "\<not> bad_part env elem" for elem
    using that by (rule unpack_returns)
  moreover have "unpack_element env (rich_elem r) = None" if "bad_rich (rich_elem r)"
    using that by (auto simp: bad_rich_def unpacker_defs elem_defs Let_def inflated_text_def)
  moreover have "unpack_element env (common_elem c) = None" if "bad_image env (common_elem c)"
    using that by (auto simp: bad_image_def unpacker_defs elem_defs Let_def image_of_common_def
        split: option.splits)
  moreover have "unpack_element env (src_elem q) = None" if "bad_quote env (src_elem q)"
    using that by (auto simp: bad_quote_def unpacker_defs elem_defs Let_def split: option.splits)
  moreover have "unpack_element env (light_app_elem l) = None" if "la_data l = []"
    using that by (simp add: unpacker_defs elem_defs Let_def inflated_text_def)
  moreover have "bad_part env (rich_elem r) = bad_rich (rich_elem r)"
    "bad_part env (common_elem c) = bad_image env (common_elem c)"
    "bad_part env (src_elem q) = bad_quote env (src_elem q)"
    "bad_part env (light_app_elem l) \<longleftrightarrow> la_data l = []"
    by (simp_all add: bad_part_def bad_rich_def bad_image_def bad_quote_def bad_light_app_def
        bad_file_def elem_defs)
  ultimately show ?thesis by blast
qed


section \<open>Witnesses\<close>

definition demo_msg_env :: msg_env where
  "demo_msg_env = \<lparr>me_msg_info = (\<lambda>_. None), me_enc_msg_info = (\<lambda>_. []),
     me_preserve = (\<lambda>b. Some \<lparr>pv_message_id = of_be b, pv_sender_uid = None, pv_client_sequence = None\<rparr>),
     me_enc_preserve = (\<lambda>p. be64 (pv_message_id p)), me_enc_mention = (\<lambda>_. []),
     me_big_face = (\<lambda>_. None), me_small_face = (\<lambda>_. None), me_group_file = (\<lambda>_. None),
     me_deflate = (\<lambda>b. b), me_inflate = Some, me_hex = id, me_unhex = Some,
     me_json_app = (\<lambda>_. None), me_xml_res_id = (\<lambda>_. None), me_random_seq = 7\<rparr>"

definition demo_quote :: ForwardEntity where
  "demo_quote = \<lparr>fw_time = 5, fw_message_id = 9, fw_sequence = 3, fw_client_sequence = 4,
     fw_uid = None, fw_target_uin = 42, fw_elems = [], fw_self_uid = None\<rparr>"

definition demo_chain :: MessageChain where
  "demo_chain = fst (builder_build demo_msg_env (build_push (AddText [104, 105])
     (set_entities [EForward demo_quote, EXml \<lparr>xm_xml = [60], xm_service_id = 2\<rparr>]
       (builder_friend demo_msg_env 42))))"

lemma demo_chain_simps [simp]:
  "mc_entities demo_chain = [EForward demo_quote, EXml \<lparr>xm_xml = [60], xm_service_id = 2\<rparr>, EText [104, 105]]"
  "mc_uid demo_chain = []"
  by (simp_all add: demo_chain_def builder_build_def build_push_def builder_friend_def chain_friend_def)

lemma sent_chain_reads_back_witness:
  "\<exists>msg. message_build demo_msg_env 0 demo_chain = Some msg \<and>
    (\<forall>body rh ch. pm_body body = ms_body msg \<and> pm_response_head body = Some rh \<and> pm_content_head body = Some ch
      \<longrightarrow> (\<exists>c'. parse_chain demo_msg_env demo_context body = Some (Inr c')
        \<and> mc_entities c' = concat [[EForward (demo_quote\<lparr>fw_sequence := 9, fw_client_sequence := 7\<rparr>)],
             [EXml \<lparr>xm_xml = [60], xm_service_id = 2\<rparr>], [EText [104, 105]]]))"
proof (rule sent_chain_reads_back)
  show "list_all (codecs_work demo_msg_env) (mc_entities demo_chain)"
    by (simp add: demo_msg_env_def demo_quote_def)
  show "sequence (map (read_back demo_msg_env) (mc_entities demo_chain))
    = Some [[EForward (demo_quote\<lparr>fw_sequence := 9, fw_client_sequence := 7\<rparr>)],
            [EXml \<lparr>xm_xml = [60], xm_service_id = 2\<rparr>], [EText [104, 105]]]"
    by (simp add: demo_msg_env_def demo_quote_def valid_utf8_ascii utf8_head_def byte_at_def)
qed

lemma message_routing_witness:
  "\<exists>msg. message_build demo_msg_env 0 demo_chain = Some msg
    \<and> rh_c2c (routing_head demo_chain) = None
    \<and> rh_trans0_x211 (routing_head demo_chain) = Some (Some 4, Some [])"
proof -
  obtain msg where m: "message_build demo_msg_env 0 demo_chain = Some msg"
    by (simp add: message_build_def build_packet_base_def pack_elements_def)
  show ?thesis using message_routing [OF m] m by simp
qed

lemma unpack_element_domain_witness:
  "unpack_element demo_msg_env (text_part (Some [104]) None) \<noteq> None
    \<and> unpack_element demo_msg_env (light_app_elem \<lparr>la_data = []\<rparr>) = None"
proof -
  have "\<not> bad_part demo_msg_env (text_part (Some [104]) None)"
    by (simp add: bad_part_def bad_rich_def bad_image_def bad_quote_def bad_light_app_def bad_file_def
        text_part_def text_elem_def)
  then show ?thesis
    using unpack_element_domain [of demo_msg_env "text_part (Some [104]) None" _ _ _ "\<lparr>la_data = []\<rparr>"]
    by simp
qed

end
