(* ===== verification/Notify_Events.thy ===== *)
theory Notify_Events
  imports Mania_Prelude
begin

text \<open>
  The events that pushed notifications are parsed into (\<open>mania/src/core/event/notify/\<close>,
  \<open>core/event/system/kick_nt.rs\<close>, \<open>core/entity/group_sys_enum.rs\<close>) and the events the listeners of
  the client receive (\<open>mania/src/event/\<close>), one record per struct.
\<close>

section \<open>Notifications\<close>

datatype GroupMemberIncreaseEventType = IncreaseUnknown | IncreaseApprove | IncreaseInvite
datatype GroupMemberDecreaseEventType =
  DecreaseUnknown | KickMe | Disband | DecreaseLeave | DecreaseKick
datatype GroupEssenceSetFlag = EssenceUnknown | EssenceSet | EssenceUnset

definition GroupMemberIncreaseEventType_try_from :: "u32 \<Rightarrow> GroupMemberIncreaseEventType option" where
  "GroupMemberIncreaseEventType_try_from n =
     (if n = 0 then Some IncreaseUnknown else if n = 130 then Some IncreaseApprove
      else if n = 131 then Some IncreaseInvite else None)"

definition GroupMemberDecreaseEventType_try_from :: "u32 \<Rightarrow> GroupMemberDecreaseEventType option" where
  "GroupMemberDecreaseEventType_try_from n =
     (if n = 0 then Some DecreaseUnknown else if n = 3 then Some KickMe
      else if n = 129 then Some Disband else if n = 130 then Some DecreaseLeave
      else if n = 131 then Some DecreaseKick else None)"

definition GroupEssenceSetFlag_try_from :: "u32 \<Rightarrow> GroupEssenceSetFlag option" where
  "GroupEssenceSetFlag_try_from n =
     (if n = 0 then Some EssenceUnknown else if n = 1 then Some EssenceSet
      else if n = 2 then Some EssenceUnset else None)"

record BotSysRenameEvent =
  brn_nickname :: rstring

record FriendSysNewEvent =
  fsn_from_uid :: rstring
  fsn_from_nickname :: rstring
  fsn_msg :: rstring

record FriendSysPokeEvent =
  fsp_operator_uin :: u32
  fsp_target_uin :: u32
  fsp_action :: rstring
  fsp_suffix :: rstring
  fsp_action_img_url :: rstring

record FriendSysRecallEvent =
  fsr_from_uid :: rstring
  fsr_client_sequence :: u32
  fsr_time :: u32
  fsr_random :: u32
  fsr_tip :: rstring

record FriendSysRenameEvent =
  fsm_uid :: rstring
  fsm_nickname :: rstring

record FriendSysRequestEvent =
  fsq_source_uin :: u32
  fsq_source_uid :: rstring
  fsq_message :: rstring
  fsq_source :: rstring

record GroupSysAdminEvent =
  gsa_group_uin :: u32
  gsa_uid :: rstring
  gsa_is_promoted :: bool

record GroupSysDecreaseEvent =
  gsd_group_uin :: u32
  gsd_member_uid :: rstring
  gsd_operator_uid :: "rstring option"
  gsd_event_type :: GroupMemberDecreaseEventType

record GroupSysEssenceEvent =
  gse_group_uin :: u32
  gse_sequence :: u32
  gse_random :: u32
  gse_set_flag :: GroupEssenceSetFlag
  gse_from_uin :: u32
  gse_operator_uin :: u32

record GroupSysIncreaseEvent =
  gsi_group_uin :: u32
  gsi_member_uid :: rstring
  gsi_invitor_uid :: "rstring option"
  gsi_event_type :: GroupMemberIncreaseEventType

record GroupSysInviteEvent =
  gsv_group_uin :: u32
  gsv_invitor_uid :: rstring

record GroupSysMemberEnterEvent =
  gsme_group_uin :: u32
  gsme_group_member_uin :: u32
  gsme_style_id :: u32

record GroupSysMemberMuteEvent =
  gsmm_group_uin :: u32
  gsmm_operator_uid :: "rstring option"
  gsmm_target_uid :: rstring
  gsmm_duration :: u32

record GroupSysMuteEvent =
  gsmu_group_uin :: u32
  gsmu_operator_uid :: "rstring option"
  gsmu_is_muted :: bool

record GroupSysNameChangeEvent =
  gsn_group_uin :: u32
  gsn_name :: rstring

record GroupSysPinChangeEvent =
  gspc_uid :: rstring
  gspc_group_uin :: "u32 option"
  gspc_is_pin :: bool

record GroupSysPokeEvent =
  gsp_group_uin :: u32
  gsp_operator_uin :: u32
  gsp_target_uin :: u32
  gsp_action :: rstring
  gsp_suffix :: rstring
  gsp_action_img_url :: rstring

record GroupSysReactionEvent =
  gsr_target_group_uin :: u32
  gsr_target_sequence :: u32
  gsr_operator_uid :: rstring
  gsr_is_add :: bool
  gsr_code :: rstring
  gsr_count :: u32

record GroupSysRecallEvent =
  gsrc_group_uin :: u32
  gsrc_author_uid :: rstring
  gsrc_operator_uid :: "rstring option"
  gsrc_sequence :: u32
  gsrc_time :: u32
  gsrc_random :: u32
  gsrc_tip :: rstring

record GroupSysRequestInvitationEvent =
  gsri_group_uin :: u32
  gsri_target_uid :: rstring
  gsri_invitor_uid :: rstring

record GroupSysRequestJoinEvent =
  gsrj_target_uid :: rstring
  gsrj_group_uin :: u32

record GroupSysSpecialTitleEvent =
  gsst_target_uin :: u32
  gsst_target_nickname :: rstring
  gsst_special_title :: rstring
  gsst_special_title_detail_url :: rstring
  gsst_group_uin :: u32

record GroupSysTodoEvent =
  gst_group_uin :: u32
  gst_operator_uid :: rstring

record KickNTEvent =
  kick_tips :: rstring
  kick_title :: rstring

record MessageResult =
  mr_message_id :: u64
  mr_sequence :: "u32 option"
  mr_result :: u32
  mr_timestamp :: u32
  mr_client_sequence :: u32

section \<open>Events for the listeners\<close>

datatype ChatType = ChatFriend | ChatGroup | ChatService

record FriendNewEvent =
  fnw_from_uin :: u32
  fnw_from_nickname :: rstring
  fnw_msg :: rstring

record FriendPokeEvent =
  fpk_operator_uin :: u32
  fpk_target_uin :: u32
  fpk_action :: rstring
  fpk_suffix :: rstring
  fpk_action_url :: rstring

record FriendRecallEvent =
  frl_friend_uin :: u32
  frl_client_sequence :: u32
  frl_time :: u32
  frl_random :: u32
  frl_tip :: rstring

record FriendRenameEvent =
  frn_uin :: u32
  frn_nickname :: rstring

record FriendRequestEvent =
  frq_source_uin :: u32
  frq_message :: rstring
  frq_source :: rstring

record GroupAdminChangedEvent =
  gac_group_uin :: u32
  gac_admin_uin :: u32
  gac_is_promote :: bool

record GroupEssenceEvent =
  ges_group_uin :: u32
  ges_sequence :: u32
  ges_random :: u32
  ges_is_set :: GroupEssenceSetFlag
  ges_from_uin :: u32
  ges_operator_uin :: u32

record GroupInvitationEvent =
  giv_group_uin :: u32
  giv_invitor_uin :: u32
  giv_sequence :: "u64 option"

record GroupInvitationRequestEvent =
  gir_group_uin :: u32
  gir_target_uin :: u32
  gir_invitor_uin :: u32

record GroupJoinRequestEvent =
  gjr_group_uin :: u32
  gjr_target_uin :: u32
  gjr_target_nickname :: rstring
  gjr_invitor_uin :: u32
  gjr_answer :: rstring
  gjr_request_seq :: u64

record GroupMemberDecreaseEvent =
  gmd_group_uin :: u32
  gmd_member_uin :: u32
  gmd_operator_uin :: "u32 option"
  gmd_event_type :: GroupMemberDecreaseEventType

record GroupMemberEnterEvent =
  gme_group_uin :: u32
  gme_group_member_uin :: u32
  gme_style_id :: u32

record GroupMemberIncreaseEvent =
  gmi_group_uin :: u32
  gmi_member_uin :: u32
  gmi_invitor_uin :: "u32 option"
  gmi_event_type :: GroupMemberIncreaseEventType

record GroupMemberMuteEvent =
  gmm_group_uin :: u32
  gmm_target_uin :: u32
  gmm_operator_uin :: "u32 option"
  gmm_duration :: u32

record GroupMuteEvent =
  gmu_group_uin :: u32
  gmu_operator_uin :: "u32 option"
  gmu_is_muted :: bool

record GroupNameChangeEvent =
  gnc_group_uin :: u32
  gnc_name :: rstring

record PinChangedEvent =
  pce_chat_type :: ChatType
  pce_uin :: u32
  pce_is_pin :: bool

record GroupPokeEvent =
  gpk_group_uin :: u32
  gpk_operator_uin :: u32
  gpk_target_uin :: u32
  gpk_action :: rstring
  gpk_suffix :: rstring
  gpk_action_img_url :: rstring

record GroupReactionEvent =
  grx_target_group_uin :: u32
  grx_target_sequence :: u32
  grx_operator_uin :: u32
  grx_is_add :: bool
  grx_code :: rstring
  grx_count :: u32

record GroupRecallEvent =
  grl_group_uin :: u32
  grl_author_uin :: u32
  grl_operator_uin :: u32
  grl_sequence :: u32
  grl_time :: u32
  grl_random :: u32
  grl_tip :: rstring

record GroupSpecialTitleEvent =
  gtl_target_uin :: u32
  gtl_target_nickname :: rstring
  gtl_special_title :: rstring
  gtl_special_title_detail_url :: rstring
  gtl_group_uin :: u32

record GroupTodoEvent =
  gtd_group_uin :: u32
  gtd_operator_uin :: u32

record BotOfflineEvent =
  bof_reason :: "rstring option"

record BotOnlineEvent =
  bon_reason :: "rstring option"

record BotRenameEvent =
  bre_nickname :: rstring

end
