(* ===== verification/Media_Events.thy ===== *)
theory Media_Events
  imports System_Events Message_Packer Notify_Events
begin

text \<open>
  The media and message events of \<open>mania/src/core/event/message/\<close>: the six uploads and the six
  downloads over \<open>NTV2RichMedia\<close>, the two file downloads, the download of a forwarded record and
  \<open>send_message.rs\<close>. A request is the protobuf message that is encoded, with the fields that are
  set; the encoders, the decoders, hex, gzip and the random number are parameters. \<open>parse\<close>
  gives what the event carries back; \<open>None\<close> is a panic.
\<close>

section \<open>The protobuf messages\<close>

record SceneInfo =
  sci_request_type :: u32
  sci_business_type :: u32
  sci_scene_type :: u32
  sci_c2c :: "(u32 \<times> rstring) option"   \<comment> \<open>account type and uid\<close>
  sci_group :: "u32 option"

record MultiMediaReqHead =
  mmh_request_id :: u32
  mmh_command :: u32
  mmh_scene :: SceneInfo
  mmh_agent_type :: u32

record UploadInfo =
  upi_file_info :: FileInfo
  upi_sub_file_type :: u32

record PicBiz =
  pb_biz_type :: u32
  pb_text_summary :: rstring
  pb_reserve_c2c :: "(u32 \<times> rstring) option"     \<comment> \<open>\<open>sub_type\<close> and \<open>field8\<close>\<close>
  pb_reserve_troop :: "(u32 \<times> rstring) option"   \<comment> \<open>\<open>sub_type\<close> and \<open>text_summary\<close>\<close>

record PttBiz =
  ptt_reserve :: bytes
  ptt_pb_reserve :: bytes
  ptt_general_flags :: bytes

record ExtBizInfo =
  ebi_pic :: PicBiz
  ebi_video_pb_reserve :: bytes
  ebi_ptt :: PttBiz

record UploadReq =
  upq_upload_info :: "UploadInfo list"
  upq_try_fast_upload_completed :: bool
  upq_srv_send_msg :: bool
  upq_client_random_id :: u64
  upq_compat_scene_type :: u32
  upq_ext_biz_info :: ExtBizInfo
  upq_client_seq :: u32
  upq_no_need_compat_msg :: bool

record DownloadReq =
  dnq_node :: IndexNode
  dnq_video :: "u32 \<times> u32"   \<comment> \<open>\<open>busi_type\<close> and \<open>scene_type\<close> of the video part\<close>

record Ntv2RichMediaReq =
  nrq_head :: MultiMediaReqHead
  nrq_upload :: "UploadReq option"
  nrq_download :: "DownloadReq option"

record SubFileInfo =
  sfi_sub_type :: u32
  sfi_u_key :: rstring
  sfi_ipv4s :: "IPv4 list"

record UploadResp =
  upr_u_key :: "rstring option"
  upr_ipv4s :: "IPv4 list"
  upr_msg_info :: "MsgInfo option"
  upr_compat_q_msg :: bytes
  upr_sub_file_infos :: "SubFileInfo list"

record DownloadResp =
  dnr_r_key_param :: rstring
  dnr_info :: "(rstring \<times> rstring) option"   \<comment> \<open>\<open>domain\<close> and \<open>url_path\<close>\<close>

record Ntv2RichMediaResp =
  nrp_upload :: "UploadResp option"
  nrp_download :: "DownloadResp option"

record media_codec =
  mdc_oidb :: "OidbSvcTrpcTcpBase \<Rightarrow> bytes"
  mdc_request :: "Ntv2RichMediaReq \<Rightarrow> bytes"
  mdc_reply :: "Ntv2RichMediaResp oidb_codec"
  mdc_custom_face :: "bytes \<Rightarrow> CustomFace option"
  mdc_not_online_image :: "bytes \<Rightarrow> NotOnlineImage option"
  mdc_rich_text :: "bytes \<Rightarrow> Elem list option"
  mdc_video_file :: "bytes \<Rightarrow> VideoFile option"
  mdc_hex :: "bytes \<Rightarrow> rstring"

section \<open>Uploads\<close>

text \<open>
  The arguments and the results of an image, a video and a record; the group event and the event
  for a user differ in whom they name and in what the reply carries for older clients.
\<close>

record ImageUploadArgs =
  iua_size :: u32
  iua_md5 :: bytes
  iua_sha1 :: bytes
  iua_name :: rstring
  iua_pic_type :: u32
  iua_sub_type :: u32
  iua_height :: u32
  iua_width :: u32
  iua_summary :: rstring

record VideoUploadArgs =
  vua_video_size :: u32
  vua_video_md5 :: bytes
  vua_video_sha1 :: bytes
  vua_video_name :: rstring
  vua_thumb_size :: u32
  vua_thumb_md5 :: bytes
  vua_thumb_sha1 :: bytes
  vua_thumb_name :: rstring
  vua_thumb_width :: u32
  vua_thumb_height :: u32
  vua_summary :: rstring

record RecordUploadArgs =
  rua_size :: u32
  rua_length :: u32
  rua_md5 :: bytes
  rua_sha1 :: bytes
  rua_name :: rstring

record 'c UploadRes =
  ulr_msg_info :: MsgInfo
  ulr_compat :: 'c
  ulr_sub_file_info :: "SubFileInfo list"
  ulr_u_key :: "rstring option"
  ulr_ipv4s :: "IPv4 list"

definition group_scene :: "u32 \<Rightarrow> u32 \<Rightarrow> u32 \<Rightarrow> SceneInfo" where
  "group_scene request_type business_type group_uin =
     \<lparr>sci_request_type = request_type, sci_business_type = business_type, sci_scene_type = 2,
      sci_c2c = None, sci_group = Some group_uin\<rparr>"

definition c2c_scene :: "u32 \<Rightarrow> u32 \<Rightarrow> rstring \<Rightarrow> SceneInfo" where
  "c2c_scene request_type business_type uid =
     \<lparr>sci_request_type = request_type, sci_business_type = business_type, sci_scene_type = 1,
      sci_c2c = Some (2, uid), sci_group = None\<rparr>"

definition media_head :: "u32 \<Rightarrow> u32 \<Rightarrow> SceneInfo \<Rightarrow> MultiMediaReqHead" where
  "media_head request_id command scene =
     \<lparr>mmh_request_id = request_id, mmh_command = command, mmh_scene = scene, mmh_agent_type = 2\<rparr>"

definition upload_req :: "u64 \<Rightarrow> UploadInfo list \<Rightarrow> u32 \<Rightarrow> ExtBizInfo \<Rightarrow> UploadReq" where
  "upload_req rnd infos compat_scene_type ext_biz_info =
     \<lparr>upq_upload_info = infos, upq_try_fast_upload_completed = True, upq_srv_send_msg = False,
      upq_client_random_id = rnd, upq_compat_scene_type = compat_scene_type,
      upq_ext_biz_info = ext_biz_info, upq_client_seq = 0, upq_no_need_compat_msg = False\<rparr>"

definition no_ptt :: PttBiz where
  "no_ptt = \<lparr>ptt_reserve = [], ptt_pb_reserve = [], ptt_general_flags = []\<rparr>"

definition image_file_info :: "ImageUploadArgs \<Rightarrow> rstring \<Rightarrow> rstring \<Rightarrow> UploadInfo" where
  "image_file_info a file_hash file_sha1 =
     \<lparr>upi_file_info = \<lparr>fi_file_size = iua_size a, fi_file_hash = file_hash, fi_file_sha1 = file_sha1,
        fi_file_name = iua_name a,
        fi_type = Some \<lparr>ft_type = 1, ft_pic_format = iua_pic_type a, ft_video_format = 0,
          ft_voice_format = 0\<rparr>,
        fi_width = iua_width a, fi_height = iua_height a, fi_time = 0, fi_original = 1\<rparr>,
      upi_sub_file_type = 0\<rparr>"

definition ImageGroupUpload_request ::
    "media_codec \<Rightarrow> u64 \<Rightarrow> u32 \<Rightarrow> ImageUploadArgs \<Rightarrow> Ntv2RichMediaReq" where
  "ImageGroupUpload_request codec rnd group_uin a =
     \<lparr>nrq_head = media_head 1 100 (group_scene 2 1 group_uin),
      nrq_upload = Some (upload_req rnd
        [image_file_info a (mdc_hex codec (iua_md5 a)) (mdc_hex codec (iua_sha1 a))] 2
        \<lparr>ebi_pic = \<lparr>pb_biz_type = iua_sub_type a, pb_text_summary = iua_summary a,
           pb_reserve_c2c = None, pb_reserve_troop = Some (iua_sub_type a, iua_summary a)\<rparr>,
         ebi_video_pb_reserve = [], ebi_ptt = no_ptt\<rparr>),
      nrq_download = None\<rparr>"

text \<open>Here \<open>file_sha1\<close> is filled with the MD5.\<close>

definition ImageC2CUpload_request ::
    "media_codec \<Rightarrow> u64 \<Rightarrow> rstring \<Rightarrow> ImageUploadArgs \<Rightarrow> Ntv2RichMediaReq" where
  "ImageC2CUpload_request codec rnd uid a =
     \<lparr>nrq_head = media_head 1 100 (c2c_scene 2 1 uid),
      nrq_upload = Some (upload_req rnd
        [image_file_info a (mdc_hex codec (iua_md5 a)) (mdc_hex codec (iua_md5 a))] 2
        \<lparr>ebi_pic = \<lparr>pb_biz_type = iua_sub_type a, pb_text_summary = iua_summary a,
           pb_reserve_c2c = Some (iua_sub_type a, iua_summary a), pb_reserve_troop = None\<rparr>,
         ebi_video_pb_reserve = [], ebi_ptt = no_ptt\<rparr>),
      nrq_download = None\<rparr>"

definition video_file_infos :: "media_codec \<Rightarrow> VideoUploadArgs \<Rightarrow> UploadInfo list" where
  "video_file_infos codec a =
     [\<lparr>upi_file_info = \<lparr>fi_file_size = vua_video_size a, fi_file_hash = mdc_hex codec (vua_video_md5 a),
         fi_file_sha1 = mdc_hex codec (vua_video_sha1 a), fi_file_name = vua_video_name a,
         fi_type = Some \<lparr>ft_type = 2, ft_pic_format = 0, ft_video_format = 0, ft_voice_format = 0\<rparr>,
         fi_width = 0, fi_height = 0, fi_time = 0, fi_original = 0\<rparr>, upi_sub_file_type = 0\<rparr>,
      \<lparr>upi_file_info = \<lparr>fi_file_size = vua_thumb_size a, fi_file_hash = mdc_hex codec (vua_thumb_md5 a),
         fi_file_sha1 = mdc_hex codec (vua_thumb_sha1 a), fi_file_name = vua_thumb_name a,
         fi_type = Some \<lparr>ft_type = 1, ft_pic_format = 0, ft_video_format = 0, ft_voice_format = 0\<rparr>,
         fi_width = vua_thumb_width a, fi_height = vua_thumb_height a, fi_time = 0,
         fi_original = 0\<rparr>, upi_sub_file_type = 100\<rparr>]"

definition video_biz :: "VideoUploadArgs \<Rightarrow> ExtBizInfo" where
  "video_biz a =
     \<lparr>ebi_pic = \<lparr>pb_biz_type = 0, pb_text_summary = vua_summary a, pb_reserve_c2c = None,
        pb_reserve_troop = None\<rparr>,
      ebi_video_pb_reserve = [0x80, 0x01, 0x00], ebi_ptt = no_ptt\<rparr>"

definition VideoGroupUpload_request ::
    "media_codec \<Rightarrow> u64 \<Rightarrow> u32 \<Rightarrow> VideoUploadArgs \<Rightarrow> Ntv2RichMediaReq" where
  "VideoGroupUpload_request codec rnd group_uin a =
     \<lparr>nrq_head = media_head 3 100 (group_scene 2 2 group_uin),
      nrq_upload = Some (upload_req rnd (video_file_infos codec a) 2 (video_biz a)),
      nrq_download = None\<rparr>"

definition VideoC2CUpload_request ::
    "media_codec \<Rightarrow> u64 \<Rightarrow> rstring \<Rightarrow> VideoUploadArgs \<Rightarrow> Ntv2RichMediaReq" where
  "VideoC2CUpload_request codec rnd uid a =
     \<lparr>nrq_head = media_head 3 100 (c2c_scene 2 2 uid),
      nrq_upload = Some (upload_req rnd (video_file_infos codec a) 2 (video_biz a)),
      nrq_download = None\<rparr>"

definition record_file_info :: "media_codec \<Rightarrow> RecordUploadArgs \<Rightarrow> UploadInfo" where
  "record_file_info codec a =
     \<lparr>upi_file_info = \<lparr>fi_file_size = rua_size a, fi_file_hash = mdc_hex codec (rua_md5 a),
        fi_file_sha1 = mdc_hex codec (rua_sha1 a), fi_file_name = rua_name a,
        fi_type = Some \<lparr>ft_type = 3, ft_pic_format = 0, ft_video_format = 0, ft_voice_format = 1\<rparr>,
        fi_width = 0, fi_height = 0, fi_time = rua_length a, fi_original = 0\<rparr>,
      upi_sub_file_type = 0\<rparr>"

definition no_pic :: PicBiz where
  "no_pic = \<lparr>pb_biz_type = 0, pb_text_summary = [], pb_reserve_c2c = None, pb_reserve_troop = None\<rparr>"

definition RecordGroupUpload_request ::
    "media_codec \<Rightarrow> u64 \<Rightarrow> u32 \<Rightarrow> RecordUploadArgs \<Rightarrow> Ntv2RichMediaReq" where
  "RecordGroupUpload_request codec rnd group_uin a =
     \<lparr>nrq_head = media_head 1 100 (group_scene 2 3 group_uin),
      nrq_upload = Some (upload_req rnd [record_file_info codec a] 2
        \<lparr>ebi_pic = no_pic, ebi_video_pb_reserve = [],
         ebi_ptt = \<lparr>ptt_reserve = [], ptt_pb_reserve = [0x08, 0x00, 0x38, 0x00],
           ptt_general_flags = [0x9a, 0x01, 0x07, 0xaa, 0x03, 0x04, 0x08, 0x08, 0x12, 0x00]\<rparr>\<rparr>),
      nrq_download = None\<rparr>"

definition RecordC2CUpload_request ::
    "media_codec \<Rightarrow> u64 \<Rightarrow> rstring \<Rightarrow> RecordUploadArgs \<Rightarrow> Ntv2RichMediaReq" where
  "RecordC2CUpload_request codec rnd uid a =
     \<lparr>nrq_head = media_head 4 100 (c2c_scene 2 3 uid),
      nrq_upload = Some (upload_req rnd [record_file_info codec a] 1
        \<lparr>ebi_pic = no_pic, ebi_video_pb_reserve = [],
         ebi_ptt = \<lparr>ptt_reserve = [0x08, 0x00, 0x38, 0x00], ptt_pb_reserve = [],
           ptt_general_flags = [0x9a, 0x01, 0x0b, 0xaa, 0x03, 0x08, 0x08, 0x04, 0x12, 0x04,
             0x00, 0x00, 0x00, 0x00]\<rparr>\<rparr>),
      nrq_download = None\<rparr>"

definition media_packet :: "media_codec \<Rightarrow> u32 \<Rightarrow> u32 \<Rightarrow> Ntv2RichMediaReq \<Rightarrow> bytes" where
  "media_packet codec command sub_command req =
     oidb_request (mdc_oidb codec) (mdc_request codec) command sub_command req False True"

definition ImageGroupUpload_build :: "media_codec \<Rightarrow> u64 \<Rightarrow> u32 \<Rightarrow> ImageUploadArgs \<Rightarrow> bytes" where
  "ImageGroupUpload_build codec rnd group_uin a =
     media_packet codec 0x11c4 100 (ImageGroupUpload_request codec rnd group_uin a)"

definition ImageC2CUpload_build :: "media_codec \<Rightarrow> u64 \<Rightarrow> rstring \<Rightarrow> ImageUploadArgs \<Rightarrow> bytes" where
  "ImageC2CUpload_build codec rnd uid a =
     media_packet codec 0x11c5 100 (ImageC2CUpload_request codec rnd uid a)"

definition VideoGroupUpload_build :: "media_codec \<Rightarrow> u64 \<Rightarrow> u32 \<Rightarrow> VideoUploadArgs \<Rightarrow> bytes" where
  "VideoGroupUpload_build codec rnd group_uin a =
     media_packet codec 0x11ea 100 (VideoGroupUpload_request codec rnd group_uin a)"

definition VideoC2CUpload_build :: "media_codec \<Rightarrow> u64 \<Rightarrow> rstring \<Rightarrow> VideoUploadArgs \<Rightarrow> bytes" where
  "VideoC2CUpload_build codec rnd uid a =
     media_packet codec 0x11e9 100 (VideoC2CUpload_request codec rnd uid a)"

definition RecordGroupUpload_build :: "media_codec \<Rightarrow> u64 \<Rightarrow> u32 \<Rightarrow> RecordUploadArgs \<Rightarrow> bytes" where
  "RecordGroupUpload_build codec rnd group_uin a =
     media_packet codec 0x126e 100 (RecordGroupUpload_request codec rnd group_uin a)"

definition RecordC2CUpload_build :: "media_codec \<Rightarrow> u64 \<Rightarrow> rstring \<Rightarrow> RecordUploadArgs \<Rightarrow> bytes" where
  "RecordC2CUpload_build codec rnd uid a =
     media_packet codec 0x126d 100 (RecordC2CUpload_request codec rnd uid a)"

section \<open>The replies to the uploads\<close>

text \<open>The reply to an upload; the two image events do not read \<open>sub_file_infos\<close>.\<close>

definition upload_parse ::
    "media_codec \<Rightarrow> (bytes \<Rightarrow> 'c option) \<Rightarrow> bytes \<Rightarrow> EventError + 'c UploadRes" where
  "upload_parse codec decode_compat packet =
     (case oidb_reply (mdc_reply codec) packet of
        Inl e \<Rightarrow> Inl e
      | Inr resp \<Rightarrow>
          (case nrp_upload resp of
             None \<Rightarrow> Inl (other_err ''Missing UploadResp'')
           | Some upload \<Rightarrow>
               (case upr_msg_info upload of
                  None \<Rightarrow> Inl (other_err ''Missing MsgInfo'')
                | Some msg_info \<Rightarrow>
                    (case decode_compat (upr_compat_q_msg upload) of
                       None \<Rightarrow> Inl ProtoParseError
                     | Some c \<Rightarrow> Inr \<lparr>ulr_msg_info = msg_info, ulr_compat = c,
                         ulr_sub_file_info = upr_sub_file_infos upload,
                         ulr_u_key = upr_u_key upload, ulr_ipv4s = upr_ipv4s upload\<rparr>))))"

definition ImageGroupUpload_parse :: "media_codec \<Rightarrow> bytes \<Rightarrow> EventError + CustomFace UploadRes" where
  "ImageGroupUpload_parse codec = upload_parse codec (mdc_custom_face codec)"

definition ImageC2CUpload_parse :: "media_codec \<Rightarrow> bytes \<Rightarrow> EventError + NotOnlineImage UploadRes" where
  "ImageC2CUpload_parse codec = upload_parse codec (mdc_not_online_image codec)"

definition VideoGroupUpload_parse :: "media_codec \<Rightarrow> bytes \<Rightarrow> EventError + VideoFile UploadRes" where
  "VideoGroupUpload_parse codec = upload_parse codec (mdc_video_file codec)"

definition VideoC2CUpload_parse :: "media_codec \<Rightarrow> bytes \<Rightarrow> EventError + VideoFile UploadRes" where
  "VideoC2CUpload_parse codec = upload_parse codec (mdc_video_file codec)"

definition RecordGroupUpload_parse :: "media_codec \<Rightarrow> bytes \<Rightarrow> EventError + Elem list UploadRes" where
  "RecordGroupUpload_parse codec = upload_parse codec (mdc_rich_text codec)"

definition RecordC2CUpload_parse :: "media_codec \<Rightarrow> bytes \<Rightarrow> EventError + Elem list UploadRes" where
  "RecordC2CUpload_parse codec = upload_parse codec (mdc_rich_text codec)"

section \<open>Downloads\<close>

definition IndexNode_default :: IndexNode where
  "IndexNode_default = \<lparr>in_info = None, in_file_uuid = [], in_store_id = 0, in_upload_time = 0,
     in_ttl = 0, in_sub_type = 0\<rparr>"

definition download_request :: "MultiMediaReqHead \<Rightarrow> IndexNode \<Rightarrow> Ntv2RichMediaReq" where
  "download_request head node =
     \<lparr>nrq_head = head, nrq_upload = None, nrq_download = Some \<lparr>dnq_node = node, dnq_video = (0, 0)\<rparr>\<rparr>"

definition ImageGroupDownload_build :: "media_codec \<Rightarrow> u32 \<Rightarrow> IndexNode \<Rightarrow> bytes" where
  "ImageGroupDownload_build codec group_uin index_node =
     media_packet codec 0x11c4 200
       (download_request (media_head 1 200 (group_scene 2 1 group_uin)) index_node)"

definition ImageC2CDownload_build :: "media_codec \<Rightarrow> rstring \<Rightarrow> IndexNode \<Rightarrow> bytes" where
  "ImageC2CDownload_build codec self_uid index_node =
     media_packet codec 0x11c5 200
       (download_request (media_head 1 200 (c2c_scene 2 1 self_uid)) index_node)"

definition node_or_uuid :: "IndexNode option \<Rightarrow> rstring \<Rightarrow> IndexNode" where
  "node_or_uuid node file_uuid =
     (case node of Some n \<Rightarrow> n | None \<Rightarrow> IndexNode_default\<lparr>in_file_uuid := file_uuid\<rparr>)"

definition RecordGroupDownload_build ::
    "media_codec \<Rightarrow> u32 \<Rightarrow> IndexNode option \<Rightarrow> rstring \<Rightarrow> bytes" where
  "RecordGroupDownload_build codec group_uin node file_uuid =
     media_packet codec 0x126E 200
       (download_request (media_head 4 200 (group_scene 1 3 group_uin)) (node_or_uuid node file_uuid))"

definition RecordC2CDownload_build ::
    "media_codec \<Rightarrow> rstring \<Rightarrow> IndexNode option \<Rightarrow> rstring \<Rightarrow> bytes" where
  "RecordC2CDownload_build codec self_uid node file_uuid =
     media_packet codec 0x126D 200
       (download_request (media_head 1 200 (c2c_scene 1 3 self_uid)) (node_or_uuid node file_uuid))"

definition video_node ::
    "IndexNode option \<Rightarrow> rstring \<Rightarrow> rstring \<Rightarrow> rstring \<Rightarrow> rstring option \<Rightarrow> IndexNode" where
  "video_node node uuid file_name file_md5 file_sha1 =
     (case node of
        Some n \<Rightarrow> n
      | None \<Rightarrow>
          \<lparr>in_info = Some \<lparr>fi_file_size = 0, fi_file_hash = file_md5, fi_file_sha1 = or_empty file_sha1,
             fi_file_name = file_name,
             fi_type = Some \<lparr>ft_type = 2, ft_pic_format = 0, ft_video_format = 0, ft_voice_format = 0\<rparr>,
             fi_width = 0, fi_height = 0, fi_time = 0, fi_original = 0\<rparr>,
           in_file_uuid = uuid, in_store_id = 0, in_upload_time = 0, in_ttl = 0, in_sub_type = 0\<rparr>)"

definition VideoC2CDownload_build ::
    "media_codec \<Rightarrow> rstring \<Rightarrow> rstring \<Rightarrow> rstring \<Rightarrow> rstring \<Rightarrow> rstring option \<Rightarrow> IndexNode option
      \<Rightarrow> bool \<Rightarrow> bytes" where
  "VideoC2CDownload_build codec self_uid uuid file_name file_md5 file_sha1 node is_grp =
     media_packet codec 0x11E9 200
       (download_request (media_head (if is_grp then 3 else 34) 200 (c2c_scene 2 2 self_uid))
         (video_node node uuid file_name file_md5 file_sha1))"

definition VideoGroupDownload_build ::
    "media_codec \<Rightarrow> u32 \<Rightarrow> rstring \<Rightarrow> rstring \<Rightarrow> rstring \<Rightarrow> rstring option \<Rightarrow> IndexNode option \<Rightarrow> bytes" where
  "VideoGroupDownload_build codec group_uin uuid file_name file_md5 file_sha1 node =
     media_packet codec 0x11EA 200
       (download_request (media_head 1 200 (group_scene 2 2 group_uin))
         (video_node node uuid file_name file_md5 file_sha1))"

definition media_link :: "rstring \<Rightarrow> rstring \<Rightarrow> rstring \<Rightarrow> rstring" where
  "media_link domain url_path r_key_param = str ''https://'' @ domain @ url_path @ r_key_param"

text \<open>The link of a reply; the two error texts differ between images and the rest.\<close>

definition download_link :: "string \<Rightarrow> string \<Rightarrow> Ntv2RichMediaResp \<Rightarrow> EventError + rstring" where
  "download_link no_download no_info resp =
     (case nrp_download resp of
        None \<Rightarrow> Inl (other_err no_download)
      | Some body \<Rightarrow>
          (case dnr_info body of
             None \<Rightarrow> Inl (other_err no_info)
           | Some (domain, url_path) \<Rightarrow> Inr (media_link domain url_path (dnr_r_key_param body))))"

text \<open>Every event but the first passes an error of the reply on; that one expects none.\<close>

definition ImageGroupDownload_parse :: "media_codec \<Rightarrow> bytes \<Rightarrow> (EventError + rstring) option" where
  "ImageGroupDownload_parse codec packet =
     (case oidb_reply (mdc_reply codec) packet of
        Inl e \<Rightarrow> None
      | Inr resp \<Rightarrow> Some (download_link ''Missing DownloadResp'' ''Missing DownloadInfo'' resp))"

definition ImageC2CDownload_parse :: "media_codec \<Rightarrow> bytes \<Rightarrow> EventError + rstring" where
  "ImageC2CDownload_parse codec packet =
     (case oidb_reply (mdc_reply codec) packet of
        Inl e \<Rightarrow> Inl e
      | Inr resp \<Rightarrow> download_link ''Missing DownloadResp'' ''Missing DownloadInfo'' resp)"

definition media_download_parse :: "media_codec \<Rightarrow> bytes \<Rightarrow> EventError + rstring" where
  "media_download_parse codec packet =
     (case oidb_reply (mdc_reply codec) packet of
        Inl e \<Rightarrow> Inl e
      | Inr resp \<Rightarrow> download_link ''Missing Ntv2RichMediaResp download response''
          ''Missing Ntv2RichMediaResp download info'' resp)"

definition RecordGroupDownload_parse :: "media_codec \<Rightarrow> bytes \<Rightarrow> EventError + rstring" where
  "RecordGroupDownload_parse = media_download_parse"

definition RecordC2CDownload_parse :: "media_codec \<Rightarrow> bytes \<Rightarrow> EventError + rstring" where
  "RecordC2CDownload_parse = media_download_parse"

definition VideoC2CDownload_parse :: "media_codec \<Rightarrow> bytes \<Rightarrow> EventError + rstring" where
  "VideoC2CDownload_parse = media_download_parse"

definition VideoGroupDownload_parse :: "media_codec \<Rightarrow> bytes \<Rightarrow> EventError + rstring" where
  "VideoGroupDownload_parse = media_download_parse"

section \<open>Files\<close>

record FileC2CDownloadReq =
  fcq_sub_command :: u32
  fcq_field2 :: i32
  fcq_receiver_uid :: rstring
  fcq_file_uuid :: rstring
  fcq_type :: i32
  fcq_file_hash :: rstring
  fcq_t2 :: i32
  fcq_field101 :: i32
  fcq_field102 :: i32
  fcq_field200 :: i32
  fcq_field99999 :: bytes

record FileC2CResult =
  fcr_sso_url :: rstring
  fcr_sso_port :: u32
  fcr_url :: rstring

record GroupFileDownload =
  gfd_ret_code :: i32
  gfd_client_wording :: rstring
  gfd_download_dns :: rstring
  gfd_download_url :: bytes

record file_codec =
  flc_oidb :: "OidbSvcTrpcTcpBase \<Rightarrow> bytes"
  flc_c2c_request :: "FileC2CDownloadReq \<Rightarrow> bytes"
  flc_c2c_reply :: "FileC2CResult option option oidb_codec"   \<comment> \<open>\<open>body\<close> and its \<open>result\<close>\<close>
  flc_group_request :: "u32 \<times> u32 \<times> u32 \<times> rstring \<Rightarrow> bytes" \<comment> \<open>group, app id, bus id, file id\<close>
  flc_group_reply :: "GroupFileDownload option oidb_codec"
  flc_hex :: "bytes \<Rightarrow> rstring"

text \<open>The fields are evaluated in the order they are written: the first missing one is the error.\<close>

definition FileC2CDownload_build ::
    "file_codec \<Rightarrow> rstring option \<Rightarrow> rstring option \<Rightarrow> rstring option \<Rightarrow> EventError + bytes" where
  "FileC2CDownload_build codec receiver_uid file_uuid file_hash =
     (case receiver_uid of
        None \<Rightarrow> Inl (other_err ''Missing receiver_uid'')
      | Some receiver \<Rightarrow>
          (case file_uuid of
             None \<Rightarrow> Inl (other_err ''Missing file_uuid'')
           | Some uuid \<Rightarrow>
               (case file_hash of
                  None \<Rightarrow> Inl (other_err ''Missing file_hash'')
                | Some h \<Rightarrow> Inr (oidb_request (flc_oidb codec) (flc_c2c_request codec) 0xe37 1200
                    \<lparr>fcq_sub_command = 1200, fcq_field2 = 1, fcq_receiver_uid = receiver,
                     fcq_file_uuid = uuid, fcq_type = 2, fcq_file_hash = h, fcq_t2 = 0,
                     fcq_field101 = 3, fcq_field102 = 103, fcq_field200 = 1,
                     fcq_field99999 = [0xC0, 0x85, 0x2C, 0x01]\<rparr> False False))))"

definition FileC2CDownload_parse :: "file_codec \<Rightarrow> bytes \<Rightarrow> EventError + rstring" where
  "FileC2CDownload_parse codec packet =
     (case oidb_reply (flc_c2c_reply codec) packet of
        Inl e \<Rightarrow> Inl e
      | Inr None \<Rightarrow> Inl (other_err ''Missing OidbSvcTrpcTcp0xE371200responseBody'')
      | Inr (Some None) \<Rightarrow> Inl (other_err ''Missing OidbSvcTrpcTcp0xE371200result'')
      | Inr (Some (Some result)) \<Rightarrow>
          Inr (str ''https://'' @ fcr_sso_url result @ str '':'' @ dec_str (unat (fcr_sso_port result))
               @ fcr_url result @ str ''&isthumb=0''))"

definition FileGroupDownload_build :: "file_codec \<Rightarrow> u32 \<Rightarrow> rstring \<Rightarrow> bytes" where
  "FileGroupDownload_build codec group_uin file_id =
     oidb_request (flc_oidb codec) (flc_group_request codec) 0x6D6 2 (group_uin, 7, 102, file_id)
       False True"

definition FileGroupDownload_parse :: "file_codec \<Rightarrow> bytes \<Rightarrow> EventError + rstring" where
  "FileGroupDownload_parse codec packet =
     (case oidb_reply (flc_group_reply codec) packet of
        Inl e \<Rightarrow> Inl e
      | Inr None \<Rightarrow> Inl (other_err ''Missing OidbSvcTrpcTcp0x6D62response'')
      | Inr (Some download) \<Rightarrow>
          if gfd_ret_code download = 0 then
            Inr (str ''https://'' @ gfd_download_dns download @ str ''/ftn_handler/''
                 @ flc_hex codec (gfd_download_url download) @ str ''/?fname='')
          else Inl (OidbPacketInternalError (gfd_ret_code download) (gfd_client_wording download)))"

section \<open>Forwarded records and sent messages\<close>

record LongMsgReq =
  lmq_uid :: "rstring option"
  lmq_res_id :: "rstring option"
  lmq_acquire :: bool
  lmq_settings :: "u32 \<times> u32 \<times> u32 \<times> u32"

record long_msg_codec =
  lgc_request :: "LongMsgReq \<Rightarrow> bytes"
  lgc_reply :: "bytes \<Rightarrow> bytes option option"                            \<comment> \<open>the payload of \<open>result\<close>\<close>
  lgc_gunzip :: "bytes \<Rightarrow> bytes option"
  lgc_actions :: "bytes \<Rightarrow> (rstring \<times> PushMsgBody list option) list option" \<comment> \<open>command and data\<close>

definition MultiMsgDownload_build ::
    "long_msg_codec \<Rightarrow> rstring option \<Rightarrow> rstring option \<Rightarrow> bytes" where
  "MultiMsgDownload_build codec uid res_id = lgc_request codec
     \<lparr>lmq_uid = uid, lmq_res_id = res_id, lmq_acquire = True, lmq_settings = (2, 0, 0, 0)\<rparr>"

text \<open>\<open>collect::<Result<Vec<_>, String>>()\<close> of a function that may panic.\<close>

fun collect_chains ::
    "(PushMsgBody \<Rightarrow> (rstring + MessageChain) option) \<Rightarrow> PushMsgBody list
      \<Rightarrow> (rstring + MessageChain list) option" where
  "collect_chains f [] = Some (Inr [])"
| "collect_chains f (b # bs) =
     do { r \<leftarrow> f b;
          try_res r (\<lambda>c. do { rs \<leftarrow> collect_chains f bs; Some (map_sum id (\<lambda>cs. c # cs) rs) }) }"

definition MultiMsgDownload_parse ::
    "long_msg_codec \<Rightarrow> msg_env \<Rightarrow> Context \<Rightarrow> bytes \<Rightarrow> (EventError + MessageChain list) option" where
  "MultiMsgDownload_parse codec env ctx packet =
     try_res (ok_or ProtoParseError (lgc_reply codec packet)) (\<lambda>result.
     try_res (ok_or (other_err ''Missing RecvLongMsgInfo'') result) (\<lambda>payload.
     try_res (ok_or (other_err ''Failed to decompress long message'') (lgc_gunzip codec payload)) (\<lambda>inflate.
     try_res (ok_or ProtoParseError (lgc_actions codec inflate)) (\<lambda>actions.
     try_res (ok_or (other_err ''Failed to find MultiMsg command'')
         (find (\<lambda>a. fst a = str ''MultiMsg'') actions)) (\<lambda>main.
     try_res (ok_or (other_err ''Failed to find action_data'') (snd main)) (\<lambda>bodies.
       map_option (map_sum OtherEventError id) (collect_chains (parse_fake_chain env ctx) bodies)))))))"

record SendMessageResponse =
  smr_result :: i32
  smr_timestamp1 :: u32
  smr_group_sequence :: "u32 option"
  smr_private_sequence :: u32

definition SendMessage_build ::
    "(Message \<Rightarrow> bytes) \<Rightarrow> msg_env \<Rightarrow> int \<Rightarrow> MessageChain \<Rightarrow> bytes option" where
  "SendMessage_build encode env now c = map_option encode (message_build env now c)"

definition SendMessage_parse ::
    "(bytes \<Rightarrow> SendMessageResponse option) \<Rightarrow> bytes \<Rightarrow> EventError + MessageResult" where
  "SendMessage_parse decode packet =
     (case decode packet of
        None \<Rightarrow> Inl ProtoParseError
      | Some res \<Rightarrow> Inr
          \<lparr>mr_message_id = 0,
           mr_sequence = Some (case smr_group_sequence res of Some q \<Rightarrow> q | None \<Rightarrow> smr_private_sequence res),
           mr_result = smr_result res, mr_timestamp = smr_timestamp1 res, mr_client_sequence = 0\<rparr>)"

section \<open>Replies to the downloads\<close>

text \<open>
  The six media events agree about the link of a reply; where the reply is an error, five return it, and
  the first panics.
\<close>

theorem download_links_agree:
  "ImageGroupDownload_parse codec packet =
     (if isl (oidb_reply (mdc_reply codec) packet) then None else Some (ImageC2CDownload_parse codec packet))
   \<and> (\<forall>link. list_all (\<lambda>parse. parse codec packet = Inr link \<longleftrightarrow> ImageC2CDownload_parse codec packet = Inr link)
        [RecordGroupDownload_parse, RecordC2CDownload_parse, VideoC2CDownload_parse, VideoGroupDownload_parse])"
  by (auto simp: ImageGroupDownload_parse_def ImageC2CDownload_parse_def RecordGroupDownload_parse_def
      RecordC2CDownload_parse_def VideoC2CDownload_parse_def VideoGroupDownload_parse_def
      media_download_parse_def download_link_def split: sum.split option.split)

end
