(* ===== verification/Image_Resolver.thy ===== *)
theory Image_Resolver
  imports Packet_Reader
begin

text \<open>
  \<open>mania/src/utility/image_resolver.rs\<close>: format and size of an image from its first bytes. The reader
  is the data and a position; the result is the new position with the outcome, \<open>None\<close> a panic (an
  addition that overflows, in a debug build). Seeking and reading do not fail otherwise.
\<close>

datatype ImageFormat = UnknownFormat | Png | Jpeg | Gif | Webp | Bmp | Tiff

definition ImageFormat_code :: "ImageFormat \<Rightarrow> u32" where
  "ImageFormat_code f =
     (case f of UnknownFormat \<Rightarrow> 0 | Png \<Rightarrow> 1001 | Jpeg \<Rightarrow> 1000 | Gif \<Rightarrow> 2000 | Webp \<Rightarrow> 1002
      | Bmp \<Rightarrow> 1005 | Tiff \<Rightarrow> 1006)"

definition ImageFormat_show :: "ImageFormat \<Rightarrow> rstring" where
  "ImageFormat_show f = str (case f of UnknownFormat \<Rightarrow> ''jpg'' | Png \<Rightarrow> ''png'' | Jpeg \<Rightarrow> ''jpeg''
     | Gif \<Rightarrow> ''gif'' | Webp \<Rightarrow> ''webp'' | Bmp \<Rightarrow> ''bmp'' | Tiff \<Rightarrow> ''tiff'')"

datatype ImageResolverError = ImgIo | ImgUnsupported

section \<open>Reading numbers\<close>

definition slice :: "nat \<Rightarrow> nat \<Rightarrow> bytes \<Rightarrow> bytes" where
  "slice a b bs = take (b - a) (drop a bs)"

definition starts_with :: "bytes \<Rightarrow> bytes \<Rightarrow> bool" where
  "starts_with p bs \<longleftrightarrow> take (length p) bs = p"

text \<open>The \<open>byteorder\<close> readers take the first bytes of the slice.\<close>

definition le16_of :: "bytes \<Rightarrow> u16" where "le16_of bs = of_be (rev (take 2 bs))"
definition le32_of :: "bytes \<Rightarrow> u32" where "le32_of bs = of_be (rev (take 4 bs))"
definition be32_of :: "bytes \<Rightarrow> u32" where "be32_of bs = of_be (take 4 bs)"

definition add1_u16 :: "u16 \<Rightarrow> u32 option" where
  "add1_u16 w = (if w = 0xFFFF then None else Some (ucast (w + 1)))"

section \<open>The resolver\<close>

text \<open>The search for a start-of-frame marker, \<open>FF C0\<close> to \<open>FF C3\<close>, byte by byte.\<close>

definition is_sof :: "bytes \<Rightarrow> nat \<Rightarrow> bool" where
  "is_sof data i \<longleftrightarrow> le16_of [data ! i, data ! (i + 1)] AND 0xFCFF = 0xC0FF"

definition jpeg_size :: "bytes \<Rightarrow> u32 \<times> u32" where
  "jpeg_size data =
     (case find (is_sof data) [2..<length data - 10] of
        None \<Rightarrow> (0, 0)
      | Some i \<Rightarrow> (ucast (le16_of (slice (i + 7) (i + 9) data)),
                   ucast (le16_of (slice (i + 5) (i + 7) data))))"

definition webp_size :: "bytes \<Rightarrow> (u32 \<times> u32) option" where
  "webp_size header =
     (let chunk_type = slice 12 16 header in
      if chunk_type = str ''VP8X'' then
        do { width \<leftarrow> add1_u16 (le16_of (slice 24 27 header));
             height \<leftarrow> add1_u16 (le16_of (slice 27 30 header));
             Some (width, height) }
      else if chunk_type = str ''VP8L'' then
        Some ((le32_of (slice 21 25 header) AND 0x3FFF) + 1,
              (le32_of (slice 21 25 header) AND 0xFFFC000) + 1)
      else Some (ucast (le16_of (slice 26 28 header)), ucast (le16_of (slice 28 30 header))))"

definition resolve_image_metadata ::
    "bytes \<Rightarrow> nat \<Rightarrow> (nat \<times> (ImageResolverError + ImageFormat \<times> u32 \<times> u32)) option" where
  "resolve_image_metadata data current_pos =
     (if length data < 32 then Some (length data, Inl ImgIo)
      else let header = take 32 data in
        if starts_with (str ''GIF89a'') header \<or> starts_with (str ''GIF87a'') header then
          Some (current_pos, Inr (Gif, ucast (le16_of (slice 6 8 header)), ucast (le16_of (slice 8 10 header))))
        else if starts_with [0xFF, 0xD8] header then
          (let (width, height) = jpeg_size data in Some (current_pos, Inr (Jpeg, width, height)))
        else if starts_with [0x89, 0x50, 0x4E, 0x47, 0x0D, 0x0A, 0x1A, 0x0A] header then
          Some (current_pos, Inr (Png, be32_of (slice 16 20 header), be32_of (slice 20 24 header)))
        else if starts_with (str ''RIFF'') header \<and> slice 8 12 header = str ''WEBP'' then
          do { (width, height) \<leftarrow> webp_size header; Some (current_pos, Inr (Webp, width, height)) }
        else if starts_with (str ''BM'') header then
          Some (current_pos, Inr (Bmp, ucast (le16_of (slice 18 20 header)), ucast (le16_of (slice 22 24 header))))
        else if starts_with (str ''II'') header \<or> starts_with (str ''MM'') header then
          Some (current_pos, Inr (Tiff, ucast (le16_of (slice 18 20 header)), ucast (le16_of (slice 30 32 header))))
        else Some (current_pos, Inl ImgUnsupported))"

section \<open>What it finds\<close>

definition le16_bytes :: "u16 \<Rightarrow> bytes" where "le16_bytes w = rev (be16 w)"
definition le32_bytes :: "u32 \<Rightarrow> bytes" where "le32_bytes w = rev (be32 w)"

lemma le_lengths [simp]: "length (le16_bytes w) = 2" "length (le32_bytes v) = 4"
  by (simp_all add: le16_bytes_def le32_bytes_def)

lemma le_reads [simp]:
  "le16_of (le16_bytes w @ rest) = w" "le32_of (le32_bytes v @ rest) = v" "be32_of (be32 v @ rest) = v"
  "le16_of (le16_bytes w) = w" "le32_of (le32_bytes v) = v" "be32_of (be32 v) = v"
  by (simp_all add: le16_of_def le16_bytes_def le32_of_def le32_bytes_def be32_of_def)

lemma slice_append:
  "length a = n \<Longrightarrow> length b = m - n \<Longrightarrow> n \<le> m \<Longrightarrow> m \<le> 32 \<Longrightarrow> slice n m (take 32 (a @ b @ c)) = b"
  by (simp add: slice_def drop_take)

lemma starts_with_append:
  "length a \<le> 32 \<Longrightarrow> length p \<le> length a \<Longrightarrow> starts_with p (take 32 (a @ rest)) \<longleftrightarrow> take (length p) a = p"
  by (simp add: starts_with_def)

definition PNG_MAGIC :: bytes where
  "PNG_MAGIC = [0x89, 0x50, 0x4E, 0x47, 0x0D, 0x0A, 0x1A, 0x0A]"

lemma png_resolved:
  assumes "length chunk = 8" and "8 \<le> length rest"
  shows "resolve_image_metadata (PNG_MAGIC @ chunk @ be32 w @ be32 h @ rest) pos
    = Some (pos, Inr (Png, w, h))"
proof -
  have "slice 16 20 (take 32 (PNG_MAGIC @ chunk @ be32 w @ be32 h @ rest)) = be32 w"
    using slice_append [of "PNG_MAGIC @ chunk" 16 "be32 w" 20 "be32 h @ rest"] assms
    by (simp add: PNG_MAGIC_def)
  moreover have "slice 20 24 (take 32 (PNG_MAGIC @ chunk @ be32 w @ be32 h @ rest)) = be32 h"
    using slice_append [of "PNG_MAGIC @ chunk @ be32 w" 20 "be32 h" 24 rest] assms
    by (simp add: PNG_MAGIC_def)
  moreover have "starts_with p (take 32 (PNG_MAGIC @ chunk @ be32 w @ be32 h @ rest))
      \<longleftrightarrow> take (length p) PNG_MAGIC = p" if "length p \<le> 8" for p
    using starts_with_append [of PNG_MAGIC p "chunk @ be32 w @ be32 h @ rest"] that
    by (simp add: PNG_MAGIC_def)
  ultimately show ?thesis
    using assms by (simp add: resolve_image_metadata_def Let_def) (simp add: PNG_MAGIC_def str_def)
qed

lemma gif_resolved:
  assumes "version = str ''GIF89a'' \<or> version = str ''GIF87a''" and "22 \<le> length rest"
  shows "resolve_image_metadata (version @ le16_bytes w @ le16_bytes h @ rest) pos
    = Some (pos, Inr (Gif, ucast w, ucast h))"
proof -
  have v: "length version = 6" using assms(1) by (auto simp: str_def)
  have "slice 6 8 (take 32 (version @ le16_bytes w @ le16_bytes h @ rest)) = le16_bytes w"
    using slice_append [of version 6 "le16_bytes w" 8 "le16_bytes h @ rest"] v by simp
  moreover have "slice 8 10 (take 32 (version @ le16_bytes w @ le16_bytes h @ rest)) = le16_bytes h"
    using slice_append [of "version @ le16_bytes w" 8 "le16_bytes h" 10 rest] v by simp
  moreover have "starts_with (str ''GIF89a'') (take 32 (version @ le16_bytes w @ le16_bytes h @ rest))
      \<or> starts_with (str ''GIF87a'') (take 32 (version @ le16_bytes w @ le16_bytes h @ rest))"
    using assms(1) by (auto simp: starts_with_def str_def)
  ultimately show ?thesis
    using assms(2) v by (simp add: resolve_image_metadata_def Let_def)
qed

lemma bmp_resolved:
  assumes "length header = 16" and "8 \<le> length rest" and "length hi = 2"
  shows "resolve_image_metadata (str ''BM'' @ header @ le16_bytes w @ hi @ le16_bytes h @ rest) pos
    = Some (pos, Inr (Bmp, ucast w, ucast h))"
proof -
  let ?d = "str ''BM'' @ header @ le16_bytes w @ hi @ le16_bytes h @ rest"
  have bm: "length (str ''BM'') = 2" by (simp add: str_def)
  have "slice 18 20 (take 32 ?d) = le16_bytes w"
    using slice_append [of "str ''BM'' @ header" 18 "le16_bytes w" 20 "hi @ le16_bytes h @ rest"] assms bm by simp
  moreover have "slice 22 24 (take 32 ?d) = le16_bytes h"
    using slice_append [of "str ''BM'' @ header @ le16_bytes w @ hi" 22 "le16_bytes h" 24 rest] assms bm by simp
  ultimately show ?thesis
    using assms bm by (simp add: resolve_image_metadata_def Let_def) (simp add: starts_with_def str_def)
qed

text \<open>
  C40: The size of an image is read without moving the reader. On at least 32 bytes the position
  is as it was whenever the resolver returns, with a result or with \<open>Unsupported\<close>; shorter data is
  an input error. PNG, GIF and BMP headers give the format and the width and height they state.
\<close>

theorem image_metadata:
  "(32 \<le> length data \<longrightarrow> (case resolve_image_metadata data pos of
      Some (pos', r) \<Rightarrow> pos' = pos \<and> r \<noteq> Inl ImgIo | None \<Rightarrow> starts_with (str ''RIFF'') (take 32 data)))
    \<and> (length chunk = 8 \<and> 8 \<le> length rest \<longrightarrow>
      resolve_image_metadata (PNG_MAGIC @ chunk @ be32 w @ be32 h @ rest) pos = Some (pos, Inr (Png, w, h)))
    \<and> (22 \<le> length rest \<longrightarrow>
      resolve_image_metadata (str ''GIF89a'' @ le16_bytes w' @ le16_bytes h' @ rest) pos
        = Some (pos, Inr (Gif, ucast w', ucast h')))
    \<and> (length header = 16 \<and> length hi = 2 \<and> 8 \<le> length rest \<longrightarrow>
      resolve_image_metadata (str ''BM'' @ header @ le16_bytes w' @ hi @ le16_bytes h' @ rest) pos
        = Some (pos, Inr (Bmp, ucast w', ucast h')))"
  by (auto simp: png_resolved gif_resolved bmp_resolved)
    (auto simp: resolve_image_metadata_def Let_def split_beta split: Option.bind_splits option.split)

theorem image_metadata_witness:
  "resolve_image_metadata (PNG_MAGIC @ replicate 8 0 @ be32 640 @ be32 480 @ replicate 8 0) 5
     = Some (5, Inr (Png, 640, 480))"
  using image_metadata [where chunk = "replicate 8 0" and rest = "replicate 8 0" and pos = 5
      and w = 640 and h = 480] by simp

lemma webp_lossless_resolved:
  assumes "length a = 4" and "length b = 5" and "7 \<le> length rest"
  shows "resolve_image_metadata (str ''RIFF'' @ a @ str ''WEBP'' @ str ''VP8L'' @ b @ le32_bytes bits @ rest) pos
    = Some (pos, Inr (Webp, (bits AND 0x3FFF) + 1, (bits AND 0xFFFC000) + 1))"
proof -
  let ?d = "str ''RIFF'' @ a @ str ''WEBP'' @ str ''VP8L'' @ b @ le32_bytes bits @ rest"
  have l: "length (str ''RIFF'') = 4" "length (str ''WEBP'') = 4" "length (str ''VP8L'') = 4"
    by (simp_all add: str_def)
  have "slice 8 12 (take 32 ?d) = str ''WEBP''"
    using slice_append [of "str ''RIFF'' @ a" 8 "str ''WEBP''" 12 "str ''VP8L'' @ b @ le32_bytes bits @ rest"]
      assms l by simp
  moreover have "slice 12 16 (take 32 ?d) = str ''VP8L''"
    using slice_append [of "str ''RIFF'' @ a @ str ''WEBP''" 12 "str ''VP8L''" 16 "b @ le32_bytes bits @ rest"]
      assms l by simp
  moreover have "slice 21 25 (take 32 ?d) = le32_bytes bits"
    using slice_append [of "str ''RIFF'' @ a @ str ''WEBP'' @ str ''VP8L'' @ b" 21 "le32_bytes bits" 25 rest]
      assms l by simp
  moreover have "str ''VP8L'' \<noteq> str ''VP8X''" by (simp add: str_def)
  ultimately show ?thesis
    using assms l
    by (simp add: resolve_image_metadata_def webp_size_def Let_def) (simp add: starts_with_def str_def)
qed

lemma jpeg_resolved:
  assumes "32 \<le> length data" and "take 2 data = [0xFF, 0xD8]"
    and "find (is_sof data) [2..<length data - 10] = Some i"
    and "slice (i + 5) (i + 7) data = be16 h" and "slice (i + 7) (i + 9) data = be16 w"
  shows "resolve_image_metadata data pos
    = Some (pos, Inr (Jpeg, ucast (le16_of (be16 w)), ucast (le16_of (be16 h))))"
proof -
  obtain rest where "data = 0xFF # 0xD8 # rest"
    using assms(2) append_take_drop_id [of 2 data] by (metis append_Cons append_Nil)
  then show ?thesis
    using assms by (simp add: resolve_image_metadata_def Let_def jpeg_size_def)
      (simp add: starts_with_def str_def)
qed

text \<open>
  Two sizes are misread. A JPEG states its height and width in network byte order five and
  seven bytes after its start-of-frame marker; the resolver returns both with their bytes swapped.
  A lossless WebP keeps the height minus one in the bits 14 to 27 of a word; the resolver does not
  shift them down, and returns 16384 times that number, plus one.
\<close>

theorem image_size_misread:
  assumes "32 \<le> length data" and "take 2 data = [0xFF, 0xD8]"
    and "find (is_sof data) [2..<length data - 10] = Some i"
    and "slice (i + 5) (i + 7) data = be16 h" and "slice (i + 7) (i + 9) data = be16 w"
    and "length a = 4" and "length b = 5" and "7 \<le> length rest"
  shows "resolve_image_metadata data pos
      = Some (pos, Inr (Jpeg, ucast (le16_of (be16 w)), ucast (le16_of (be16 h))))
    \<and> resolve_image_metadata (str ''RIFF'' @ a @ str ''WEBP'' @ str ''VP8L'' @ b @ le32_bytes bits @ rest) pos
      = Some (pos, Inr (Webp, (bits AND 0x3FFF) + 1, 16384 * (drop_bit 14 bits AND 0x3FFF) + 1))"
proof -
  have "bits AND 0xFFFC000 = push_bit 14 (drop_bit 14 bits AND 0x3FFF)"
  proof (rule bit_word_eqI)
    fix n assume n: "n < LENGTH(32)"
    have m: "bit (0xFFFC000 :: u32) n \<longleftrightarrow> 14 \<le> n \<and> bit (0x3FFF :: u32) (n - 14)"
    proof -
      have e: "(0xFFFC000 :: u32) = push_bit 14 0x3FFF" by (simp add: push_bit_eq_mult)
      show ?thesis unfolding e bit_push_bit_iff using n by simp
    qed
    show "bit (bits AND 0xFFFC000) n \<longleftrightarrow> bit (push_bit 14 (drop_bit 14 bits AND 0x3FFF)) n"
      using n m by (auto simp: bit_simps)
  qed
  then show ?thesis
    using jpeg_resolved [OF assms(1-5)] webp_lossless_resolved [OF assms(6-8), of bits pos]
    by (simp add: push_bit_eq_mult mult.commute)
qed

definition demo_jpeg :: bytes where
  "demo_jpeg = [0xFF, 0xD8, 0xFF, 0xC0, 0, 17, 8] @ be16 480 @ be16 640 @ replicate 30 0"

theorem image_size_misread_witness:
  "resolve_image_metadata demo_jpeg 0 = Some (0, Inr (Jpeg, 0x8002, 0xE001))"
proof -
  have b: "be16 480 = [1, 0xE0]" "be16 640 = [2, 0x80]" by code_simp+
  have f: "find (is_sof demo_jpeg) [2..<length demo_jpeg - 10] = Some 2"
    by (simp add: demo_jpeg_def b is_sof_def upt_rec le16_of_def) code_simp
  have s: "slice (2 + 5) (2 + 7) demo_jpeg = be16 480" "slice (2 + 7) (2 + 9) demo_jpeg = be16 640"
      "32 \<le> length demo_jpeg" "take 2 demo_jpeg = [0xFF, 0xD8]"
    by (simp_all add: demo_jpeg_def b slice_def)
  have l: "length (replicate 4 0 :: bytes) = 4" "length (replicate 5 0 :: bytes) = 5"
      "7 \<le> length (replicate 7 0 :: bytes)" by simp_all
  have "resolve_image_metadata demo_jpeg 0
      = Some (0, Inr (Jpeg, ucast (le16_of (be16 640)), ucast (le16_of (be16 480))))"
    using image_size_misread [OF s(3,4) f s(1,2) l] by blast
  moreover have "ucast (le16_of (be16 640)) = (0x8002 :: u32)" "ucast (le16_of (be16 480)) = (0xE001 :: u32)"
    by code_simp+
  ultimately show ?thesis by simp
qed

end
