(* ===== verification/Audio_Codec.thy ===== *)
theory Audio_Codec
  imports Image_Resolver
begin

text \<open>
  \<open>mania-codec/src/audio.rs\<close> with its decoder (\<open>decoder/symphonia_decoder.rs\<close>), resampler
  (\<open>resampler/rubato_resampler.rs\<close>) and encoder (\<open>encoder/silk_encoder.rs\<close>): audio of any format becomes
  silk data at 48 kHz. The three libraries they drive are parameters: what they return may depend on
  all they were given before. A sample of type \<open>f32\<close> is its 32 bits and never looked at; one of type
  \<open>i16\<close> is a word. Panics are values here (\<open>Panicked\<close>), as the task that runs the conversion turns them
  into errors; \<open>None\<close> is a loop that does not end.
\<close>

section \<open>Errors and streams\<close>

type_synonym f32 = u32

datatype SilkError =
    EncInputInvalidNoOfSamples
  | EncFsNotSupported
  | EncPacketSizeNotSupported
  | EncPayloadBufTooShort
  | EncInvalidLossRate
  | EncInvalidComplexitySetting
  | EncInvalidInbandFecSetting
  | EncInvalidDtxSetting
  | EncInternalError
  | DecInvalidSamplingFrequency
  | DecPayloadTooLarge
  | DecPayloadError

definition SilkError_try_from :: "i32 \<Rightarrow> SilkError option" where
  "SilkError_try_from code = map_of
     [(-1, EncInputInvalidNoOfSamples), (-2, EncFsNotSupported), (-3, EncPacketSizeNotSupported),
      (-4, EncPayloadBufTooShort), (-5, EncInvalidLossRate), (-6, EncInvalidComplexitySetting),
      (-7, EncInvalidInbandFecSetting), (-8, EncInvalidDtxSetting), (-9, EncInternalError),
      (-10, DecInvalidSamplingFrequency), (-11, DecPayloadTooLarge), (-12, DecPayloadError)] (sint code)"

datatype AudioCodecDecoderError = SymphoniaKnownError rstring | SymphoniaUnknownError rstring
datatype AudioCodecResamplerError = RubatoResampleError rstring | RubatoResamplerConstructionError rstring
datatype AudioCodecEncoderError = SilkEncoderKnownError SilkError | SilkEncoderUnknownError i32

datatype 'e stop = Panicked | Failed 'e

record AudioInfo =
  ai_sample_rate :: u32
  ai_channels :: u16
  ai_time :: u32

definition AudioInfo_new :: "u32 \<Rightarrow> u16 \<Rightarrow> AudioInfo" where
  "AudioInfo_new sample_rate channels =
     \<lparr>ai_sample_rate = sample_rate, ai_channels = channels, ai_time = 0\<rparr>"

record 'a AudioResampleStream =
  ars_stream :: "'a list"
  ars_info :: AudioInfo

record AudioEncodeStream =
  aes_stream :: bytes
  aes_info :: AudioInfo

section \<open>The decoder\<close>

record sym_packet =
  spk_track :: u32
  spk_decoded :: "rstring + f32 list list"   \<comment> \<open>the planes, converted to \<open>f32\<close>\<close>

record sym_track =
  stk_id :: u32
  stk_params :: "u32 option option option"
    \<comment> \<open>codec parameters, those of an audio codec, and the sample rate\<close>

record symphonia =
  sym_probe :: "bytes \<Rightarrow> rstring + sym_track option \<times> (rstring + sym_packet) list"
  sym_decoder :: "bytes \<Rightarrow> rstring option"    \<comment> \<open>why there is no decoder for it\<close>

text \<open>Only the first channel is kept.\<close>

definition conv_plane :: "f32 list list \<Rightarrow> f32 list" where
  "conv_plane planes = (case planes of [] \<Rightarrow> [] | plane # _ \<Rightarrow> plane)"

text \<open>The loop ends at the end of the packets, and at the first one that cannot be read.\<close>

fun decode_packets :: "u32 \<Rightarrow> (rstring + sym_packet) list \<Rightarrow> AudioCodecDecoderError + f32 list" where
  "decode_packets track_id [] = Inr []"
| "decode_packets track_id (Inl e # ps) = Inr []"
| "decode_packets track_id (Inr p # ps) =
     (if spk_track p \<noteq> track_id then decode_packets track_id ps
      else case spk_decoded p of
        Inl e \<Rightarrow> Inl (SymphoniaKnownError e)
      | Inr planes \<Rightarrow> map_sum id (\<lambda>pcm. conv_plane planes @ pcm) (decode_packets track_id ps))"

definition unknown_err :: "string \<Rightarrow> AudioCodecDecoderError" where
  "unknown_err s = SymphoniaUnknownError (str s)"

definition SymphoniaDecoder_decode :: "symphonia \<Rightarrow> bytes \<Rightarrow> AudioCodecDecoderError + f32 AudioResampleStream" where
  "SymphoniaDecoder_decode lib d =
     (case sym_probe lib d of
        Inl e \<Rightarrow> Inl (SymphoniaKnownError e)
      | Inr (None, _) \<Rightarrow> Inl (unknown_err ''no audio track'')
      | Inr (Some track, packets) \<Rightarrow>
          (case stk_params track of
             None \<Rightarrow> Inl (unknown_err ''codec parameters missing'')
           | Some None \<Rightarrow> Inl (unknown_err ''audio parameters missing'')
           | Some (Some rate) \<Rightarrow>
               (case sym_decoder lib d of
                  Some e \<Rightarrow> Inl (SymphoniaKnownError e)
                | None \<Rightarrow>
                    (case rate of
                       None \<Rightarrow> Inl (unknown_err ''sample rate missing'')
                     | Some sample_rate \<Rightarrow>
                         map_sum id (\<lambda>pcm. \<lparr>ars_stream = pcm, ars_info = AudioInfo_new sample_rate 1\<rparr>)
                           (decode_packets (stk_id track) packets)))))"

section \<open>The resampler\<close>

text \<open>What \<open>rubato\<close> does after some calls, given the inputs of those calls.\<close>

record rubato =
  rub_frames_next :: "f32 list list \<Rightarrow> nat"
  rub_process :: "f32 list list \<Rightarrow> f32 list \<Rightarrow> rstring + nat \<times> f32 list"  \<comment> \<open>frames read, output\<close>
  rub_partial :: "f32 list list \<Rightarrow> f32 list \<Rightarrow> rstring + f32 list"

partial_function (option) resample_loop ::
    "rubato \<Rightarrow> f32 list \<Rightarrow> nat \<Rightarrow> f32 list list \<Rightarrow> (rstring + nat \<times> f32 list list \<times> f32 list) option" where
  "resample_loop rub pcm pos hist =
     (if pos + rub_frames_next rub hist < length pcm then
        (case rub_process rub hist (drop pos pcm) of
           Inl e \<Rightarrow> Some (Inl e)
         | Inr (in_len, out) \<Rightarrow>
             do { r \<leftarrow> resample_loop rub pcm (pos + in_len) (hist @ [drop pos pcm]);
                  Some (map_sum id (\<lambda>(p, h, rest). (p, h, out @ rest)) r) })
      else Some (Inr (pos, hist, [])))"

record audio_env =
  aue_symphonia :: symphonia
  aue_rubato :: "nat \<Rightarrow> nat \<Rightarrow> rstring + rubato"     \<comment> \<open>from one rate to the other, in blocks of 1024\<close>
  aue_to_i16 :: "f32 \<Rightarrow> u16 option"               \<comment> \<open>scaled by 32767; none outside the range\<close>
  aue_silk_size :: "i32 \<times> i32"                    \<comment> \<open>code, and size of the encoder\<close>
  aue_silk_init :: i32
  aue_silk_encode :: "u32 \<Rightarrow> u32 \<Rightarrow> bytes list \<Rightarrow> bytes \<Rightarrow> i32 \<times> u16 \<times> (nat \<Rightarrow> u8)"
    \<comment> \<open>rates, std_chunks before, chunk: code, output size, output buffer\<close>
  aue_debug_decode :: "AudioCodecDecoderError \<Rightarrow> rstring"
  aue_debug_resample :: "AudioCodecResamplerError \<Rightarrow> rstring"
  aue_debug_encode :: "AudioCodecEncoderError \<Rightarrow> rstring"
  aue_debug_join :: rstring

text \<open>
  For a sample rate of zero the capacity is infinite, and its sum with 1024 overflows. A sample that is
  out of range after scaling is left out.
\<close>

definition RubatoResampler_resample ::
    "audio_env \<Rightarrow> u32 \<Rightarrow> f32 AudioResampleStream
      \<Rightarrow> (AudioCodecResamplerError stop + u16 AudioResampleStream) option" where
  "RubatoResampler_resample env target_sample_rate input =
     (let pcm_in = ars_stream input; sr_in = ai_sample_rate (ars_info input) in
      if sr_in = 0 \<and> pcm_in \<noteq> [] \<and> target_sample_rate \<noteq> 0 then Some (Inl Panicked)
      else case aue_rubato env (unat sr_in) (unat target_sample_rate) of
        Inl e \<Rightarrow> Some (Inl (Failed (RubatoResamplerConstructionError e)))
      | Inr rub \<Rightarrow>
          do { r \<leftarrow> resample_loop rub pcm_in 0 [];
               let last = (case r of
                   Inl e \<Rightarrow> Inl e
                 | Inr (pos, hist, out) \<Rightarrow>
                     if pos < length pcm_in
                     then map_sum id (\<lambda>rest. out @ rest) (rub_partial rub hist (drop pos pcm_in))
                     else Inr out);
               Some (case last of
                   Inl e \<Rightarrow> Inl (Failed (RubatoResampleError e))
                 | Inr pcm_out \<Rightarrow> Inr \<lparr>ars_stream = List.map_filter (aue_to_i16 env) pcm_out,
                     ars_info = AudioInfo_new target_sample_rate 1\<rparr>) })"

section \<open>The encoder\<close>

definition silk_failed :: "i32 \<Rightarrow> AudioCodecEncoderError" where
  "silk_failed code =
     (case SilkError_try_from code of
        Some e \<Rightarrow> SilkEncoderKnownError e | None \<Rightarrow> SilkEncoderUnknownError code)"

text \<open>\<open>chunks\<close> of the standard library, for a positive size.\<close>

definition std_chunks :: "nat \<Rightarrow> 'a list \<Rightarrow> 'a list list" where
  "std_chunks n xs = map (\<lambda>i. take n (drop (i * n) xs)) [0..<(length xs + n - 1) div n]"

text \<open>The output size is signed: a negative one is beyond the buffer of 1250 bytes, too.\<close>

fun encode_chunks ::
    "(bytes list \<Rightarrow> bytes \<Rightarrow> i32 \<times> u16 \<times> (nat \<Rightarrow> u8)) \<Rightarrow> nat \<Rightarrow> bytes list \<Rightarrow> bytes list
      \<Rightarrow> AudioCodecEncoderError stop + bytes" where
  "encode_chunks enc frame_size hist [] = Inr []"
| "encode_chunks enc frame_size hist (c # cs) =
     (if length c < frame_size then Inr []
      else case enc hist c of
        (code, output_size, buf) \<Rightarrow>
          if code \<noteq> 0 then Inl (Failed (silk_failed code))
          else if 1250 < unat output_size then Inl Panicked
          else map_sum id (\<lambda>rest. le16_bytes output_size @ map buf [0..<unat output_size] @ rest)
            (encode_chunks enc frame_size (hist @ [c]) cs))"

definition SILK_HEADER :: bytes where
  "SILK_HEADER = 2 # str ''#!SILK_V3''"

text \<open>
  The size of a packet is computed in 32 bits; \<open>vec!\<close> panics for a negative size, \<open>chunks\<close> for zero.
\<close>

definition SilkEncoder_encode ::
    "audio_env \<Rightarrow> u32 \<Rightarrow> u16 AudioResampleStream \<Rightarrow> AudioCodecEncoderError stop + AudioEncodeStream" where
  "SilkEncoder_encode env bit_rate input =
     (let sample_rate = ai_sample_rate (ars_info input);
          stream = concat (map le16_bytes (ars_stream input));
          frame_size = unat sample_rate div 1000 * 40 in
      if 2 ^ 32 \<le> 20 * unat sample_rate then Inl Panicked
      else if fst (aue_silk_size env) \<noteq> 0 then Inl (Failed (silk_failed (fst (aue_silk_size env))))
      else if sint (snd (aue_silk_size env)) < 0 then Inl Panicked
      else if aue_silk_init env \<noteq> 0 then Inl (Failed (silk_failed (aue_silk_init env)))
      else if frame_size = 0 then Inl Panicked
      else map_sum id (\<lambda>result. \<lparr>aes_stream = SILK_HEADER @ result, aes_info = ars_info input\<rparr>)
        (encode_chunks (aue_silk_encode env sample_rate bit_rate) frame_size [] (std_chunks frame_size stream)))"

section \<open>Termination of the resampler\<close>

text \<open>
  If every call reads at least one frame, the loop returns. (A call that reads none is repeated with
  the same input.)
\<close>

theorem resampler_returns:
  assumes "\<And>sr_in sr_out rub hist xs n out. aue_rubato env sr_in sr_out = Inr rub \<Longrightarrow>
      rub_process rub hist xs = Inr (n, out) \<Longrightarrow> 0 < n"
  shows "\<exists>r. RubatoResampler_resample env rate input = Some r"
proof -
  have loop: "\<exists>r. resample_loop rub pcm pos hist = Some r"
    if "aue_rubato env a b = Inr rub" for rub pcm pos hist a b
  proof (induction "length pcm - pos" arbitrary: pos hist rule: less_induct)
    case less
    show ?case
    proof (cases "pos + rub_frames_next rub hist < length pcm")
      case True
      show ?thesis
      proof (cases "rub_process rub hist (drop pos pcm)")
        case (Inr x)
        obtain n out where x: "x = (n, out)" by (cases x)
        have "0 < n" using assms [OF that] Inr x by simp
        then have "length pcm - (pos + n) < length pcm - pos" using True by simp
        from less [OF this] obtain r where "resample_loop rub pcm (pos + n) (hist @ [drop pos pcm]) = Some r"
          by blast
        then show ?thesis using True Inr x by (subst resample_loop.simps) simp
      qed (use True in \<open>simp add: resample_loop.simps\<close>)
    qed (simp add: resample_loop.simps)
  qed
  show ?thesis
    by (cases "aue_rubato env (unat (ai_sample_rate (ars_info input))) (unat rate)")
      (use loop in \<open>auto simp: RubatoResampler_resample_def Let_def bind_eq_Some_conv\<close>)
qed

section \<open>The layout of silk data\<close>

text \<open>A block is its length in two bytes, little end first, and its bytes.\<close>

definition silk_block :: "bytes \<Rightarrow> bytes" where
  "silk_block b = le16_bytes (of_nat (length b)) @ b"

lemma encode_chunks_blocks:
  assumes "encode_chunks enc n hist cs = Inr r"
  shows "\<exists>bs. r = concat (map silk_block bs) \<and> (\<forall>b \<in> set bs. length b \<le> 1250)
    \<and> length bs = length (takeWhile (\<lambda>c. n \<le> length c) cs)"
  using assms
proof (induction cs arbitrary: hist r)
  case (Cons c cs)
  show ?case
  proof (cases "length c < n")
    case False
    obtain code size buf where e: "enc hist c = (code, size, buf)" by (cases "enc hist c")
    then obtain rest where rest: "encode_chunks enc n (hist @ [c]) cs = Inr rest" "unat size \<le> 1250"
      "r = le16_bytes size @ map buf [0..<unat size] @ rest"
      using Cons.prems False
      by (cases "encode_chunks enc n (hist @ [c]) cs") (auto split: if_split_asm)
    from Cons.IH [OF rest(1)] obtain bs where bs: "rest = concat (map silk_block bs)"
      "\<forall>b \<in> set bs. length b \<le> 1250" "length bs = length (takeWhile (\<lambda>c. n \<le> length c) cs)" by blast
    have "silk_block (map buf [0..<unat size]) = le16_bytes size @ map buf [0..<unat size]"
      by (simp add: silk_block_def)
    then show ?thesis
      using rest False bs
      by (intro exI [of _ "map buf [0..<unat size] # bs"]) simp
  qed (use Cons.prems in simp)
qed simp

lemma full_chunks:
  assumes "0 < n"
  shows "length (takeWhile (\<lambda>c. n \<le> length c) (std_chunks n xs)) = length xs div n"
proof -
  let ?m = "(length xs + n - 1) div n" and ?k = "length xs div n"
  have km: "?k \<le> ?m" using assms by (intro div_le_mono) simp
  have full: "n \<le> length (take n (drop (i * n) xs))" if "i < ?k" for i
  proof -
    have "Suc i * n \<le> ?k * n" using that by (intro mult_le_mono1) simp
    also have "\<dots> \<le> length xs" by simp
    finally show ?thesis by simp
  qed
  have short: "\<not> n \<le> length (take n (drop (?k * n) xs))"
    using assms mod_less_divisor [of n "length xs"] by (simp add: minus_div_mult_eq_mod not_le del: mod_less_divisor)
  have split: "std_chunks n xs = map (\<lambda>i. take n (drop (i * n) xs)) [0..<?k]
      @ map (\<lambda>i. take n (drop (i * n) xs)) [?k..<?m]"
    using km upt_add_eq_append [of 0 ?k "?m - ?k"] by (simp add: std_chunks_def flip: map_append)
  have "takeWhile (\<lambda>c. n \<le> length c) (map (\<lambda>i. take n (drop (i * n) xs)) [?k..<?m]) = []"
    using short by (cases "?k < ?m") (simp_all add: upt_conv_Cons)
  then show ?thesis
    unfolding split using full by (subst takeWhile_append2) auto
qed

text \<open>
  Silk data are the header and one block for every 20 milliseconds of samples; what is left of the samples
  is not encoded.
\<close>

lemma encode_layout:
  assumes "SilkEncoder_encode env bit_rate input = Inr out"
  shows "\<exists>bs. aes_stream out = SILK_HEADER @ concat (map silk_block bs) \<and> (\<forall>b \<in> set bs. length b \<le> 1250)
    \<and> length bs = length (ars_stream input) div (unat (ai_sample_rate (ars_info input)) div 1000 * 20)"
proof -
  let ?sr = "ai_sample_rate (ars_info input)"
  let ?n = "unat ?sr div 1000 * 40" and ?xs = "concat (map le16_bytes (ars_stream input))"
  obtain r where r: "encode_chunks (aue_silk_encode env ?sr bit_rate) ?n [] (std_chunks ?n ?xs) = Inr r"
    and o: "aes_stream out = SILK_HEADER @ r" and n: "?n \<noteq> 0"
    using assms
    by (cases "encode_chunks (aue_silk_encode env ?sr bit_rate) ?n [] (std_chunks ?n ?xs)")
      (auto simp: SilkEncoder_encode_def Let_def split: if_split_asm)
  have "length ?xs = 2 * length (ars_stream input)"
    by (simp add: length_concat comp_def sum_list_triv)
  then have "length ?xs div ?n = length (ars_stream input) div (unat ?sr div 1000 * 20)"
    using div_mult_mult1 [of 2 "length (ars_stream input)" "unat ?sr div 1000 * 20"] by simp
  then show ?thesis
    using encode_chunks_blocks [OF r] full_chunks [of ?n ?xs] o n by auto
qed

end
