(* ===== verification/Highway_Op.thy ===== *)
theory Highway_Op
  imports Media_Events Highway_Client Chunk_Hash Image_Resolver Audio_Codec
begin

text \<open>
  The uploads of \<open>mania/src/core/operation/highway_op.rs\<close>, with \<open>stream_pipeline\<close> of
  \<open>utility/stream_helper.rs\<close>. An upload gets a session ticket (cached), opens the medium, computes
  its digests, announces it, and, when the reply has an upload key, sends the bytes over the highway; then
  the reply's data are stored in the entity.

  The state \<open>Highway\<close> is the one of \<open>core/highway.rs\<close>, with the number of events sent so far (it
  selects the answers of the server), the positions of the streams handed in by the user, and a log
  of the transfers. Third-party code and the outside world are the fields of \<open>highway_env\<close>. A result
  is \<open>None\<close> for a panic or a transfer that does not end.
\<close>

section \<open>Streams\<close>

text \<open>
  A stream is its bytes and a position. \<open>rd pos\<close> is what a read at a position does: it fails, or gives
  up to so many bytes (at least one while some are left, at most the buffer's 8192). \<open>stream_pipeline\<close>
  gives the position it ends at and the chunks it hands to the closure.
\<close>

function stream_pipeline ::
    "(nat \<Rightarrow> rstring + nat) \<Rightarrow> bytes \<Rightarrow> nat \<Rightarrow> nat \<times> (rstring + bytes list)" where
  "stream_pipeline rd d pos =
     (case rd pos of
        Inl e \<Rightarrow> (pos, Inl e)
      | Inr k \<Rightarrow>
          (let n = min (min 8192 (max 1 k)) (length d - pos) in
           if n = 0 then (pos, Inr [])
           else (case stream_pipeline rd d (pos + n) of
                   (p, Inl e) \<Rightarrow> (p, Inl e)
                 | (p, Inr chunks) \<Rightarrow> (p, Inr (take n (drop pos d) # chunks)))))"
  by pat_completeness auto
termination
  by (relation "measure (\<lambda>(rd, d, pos). length d - pos)") auto

declare stream_pipeline.simps [simp del]

text \<open>What is read is what is left of the stream, however it is cut.\<close>

lemma stream_pipeline_rest:
  "stream_pipeline rd d pos = (p, Inr chunks) \<Longrightarrow> concat chunks = drop pos d \<and> p = max pos (length d)"
proof (induction rd d pos arbitrary: p chunks rule: stream_pipeline.induct)
  case (1 rd d pos)
  obtain k where k: "rd pos = Inr k"
    using "1.prems" by (cases "rd pos") (simp_all add: stream_pipeline.simps)
  define n where "n = min (min 8192 (max 1 k)) (length d - pos)"
  have step: "stream_pipeline rd d pos = (if n = 0 then (pos, Inr [])
      else (case stream_pipeline rd d (pos + n) of
              (p, Inl e) \<Rightarrow> (p, Inl e)
            | (p, Inr chunks) \<Rightarrow> (p, Inr (take n (drop pos d) # chunks))))"
    unfolding stream_pipeline.simps [of rd d pos] k by (simp only: sum.case Let_def n_def)
  show ?case
  proof (cases "n = 0")
    case True
    then have "length d \<le> pos" by (auto simp: n_def)
    then show ?thesis using "1.prems" step True by auto
  next
    case False
    then obtain cs where cs: "stream_pipeline rd d (pos + n) = (p, Inr cs)"
      "chunks = take n (drop pos d) # cs"
      using "1.prems" step False by (auto split: prod.splits sum.splits)
    have ih: "concat cs = drop (pos + n) d \<and> p = max (pos + n) (length d)"
      by (rule "1.IH" [OF k n_def False cs(1)])
    have "pos + n \<le> length d" using False by (auto simp: n_def)
    then show ?thesis
      using ih cs(2) append_take_drop_id [of n "drop pos d"] by (simp add: add.commute)
  qed
qed

section \<open>Environment and state\<close>

record Ntv2RichMediaHighwayExt =
  hxt_file_uuid :: rstring
  hxt_u_key :: rstring
  hxt_network :: "NtHighwayIPv4 list"
  hxt_msg_info_body :: "MsgInfoBody list"
  hxt_block_size :: u32
  hxt_hash :: "bytes list"

text \<open>The answers of the server to the \<open>n\<close>-th event; \<open>None\<close> is an event of another type.\<close>

record upload_server =
  usv_ticket :: "nat \<Rightarrow> ManiaError + bytes option"
  usv_group_image :: "nat \<Rightarrow> u32 \<Rightarrow> ImageUploadArgs \<Rightarrow> ManiaError + CustomFace UploadRes option"
  usv_c2c_image :: "nat \<Rightarrow> rstring \<Rightarrow> ImageUploadArgs \<Rightarrow> ManiaError + NotOnlineImage UploadRes option"
  usv_group_video :: "nat \<Rightarrow> u32 \<Rightarrow> VideoUploadArgs \<Rightarrow> ManiaError + VideoFile UploadRes option"
  usv_c2c_video :: "nat \<Rightarrow> rstring \<Rightarrow> VideoUploadArgs \<Rightarrow> ManiaError + VideoFile UploadRes option"
  usv_group_record :: "nat \<Rightarrow> u32 \<Rightarrow> RecordUploadArgs \<Rightarrow> ManiaError + Elem list UploadRes option"
  usv_c2c_record :: "nat \<Rightarrow> rstring \<Rightarrow> RecordUploadArgs \<Rightarrow> ManiaError + Elem list UploadRes option"

record highway_env =
  hwe_server :: upload_server
  hwe_net :: "nat \<Rightarrow> hw_env"              \<comment> \<open>the network during the \<open>n\<close>-th transfer\<close>
  hwe_context :: Context
  hwe_files :: "rstring \<Rightarrow> bytes option"   \<comment> \<open>files that can be opened\<close>
  hwe_user :: "nat \<Rightarrow> bytes"             \<comment> \<open>contents of the streams of the user\<close>
  hwe_thumbnail :: "rstring + bytes option"
  hwe_thumb_pos :: "bytes \<Rightarrow> nat"        \<comment> \<open>where writing the thumbnail leaves the cursor\<close>
  hwe_read :: "stream \<Rightarrow> nat \<Rightarrow> rstring + nat"
  hwe_md5 :: "bytes \<Rightarrow> bytes"
  hwe_sha1 :: "bytes \<Rightarrow> bytes"
  hwe_sha1_stream :: sha1_env
  hwe_hex :: "bytes \<Rightarrow> rstring"
  hwe_unhex :: "rstring \<Rightarrow> bytes option"
  hwe_enc_ext :: "Ntv2RichMediaHighwayExt \<Rightarrow> bytes"
  hwe_audio :: audio_env
  hwe_debug_image :: "ImageResolverError \<Rightarrow> rstring"
  hwe_debug_str :: "rstring \<Rightarrow> rstring"

record transfer =
  trf_cmd :: u32
  trf_size :: u32
  trf_md5 :: bytes
  trf_ext :: bytes
  trf_state :: hw_state
  trf_result :: "HighwayError + unit"

record Highway =
  hwy_sig_session :: "bytes option"
  hwy_client :: HighwayClient
  hwy_events :: nat
  hwy_user_pos :: "nat \<Rightarrow> nat"
  hwy_transfers :: "transfer list"

type_synonym 'a highway_op = "(Highway \<times> (ManiaError + 'a)) option"

text \<open>\<open>?\<close> after an operation.\<close>

definition try_op :: "'a highway_op \<Rightarrow> (Highway \<Rightarrow> 'a \<Rightarrow> 'b highway_op) \<Rightarrow> 'b highway_op" where
  "try_op r f = (case r of None \<Rightarrow> None | Some (s, Inl e) \<Rightarrow> Some (s, Inl e) | Some (s, Inr a) \<Rightarrow> f s a)"

lemma try_op_simps [simp]:
  "try_op None f = None" "try_op (Some (s, Inl e)) f = Some (s, Inl e)"
  "try_op (Some (s, Inr a)) f = f s a"
  by (simp_all add: try_op_def)

lemma try_op_Inr:
  "try_op r f = Some (t, Inr b) \<longleftrightarrow> (\<exists>s a. r = Some (s, Inr a) \<and> f s a = Some (t, Inr b))"
  by (auto simp: try_op_def split: option.splits prod.splits sum.splits)

lemma try_op_Some:
  "try_op r f = Some (t, x) \<Longrightarrow>
     (\<exists>e. r = Some (t, Inl e) \<and> x = Inl e) \<or> (\<exists>s a. r = Some (s, Inr a) \<and> f s a = Some (t, x))"
  by (auto simp: try_op_def split: option.splits prod.splits sum.splits)

text \<open>Sending an event, and the downcast of the answer.\<close>

definition ask ::
    "(nat \<Rightarrow> ManiaError + 'a option) \<Rightarrow> Highway \<Rightarrow> 'a highway_op" where
  "ask answer s =
     Some (s\<lparr>hwy_events := hwy_events s + 1\<rparr>,
       (case answer (hwy_events s) of
          Inl e \<Rightarrow> Inl e | Inr v \<Rightarrow> ok_or InternalEventDowncastError v))"

section \<open>Preparation\<close>

definition self_uin :: "highway_env \<Rightarrow> u32" where
  "self_uin env = ks_uin (ctx_key_store (hwe_context env))"

definition chuck_size :: "highway_env \<Rightarrow> nat" where
  "chuck_size env = cfg_highway_chuck_size (ctx_config (hwe_context env))"

definition fetch_sig_session :: "highway_env \<Rightarrow> Highway \<Rightarrow> bytes highway_op" where
  "fetch_sig_session env s =
     try_op (ask (usv_ticket (hwe_server env)) s) (\<lambda>s sig.
       Some (s\<lparr>hwy_sig_session := Some sig\<rparr>, Inr sig))"

definition prepare_highway :: "highway_env \<Rightarrow> Highway \<Rightarrow> unit highway_op" where
  "prepare_highway env s =
     try_op (case hwy_sig_session s of
         Some sig \<Rightarrow> Some (s, Inr sig)
       | None \<Rightarrow> fetch_sig_session env s)
       (\<lambda>s sig. Some (s\<lparr>hwy_client := HighwayClient_new (str ''htdata3.qq.com:80'') 60 sig (self_uin env)
            (chuck_size env)\<rparr>, Inr ()))"

section \<open>Media\<close>

definition stream_bytes :: "highway_env \<Rightarrow> stream \<Rightarrow> bytes" where
  "stream_bytes env st =
     (case st of
        FileStream path \<Rightarrow> (case hwe_files env path of None \<Rightarrow> [] | Some d \<Rightarrow> d)
      | UserStream n \<Rightarrow> hwe_user env n
      | MemoryStream d \<Rightarrow> d)"

text \<open>A file has just been opened, and the thumbnail just been written.\<close>

definition stream_pos :: "highway_env \<Rightarrow> Highway \<Rightarrow> stream \<Rightarrow> nat" where
  "stream_pos env s st =
     (case st of
        FileStream path \<Rightarrow> 0
      | UserStream n \<Rightarrow> hwy_user_pos s n
      | MemoryStream d \<Rightarrow> hwe_thumb_pos env d)"

definition set_stream_pos :: "stream \<Rightarrow> nat \<Rightarrow> Highway \<Rightarrow> Highway" where
  "set_stream_pos st p s =
     (case st of
        UserStream n \<Rightarrow> s\<lparr>hwy_user_pos := (hwy_user_pos s)(n := p)\<rparr>
      | _ \<Rightarrow> s)"

definition file_len :: "highway_env \<Rightarrow> rstring \<Rightarrow> nat option" where
  "file_len env path = map_option length (hwe_files env path)"

text \<open>\<open>stream_pipeline\<close> on a stream; an I/O error is a \<open>NetworkError\<close>.\<close>

definition pipeline :: "highway_env \<Rightarrow> stream \<Rightarrow> Highway \<Rightarrow> (nat \<times> bytes list) highway_op" where
  "pipeline env st s =
     (case stream_pipeline (hwe_read env st) (stream_bytes env st) (stream_pos env s st) of
        (p, Inl e) \<Rightarrow> Some (set_stream_pos st p s, Inl (NetworkError e))
      | (p, Inr chunks) \<Rightarrow> Some (set_stream_pos st p s, Inr (p, chunks)))"

text \<open>\<open>resolve_image\<close>: format and size, SHA-1, MD5. A hasher is the bytes it was fed.\<close>

definition resolve_image_file ::
    "highway_env \<Rightarrow> stream \<Rightarrow> Highway \<Rightarrow> ((ImageFormat \<times> u32 \<times> u32) \<times> bytes \<times> bytes) highway_op" where
  "resolve_image_file env st s =
     try_op (pipeline env st s) (\<lambda>s (p, chunks).
       do { (q, r) \<leftarrow> resolve_image_metadata (stream_bytes env st) p;
            let s = set_stream_pos st q s;
            (case r of
               Inl e \<Rightarrow> Some (s, Inl (GenericError (str ''Resolve image error: '' @ hwe_debug_image env e)))
             | Inr iv \<Rightarrow> Some (s, Inr (iv, hwe_sha1 env (concat chunks), hwe_md5 env (concat chunks)))) })"

definition resolve_video_files ::
    "highway_env \<Rightarrow> stream \<Rightarrow> stream \<Rightarrow> Highway
      \<Rightarrow> (bytes \<times> bytes \<times> bytes list \<times> bytes \<times> bytes) highway_op" where
  "resolve_video_files env video thumb s =
     try_op (pipeline env video s) (\<lambda>s (_, chunks).
       do { stream_sha1 \<leftarrow> update_all (StreamSha1_update (hwe_sha1_stream env)) chunks StreamSha1_new;
            let file = concat chunks;
            try_op (pipeline env thumb s) (\<lambda>s (_, chunks).
              Some (s, Inr (hwe_md5 env file, hwe_sha1 env file,
                StreamSha1_finalize (hwe_sha1_stream env) stream_sha1,
                hwe_md5 env (concat chunks), hwe_sha1 env (concat chunks)))) })"

text \<open>
  \<open>get_ten_silk_time\<close>: the number of blocks after the ten bytes of the header, each with its length
  in two bytes in front; a block lasts 0.02 seconds. \<open>as u32\<close> rounds down: fifty blocks are a
  second (the product of the two floats is not below the exact one for a multiple of fifty).
\<close>

function silk_blocks :: "bytes \<Rightarrow> nat \<Rightarrow> nat" where
  "silk_blocks d i =
     (if i + 2 \<le> length d
      then Suc (silk_blocks d (i + 2 + unat (le16_of (slice i (i + 2) d))))
      else 0)"
  by pat_completeness auto
termination
  by (relation "measure (\<lambda>(d, i). length d - i)") auto

declare silk_blocks.simps [simp del]

definition silk_seconds :: "bytes \<Rightarrow> u32" where
  "silk_seconds d = of_nat (min (silk_blocks d 10 div 50) (2 ^ 32 - 1))"

text \<open>
  The conversion of a record to silk runs as a task of its own, whose panics are errors of \<open>await\<close>.
\<close>

definition stopped :: "audio_env \<Rightarrow> string \<Rightarrow> ('e \<Rightarrow> rstring) \<Rightarrow> 'e stop \<Rightarrow> ManiaError" where
  "stopped env context debug stop = GenericError
     (case stop of
        Panicked \<Rightarrow> str ''Blocking error: '' @ aue_debug_join env
      | Failed e \<Rightarrow> str context @ debug e)"

definition silk_task :: "audio_env \<Rightarrow> bytes \<Rightarrow> (ManiaError + bytes) option" where
  "silk_task env d =
     (case SymphoniaDecoder_decode (aue_symphonia env) d of
        Inl e \<Rightarrow> Some (Inl (stopped env ''Decode error: '' (aue_debug_decode env) (Failed e)))
      | Inr pcm \<Rightarrow>
          do { r \<leftarrow> RubatoResampler_resample env 48000 pcm;
               Some (case r of
                   Inl e \<Rightarrow> Inl (stopped env ''Resample error: '' (aue_debug_resample env) e)
                 | Inr samples \<Rightarrow>
                     (case SilkEncoder_encode env 30000 samples of
                        Inl e \<Rightarrow> Inl (stopped env ''Encode error: '' (aue_debug_encode env) e)
                      | Inr out \<Rightarrow> Inr (aes_stream out))) })"

text \<open>
  \<open>resolve_audio\<close>: what is left of the stream is read (\<open>read_to_end\<close>) and converted in memory; the
  digests are those of the result.
\<close>

definition resolve_audio_file ::
    "highway_env \<Rightarrow> stream \<Rightarrow> Highway \<Rightarrow> (bytes \<times> u32 \<times> u32 \<times> bytes \<times> bytes) highway_op" where
  "resolve_audio_file env st s =
     try_op (pipeline env st s) (\<lambda>s (_, chunks).
       let s = set_stream_pos st 0 s in
       do { r \<leftarrow> silk_task (hwe_audio env) (concat chunks);
            Some (s, map_sum id (\<lambda>silk. (silk, of_nat (length silk), silk_seconds silk,
              hwe_sha1 env silk, hwe_md5 env silk)) r) })"

section \<open>The transfer\<close>

definition body_index :: "nat \<Rightarrow> MsgInfo \<Rightarrow> ManiaError + IndexNode \<times> FileInfo" where
  "body_index k info =
     (if length (mi_bodies info) \<le> k then Inl (generic ''No index node in response'')
      else case mib_index (mi_bodies info ! k) of
        None \<Rightarrow> Inl (generic ''No index in response'')
      | Some index \<Rightarrow>
          (case in_info index of
             None \<Rightarrow> Inl (generic ''No info in response'')
           | Some file_info \<Rightarrow> Inr (index, file_info)))"

definition unhex_file :: "highway_env \<Rightarrow> rstring \<Rightarrow> ManiaError + bytes" where
  "unhex_file env s = ok_or (HighWayError HexError) (hwe_unhex env s)"

definition extend_info ::
    "highway_env \<Rightarrow> IndexNode \<Rightarrow> rstring \<Rightarrow> 'c UploadRes \<Rightarrow> bytes list \<Rightarrow> bytes" where
  "extend_info env index u_key res hashes = hwe_enc_ext env
     \<lparr>hxt_file_uuid = in_file_uuid index, hxt_u_key = u_key,
      hxt_network = oidb_ipv4s_to_highway_ipv4s (ulr_ipv4s res),
      hxt_msg_info_body = mi_bodies (ulr_msg_info res),
      hxt_block_size = of_nat (chuck_size env), hxt_hash = hashes\<rparr>"

text \<open>
  \<open>client.upload(..).await?\<close> on a stream or on bytes in memory (no stream); the transfer starts at
  the first byte wherever the stream is.
\<close>

definition transfer_bytes ::
    "highway_env \<Rightarrow> u32 \<Rightarrow> stream option \<Rightarrow> bytes \<Rightarrow> u32 \<Rightarrow> bytes \<Rightarrow> bytes \<Rightarrow> Highway \<Rightarrow> unit highway_op" where
  "transfer_bytes env cmd st d fsize md5 ext s =
     do { (t, r) \<leftarrow> upload_file (hwe_net env (length (hwy_transfers s))) (hwy_client s) cmd fsize md5 ext
            (hw_start d);
          let s = s\<lparr>hwy_transfers := hwy_transfers s @
            [\<lparr>trf_cmd = cmd, trf_size = fsize, trf_md5 = md5, trf_ext = ext, trf_state = t,
              trf_result = r\<rparr>]\<rparr>;
          Some ((case st of None \<Rightarrow> s | Some st \<Rightarrow> set_stream_pos st (hs_pos t) s),
                map_sum HighWayError id r) }"

text \<open>
  The block every upload has: nothing without an upload key; otherwise index and digests of the
  \<open>k\<close>-th body of the reply, and the transfer. \<open>hashes\<close> are the digests for the server: those of a
  video are given, otherwise it is the SHA-1 of the reply.
\<close>

definition send_media ::
    "highway_env \<Rightarrow> u32 \<Rightarrow> nat \<Rightarrow> rstring option \<Rightarrow> bytes list option \<Rightarrow> 'c UploadRes
      \<Rightarrow> stream option \<Rightarrow> bytes \<Rightarrow> u32 \<Rightarrow> Highway \<Rightarrow> unit highway_op" where
  "send_media env cmd k u_key hashes res st d fsize s =
     (case u_key of
        None \<Rightarrow> Some (s, Inr ())
      | Some key \<Rightarrow>
          try_op (Some (s, body_index k (ulr_msg_info res))) (\<lambda>s (index, info).
          try_op (Some (s, case hashes of
              Some hs \<Rightarrow> Inr hs
            | None \<Rightarrow> map_sum id (\<lambda>h. [h]) (unhex_file env (fi_file_sha1 info)))) (\<lambda>s hs.
          try_op (Some (s, unhex_file env (fi_file_hash info))) (\<lambda>s md5.
            transfer_bytes env cmd st d fsize md5 (extend_info env index key res hs) s))))"

text \<open>The key of the thumbnail of a video: that of the first further file, unless it is empty.\<close>

definition thumb_key :: "'c UploadRes \<Rightarrow> rstring option" where
  "thumb_key res =
     (case ulr_sub_file_info res of
        [] \<Rightarrow> None
      | sub_file # _ \<Rightarrow> if sfi_u_key sub_file = [] then None else Some (sfi_u_key sub_file))"

section \<open>The operations\<close>

text \<open>The result of an operation is the entity, which is updated in place, and the outcome.\<close>

type_synonym 'e media_op = "(Highway \<times> 'e \<times> (ManiaError + unit)) option"

definition finish_upload :: "'e \<Rightarrow> ('a \<Rightarrow> 'e \<Rightarrow> 'e) \<Rightarrow> 'a highway_op \<Rightarrow> 'e media_op" where
  "finish_upload e store r =
     (case r of
        None \<Rightarrow> None
      | Some (s, Inl err) \<Rightarrow> Some (s, e, Inl err)
      | Some (s, Inr res) \<Rightarrow> Some (s, store res e, Inr ()))"

definition then_media :: "'e \<Rightarrow> 'a highway_op \<Rightarrow> (Highway \<Rightarrow> 'a \<Rightarrow> 'e media_op) \<Rightarrow> 'e media_op" where
  "then_media e r f =
     (case r of
        None \<Rightarrow> None
      | Some (s, Inl err) \<Rightarrow> Some (s, e, Inl err)
      | Some (s, Inr a) \<Rightarrow> f s a)"

lemma finish_upload_Some:
  "finish_upload e store r = Some (t, e', x) \<Longrightarrow>
     (\<exists>err. r = Some (t, Inl err) \<and> e' = e \<and> x = Inl err)
     \<or> (\<exists>res. r = Some (t, Inr res) \<and> e' = store res e \<and> x = Inr ())"
  by (auto simp: finish_upload_def split: option.splits prod.splits sum.splits)

lemma then_media_Some:
  "then_media e r f = Some (t, e', x) \<Longrightarrow>
     (\<exists>err. r = Some (t, Inl err) \<and> e' = e \<and> x = Inl err)
     \<or> (\<exists>s a. r = Some (s, Inr a) \<and> f s a = Some (t, e', x))"
  by (auto simp: then_media_def split: option.splits prod.splits sum.splits)

definition image_args ::
    "highway_env \<Rightarrow> ImageEntity \<Rightarrow> ImageFormat \<times> u32 \<times> u32 \<Rightarrow> bytes \<Rightarrow> bytes \<Rightarrow> ImageUploadArgs" where
  "image_args env im iv sha1 md5 =
     (let (fmt, width, height) = iv in
      \<lparr>iua_size = im_size im, iua_md5 = md5, iua_sha1 = sha1,
       iua_name = (case im_file_path im of
           Some path \<Rightarrow> path | None \<Rightarrow> hwe_hex env sha1 @ str ''.'' @ ImageFormat_show fmt),
       iua_pic_type = ImageFormat_code fmt, iua_sub_type = im_sub_type im, iua_height = height,
       iua_width = width,
       iua_summary = (case im_summary im of Some summary \<Rightarrow> summary | None \<Rightarrow> PICTURE)\<rparr>)"

text \<open>
  The two operations for images, videos and records are copies of each other, up to the command of the
  transfer, the event, the field for the reply's data for older clients, and the name of a record.
\<close>

definition upload_image_with ::
    "highway_env \<Rightarrow> u32 \<Rightarrow> (nat \<Rightarrow> ImageUploadArgs \<Rightarrow> ManiaError + 'c UploadRes option)
      \<Rightarrow> ('c \<Rightarrow> ImageEntity \<Rightarrow> ImageEntity) \<Rightarrow> ImageEntity \<Rightarrow> Highway \<Rightarrow> ImageEntity media_op" where
  "upload_image_with env cmd answer keep im s =
     then_media im (prepare_highway env s) (\<lambda>s _.
       let (im, stream) = image_resolve_stream (file_len env) im in
       case stream of
         None \<Rightarrow> Some (s, im, Inl (generic ''No image stream found''))
       | Some st \<Rightarrow>
           finish_upload im (\<lambda>res im. keep (ulr_compat res) (im\<lparr>im_msg_info := Some (ulr_msg_info res)\<rparr>))
             (try_op (resolve_image_file env st s) (\<lambda>s (iv, sha1, md5).
              try_op (ask (\<lambda>n. answer n (image_args env im iv sha1 md5)) s) (\<lambda>s res.
              try_op (send_media env cmd 0 (ulr_u_key res) None res (Some st) (stream_bytes env st)
                  (im_size im) s) (\<lambda>s _. Some (s, Inr res))))))"

definition upload_group_image ::
    "highway_env \<Rightarrow> u32 \<Rightarrow> ImageEntity \<Rightarrow> Highway \<Rightarrow> ImageEntity media_op" where
  "upload_group_image env group_uin =
     upload_image_with env 1004 (\<lambda>n. usv_group_image (hwe_server env) n group_uin)
       (\<lambda>face im. im\<lparr>im_custom_face := face\<rparr>)"

definition upload_c2c_image ::
    "highway_env \<Rightarrow> rstring \<Rightarrow> ImageEntity \<Rightarrow> Highway \<Rightarrow> ImageEntity media_op" where
  "upload_c2c_image env target_uid =
     upload_image_with env 1003 (\<lambda>n. usv_c2c_image (hwe_server env) n target_uid)
       (\<lambda>img im. im\<lparr>im_not_online_image := img\<rparr>)"

definition VIDEO :: rstring where
  "VIDEO = [0x5B, 0xE8, 0xA7, 0x86, 0xE9, 0xA2, 0x91, 0x5D]"

definition video_args ::
    "highway_env \<Rightarrow> VideoEntity \<Rightarrow> bytes \<Rightarrow> bytes \<Rightarrow> bytes \<Rightarrow> bytes \<Rightarrow> VideoUploadArgs" where
  "video_args env v file_md5 file_sha1 thumb_md5 thumb_sha1 =
     \<lparr>vua_video_size = vd_video_size v, vua_video_md5 = file_md5, vua_video_sha1 = file_sha1,
      vua_video_name = (case vd_path v of Some path \<Rightarrow> path | None \<Rightarrow> hwe_hex env file_sha1 @ str ''.mp4''),
      vua_thumb_size = vd_thumb_size v, vua_thumb_md5 = thumb_md5, vua_thumb_sha1 = thumb_sha1,
      vua_thumb_name = (case vd_thumb_path v of
          Some path \<Rightarrow> path | None \<Rightarrow> hwe_hex env thumb_sha1 @ str ''.jpg''),
      vua_thumb_width = vd_thumb_width v, vua_thumb_height = vd_thumb_height v, vua_summary = VIDEO\<rparr>"

text \<open>The streams of a video; the thumbnail is generated when there is none.\<close>

definition video_streams ::
    "highway_env \<Rightarrow> VideoEntity \<Rightarrow> (VideoEntity \<times> (ManiaError + stream \<times> stream)) option" where
  "video_streams env v =
     do { (v, r) \<leftarrow> video_resolve_stream (file_len env) (hwe_thumbnail env) v;
          Some (v, (case r of
              Inl e \<Rightarrow> Inl (GenericError (str ''Resolve stream error: '' @ hwe_debug_str env e))
            | Inr (None, _) \<Rightarrow> Inl (generic ''No video stream found'')
            | Inr (Some vs, None) \<Rightarrow> Inl (generic ''No image stream found'')
            | Inr (Some vs, Some is) \<Rightarrow> Inr (vs, is))) }"

text \<open>What the two video operations do after their request: the video, then its thumbnail.\<close>

definition send_video ::
    "highway_env \<Rightarrow> u32 \<Rightarrow> u32 \<Rightarrow> VideoEntity \<Rightarrow> stream \<Rightarrow> stream \<Rightarrow> bytes list
      \<Rightarrow> VideoFile UploadRes \<Rightarrow> Highway \<Rightarrow> VideoFile UploadRes highway_op" where
  "send_video env video_cmd thumb_cmd v vs is stream_sha1 res s =
     try_op (send_media env video_cmd 0 (ulr_u_key res) (Some stream_sha1) res (Some vs)
         (stream_bytes env vs) (vd_video_size v) s) (\<lambda>s _.
     try_op (send_media env thumb_cmd 1 (thumb_key res) None res (Some is)
         (stream_bytes env is) (vd_thumb_size v) s) (\<lambda>s _. Some (s, Inr res)))"

definition upload_video_with ::
    "highway_env \<Rightarrow> u32 \<Rightarrow> u32 \<Rightarrow> (nat \<Rightarrow> VideoUploadArgs \<Rightarrow> ManiaError + VideoFile UploadRes option)
      \<Rightarrow> VideoEntity \<Rightarrow> Highway \<Rightarrow> VideoEntity media_op" where
  "upload_video_with env video_cmd thumb_cmd answer v s =
     then_media v (prepare_highway env s) (\<lambda>s _.
       do { (v, streams) \<leftarrow> video_streams env v;
            (case streams of
               Inl e \<Rightarrow> Some (s, v, Inl e)
             | Inr (vs, is) \<Rightarrow>
                 finish_upload v
                   (\<lambda>res v. v\<lparr>vd_msg_info := Some (ulr_msg_info res), vd_compat := Some (ulr_compat res)\<rparr>)
                   (try_op (resolve_video_files env vs is s)
                     (\<lambda>s (file_md5, file_sha1, stream_sha1, thumb_md5, thumb_sha1).
                    try_op (ask (\<lambda>n. answer n
                        (video_args env v file_md5 file_sha1 thumb_md5 thumb_sha1)) s) (\<lambda>s res.
                      send_video env video_cmd thumb_cmd v vs is stream_sha1 res s)))) })"

definition upload_group_video ::
    "highway_env \<Rightarrow> u32 \<Rightarrow> VideoEntity \<Rightarrow> Highway \<Rightarrow> VideoEntity media_op" where
  "upload_group_video env group_uin =
     upload_video_with env 1005 1006 (\<lambda>n. usv_group_video (hwe_server env) n group_uin)"

definition upload_c2c_video ::
    "highway_env \<Rightarrow> rstring \<Rightarrow> VideoEntity \<Rightarrow> Highway \<Rightarrow> VideoEntity media_op" where
  "upload_c2c_video env target_uid =
     upload_video_with env 1001 1002 (\<lambda>n. usv_c2c_video (hwe_server env) n target_uid)"

text \<open>\<open>name sha1 md5\<close> is the name of a record without a path; its length is set before the request.\<close>

definition upload_record_with ::
    "highway_env \<Rightarrow> u32 \<Rightarrow> (nat \<Rightarrow> RecordUploadArgs \<Rightarrow> ManiaError + Elem list UploadRes option)
      \<Rightarrow> (bytes \<Rightarrow> bytes \<Rightarrow> rstring) \<Rightarrow> RecordEntity \<Rightarrow> Highway \<Rightarrow> RecordEntity media_op" where
  "upload_record_with env cmd answer name r s =
     then_media r (prepare_highway env s) (\<lambda>s _.
       let (r, stream) = record_resolve_stream (file_len env) r in
       case stream of
         None \<Rightarrow> Some (s, r, Inl (generic ''No record stream found''))
       | Some st \<Rightarrow>
           then_media r (resolve_audio_file env st s) (\<lambda>s (silk, fsize, time, sha1, md5).
             let r = r\<lparr>rc_audio_length := time\<rparr> in
             finish_upload r
               (\<lambda>res r. r\<lparr>rc_msg_info := Some (ulr_msg_info res), rc_compat := Some (ulr_compat res)\<rparr>)
               (try_op (ask (\<lambda>n. answer n
                    \<lparr>rua_size = fsize, rua_length = time, rua_md5 = md5, rua_sha1 = sha1,
                     rua_name = (case rc_file_path r of Some path \<Rightarrow> path | None \<Rightarrow> name sha1 md5)\<rparr>) s)
                 (\<lambda>s res.
                  try_op (send_media env cmd 0 (ulr_u_key res) None res None silk fsize s)
                    (\<lambda>s _. Some (s, Inr res))))))"

definition upload_group_record ::
    "highway_env \<Rightarrow> u32 \<Rightarrow> RecordEntity \<Rightarrow> Highway \<Rightarrow> RecordEntity media_op" where
  "upload_group_record env group_uin =
     upload_record_with env 1008 (\<lambda>n. usv_group_record (hwe_server env) n group_uin)
       (\<lambda>sha1 md5. hwe_hex env md5 @ str ''.amr'')"

definition upload_c2c_record ::
    "highway_env \<Rightarrow> rstring \<Rightarrow> RecordEntity \<Rightarrow> Highway \<Rightarrow> RecordEntity media_op" where
  "upload_c2c_record env target_uid =
     upload_record_with env 1007 (\<lambda>n. usv_c2c_record (hwe_server env) n target_uid)
       (\<lambda>sha1 md5. hwe_hex env sha1 @ str ''.mp3'')"

text \<open>Several uploads in a row; the first error ends them.\<close>

fun upload_each :: "('e \<Rightarrow> Highway \<Rightarrow> 'e media_op) \<Rightarrow> 'e list \<Rightarrow> Highway \<Rightarrow> 'e list media_op" where
  "upload_each up [] s = Some (s, [], Inr ())"
| "upload_each up (e # es) s =
     do { (s, e, r) \<leftarrow> up e s;
          (case r of
             Inl err \<Rightarrow> Some (s, e # es, Inl err)
           | Inr _ \<Rightarrow> do { (s, es, r) \<leftarrow> upload_each up es s; Some (s, e # es, r) }) }"

section \<open>What the operations keep\<close>

text \<open>
  A transfer that went well has sent the frames of its bytes, over one of the two transports; they
  are all its bytes if their number is the one announced, and none if the announced size is zero.
\<close>

definition transfer_whole :: "transfer \<Rightarrow> bool" where
  "transfer_whole x \<longleftrightarrow> trf_result x = Inr () \<and>
     (\<exists>fs. (hs_tcp (trf_state x) = fs \<or> hs_http (trf_state x) = fs)
        \<and> (unat (trf_size x) = length (hs_data (trf_state x))
             \<longrightarrow> concat (map hf_body fs) = hs_data (trf_state x)))
     \<and> (trf_size x = 0 \<longrightarrow> hs_tcp (trf_state x) = [] \<and> hs_http (trf_state x) = [])"

text \<open>
  From one state to a later one the log grows, and a cached ticket stays; with \<open>ok\<close> every new
  transfer went well.
\<close>

definition grows :: "bool \<Rightarrow> Highway \<Rightarrow> Highway \<Rightarrow> bool" where
  "grows ok s t \<longleftrightarrow>
     (\<exists>ts. hwy_transfers t = hwy_transfers s @ ts \<and> (ok \<longrightarrow> list_all transfer_whole ts))
     \<and> (hwy_sig_session s \<noteq> None \<longrightarrow> hwy_sig_session t = hwy_sig_session s)"

lemma grows_refl [simp]: "grows ok s s"
  by (simp add: grows_def)

lemma grows_trans: "grows True s t \<Longrightarrow> grows ok t u \<Longrightarrow> grows ok s u"
  unfolding grows_def by (metis append.assoc list_all_append)

lemma grows_weaken: "grows True s t \<Longrightarrow> grows ok s t"
  unfolding grows_def by blast

definition sound_op :: "Highway \<Rightarrow> 'a highway_op \<Rightarrow> bool" where
  "sound_op s m \<longleftrightarrow> (\<forall>t r. m = Some (t, r) \<longrightarrow> grows (\<not> isl r) s t)"

definition sound_media :: "Highway \<Rightarrow> 'e media_op \<Rightarrow> bool" where
  "sound_media s m \<longleftrightarrow> (\<forall>t e r. m = Some (t, e, r) \<longrightarrow> grows (\<not> isl r) s t)"

named_theorems sound "steps of an upload that only extend the log"

lemma sound_op_simps [simp]:
  "sound_op s None" "sound_op s (Some (s, r))"
  by (simp_all add: sound_op_def)

lemma sound_try_op [sound]:
  assumes "sound_op s m" and "\<And>u a. m = Some (u, Inr a) \<Longrightarrow> sound_op u (f u a)"
  shows "sound_op s (try_op m f)"
  unfolding sound_op_def
proof (intro allI impI)
  fix t r assume "try_op m f = Some (t, r)"
  from try_op_Some [OF this] show "grows (\<not> isl r) s t"
  proof (elim disjE exE conjE)
    fix u a assume u: "m = Some (u, Inr a)" "f u a = Some (t, r)"
    then have "grows True s u" "grows (\<not> isl r) u t"
      using assms(1) assms(2) [OF u(1)] by (auto simp: sound_op_def)
    then show ?thesis by (rule grows_trans)
  qed (use assms(1) in \<open>auto simp: sound_op_def\<close>)
qed

lemma sound_then_media [sound]:
  assumes "sound_op s m" and "\<And>u a. m = Some (u, Inr a) \<Longrightarrow> sound_media u (f u a)"
  shows "sound_media s (then_media e m f)"
  unfolding sound_media_def
proof (intro allI impI)
  fix t e' r assume "then_media e m f = Some (t, e', r)"
  from then_media_Some [OF this] show "grows (\<not> isl r) s t"
  proof (elim disjE exE conjE)
    fix u a assume u: "m = Some (u, Inr a)" "f u a = Some (t, e', r)"
    then have "grows True s u" "grows (\<not> isl r) u t"
      using assms(1) assms(2) [OF u(1)] by (auto simp: sound_op_def sound_media_def)
    then show ?thesis by (rule grows_trans)
  qed (use assms(1) in \<open>auto simp: sound_op_def\<close>)
qed

lemma sound_finish [sound]: "sound_op s m \<Longrightarrow> sound_media s (finish_upload e store m)"
  unfolding sound_op_def sound_media_def by (fastforce dest: finish_upload_Some)

lemma sound_quiet:
  assumes "\<And>t r. m = Some (t, r) \<Longrightarrow> hwy_transfers t = hwy_transfers s
      \<and> (hwy_sig_session s \<noteq> None \<longrightarrow> hwy_sig_session t = hwy_sig_session s)"
  shows "sound_op s m"
  unfolding sound_op_def
proof (intro allI impI)
  fix t r assume "m = Some (t, r)"
  from assms [OF this] show "grows (\<not> isl r) s t" by (simp add: grows_def)
qed

lemma set_stream_pos_simps [simp]:
  "hwy_transfers (set_stream_pos st p s) = hwy_transfers s"
  "hwy_sig_session (set_stream_pos st p s) = hwy_sig_session s"
  "hwy_events (set_stream_pos st p s) = hwy_events s"
  "hwy_client (set_stream_pos st p s) = hwy_client s"
  by (cases st; simp add: set_stream_pos_def)+

lemma sound_ask [sound]: "sound_op s (ask answer s)"
  by (rule sound_quiet) (auto simp: ask_def)

lemma sound_fetch: "hwy_sig_session s = None \<Longrightarrow> sound_op s (fetch_sig_session env s)"
  by (rule sound_quiet) (auto simp: fetch_sig_session_def ask_def try_op_def split: sum.splits option.splits)

lemma sound_prepare [sound]: "sound_op s (prepare_highway env s)"
proof (cases "hwy_sig_session s")
  case None
  then show ?thesis
    unfolding prepare_highway_def
    by (intro sound_try_op) (auto intro: sound_fetch sound_quiet)
next
  case (Some sig)
  then show ?thesis by (auto simp: prepare_highway_def intro: sound_quiet)
qed

lemma sound_pipeline [sound]: "sound_op s (pipeline env st s)"
  by (rule sound_quiet) (auto simp: pipeline_def split: prod.splits sum.splits)

lemma sound_bind [sound]: "(\<And>a. m = Some a \<Longrightarrow> sound_op s (f a)) \<Longrightarrow> sound_op s (Option.bind m f)"
  by (cases m) simp_all

lemma sound_resolve_image [sound]: "sound_op s (resolve_image_file env st s)"
  unfolding resolve_image_file_def
  by (intro sound_try_op sound_pipeline, split prod.split)
    (auto intro!: sound_bind simp: Let_def split: sum.split prod.split,
      auto simp: sound_op_def grows_def)

lemma sound_resolve_audio [sound]: "sound_op s (resolve_audio_file env st s)"
  unfolding resolve_audio_file_def
  by (intro sound_try_op sound_pipeline, split prod.split)
    (auto intro!: sound_bind simp: Let_def, auto simp: sound_op_def grows_def)

lemma sound_resolve_video [sound]: "sound_op s (resolve_video_files env video thumb s)"
  unfolding resolve_video_files_def
  by (intro sound_try_op sound_pipeline, split prod.split)
    (auto intro!: sound_bind sound_try_op sound_pipeline simp: Let_def split: prod.split)

lemma transfer_bytes_Some:
  assumes "transfer_bytes env cmd st d fsize md5 ext s = Some (t, r)"
  shows "\<exists>x. hwy_transfers t = hwy_transfers s @ [x] \<and> hwy_sig_session t = hwy_sig_session s
    \<and> hwy_events t = hwy_events s \<and> hwy_client t = hwy_client s
    \<and> trf_cmd x = cmd \<and> trf_size x = fsize \<and> trf_md5 x = md5 \<and> trf_ext x = ext
    \<and> hs_data (trf_state x) = d \<and> r = map_sum HighWayError id (trf_result x)
    \<and> (trf_result x = Inr () \<longrightarrow> transfer_whole x)"
proof -
  obtain u q where up: "upload_file (hwe_net env (length (hwy_transfers s))) (hwy_client s) cmd fsize md5 ext
      (hw_start d) = Some (u, q)"
    and t: "r = map_sum HighWayError id q"
      "t = (let s = s\<lparr>hwy_transfers := hwy_transfers s @
              [\<lparr>trf_cmd = cmd, trf_size = fsize, trf_md5 = md5, trf_ext = ext, trf_state = u,
                trf_result = q\<rparr>]\<rparr> in
            (case st of None \<Rightarrow> s | Some st \<Rightarrow> set_stream_pos st (hs_pos u) s))"
    using assms by (auto simp: transfer_bytes_def bind_eq_Some_conv Let_def)
  have "hs_data u = d" by (rule upload_file_keeps [OF up])
  moreover have "q = Inr () \<Longrightarrow> \<exists>fs. (hs_tcp u = fs \<or> hs_http u = fs)
      \<and> (unat fsize = length (hs_data u) \<longrightarrow> concat (map hf_body fs) = hs_data u)"
    using upload_file_whole [of "hwe_net env (length (hwy_transfers s))" "hwy_client s" cmd fsize md5 ext d u]
      up calculation by (auto simp: Let_def)
  ultimately show ?thesis
    using t upload_file_zero [of "hwe_net env (length (hwy_transfers s))" "hwy_client s" cmd md5 ext d u q] up
    by (cases st) (auto simp: transfer_whole_def Let_def)
qed

lemma sound_transfer [sound]: "sound_op s (transfer_bytes env cmd st d fsize md5 ext s)"
  unfolding sound_op_def grows_def
proof (intro allI impI conjI)
  fix t r assume "transfer_bytes env cmd st d fsize md5 ext s = Some (t, r)"
  from transfer_bytes_Some [OF this] obtain x where x: "hwy_transfers t = hwy_transfers s @ [x]"
    "hwy_sig_session t = hwy_sig_session s" "r = map_sum HighWayError id (trf_result x)"
    "trf_result x = Inr () \<longrightarrow> transfer_whole x" by blast
  show "\<exists>ts. hwy_transfers t = hwy_transfers s @ ts \<and> (\<not> isl r \<longrightarrow> list_all transfer_whole ts)"
    using x by (intro exI [of _ "[x]"]) (cases "trf_result x"; simp)
  show "hwy_sig_session t = hwy_sig_session s" using x by simp
qed

lemma sound_send_media [sound]: "sound_op s (send_media env cmd k u_key hashes res st d fsize s)"
  unfolding send_media_def
  by (auto split: option.split prod.split intro!: sound_try_op sound_transfer)

lemma sound_send_video [sound]: "sound_op s (send_video env video_cmd thumb_cmd v vs is stream_sha1 res s)"
  unfolding send_video_def by (intro sound_try_op sound_send_media sound_op_simps)

lemma sound_media_simps [simp]:
  "sound_media s None" "sound_media s (Some (s, e, r))"
  by (simp_all add: sound_media_def)

lemma sound_media_bind [sound]:
  "(\<And>a. m = Some a \<Longrightarrow> sound_media s (f a)) \<Longrightarrow> sound_media s (Option.bind m f)"
  by (cases m) simp_all

section \<open>The contract of an upload\<close>

text \<open>
  What the client relies on: an upload that fails leaves the media information as it was, one
  that succeeds has stored some; the log grows, by good transfers only after a success; the
  cached ticket stays. \<open>needs\<close> are the entities that have to be uploaded.
\<close>

locale uploader =
  fixes up :: "'e \<Rightarrow> Highway \<Rightarrow> 'e media_op" and needs :: "'e \<Rightarrow> bool" and info :: "'e \<Rightarrow> MsgInfo option"
  assumes failed: "up e s = Some (t, e', Inl err) \<Longrightarrow> needs e' = needs e \<and> info e' = info e"
    and stored: "up e s = Some (t, e', Inr ()) \<Longrightarrow> needs e' = needs e \<and> (needs e \<longrightarrow> info e' \<noteq> None)"
    and grown: "sound_media s (up e s)"

context uploader
begin

lemma each_grown: "sound_media s (upload_each up es s)"
proof (induction es arbitrary: s)
  case (Cons e es)
  show ?case
    unfolding sound_media_def
  proof (intro allI impI)
    fix t fs r assume "upload_each up (e # es) s = Some (t, fs, r)"
    then obtain u e' q where u: "up e s = Some (u, e', q)"
      and rest: "(case q of Inl err \<Rightarrow> Some (u, e' # es, Inl err)
        | Inr _ \<Rightarrow> do { (s, es, r) \<leftarrow> upload_each up es u; Some (s, e' # es, r) }) = Some (t, fs, r)"
      by (auto simp: bind_eq_Some_conv)
    have g: "grows (\<not> isl q) s u" using grown [of s e] u by (simp add: sound_media_def)
    show "grows (\<not> isl r) s t"
    proof (cases q)
      case (Inl err)
      then show ?thesis using g rest by auto
    next
      case (Inr x)
      then obtain gs where "upload_each up es u = Some (t, gs, r)"
        using rest by (auto simp: bind_eq_Some_conv)
      then have "grows (\<not> isl r) u t" using Cons.IH [of u] by (simp add: sound_media_def)
      then show ?thesis using g Inr by (auto intro: grows_trans)
    qed
  qed
qed simp

lemma each_stored:
  "upload_each up es s = Some (t, fs, Inr ()) \<Longrightarrow>
     list_all2 (\<lambda>e e'. needs e' = needs e \<and> (needs e \<longrightarrow> info e' \<noteq> None)) es fs"
proof (induction es arbitrary: s fs)
  case (Cons e es)
  then obtain u e' q where u: "up e s = Some (u, e', q)"
    and rest: "(case q of Inl err \<Rightarrow> Some (u, e' # es, Inl err)
        | Inr _ \<Rightarrow> do { (s, es, r) \<leftarrow> upload_each up es u; Some (s, e' # es, r) }) = Some (t, fs, Inr ())"
    by (auto simp: bind_eq_Some_conv)
  then obtain gs where "q = Inr ()" "upload_each up es u = Some (t, gs, Inr ())" "fs = e' # gs"
    by (cases q) (auto simp: bind_eq_Some_conv)
  then show ?case using stored u Cons.IH by auto
qed simp

text \<open>An error is that of one entity: those before it are uploaded, those after it as they were.\<close>

lemma each_error:
  "upload_each up es s = Some (t, fs, Inl err) \<Longrightarrow>
     \<exists>done e rest done' e' u. es = done @ e # rest \<and> fs = done' @ e' # rest
       \<and> upload_each up done s = Some (u, done', Inr ()) \<and> up e u = Some (t, e', Inl err)"
proof (induction es arbitrary: s fs)
  case (Cons e es)
  then obtain u e' q where u: "up e s = Some (u, e', q)"
    and rest: "(case q of Inl err \<Rightarrow> Some (u, e' # es, Inl err)
        | Inr _ \<Rightarrow> do { (s, es, r) \<leftarrow> upload_each up es u; Some (s, e' # es, r) }) = Some (t, fs, Inl err)"
    by (auto simp: bind_eq_Some_conv)
  show ?case
  proof (cases q)
    case (Inl x)
    then show ?thesis using u rest by (intro exI [of _ "[]"]) auto
  next
    case (Inr x)
    then obtain gs where gs: "upload_each up es u = Some (t, gs, Inl err)" "fs = e' # gs"
      using rest by (auto simp: bind_eq_Some_conv)
    from Cons.IH [OF gs(1)] obtain ok y rest ok' y' v where
      "es = ok @ y # rest" "gs = ok' @ y' # rest" "upload_each up ok u = Some (v, ok', Inr ())"
      "up y v = Some (t, y', Inl err)" by blast
    then show ?thesis
      using u Inr gs(2)
      by (intro exI [of _ "e # ok"] exI [of _ y] exI [of _ rest] exI [of _ "e' # ok'"]
          exI [of _ y'] exI [of _ v]) simp
  qed
qed simp

end

text \<open>The three shapes keep the contract.\<close>

lemma image_stream_info: "image_resolve_stream len im = (im', st) \<Longrightarrow> im_msg_info im' = im_msg_info im"
  by (auto simp: image_resolve_stream_def split: option.splits)

lemma record_stream_info: "record_resolve_stream len r = (r', st) \<Longrightarrow> rc_msg_info r' = rc_msg_info r"
  by (auto simp: record_resolve_stream_def split: option.splits)

lemma video_streams_info:
  assumes "video_streams env v = Some (v', r)"
  shows "vd_msg_info v' = vd_msg_info v"
proof -
  obtain q where "video_resolve_stream (file_len env) (hwe_thumbnail env) v = Some (v', q)"
    using assms by (auto simp: video_streams_def bind_eq_Some_conv)
  then show ?thesis
    by (auto simp: video_resolve_stream_def Let_def split: option.split_asm prod.split_asm sum.split_asm)
qed

lemma image_sound: "sound_media s (upload_image_with env cmd answer keep im s)"
  unfolding upload_image_with_def Let_def split_beta
  by (rule sound_then_media [OF sound_prepare], split option.split)
    (intro conjI impI allI sound_media_simps sound_finish sound_try_op sound_resolve_image sound_ask
      sound_send_media sound_op_simps)

lemma video_sound: "sound_media s (upload_video_with env video_cmd thumb_cmd answer v s)"
  unfolding upload_video_with_def split_beta
  by (rule sound_then_media [OF sound_prepare], rule sound_media_bind, split sum.split)
    (intro conjI impI allI sound_media_simps sound_finish sound_try_op sound_resolve_video sound_ask
      sound_send_video)

lemma record_sound: "sound_media s (upload_record_with env cmd answer name r s)"
  unfolding upload_record_with_def Let_def split_beta
  by (rule sound_then_media [OF sound_prepare], split option.split)
    (intro conjI impI allI sound_media_simps sound_then_media sound_finish sound_try_op sound_resolve_audio
      sound_ask sound_send_media sound_op_simps)

lemma image_info:
  assumes "upload_image_with env cmd answer keep im s = Some (t, im', r)"
    and "\<And>c x. im_msg_info (keep c x) = im_msg_info x"
  shows "if isl r then im_msg_info im' = im_msg_info im else im_msg_info im' \<noteq> None"
proof -
  obtain im1 st where st: "image_resolve_stream (file_len env) im = (im1, st)"
    by (cases "image_resolve_stream (file_len env) im")
  note i = image_stream_info [OF st]
  from then_media_Some [OF assms(1) [unfolded upload_image_with_def st]] show ?thesis
    using i assms(2)
    by (elim disjE exE conjE) (auto split: option.split_asm dest!: finish_upload_Some)
qed

lemma video_info:
  assumes "upload_video_with env video_cmd thumb_cmd answer v s = Some (t, v', r)"
  shows "if isl r then vd_msg_info v' = vd_msg_info v else vd_msg_info v' \<noteq> None"
  using then_media_Some [OF assms [unfolded upload_video_with_def]]
proof (elim disjE exE conjE)
  fix s1 a
  assume "do { (v, streams) \<leftarrow> video_streams env v;
            (case streams of
               Inl e \<Rightarrow> Some (s1, v, Inl e)
             | Inr (vs, is) \<Rightarrow>
                 finish_upload v
                   (\<lambda>res v. v\<lparr>vd_msg_info := Some (ulr_msg_info res), vd_compat := Some (ulr_compat res)\<rparr>)
                   (try_op (resolve_video_files env vs is s1)
                     (\<lambda>s (file_md5, file_sha1, stream_sha1, thumb_md5, thumb_sha1).
                    try_op (ask (\<lambda>n. answer n
                        (video_args env v file_md5 file_sha1 thumb_md5 thumb_sha1)) s) (\<lambda>s res.
                      send_video env video_cmd thumb_cmd v vs is stream_sha1 res s)))) } = Some (t, v', r)"
  then obtain v1 q where v1: "video_streams env v = Some (v1, q)"
    and q: "(case q of Inl e \<Rightarrow> Some (s1, v1, Inl e)
             | Inr (vs, is) \<Rightarrow>
                 finish_upload v1
                   (\<lambda>res v. v\<lparr>vd_msg_info := Some (ulr_msg_info res), vd_compat := Some (ulr_compat res)\<rparr>)
                   (try_op (resolve_video_files env vs is s1)
                     (\<lambda>s (file_md5, file_sha1, stream_sha1, thumb_md5, thumb_sha1).
                    try_op (ask (\<lambda>n. answer n
                        (video_args env v1 file_md5 file_sha1 thumb_md5 thumb_sha1)) s) (\<lambda>s res.
                      send_video env video_cmd thumb_cmd v1 vs is stream_sha1 res s)))) = Some (t, v', r)"
    by (auto simp: bind_eq_Some_conv)
  note i = video_streams_info [OF v1]
  show ?thesis
    using q i by (cases q) (auto dest!: finish_upload_Some)
qed simp

lemma record_info:
  assumes "upload_record_with env cmd answer name r s = Some (t, r', x)"
  shows "if isl x then rc_msg_info r' = rc_msg_info r else rc_msg_info r' \<noteq> None"
proof -
  obtain r1 st where st: "record_resolve_stream (file_len env) r = (r1, st)"
    by (cases "record_resolve_stream (file_len env) r")
  note i = record_stream_info [OF st]
  from then_media_Some [OF assms [unfolded upload_record_with_def st]] show ?thesis
    using i by (elim disjE exE conjE)
      (auto split: option.split_asm dest!: finish_upload_Some then_media_Some)
qed

interpretation group_image: uploader "upload_group_image env g" "\<lambda>_. True" im_msg_info for env g
  unfolding upload_group_image_def
  by unfold_locales (auto simp: image_sound dest!: image_info)

interpretation c2c_image: uploader "upload_c2c_image env uid" "\<lambda>_. True" im_msg_info for env uid
  unfolding upload_c2c_image_def
  by unfold_locales (auto simp: image_sound dest!: image_info)

interpretation group_video: uploader "upload_group_video env g" "\<lambda>_. True" vd_msg_info for env g
  unfolding upload_group_video_def
  by unfold_locales (auto simp: video_sound dest!: video_info)

interpretation c2c_video: uploader "upload_c2c_video env uid" "\<lambda>_. True" vd_msg_info for env uid
  unfolding upload_c2c_video_def
  by unfold_locales (auto simp: video_sound dest!: video_info)

interpretation group_record: uploader "upload_group_record env g" "\<lambda>_. True" rc_msg_info for env g
  unfolding upload_group_record_def
  by unfold_locales (auto simp: record_sound dest!: record_info)

interpretation c2c_record: uploader "upload_c2c_record env uid" "\<lambda>_. True" rc_msg_info for env uid
  unfolding upload_c2c_record_def
  by unfold_locales (auto simp: record_sound dest!: record_info)

end
