(* ===== verification/Event_Logic.thy ===== *)
theory Event_Logic
  imports Business Highway_Op
begin

text \<open>
  Two of the logic handlers, \<open>caching_logic\<close> and \<open>wt_logic\<close> (\<open>mania/src/core/business/\<close>), the
  types of the events they handle (\<open>core/event/notify/\<close>, \<open>core/event/system/kick_nt.rs\<close>), and the
  channels to the listeners (\<open>event/mod.rs\<close>): \<open>watch\<close> channels, which keep the last value only.
\<close>

section \<open>Watch channels\<close>

text \<open>
  The value and the number of changes. A receiver remembers the number it has seen; \<open>changed\<close> is
  ready when there is a newer one, and reading gives the latest value.
\<close>

record 'a watch =
  wch_value :: 'a
  wch_version :: nat

definition watch_channel :: "'a \<Rightarrow> 'a watch" where
  "watch_channel v = \<lparr>wch_value = v, wch_version = 0\<rparr>"

definition watch_send :: "'a \<Rightarrow> 'a watch \<Rightarrow> 'a watch" where
  "watch_send v c = \<lparr>wch_value = v, wch_version = wch_version c + 1\<rparr>"

definition watch_poll :: "'a watch \<Rightarrow> nat \<Rightarrow> (nat \<times> 'a) option" where
  "watch_poll c seen = (if wch_version c = seen then None else Some (wch_version c, wch_value c))"

section \<open>Events and world\<close>

text \<open>The events of the program as far as the logic handlers tell them apart.\<close>

datatype logic_event =
    EvPushMessage "MessageChain option"
  | EvSendMessage MessageChain MessageResult
  | EvRequestJoin GroupSysRequestJoinEvent
  | EvInvite GroupSysInviteEvent
  | EvAdmin GroupSysAdminEvent
  | EvPoke GroupSysPokeEvent
  | EvReaction GroupSysReactionEvent
  | EvRecall GroupSysRecallEvent
  | EvEssence GroupSysEssenceEvent
  | EvIncrease GroupSysIncreaseEvent
  | EvDecrease GroupSysDecreaseEvent
  | EvMute GroupSysMuteEvent
  | EvMemberMute GroupSysMemberMuteEvent
  | EvNameChange GroupSysNameChangeEvent
  | EvTodo GroupSysTodoEvent
  | EvSpecialTitle GroupSysSpecialTitleEvent
  | EvMemberEnter GroupSysMemberEnterEvent
  | EvPinChange GroupSysPinChangeEvent
  | EvRequestInvitation GroupSysRequestInvitationEvent
  | EvFriendRecall FriendSysRecallEvent
  | EvFriendPoke FriendSysPokeEvent
  | EvFriendNew FriendSysNewEvent
  | EvFriendRename FriendSysRenameEvent
  | EvFriendRequest FriendSysRequestEvent
  | EvBotRename BotSysRenameEvent
  | EvKick KickNTEvent
  | EvOther

datatype GroupEvent =
    GroupAdminChanged GroupAdminChangedEvent
  | GroupEssence GroupEssenceEvent
  | GroupInvitation GroupInvitationEvent
  | GroupInvitationRequest GroupInvitationRequestEvent
  | GroupJoinRequest GroupJoinRequestEvent
  | GroupMemberDecrease GroupMemberDecreaseEvent
  | GroupMemberEnter GroupMemberEnterEvent
  | GroupMemberIncrease GroupMemberIncreaseEvent
  | GroupMemberMute GroupMemberMuteEvent
  | GroupMessage MessageChain
  | GroupMute GroupMuteEvent
  | GroupNameChange GroupNameChangeEvent
  | GroupPinChanged PinChangedEvent
  | GroupPoke GroupPokeEvent
  | GroupReaction GroupReactionEvent
  | GroupRecall GroupRecallEvent
  | GroupTodo GroupTodoEvent
  | GroupSpecialTitle GroupSpecialTitleEvent

datatype FriendEvent =
    FriendPoke FriendPokeEvent
  | FriendMessage MessageChain
  | FriendRecall FriendRecallEvent
  | FriendRequest FriendRequestEvent
  | FriendRename FriendRenameEvent
  | FriendNew FriendNewEvent

datatype SystemEvent =
    SysBotOnline BotOnlineEvent
  | SysBotOffline BotOfflineEvent
  | SysTempMessage MessageChain
  | SysBotRename BotRenameEvent

record logic_world =
  lw_contacts :: contact_state
  lw_context :: Context
  lw_group :: "GroupEvent option watch"
  lw_friend :: "FriendEvent option watch"
  lw_system :: "SystemEvent option watch"
  lw_highway :: Highway

type_synonym logic_handler = "(logic_event, logic_world) handler"

section \<open>The handlers\<close>

definition KickNTEvent_parse ::
    "(bytes \<Rightarrow> (rstring \<times> rstring) option) \<Rightarrow> bytes \<Rightarrow> EventError + KickNTEvent" where
  "KickNTEvent_parse decode packet =
     (case decode packet of
        None \<Rightarrow> Inl ProtoParseError
      | Some (tips, title) \<Rightarrow> Inr \<lparr>kick_tips = tips, kick_title = title\<rparr>)"

text \<open>A failed refresh is logged only.\<close>

definition refresh_logged :: "contact_server \<Rightarrow> u32 \<Rightarrow> logic_world \<Rightarrow> logic_world option" where
  "refresh_logged sv group_uin w =
     do { (c, _) \<leftarrow> refresh_group_members_cache sv group_uin (lw_contacts w);
          Some (w\<lparr>lw_contacts := c\<rparr>) }"

definition caching_logic_incoming ::
    "contact_server \<Rightarrow> logic_event \<Rightarrow> logic_world \<Rightarrow> logic_world option" where
  "caching_logic_incoming sv event w =
     (case event of
        EvIncrease increase \<Rightarrow> refresh_logged sv (gsi_group_uin increase) w
      | EvDecrease decrease \<Rightarrow>
          do { self_uid \<leftarrow> ks_uid (ctx_key_store (lw_context w));
               if gsd_member_uid decrease \<noteq> self_uid
               then refresh_logged sv (gsd_group_uin decrease) w
               else Some w }
      | _ \<Rightarrow> Some w)"

definition caching_logic :: "contact_server \<Rightarrow> logic_handler" where
  "caching_logic sv w event flow =
     (case flow of
        InComing \<Rightarrow> do { w \<leftarrow> caching_logic_incoming sv event w; Some (w, event, Inr ()) }
      | OutGoing \<Rightarrow> Some (w, event, Inr ()))"

definition wt_logic_incoming :: "logic_event \<Rightarrow> logic_world \<Rightarrow> logic_world" where
  "wt_logic_incoming event w =
     (case event of
        EvKick kick \<Rightarrow> w\<lparr>lw_system := watch_send (Some (SysBotOffline
          \<lparr>bof_reason = Some (kick_title kick @ str '': '' @ kick_tips kick)\<rparr>)) (lw_system w)\<rparr>
      | _ \<Rightarrow> w)"

definition wt_logic :: logic_handler where
  "wt_logic w event flow =
     (case flow of
        InComing \<Rightarrow> Some (wt_logic_incoming event w, event, Inr ())
      | OutGoing \<Rightarrow> Some (w, event, Inr ()))"

text \<open>The types \<open>handle_event\<close> registers each handler for.\<close>

datatype event_tag =
  TagPushMessage | TagSendMessage | TagRequestJoin | TagInvite | TagAdmin | TagPoke |
  TagReaction | TagRecall | TagEssence | TagIncrease | TagDecrease | TagMute | TagMemberMute |
  TagNameChange | TagTodo | TagSpecialTitle | TagMemberEnter | TagPinChange |
  TagRequestInvitation | TagFriendRecall | TagFriendPoke | TagFriendNew | TagFriendRename |
  TagFriendRequest | TagBotRename | TagKick | TagOther

fun tag_of :: "logic_event \<Rightarrow> event_tag" where
  "tag_of (EvPushMessage _) = TagPushMessage"
| "tag_of (EvSendMessage _ _) = TagSendMessage"
| "tag_of (EvRequestJoin _) = TagRequestJoin"
| "tag_of (EvInvite _) = TagInvite"
| "tag_of (EvAdmin _) = TagAdmin"
| "tag_of (EvPoke _) = TagPoke"
| "tag_of (EvReaction _) = TagReaction"
| "tag_of (EvRecall _) = TagRecall"
| "tag_of (EvEssence _) = TagEssence"
| "tag_of (EvIncrease _) = TagIncrease"
| "tag_of (EvDecrease _) = TagDecrease"
| "tag_of (EvMute _) = TagMute"
| "tag_of (EvMemberMute _) = TagMemberMute"
| "tag_of (EvNameChange _) = TagNameChange"
| "tag_of (EvTodo _) = TagTodo"
| "tag_of (EvSpecialTitle _) = TagSpecialTitle"
| "tag_of (EvMemberEnter _) = TagMemberEnter"
| "tag_of (EvPinChange _) = TagPinChange"
| "tag_of (EvRequestInvitation _) = TagRequestInvitation"
| "tag_of (EvFriendRecall _) = TagFriendRecall"
| "tag_of (EvFriendPoke _) = TagFriendPoke"
| "tag_of (EvFriendNew _) = TagFriendNew"
| "tag_of (EvFriendRename _) = TagFriendRename"
| "tag_of (EvFriendRequest _) = TagFriendRequest"
| "tag_of (EvBotRename _) = TagBotRename"
| "tag_of (EvKick _) = TagKick"
| "tag_of EvOther = TagOther"

definition registered_logic :: "contact_server \<Rightarrow> (event_tag \<times> logic_handler) list" where
  "registered_logic sv =
     [(TagIncrease, caching_logic sv), (TagDecrease, caching_logic sv), (TagKick, wt_logic)]"

definition contact_logic_env ::
    "contact_server \<Rightarrow> (rstring \<rightharpoonup> (bytes \<Rightarrow> logic_world \<Rightarrow> (logic_world \<times> (EventError + logic_event ce_parse)) option))
      \<Rightarrow> (logic_event, logic_world) logic_env" where
  "contact_logic_env sv parsers =
     \<lparr>EVENT_MAP = parsers, LOGIC_MAP = (\<lambda>e. logic_map (registered_logic sv) (tag_of e))\<rparr>"

section \<open>Lemmas\<close>

text \<open>A listener that polls after several events sees the last one only.\<close>

lemma watch_keeps_last:
  "vs \<noteq> [] \<Longrightarrow> watch_poll (fold watch_send vs c) (wch_version c)
     = Some (wch_version c + length vs, last vs)"
proof (induction vs rule: rev_induct)
  case (snoc v vs)
  have "wch_version (fold watch_send us c) = wch_version c + length us" for us
    by (induction us arbitrary: c) (simp_all add: watch_send_def)
  then have "wch_version (watch_send v (fold watch_send vs c)) = wch_version c + length vs + 1"
      "wch_value (watch_send v (fold watch_send vs c)) = v"
    by (simp_all add: watch_send_def [of v])
  then show ?case by (simp add: watch_poll_def)
qed simp

lemma dispatch_contact_logic:
  "dispatch_logic (contact_logic_env sv parsers) InComing w (EvIncrease i)
     = map_option (\<lambda>w. (w, EvIncrease i, Inr ())) (refresh_logged sv (gsi_group_uin i) w)"
  by (cases "refresh_logged sv (gsi_group_uin i) w")
    (simp_all add: dispatch_logic_def contact_logic_env_def registered_logic_def caching_logic_def
      caching_logic_incoming_def)

text \<open>Somebody joining a group brings the cached list of the group up to date.\<close>

lemma join_refreshes_group:
  assumes "cache_wf (cs_cache (lw_contacts w))" and "ca_mode (cs_cache (lw_contacts w)) \<noteq> NoCache"
    and "serves (co_members sv (gsi_group_uin i)) fme_token None (cs_reqs (lw_contacts w)) es"
  shows "\<exists>w' m. dispatch_logic (contact_logic_env sv parsers) InComing w (EvIncrease i)
      = Some (w', EvIncrease i, Inr ())
    \<and> ca_members (cs_cache (lw_contacts w')) = Some m
    \<and> m (gsi_group_uin i) = Some (concat (map fme_group_members es))"
proof -
  obtain t m where "refresh_group_members_cache sv (gsi_group_uin i) (lw_contacts w) = Some (t, Inr ())"
      "ca_members (cs_cache t) = Some (m(gsi_group_uin i \<mapsto> concat (map fme_group_members es)))"
    using refresh_members_exact [OF assms] by blast
  then show ?thesis by (simp add: dispatch_contact_logic refresh_logged_def)
qed

text \<open>The account leaving a group itself asks nothing of the server.\<close>

lemma own_leave_keeps_world:
  "ks_uid (ctx_key_store (lw_context w)) = Some (gsd_member_uid d) \<Longrightarrow>
     caching_logic_incoming sv (EvDecrease d) w = Some w"
  by (simp add: caching_logic_incoming_def)

end
