(* ===== verification/Push_Protos.thy ===== *)
theory Push_Protos
  imports Mania_Prelude
begin

text \<open>
  The protobuf messages inside pushed notifications (\<open>core/protos/message/notify.proto\<close>), with the
  fields the program reads. A message of one or two fields is the tuple of these; \<open>x option\<close> stands
  for a nested message that may be missing.
\<close>

record GroupMute =
  gmt_group_uin :: u32
  gmt_operator_uid :: "rstring option"
  gmt_state :: "(rstring option \<times> u32) option option"   \<comment> \<open>\<open>data.state\<close>: \<open>target_uid\<close>, \<open>duration\<close>\<close>

record GroupAdmin =
  gam_group_uin :: u32
  gam_body :: "(rstring option \<times> rstring option) option" \<comment> \<open>\<open>extra_disable\<close>, \<open>extra_enable\<close>: the \<open>admin_uid\<close>\<close>

record GroupChange =
  gch_group_uin :: u32
  gch_member_uid :: rstring
  gch_decrease_type :: u32
  gch_operator :: "bytes option"

record RecallMessage =
  rcm_sequence :: u64
  rcm_time :: u32
  rcm_random :: u32
  rcm_author_uid :: rstring

record GroupRecall =
  grc_operator_uid :: "rstring option"
  grc_messages :: "RecallMessage list"
  grc_tip :: "rstring option"

record EssenceMessage =
  em_msg_sequence :: u32
  em_random :: u32
  em_set_flag :: u32
  em_author_uin :: u32
  em_operator_uin :: u32

record GrayTipInfo =
  gt_busi_type :: u64
  gt_params :: "(rstring \<times> rstring) list"

record ReactionData =
  rd_operator_uid :: rstring
  rd_type :: u32
  rd_code :: rstring
  rd_count :: u32

record NotifyMessageBody =
  nm_group_uin :: u32
  nm_event_param :: bytes
  nm_recall :: "GroupRecall option"
  nm_field13 :: "u32 option"
  nm_operator_uid :: rstring
  nm_gray_tip :: "GrayTipInfo option"
  nm_essence :: "EssenceMessage option"
  nm_reaction :: "(u32 option \<times> ReactionData option) option option option"
    \<comment> \<open>\<open>reaction\<close>, its \<open>data\<close>, the \<open>data\<close> of that: the target sequence and the reaction\<close>

record Sub39Body =
  s39_type :: u32
  s39_pin_changed :: "(rstring \<times> u32 option \<times> bytes option) option option"
    \<comment> \<open>\<open>pin_changed\<close>, its \<open>body\<close>: uid, group, the timestamp of \<open>info\<close>\<close>
  s39_data :: "(rstring \<times> rstring option) option"
    \<comment> \<open>uid, the nickname of \<open>rename_data\<close>\<close>

record FriendRecallInfo =
  fri_sequence :: u32
  fri_time :: u32
  fri_random :: u32
  fri_tip :: "rstring option option"

text \<open>
  The decoders, the regular expression \<open><(.*?)>\<close> (the texts of its captures), the JSON parser and
  the texts of third-party errors.
\<close>

record notify_codec =
  nc_invitation :: "bytes \<Rightarrow> (i32 \<times> (u32 \<times> rstring \<times> rstring) option option) option"
  nc_join :: "bytes \<Rightarrow> (u32 \<times> rstring) option"
  nc_invite :: "bytes \<Rightarrow> (u32 \<times> rstring) option"
  nc_admin :: "bytes \<Rightarrow> GroupAdmin option"
  nc_change :: "bytes \<Rightarrow> GroupChange option"
  nc_operator :: "bytes \<Rightarrow> rstring option option"
  nc_mute :: "bytes \<Rightarrow> GroupMute option"
  nc_notify :: "bytes \<Rightarrow> NotifyMessageBody option"
  nc_special_title :: "bytes \<Rightarrow> (rstring \<times> u32) option"
  nc_name_change :: "bytes \<Rightarrow> rstring option"

record friend_codec =
  nc_self_rename :: "bytes \<Rightarrow> rstring option option option"
  nc_friend_request :: "bytes \<Rightarrow> (rstring \<times> rstring \<times> rstring) option option"
  nc_member_enter :: "bytes \<Rightarrow> (u32 \<times> u32 \<times> u32 option) option option option option"
  nc_sub39 :: "bytes \<Rightarrow> Sub39Body option option"
  nc_friend_recall :: "bytes \<Rightarrow> FriendRecallInfo option option"
  nc_gray_tip :: "bytes \<Rightarrow> GrayTipInfo option"
  nc_new_friend :: "bytes \<Rightarrow> (rstring \<times> rstring \<times> rstring) option option"

record text_codec =
  tc_captures :: "rstring \<Rightarrow> rstring list"
  tc_user_info :: "rstring \<Rightarrow> rstring option"
  tc_medal_info :: "rstring \<Rightarrow> (rstring \<times> rstring) option"
  tc_primitive_debug :: "u32 \<Rightarrow> rstring"
  tc_primitive_display :: "u32 \<Rightarrow> rstring"
  tc_utf8_error :: "bytes \<Rightarrow> rstring"

end
