(* ===== verification/Push_Msg.thy ===== *)
theory Push_Msg
  imports Event_Logic Push_Protos
begin

text \<open>
  \<open>PushMessageEvent\<close> (\<open>mania/src/core/event/message/push_msg.rs\<close>): what the server pushes is a chat
  message, which becomes a chain, or one of some twenty notifications, which become an extra event
  of their own.

  \<open>packet\<close> is the \<open>message\<close> of the \<open>PushMsg\<close>. Its content is taken out once, so that \<open>take\<close> reads like
  any access. A handler returns the events it pushes to \<open>extra\<close>, which starts empty; \<open>None\<close> is a panic.
\<close>

section \<open>Types\<close>

datatype PkgType =
    PrivateMessage | GroupMessagePkg | TempMessage | Event0x210 | Event0x2DC | PrivateRecordMessage
  | PrivateFileMessage | GroupRequestInvitationNotice | GroupRequestJoinNotice | GroupInviteNotice
  | GroupAdminChangedNotice | GroupMemberIncreaseNotice | GroupMemberDecreaseNotice

definition PkgType_try_from :: "u32 \<Rightarrow> PkgType option" where
  "PkgType_try_from n = map_of
     [(166, PrivateMessage), (82, GroupMessagePkg), (141, TempMessage), (0x210, Event0x210),
      (0x2DC, Event0x2DC), (208, PrivateRecordMessage), (529, PrivateFileMessage),
      (525, GroupRequestInvitationNotice), (84, GroupRequestJoinNotice), (87, GroupInviteNotice),
      (44, GroupAdminChangedNotice), (33, GroupMemberIncreaseNotice),
      (34, GroupMemberDecreaseNotice)] n"

datatype Event0x2DCSubType =
  GroupMuteNotice | SubType16 | GroupRecallNotice | GroupEssenceNotice | GroupGreyTipNotice

definition Event0x2DCSubType_try_from :: "u32 \<Rightarrow> Event0x2DCSubType option" where
  "Event0x2DCSubType_try_from n = map_of
     [(12, GroupMuteNotice), (16, SubType16), (17, GroupRecallNotice), (21, GroupEssenceNotice),
      (20, GroupGreyTipNotice)] n"

datatype Event0x2DCSubType16Field13 =
  GroupMemberSpecialTitleNotice | GroupNameChangeNotice | GroupTodoNotice | GroupReactionNotice

definition Event0x2DCSubType16Field13_try_from :: "u32 \<Rightarrow> Event0x2DCSubType16Field13 option" where
  "Event0x2DCSubType16Field13_try_from n = map_of
     [(6, GroupMemberSpecialTitleNotice), (12, GroupNameChangeNotice), (23, GroupTodoNotice),
      (35, GroupReactionNotice)] n"

datatype Event0x210SubType =
    SelfRenameNotice | FriendRequestNotice | GroupMemberEnterNotice | FriendDeleteOrPinChangedNotice
  | FriendRecallNotice | SubType179 | ServicePinChanged | SubType226 | FriendPokeNotice
  | GroupKickNotice

definition Event0x210SubType_try_from :: "u32 \<Rightarrow> Event0x210SubType option" where
  "Event0x210SubType_try_from n = map_of
     [(29, SelfRenameNotice), (35, FriendRequestNotice), (38, GroupMemberEnterNotice),
      (39, FriendDeleteOrPinChangedNotice), (138, FriendRecallNotice), (179, SubType179),
      (199, ServicePinChanged), (226, SubType226), (290, FriendPokeNotice), (212, GroupKickNotice)] n"

type_synonym extras = "(EventError + logic_event list) option"

definition warn :: "string \<Rightarrow> EventError" where "warn s = InternalWarning (str s)"

definition push1 :: "logic_event \<Rightarrow> extras" where "push1 e = Some (Inr [e])"

lemma push1_simps [simp]: "push1 e = Some (Inr [e])"
  by (simp add: push1_def)

section \<open>Reading the packet\<close>

definition msg_content_of :: "PushMsgBody option \<Rightarrow> bytes option" where
  "msg_content_of packet = do { content \<leftarrow> packet; body \<leftarrow> pm_body content; mb_msg_content body }"

definition extract_stable_msg_content :: "PushMsgBody option \<Rightarrow> string \<Rightarrow> EventError + bytes" where
  "extract_stable_msg_content packet err_tip = ok_or (other_err err_tip) (msg_content_of packet)"

definition extract_unstable_msg_content :: "PushMsgBody option \<Rightarrow> string \<Rightarrow> EventError + bytes" where
  "extract_unstable_msg_content packet err_tip = ok_or (warn err_tip) (msg_content_of packet)"

definition decoded :: "'a option \<Rightarrow> EventError + 'a" where
  "decoded x = ok_or ProtoParseError x"

definition extract_0x2dc_head ::
    "(bytes \<Rightarrow> 'm option) \<Rightarrow> bytes \<Rightarrow> (EventError + u32 \<times> 'm) option" where
  "extract_0x2dc_head decode msg_content =
     do { (group_uin, rd) \<leftarrow> rd_u32 msg_content;
          (_, rd) \<leftarrow> rd_u8 rd;
          (proto, rd) \<leftarrow> read_with_length (PREFIX_U16 OR PREFIX_LENGTH_ONLY) rd_bytes rd;
          try_res (decoded (decode proto)) (\<lambda>msg_body. Some (Inr (group_uin, msg_body))) }"

definition extract_0x_sub_type :: "PushMsgBody option \<Rightarrow> EventError + u32" where
  "extract_0x_sub_type packet =
     ok_or (other_err ''Cannot get sub_type in PushMsg'')
       (do { msg \<leftarrow> packet; content_head \<leftarrow> pm_content_head msg; ch_sub_type content_head })"

record PokeArgs =
  pk_action :: rstring
  pk_operator_uin :: u32
  pk_target_uin :: u32
  pk_suffix :: rstring
  pk_action_img_url :: rstring

text \<open>Later parameters of a key replace earlier ones, as in a \<open>HashMap\<close>.\<close>

definition extract_poke_info :: "GrayTipInfo \<Rightarrow> PokeArgs" where
  "extract_poke_info gt =
     (let templates = map_of (rev (gt_params gt));
          get = (\<lambda>key. or_empty (templates (str key)))
      in \<lparr>pk_action = (case templates (str ''action_str'') of Some a \<Rightarrow> a | None \<Rightarrow> get ''alt_str1''),
          pk_operator_uin = or_zero (parse_u32 (get ''uin_str1'')),
          pk_target_uin = or_zero (parse_u32 (get ''uin_str2'')),
          pk_suffix = get ''suffix'', pk_action_img_url = get ''action_img_url''\<rparr>)"

section \<open>Group notifications\<close>

definition special_title ::
    "notify_codec \<Rightarrow> text_codec \<Rightarrow> u32 \<Rightarrow> NotifyMessageBody \<Rightarrow> extras" where
  "special_title nc tc group_uin msg_body =
     try_res (decoded (nc_special_title nc (nm_event_param msg_body))) (\<lambda>(notify_inner, target_uin).
       (let failed = other_err ''Failed to parse special title'' in
        case tc_captures tc notify_inner of
          [user_info_json, medal_info_json] \<Rightarrow>
            try_res (ok_or failed (tc_user_info tc user_info_json)) (\<lambda>user_text.
            try_res (ok_or failed (tc_medal_info tc medal_info_json)) (\<lambda>(medal_text, medal_url).
              push1 (EvSpecialTitle \<lparr>gsst_target_uin = target_uin, gsst_target_nickname = user_text,
                gsst_special_title = medal_text, gsst_special_title_detail_url = medal_url,
                gsst_group_uin = group_uin\<rparr>)))
        | _ \<Rightarrow> Some (Inl failed)))"

definition group_reaction :: "u32 \<Rightarrow> NotifyMessageBody \<Rightarrow> extras" where
  "group_reaction group_uin msg_body =
     try_res (ok_or (other_err ''Missing reaction data_2 in 0x2dc sub type 16 field 13'')
         (do { d \<leftarrow> nm_reaction msg_body; d \<leftarrow> d; d })) (\<lambda>(target, data_3).
     try_res (ok_or (other_err ''Missing reaction data_3 in 0x2dc sub type 16 field 13'') data_3) (\<lambda>data_3.
     try_res (ok_or (other_err ''Missing target_sequence in reaction in 0x2dc sub type 16 field 13'') target)
       (\<lambda>sequence.
         push1 (EvReaction \<lparr>gsr_target_group_uin = group_uin, gsr_target_sequence = sequence,
           gsr_operator_uid = rd_operator_uid data_3, gsr_is_add = (rd_type data_3 = 1),
           gsr_code = rd_code data_3, gsr_count = rd_count data_3\<rparr>))))"

definition sub_type_16 ::
    "notify_codec \<Rightarrow> text_codec \<Rightarrow> u32 \<Rightarrow> NotifyMessageBody \<Rightarrow> extras" where
  "sub_type_16 nc tc group_uin msg_body =
     (let n = or_zero (nm_field13 msg_body) in
      case Event0x2DCSubType16Field13_try_from n of
        None \<Rightarrow> Some (Inl (InternalWarning
          (str ''Failed to parse 0x2dc sub type 16 field 13: '' @ tc_primitive_display tc n)))
      | Some GroupMemberSpecialTitleNotice \<Rightarrow> special_title nc tc group_uin msg_body
      | Some GroupNameChangeNotice \<Rightarrow>
          try_res (decoded (nc_name_change nc (nm_event_param msg_body))) (\<lambda>name.
            push1 (EvNameChange \<lparr>gsn_group_uin = group_uin, gsn_name = name\<rparr>))
      | Some GroupTodoNotice \<Rightarrow>
          push1 (EvTodo \<lparr>gst_group_uin = group_uin, gst_operator_uid = nm_operator_uid msg_body\<rparr>)
      | Some GroupReactionNotice \<Rightarrow> group_reaction group_uin msg_body)"

definition group_mute :: "GroupMute \<Rightarrow> extras" where
  "group_mute mute =
     try_res (ok_or (other_err ''GroupMute missing data'') (gmt_state mute)) (\<lambda>state.
     try_res (ok_or (other_err ''GroupMute missing state'') state) (\<lambda>(target_uid, duration).
       (case target_uid of
          None \<Rightarrow> push1 (EvMute \<lparr>gsmu_group_uin = gmt_group_uin mute,
            gsmu_operator_uid = gmt_operator_uid mute, gsmu_is_muted = (duration \<noteq> 0)\<rparr>)
        | Some target \<Rightarrow> push1 (EvMemberMute \<lparr>gsmm_group_uin = gmt_group_uin mute,
            gsmm_operator_uid = gmt_operator_uid mute, gsmm_target_uid = target,
            gsmm_duration = duration\<rparr>))))"

definition group_recall :: "NotifyMessageBody \<Rightarrow> extras" where
  "group_recall recall_notify =
     try_res (ok_or (other_err ''Missing recall meta in 0x2dc sub type 17'') (nm_recall recall_notify)) (\<lambda>recall.
     try_res (ok_or (other_err ''Missing recall message in 0x2dc sub type 17'')
         (case grc_messages recall of [] \<Rightarrow> None | m # _ \<Rightarrow> Some m)) (\<lambda>meta.
       push1 (EvRecall \<lparr>gsrc_group_uin = nm_group_uin recall_notify,
         gsrc_author_uid = rcm_author_uid meta, gsrc_operator_uid = grc_operator_uid recall,
         gsrc_sequence = ucast (rcm_sequence meta), gsrc_time = rcm_time meta,
         gsrc_random = rcm_random meta, gsrc_tip = or_empty (grc_tip recall)\<rparr>)))"

definition group_essence :: "u32 \<Rightarrow> NotifyMessageBody \<Rightarrow> extras" where
  "group_essence group_uin essence =
     try_res (ok_or (other_err ''Missing essence_message in 0x2dc sub type 21'') (nm_essence essence)) (\<lambda>msg.
       push1 (EvEssence \<lparr>gse_group_uin = group_uin, gse_sequence = em_msg_sequence msg,
         gse_random = em_random msg,
         gse_set_flag = (case GroupEssenceSetFlag_try_from (em_set_flag msg) of
             None \<Rightarrow> EssenceUnknown | Some f \<Rightarrow> f),
         gse_from_uin = em_author_uin msg, gse_operator_uin = em_operator_uin msg\<rparr>))"

definition group_poke :: "u32 \<Rightarrow> NotifyMessageBody \<Rightarrow> extras" where
  "group_poke group_uin grey_tip =
     (case nm_gray_tip grey_tip of
        None \<Rightarrow> Some (Inr [])
      | Some info \<Rightarrow>
          if gt_busi_type info = 12 then
            (let poke_args = extract_poke_info info in
             push1 (EvPoke \<lparr>gsp_group_uin = group_uin, gsp_operator_uin = pk_operator_uin poke_args,
               gsp_target_uin = pk_target_uin poke_args, gsp_action = pk_action poke_args,
               gsp_suffix = pk_suffix poke_args, gsp_action_img_url = pk_action_img_url poke_args\<rparr>))
          else Some (Inr []))"

definition process_event_0x2dc :: "notify_codec \<Rightarrow> text_codec \<Rightarrow> PushMsgBody option \<Rightarrow> extras" where
  "process_event_0x2dc nc tc packet =
     try_res (extract_0x_sub_type packet) (\<lambda>n.
       (case Event0x2DCSubType_try_from n of
          None \<Rightarrow> Some (Inl (InternalWarning
            (str ''receive unknown olpush message 0x2dc sub type: '' @ tc_primitive_debug tc n)))
        | Some GroupMuteNotice \<Rightarrow>
            try_res (extract_stable_msg_content packet ''0x2dc GroupMuteNotice missing msg_content'')
              (\<lambda>msg_content. try_res (decoded (nc_mute nc msg_content)) group_mute)
        | Some SubType16 \<Rightarrow>
            try_res (extract_unstable_msg_content packet ''0x2dc SubType16 missing msg_content'')
              (\<lambda>msg_content. do {
                r \<leftarrow> extract_0x2dc_head (nc_notify nc) msg_content;
                try_res r (\<lambda>(group_uin, msg_body). sub_type_16 nc tc group_uin msg_body) })
        | Some GroupRecallNotice \<Rightarrow>
            try_res (extract_stable_msg_content packet ''0x2dc GroupRecallNotice missing msg_content'')
              (\<lambda>msg_content. do {
                r \<leftarrow> extract_0x2dc_head (nc_notify nc) msg_content;
                try_res r (\<lambda>(_, recall_notify). group_recall recall_notify) })
        | Some GroupEssenceNotice \<Rightarrow>
            try_res (extract_stable_msg_content packet ''0x2dc GroupEssenceNotice missing msg_content'')
              (\<lambda>msg_content. do {
                r \<leftarrow> extract_0x2dc_head (nc_notify nc) msg_content;
                try_res r (\<lambda>(group_uin, essence). group_essence group_uin essence) })
        | Some GroupGreyTipNotice \<Rightarrow>
            try_res (extract_unstable_msg_content packet ''0x2dc sub type 20 missing msg_content'')
              (\<lambda>msg_content. do {
                r \<leftarrow> extract_0x2dc_head (nc_notify nc) msg_content;
                try_res r (\<lambda>(group_uin, grey_tip). group_poke group_uin grey_tip) })))"

section \<open>Friend notifications\<close>

text \<open>The only notification that changes the context: the account's own name.\<close>

definition store_name :: "rstring \<Rightarrow> Context \<Rightarrow> Context" where
  "store_name name ctx = ctx\<lparr>ctx_key_store := (ctx_key_store ctx)\<lparr>
     ks_info := (ks_info (ctx_key_store ctx))\<lparr>acc_name := name\<rparr>\<rparr>\<rparr>"

definition self_rename :: "friend_codec \<Rightarrow> PushMsgBody option \<Rightarrow> (EventError + rstring) option" where
  "self_rename fc packet =
     try_res (extract_stable_msg_content packet ''0x210 SelfRenameNotice missing msg_content'') (\<lambda>msg_content.
     try_res (decoded (nc_self_rename fc msg_content)) (\<lambda>body.
     try_res (ok_or (other_err ''Missing body in 0x210 sub type 29'') body) (\<lambda>rename_data.
       Some (ok_or (other_err ''Missing rename_data in 0x210 sub type 29'') rename_data))))"

definition with_response_head ::
    "PushMsgBody option \<Rightarrow> (bytes \<Rightarrow> ResponseHead \<Rightarrow> extras) \<Rightarrow> extras" where
  "with_response_head packet f =
     try_res (ok_or (other_err ''Missing msg_content in Event0x210SubType::FriendRecallNotice'')
         (msg_content_of packet)) (\<lambda>msg_content.
     try_res (ok_or (other_err ''Missing response_head in Event0x210SubType::FriendRecallNotice'')
         (Option.bind packet pm_response_head)) (\<lambda>response_head. f msg_content response_head))"

definition friend_request :: "friend_codec \<Rightarrow> bytes \<Rightarrow> ResponseHead \<Rightarrow> extras" where
  "friend_request fc msg_content response_head =
     try_res (decoded (nc_friend_request fc msg_content)) (\<lambda>info.
     try_res (ok_or (other_err ''Missing friend request info in 0x210 sub type 35'') info)
       (\<lambda>(source_uid, message, source).
         push1 (EvFriendRequest \<lparr>fsq_source_uin = re_from_uin response_head,
           fsq_source_uid = source_uid, fsq_message = message, fsq_source = source\<rparr>)))"

definition member_enter :: "friend_codec \<Rightarrow> bytes \<Rightarrow> extras" where
  "member_enter fc msg_content =
     try_res (decoded (nc_member_enter fc msg_content)) (\<lambda>body.
     try_res (ok_or (warn ''Missing body in 0x210 sub type 38'') body) (\<lambda>info.
     try_res (ok_or (warn ''Missing info in 0x210 sub type 38'') info) (\<lambda>detail.
     try_res (ok_or (warn ''Missing detail in 0x210 sub type 38'') detail)
       (\<lambda>(group_id, group_member_uin, style).
     try_res (ok_or (warn ''Missing style in 0x210 sub type 38'') style) (\<lambda>style_id.
       push1 (EvMemberEnter \<lparr>gsme_group_uin = group_id, gsme_group_member_uin = group_member_uin,
         gsme_style_id = style_id\<rparr>))))))"

definition pin_or_rename :: "friend_codec \<Rightarrow> bytes \<Rightarrow> extras" where
  "pin_or_rename fc msg_content =
     try_res (decoded (nc_sub39 fc msg_content)) (\<lambda>nt.
     try_res (ok_or (other_err ''Missing body in 0x210 sub type 39'') nt) (\<lambda>nt_body.
       if s39_type nt_body = 7 then
         try_res (ok_or (other_err ''Missing pin_changed in 0x210 sub type 39 type 7'')
             (s39_pin_changed nt_body)) (\<lambda>pc.
         try_res (ok_or (other_err ''Missing pin_changed body'') pc) (\<lambda>(uid, group_uin, timestamp).
           push1 (EvPinChange \<lparr>gspc_uid = uid, gspc_group_uin = group_uin,
             gspc_is_pin = (case timestamp of None \<Rightarrow> False | Some t \<Rightarrow> t \<noteq> [])\<rparr>)))
       else if s39_type nt_body = 20 then
         try_res (ok_or (other_err ''Missing data in 0x210 sub type 39 type 20'')
             (s39_data nt_body)) (\<lambda>(uid, rename_data).
         try_res (ok_or (other_err ''Missing data.rename_data'') rename_data) (\<lambda>nick_name.
           push1 (EvFriendRename \<lparr>fsm_uid = uid, fsm_nickname = nick_name\<rparr>)))
       else Some (Inl (other_err ''Unknown 0x210 sub type 39 type''))))"

definition friend_recall :: "friend_codec \<Rightarrow> bytes \<Rightarrow> ResponseHead \<Rightarrow> extras" where
  "friend_recall fc msg_content response_head =
     try_res (decoded (nc_friend_recall fc msg_content)) (\<lambda>info.
     try_res (ok_or (other_err ''Missing friend request info in 0x210 sub type 138'') info) (\<lambda>info.
       push1 (EvFriendRecall \<lparr>fsr_from_uid = or_empty (re_from_uid response_head),
         fsr_client_sequence = fri_sequence info, fsr_time = fri_time info,
         fsr_random = fri_random info, fsr_tip = or_empty (Option.bind (fri_tip info) id)\<rparr>)))"

definition friend_poke :: "friend_codec \<Rightarrow> bytes \<Rightarrow> extras" where
  "friend_poke fc msg_content =
     try_res (decoded (nc_gray_tip fc msg_content)) (\<lambda>grey_tip.
       if gt_busi_type grey_tip \<noteq> 12 then Some (Inr [])
       else (let poke_args = extract_poke_info grey_tip in
         push1 (EvFriendPoke \<lparr>fsp_operator_uin = pk_operator_uin poke_args,
           fsp_target_uin = pk_target_uin poke_args, fsp_action = pk_action poke_args,
           fsp_suffix = pk_suffix poke_args, fsp_action_img_url = pk_action_img_url poke_args\<rparr>)))"

definition new_friend :: "friend_codec \<Rightarrow> bytes \<Rightarrow> extras" where
  "new_friend fc msg_content =
     try_res (decoded (nc_new_friend fc msg_content)) (\<lambda>info.
     try_res (ok_or (other_err ''Missing info in 0x210 sub type 179'') info) (\<lambda>(uid, nick_name, message).
       push1 (EvFriendNew \<lparr>fsn_from_uid = uid, fsn_from_nickname = nick_name, fsn_msg = message\<rparr>)))"

fun Event0x210SubType_debug :: "Event0x210SubType \<Rightarrow> rstring" where
  "Event0x210SubType_debug ServicePinChanged = str ''ServicePinChanged''"
| "Event0x210SubType_debug _ = str ''GroupKickNotice''"

definition with_stable :: "PushMsgBody option \<Rightarrow> string \<Rightarrow> (bytes \<Rightarrow> extras) \<Rightarrow> extras" where
  "with_stable packet tip f = try_res (extract_stable_msg_content packet tip) f"

definition with_unstable :: "PushMsgBody option \<Rightarrow> string \<Rightarrow> (bytes \<Rightarrow> extras) \<Rightarrow> extras" where
  "with_unstable packet tip f = try_res (extract_unstable_msg_content packet tip) f"

text \<open>The handlers that leave the context alone; the renaming is handled below.\<close>

definition friend_notice ::
    "friend_codec \<Rightarrow> PushMsgBody option \<Rightarrow> Event0x210SubType \<Rightarrow> extras" where
  "friend_notice fc packet sub_type =
     (case sub_type of
        FriendRequestNotice \<Rightarrow> with_response_head packet (friend_request fc)
      | GroupMemberEnterNotice \<Rightarrow>
          with_unstable packet ''0x210 GroupMemberEnterNotice missing msg_content'' (member_enter fc)
      | FriendDeleteOrPinChangedNotice \<Rightarrow>
          with_stable packet ''0x210 FriendDeleteOrPinChangedNotice missing msg_content'' (pin_or_rename fc)
      | FriendRecallNotice \<Rightarrow> with_response_head packet (friend_recall fc)
      | FriendPokeNotice \<Rightarrow>
          with_stable packet ''0x210 FriendPokeNotice missing msg_content'' (friend_poke fc)
      | SubType179 \<Rightarrow> with_unstable packet ''0x210 SubType179 missing msg_content'' (new_friend fc)
      | SubType226 \<Rightarrow> with_unstable packet ''0x210 SubType179 missing msg_content'' (new_friend fc)
      | _ \<Rightarrow> Some (Inl (InternalWarning
          (str ''TODO: handle 0x210 sub type '' @ Event0x210SubType_debug sub_type))))"

definition process_event_0x210 ::
    "friend_codec \<Rightarrow> text_codec \<Rightarrow> Context \<Rightarrow> PushMsgBody option
      \<Rightarrow> (Context \<times> (EventError + logic_event list)) option" where
  "process_event_0x210 fc tc ctx packet =
     (case extract_0x_sub_type packet of
        Inl e \<Rightarrow> Some (ctx, Inl e)
      | Inr n \<Rightarrow>
          (case Event0x210SubType_try_from n of
             None \<Rightarrow> Some (ctx, Inl (InternalWarning
               (str ''receive unknown olpush message 0x210 sub type: '' @ tc_primitive_debug tc n)))
           | Some SelfRenameNotice \<Rightarrow>
               do { r \<leftarrow> self_rename fc packet;
                    Some (case r of
                      Inl e \<Rightarrow> (ctx, Inl e)
                    | Inr nick_name \<Rightarrow>
                        (store_name nick_name ctx, Inr [EvBotRename \<lparr>brn_nickname = nick_name\<rparr>])) }
           | Some sub_type \<Rightarrow> map_option (Pair ctx) (friend_notice fc packet sub_type)))"

section \<open>Notifications of their own type\<close>

definition request_invitation :: "notify_codec \<Rightarrow> bytes \<Rightarrow> extras" where
  "request_invitation nc msg_content =
     try_res (decoded (nc_invitation nc msg_content)) (\<lambda>(cmd, info).
       if cmd = 87 then
         try_res (ok_or (other_err ''GroupInvitation missing data'') info) (\<lambda>inner.
         try_res (ok_or (other_err ''GroupInvitation missing inner'') inner)
           (\<lambda>(group_uin, target_uid, invitor_uid).
             push1 (EvRequestInvitation \<lparr>gsri_group_uin = group_uin, gsri_target_uid = target_uid,
               gsri_invitor_uid = invitor_uid\<rparr>)))
       else Some (Inl (warn ''GroupRequestInvitationNotice unknown cmd'')))"

definition request_join :: "notify_codec \<Rightarrow> bytes \<Rightarrow> extras" where
  "request_join nc msg_content =
     try_res (decoded (nc_join nc msg_content)) (\<lambda>(group_uin, target_uid).
       push1 (EvRequestJoin \<lparr>gsrj_target_uid = target_uid, gsrj_group_uin = group_uin\<rparr>))"

definition group_invite :: "notify_codec \<Rightarrow> bytes \<Rightarrow> extras" where
  "group_invite nc msg_content =
     try_res (decoded (nc_invite nc msg_content)) (\<lambda>(group_uin, invitor_uid).
       push1 (EvInvite \<lparr>gsv_group_uin = group_uin, gsv_invitor_uid = invitor_uid\<rparr>))"

definition admin_changed :: "notify_codec \<Rightarrow> bytes \<Rightarrow> extras" where
  "admin_changed nc msg_content =
     try_res (decoded (nc_admin nc msg_content)) (\<lambda>change.
     try_res (ok_or (other_err ''GroupAdmin missing body'') (gam_body change)) (\<lambda>(disable, enable).
     try_res (ok_or (other_err ''GroupAdmin missing extra'')
         (case enable of Some uid \<Rightarrow> Some (True, uid) | None \<Rightarrow> map_option (Pair False) disable))
       (\<lambda>(enabled, uid).
         push1 (EvAdmin \<lparr>gsa_group_uin = gam_group_uin change, gsa_uid = uid,
           gsa_is_promoted = enabled\<rparr>))))"

definition member_increase :: "notify_codec \<Rightarrow> text_codec \<Rightarrow> bytes \<Rightarrow> extras" where
  "member_increase nc tc msg_content =
     try_res (decoded (nc_change nc msg_content)) (\<lambda>increase.
     try_res
       (case gch_operator increase of
          None \<Rightarrow> Inr None
        | Some op \<Rightarrow> ok_or (OtherEventError (str ''Failed to parse invitor_uid in GroupChange: ''
            @ tc_utf8_error tc op)) (map_option Some (from_utf8 op)))
       (\<lambda>invitor_uid.
         push1 (EvIncrease \<lparr>gsi_group_uin = gch_group_uin increase,
           gsi_member_uid = gch_member_uid increase, gsi_invitor_uid = invitor_uid,
           gsi_event_type = (case GroupMemberIncreaseEventType_try_from (gch_decrease_type increase) of
               None \<Rightarrow> IncreaseUnknown | Some t \<Rightarrow> t)\<rparr>)))"

definition decrease_event :: "GroupChange \<Rightarrow> rstring option \<Rightarrow> extras" where
  "decrease_event decrease operator_uid =
     push1 (EvDecrease \<lparr>gsd_group_uin = gch_group_uin decrease,
       gsd_member_uid = gch_member_uid decrease, gsd_operator_uid = operator_uid,
       gsd_event_type = (case GroupMemberDecreaseEventType_try_from (gch_decrease_type decrease) of
           None \<Rightarrow> DecreaseUnknown | Some t \<Rightarrow> t)\<rparr>)"

definition member_decrease :: "notify_codec \<Rightarrow> bytes \<Rightarrow> extras" where
  "member_decrease nc msg_content =
     try_res (decoded (nc_change nc msg_content)) (\<lambda>decrease.
       if gch_decrease_type decrease = 3 then
         try_res (ok_or (other_err ''Cannot get operator in GroupChange'') (gch_operator decrease)) (\<lambda>op.
         try_res (decoded (nc_operator nc op)) (\<lambda>operator_uid. decrease_event decrease operator_uid))
       else decrease_event decrease (Option.bind (gch_operator decrease) from_utf8))"

section \<open>The event\<close>

record push_codec =
  pc_push_msg :: "bytes \<Rightarrow> PushMsgBody option option"   \<comment> \<open>\<open>PushMsg\<close> and its \<open>message\<close>\<close>
  pc_file_extra :: "bytes \<Rightarrow> rstring + NotOnlineFile option"
  pc_notify :: notify_codec
  pc_friend :: friend_codec
  pc_text :: text_codec

text \<open>The chain, or the notifications, with what the event and its extra events are.\<close>

definition chain_result ::
    "string \<Rightarrow> logic_event list option \<Rightarrow> (rstring + MessageChain) option
      \<Rightarrow> (EventError + logic_event ce_parse) option" where
  "chain_result failed extra r =
     do { r \<leftarrow> r;
          Some (case r of
            Inl e \<Rightarrow> Inl (OtherEventError (str failed @ e))
          | Inr c \<Rightarrow> Inr (EvPushMessage (Some c), extra)) }"

definition notice_result :: "extras \<Rightarrow> (EventError + logic_event ce_parse) option" where
  "notice_result r =
     do { r \<leftarrow> r; Some (case r of Inl e \<Rightarrow> Inl e | Inr es \<Rightarrow> Inr (EvPushMessage None, Some es)) }"

definition is_chat :: "PkgType \<Rightarrow> bool" where
  "is_chat t \<longleftrightarrow> t \<in> {PrivateMessage, GroupMessagePkg, TempMessage, PrivateRecordMessage}"

definition plain_notice ::
    "push_codec \<Rightarrow> PushMsgBody option \<Rightarrow> PkgType \<Rightarrow> extras" where
  "plain_notice pc packet t =
     (case t of
        GroupRequestInvitationNotice \<Rightarrow>
          with_stable packet ''GroupRequestInvitationNotice missing msg_content'' (request_invitation (pc_notify pc))
      | GroupRequestJoinNotice \<Rightarrow>
          with_stable packet ''GroupRequestJoinNotice missing msg_content'' (request_join (pc_notify pc))
      | GroupInviteNotice \<Rightarrow>
          with_stable packet ''GroupInviteNotice missing msg_content'' (group_invite (pc_notify pc))
      | GroupAdminChangedNotice \<Rightarrow>
          with_stable packet ''GroupAdminChangedNotice missing msg_content'' (admin_changed (pc_notify pc))
      | GroupMemberIncreaseNotice \<Rightarrow>
          with_stable packet ''GroupMemberIncreaseNotice missing msg_content''
            (member_increase (pc_notify pc) (pc_text pc))
      | GroupMemberDecreaseNotice \<Rightarrow>
          with_stable packet ''GroupMemberDecreaseNotice missing msg_content'' (member_decrease (pc_notify pc))
      | _ \<Rightarrow> process_event_0x2dc (pc_notify pc) (pc_text pc) packet)"

definition PushMessage_parse ::
    "msg_env \<Rightarrow> push_codec \<Rightarrow> bytes \<Rightarrow> Context
      \<Rightarrow> (Context \<times> (EventError + logic_event ce_parse)) option" where
  "PushMessage_parse env pc bs ctx =
     (case pc_push_msg pc bs of
        None \<Rightarrow> Some (ctx, Inl ProtoParseError)
      | Some packet \<Rightarrow>
          (case do { msg \<leftarrow> packet; content_head \<leftarrow> pm_content_head msg; Some (ch_type content_head) } of
             None \<Rightarrow> Some (ctx, Inl (other_err ''Cannot get typ in PushMsg''))
           | Some typ \<Rightarrow>
               (case PkgType_try_from typ of
                  None \<Rightarrow> Some (ctx, Inl (InternalWarning
                    (str ''receive unknown olpush message type: '' @ dec_str (unat typ))))
                | Some t \<Rightarrow>
                    if is_chat t then
                      (case packet of
                         None \<Rightarrow> Some (ctx, Inl (other_err ''PushMsgBody is None''))
                       | Some body \<Rightarrow> map_option (Pair ctx)
                           (chain_result ''parse_chain failed: '' None (parse_chain env ctx body)))
                    else if t = PrivateFileMessage then
                      (case packet of
                         None \<Rightarrow> Some (ctx, Inl (other_err ''PushMsgBody is None''))
                       | Some body \<Rightarrow> map_option (Pair ctx)
                           (chain_result ''parse_file_chain failed: '' (Some [])
                             (parse_private_file env (pc_file_extra pc) ctx body)))
                    else if t = Event0x210 then
                      do { (ctx, r) \<leftarrow> process_event_0x210 (pc_friend pc) (pc_text pc) ctx packet;
                           map_option (Pair ctx) (notice_result (Some r)) }
                    else map_option (Pair ctx) (notice_result (plain_notice pc packet t)))))"

section \<open>What is parsed\<close>


text \<open>What a handler may push: at most one event, and it is a notification.\<close>

fun is_notice :: "logic_event \<Rightarrow> bool" where
  "is_notice (EvPushMessage _) = False"
| "is_notice (EvSendMessage _ _) = False"
| "is_notice (EvKick _) = False"
| "is_notice EvOther = False"
| "is_notice _ = True"

definition notices :: "extras \<Rightarrow> bool" where
  "notices r \<longleftrightarrow> (case r of Some (Inr es) \<Rightarrow> length es \<le> 1 \<and> list_all is_notice es | _ \<Rightarrow> True)"

named_theorems notice_intros

lemma notices_simps [simp]:
  "notices None" "notices (Some (Inl x))" "notices (Some (Inr []))" "notices (Some (Inr [e])) = is_notice e"
  by (simp_all add: notices_def)

lemma notices_try_res [notice_intros]: "(\<And>a. notices (f a)) \<Longrightarrow> notices (try_res r f)"
  by (cases r) simp_all

lemma notices_bind [notice_intros]: "(\<And>a. notices (f a)) \<Longrightarrow> notices (Option.bind x f)"
  by (cases x) simp_all

lemmas notice_handlers = special_title_def group_reaction_def sub_type_16_def group_mute_def
  group_recall_def group_essence_def group_poke_def friend_request_def member_enter_def
  pin_or_rename_def friend_recall_def friend_poke_def new_friend_def request_invitation_def
  request_join_def group_invite_def admin_changed_def member_increase_def decrease_event_def
  member_decrease_def with_response_head_def with_stable_def with_unstable_def

lemma notices_0x2dc [notice_intros]: "notices (process_event_0x2dc nc tc packet)"
  unfolding process_event_0x2dc_def notice_handlers
  by (intro notice_intros) (auto intro!: notice_intros simp: Let_def
      split: option.splits Event0x2DCSubType.splits Event0x2DCSubType16Field13.splits list.splits)

lemma notices_friend [notice_intros]: "notices (friend_notice fc packet sub_type)"
  unfolding friend_notice_def notice_handlers
  by (cases sub_type) (auto intro!: notice_intros simp: Let_def)

lemma notices_plain [notice_intros]: "notices (plain_notice pc packet t)"
  unfolding plain_notice_def notice_handlers
  by (cases t) (auto intro!: notice_intros simp: Let_def)

lemma notices_0x210:
  assumes "process_event_0x210 fc tc ctx packet = Some (ctx', r)"
  shows "notices (Some r) \<and> (ctx' = ctx
      \<or> (\<exists>n. ctx' = store_name n ctx \<and> r = Inr [EvBotRename \<lparr>brn_nickname = n\<rparr>]))"
proof (cases "extract_0x_sub_type packet")
  case (Inl e)
  then show ?thesis using assms by (auto simp: process_event_0x210_def)
next
  case (Inr n)
  show ?thesis
  proof (cases "Event0x210SubType_try_from n")
    case None
    then show ?thesis using assms Inr by (auto simp: process_event_0x210_def)
  next
    case (Some t)
    show ?thesis
    proof (cases "t = SelfRenameNotice")
      case True
      then obtain x where "self_rename fc packet = Some x"
        "(ctx', r) = (case x of Inl e \<Rightarrow> (ctx, Inl e)
           | Inr n \<Rightarrow> (store_name n ctx, Inr [EvBotRename \<lparr>brn_nickname = n\<rparr>]))"
        using assms Inr Some by (auto simp: process_event_0x210_def bind_eq_Some_conv)
      then show ?thesis by (cases x) auto
    next
      case False
      then have "process_event_0x210 fc tc ctx packet = map_option (Pair ctx) (friend_notice fc packet t)"
        using Inr Some by (cases t) (simp_all add: process_event_0x210_def)
      then show ?thesis using assms notices_friend [of fc packet t]
        by (cases "friend_notice fc packet t") auto
    qed
  qed
qed

lemma chain_resultD:
  assumes "chain_result failed extra x = Some (Inr res)"
  shows "\<exists>c. x = Some (Inr c) \<and> res = (EvPushMessage (Some c), extra)"
proof -
  obtain y where y: "x = Some y" using assms by (auto simp: chain_result_def bind_eq_Some_conv)
  then show ?thesis using assms by (cases y) (auto simp: chain_result_def)
qed

lemma notice_resultD:
  assumes "notice_result x = Some (Inr res)"
  shows "\<exists>es. x = Some (Inr es) \<and> res = (EvPushMessage None, Some es)"
proof -
  obtain y where y: "x = Some y" using assms by (auto simp: notice_result_def bind_eq_Some_conv)
  then show ?thesis using assms by (cases y) (auto simp: notice_result_def)
qed

definition push_shape :: "Context \<Rightarrow> Context \<Rightarrow> logic_event ce_parse \<Rightarrow> bool" where
  "push_shape ctx ctx' res \<longleftrightarrow>
     (case res of
        (EvPushMessage (Some c), extra) \<Rightarrow> ctx' = ctx \<and> (extra = None \<or> extra = Some [])
      | (EvPushMessage None, Some es) \<Rightarrow>
          length es \<le> 1 \<and> list_all is_notice es \<and>
          (ctx' = ctx \<or> (\<exists>n. ctx' = store_name n ctx \<and> es = [EvBotRename \<lparr>brn_nickname = n\<rparr>]))
      | _ \<Rightarrow> False)"

text \<open>C17: what the parser of pushed messages returns is either a chain without notifications (no list of
  extra events for a chat message, an empty one for a private file) or no chain and at most one
  extra event, which is a notification; the context changes only by the account's name, and only with
  the renaming event. An error leaves the context as it is.\<close>

theorem push_message_shape:
  assumes "PushMessage_parse env pc bs ctx = Some (ctx', r)"
  shows "case r of Inl e \<Rightarrow> ctx' = ctx | Inr res \<Rightarrow> push_shape ctx ctx' res"
proof -
  have chain: "push_shape c0 c0 res" if "chain_result failed extra x = Some (Inr res)"
    "extra = None \<or> extra = Some []" for failed extra x res c0
    using chain_resultD [OF that(1)] that(2) by (auto simp: push_shape_def)
  have plain: "push_shape c0 c0 res" if "notice_result (plain_notice pc packet t) = Some (Inr res)" for packet t res c0
    using notice_resultD [OF that] notices_plain [of pc packet t]
    by (auto simp: push_shape_def notices_def)
  have friend: "push_shape ctx c res" if "process_event_0x210 fc tc ctx packet = Some (c, x)"
    "notice_result (Some x) = Some (Inr res)" for fc tc packet c x res
    using notice_resultD [OF that(2)] notices_0x210 [OF that(1)]
    by (auto simp: push_shape_def notices_def)
  have kept: "c = ctx" if "process_event_0x210 fc tc ctx packet = Some (c, x)"
    "notice_result (Some x) = Some (Inl e)" for fc tc packet c x e
    using that(2) notices_0x210 [OF that(1)] by (cases x) (auto simp: notice_result_def)
  show ?thesis
  proof (cases r)
    case (Inl e)
    then show ?thesis
      using assms
      by (auto simp: PushMessage_parse_def bind_eq_Some_conv split: option.splits if_splits
          dest: kept)
  next
    case (Inr res)
    then show ?thesis
      using assms
      by (auto simp: PushMessage_parse_def bind_eq_Some_conv split: option.splits if_splits
          intro: chain plain friend)
  qed
qed


text \<open>Where the parser returns: the elements are well formed and the head of a group notification is whole.\<close>

named_theorems return_intros

definition returns :: "'a option \<Rightarrow> bool" where "returns r \<longleftrightarrow> r \<noteq> None"

lemma returns_simps [simp]: "returns (Some x)" "\<not> returns None" "returns (map_option f r) = returns r"
  by (simp_all add: returns_def)

lemma returns_try_res [return_intros]: "(\<And>a. returns (f a)) \<Longrightarrow> returns (try_res r f)"
  by (cases r) simp_all

lemma returns_friend: "returns (friend_notice fc packet sub_type)"
  unfolding friend_notice_def notice_handlers
  by (cases sub_type) (auto intro!: return_intros simp: Let_def)

lemma returns_self_rename: "returns (self_rename fc packet)"
  unfolding self_rename_def by (intro return_intros) simp

lemma returns_0x210: "returns (process_event_0x210 fc tc ctx packet)"
  using returns_self_rename [of fc packet] returns_friend [of fc packet]
  by (auto simp: process_event_0x210_def returns_def split: sum.splits option.splits
      Event0x210SubType.splits)

definition full_head :: "bytes \<Rightarrow> bool" where
  "full_head c \<longleftrightarrow> 7 \<le> length c \<and> 7 + unat (of_be (take 2 (drop 5 c)) :: u16) \<le> length c"

definition needs_head :: "PushMsgBody \<Rightarrow> bool" where
  "needs_head body \<longleftrightarrow> (case pm_content_head body of None \<Rightarrow> False
     | Some ch \<Rightarrow> ch_type ch = 0x2DC \<and> ch_sub_type ch \<in> {Some 16, Some 17, Some 20, Some 21})"

lemma returns_bind: "returns (Option.bind x f) \<longleftrightarrow> (\<exists>a. x = Some a \<and> returns (f a))"
  by (cases x) simp_all

lemma returns_iff: "returns x \<longleftrightarrow> (\<exists>a. x = Some a)"
  by (simp add: returns_def)

lemma read_u16_length:
  "returns (read_with_length (PREFIX_U16 OR PREFIX_LENGTH_ONLY) rd_bytes rd)
    \<longleftrightarrow> 2 \<le> length rd \<and> 2 + unat (of_be (take 2 rd) :: u16) \<le> length rd"
  by (auto simp: returns_def read_with_length_def sub_reader_def split_to_def rd_u16_def rd_bytes_def
      PREFIX_U16_def PREFIX_LENGTH_ONLY_def PREFIX_WITH_def)

lemma head_read:
  "returns (do { (g :: u32, rd) \<leftarrow> rd_u32 c; (u, rd) \<leftarrow> rd_u8 rd;
                 read_with_length (PREFIX_U16 OR PREFIX_LENGTH_ONLY) rd_bytes rd })
    \<longleftrightarrow> full_head c"
proof (cases "drop 4 c")
  case Nil
  then show ?thesis by (auto simp: full_head_def rd_u32_def rd_u8_def split_to_def)
next
  case (Cons a rest)
  have len: "length c = 5 + length rest" using arg_cong [OF Cons, of length] by simp
  have "drop 5 c = drop 1 (drop 4 c)" by (subst drop_drop) simp
  then have five: "drop 5 c = rest" using Cons by simp
  have "rd_u32 c = Some (of_be (take 4 c), a # rest)"
    using Cons len by (simp add: rd_u32_def split_to_def)
  then show ?thesis
    by (simp add: rd_u8_def read_u16_length full_head_def five len)
qed

lemma head_returns: "returns (extract_0x2dc_head decode c) \<longleftrightarrow> full_head c"
proof -
  have t: "returns (try_res (r :: EventError + 'm) (\<lambda>m. Some (Inr (g, m))))" for r and g :: u32
    by (intro return_intros) simp
  have "returns (extract_0x2dc_head decode c) \<longleftrightarrow>
    returns (do { (g :: u32, rd) \<leftarrow> rd_u32 c; (u, rd) \<leftarrow> rd_u8 rd;
                  read_with_length (PREFIX_U16 OR PREFIX_LENGTH_ONLY) rd_bytes rd })"
    by (simp add: extract_0x2dc_head_def returns_bind split_def t) (simp add: returns_iff)
  then show ?thesis by (simp only: head_read)
qed

lemma sub_type_0x2dc:
  "Event0x2DCSubType_try_from n = Some t \<longleftrightarrow>
     (n, t) \<in> {(12, GroupMuteNotice), (16, SubType16), (17, GroupRecallNotice),
       (21, GroupEssenceNotice), (20, GroupGreyTipNotice)}"
  by (auto simp: Event0x2DCSubType_try_from_def split: if_splits)

lemma returns_group:
  "returns (sub_type_16 nc tc g b)" "returns (group_recall b)" "returns (group_essence g b)"
  "returns (group_poke g b)" "returns (group_mute m)"
  unfolding notice_handlers
  by (auto intro!: return_intros simp: Let_def
      split: option.splits Event0x2DCSubType16Field13.splits list.splits)

text \<open>The handlers of the four sub-types that read the head of the content.\<close>

lemma returns_0x2dc_iff:
  "returns (process_event_0x2dc nc tc packet) \<longleftrightarrow>
     (extract_0x_sub_type packet \<in> Inr ` {16, 17, 20, 21} \<longrightarrow>
       (case msg_content_of packet of None \<Rightarrow> True | Some c \<Rightarrow> full_head c))"
proof (cases "extract_0x_sub_type packet")
  case (Inl e)
  then show ?thesis by (auto simp: process_event_0x2dc_def)
next
  case (Inr n)
  have read: "returns (try_res (ok_or e (msg_content_of packet)) (\<lambda>c. do {
      r \<leftarrow> extract_0x2dc_head (nc_notify nc) c; try_res r (\<lambda>(g, b). f g b) }))
      \<longleftrightarrow> (case msg_content_of packet of None \<Rightarrow> True | Some c \<Rightarrow> full_head c)"
    if "\<And>g b. returns (f g b)" for e and f :: "u32 \<Rightarrow> NotifyMessageBody \<Rightarrow> extras"
  proof (cases "msg_content_of packet")
    case None
    then show ?thesis by simp
  next
    case (Some c)
    have "returns (try_res r (\<lambda>(g, b). f g b))" for r
      using that by (intro return_intros) auto
    then show ?thesis
      using Some head_returns [of "nc_notify nc" c]
      by (simp add: returns_bind) (simp add: returns_iff)
  qed
  show ?thesis
  proof (cases "Event0x2DCSubType_try_from n")
    case None
    then have "n \<notin> {16, 17, 20, 21}" by (auto simp: Event0x2DCSubType_try_from_def)
    then show ?thesis using Inr None by (auto simp: process_event_0x2dc_def)
  next
    case (Some t)
    have stable: "extract_stable_msg_content packet s = ok_or (other_err s) (msg_content_of packet)"
      and unstable: "extract_unstable_msg_content packet s = ok_or (warn s) (msg_content_of packet)" for s
      by (simp_all add: extract_stable_msg_content_def extract_unstable_msg_content_def)
    have mute: "returns (try_res r (\<lambda>c. try_res (decoded (nc_mute nc c)) group_mute))" for r
      using returns_group(5) by (intro return_intros) auto
    have "(n, t) \<in> {(12, GroupMuteNotice), (16, SubType16), (17, GroupRecallNotice),
       (21, GroupEssenceNotice), (20, GroupGreyTipNotice)}"
      using Some by (simp only: sub_type_0x2dc)
    then show ?thesis
      using Inr Some
      by (simp; elim disjE conjE)
        (simp_all add: process_event_0x2dc_def stable unstable read returns_group mute)
  qed
qed


lemma returns_from_elems: "list_all (\<lambda>e. \<not> bad_part env e) es \<Longrightarrow> returns (from_elems env es)"
proof (induction es)
  case Nil
  show ?case by (simp add: from_elems_def)
next
  case (Cons e es)
  then obtain y ys where "unpack_element env e = Some y" "from_elems env es = Some ys"
    using unpack_returns [of env e] by (auto simp: returns_iff)
  then show ?case by (simp add: from_elems_def)
qed

lemma returns_parse_chain:
  assumes "returns (from_elems env (rich_elems body))"
  shows "returns (parse_chain env ctx body)"
proof -
  obtain es where "from_elems env (rich_elems body) = Some es" using assms by (auto simp: returns_iff)
  moreover obtain ex where "extras_of (rich_elems body) = Some ex" using extras_of_total by blast
  ultimately show ?thesis
    unfolding parse_chain_def
    by (intro return_intros) (simp add: Let_def split: option.splits FetchGroupMemberStrategy.splits)
qed

lemma returns_private_file:
  "returns (parse_chain env ctx body) \<Longrightarrow> returns (parse_private_file env de ctx body)"
  unfolding parse_private_file_def
  by (intro return_intros) (auto simp: returns_iff returns_bind intro!: return_intros [unfolded returns_iff])

lemma returns_results:
  "returns (chain_result failed extra r) = returns r" "returns (notice_result x) = returns x"
  by (cases r; simp add: chain_result_def) (cases x; simp add: notice_result_def)

lemma returns_plain:
  assumes "t \<noteq> Event0x2DC \<or> returns (process_event_0x2dc (pc_notify pc) (pc_text pc) packet)"
    and "\<not> is_chat t" "t \<noteq> PrivateFileMessage" "t \<noteq> Event0x210"
  shows "returns (plain_notice pc packet t)"
  using assms unfolding plain_notice_def notice_handlers
  by (cases t) (auto intro!: return_intros simp: Let_def is_chat_def)

lemma needs_head_iff:
  "needs_head body \<longleftrightarrow> (\<exists>ch. pm_content_head body = Some ch \<and> ch_type ch = 0x2DC)
     \<and> extract_0x_sub_type (Some body) \<in> Inr ` {16, 17, 20, 21}"
  by (auto simp: needs_head_def extract_0x_sub_type_def ok_or_def split: option.splits)

text \<open>C18: the parser returns on every packet whose elements are well formed, if the head of the four
  kinds of group notification that have one is whole; when it is cut short (fewer than seven bytes, or
  than the length it names), the parser panics.\<close>

theorem push_message_returns:
  assumes "pc_push_msg pc bs = Some (Some body)"
  shows "(list_all (\<lambda>e. \<not> bad_part env e) (rich_elems body)
      \<and> (needs_head body \<longrightarrow> (case msg_content_of (Some body) of None \<Rightarrow> True | Some c \<Rightarrow> full_head c))
      \<longrightarrow> PushMessage_parse env pc bs ctx \<noteq> None)
    \<and> (needs_head body \<and> (\<exists>c. msg_content_of (Some body) = Some c \<and> \<not> full_head c)
      \<longrightarrow> PushMessage_parse env pc bs ctx = None)"
proof (cases "pm_content_head body")
  case None
  then show ?thesis using assms by (simp add: PushMessage_parse_def needs_head_def)
next
  case (Some ch)
  show ?thesis
  proof (cases "PkgType_try_from (ch_type ch)")
    case None
    then have "ch_type ch \<noteq> 0x2DC" by (auto simp: PkgType_try_from_def)
    then show ?thesis using assms Some None by (simp add: PushMessage_parse_def needs_head_def)
  next
    case (Some t)
    have dc: "t = Event0x2DC \<longleftrightarrow> ch_type ch = 0x2DC"
      using Some by (auto simp: PkgType_try_from_def split: if_splits)
    have parse: "PushMessage_parse env pc bs ctx =
      (if is_chat t then map_option (Pair ctx)
         (chain_result ''parse_chain failed: '' None (parse_chain env ctx body))
       else if t = PrivateFileMessage then map_option (Pair ctx)
         (chain_result ''parse_file_chain failed: '' (Some [])
           (parse_private_file env (pc_file_extra pc) ctx body))
       else if t = Event0x210 then do {
         (ctx, r) \<leftarrow> process_event_0x210 (pc_friend pc) (pc_text pc) ctx (Some body);
         map_option (Pair ctx) (notice_result (Some r)) }
       else map_option (Pair ctx) (notice_result (plain_notice pc (Some body) t)))"
      using assms \<open>pm_content_head body = Some ch\<close> Some by (simp add: PushMessage_parse_def)
    have head: "returns (process_event_0x2dc (pc_notify pc) (pc_text pc) (Some body)) \<longleftrightarrow>
      (needs_head body \<longrightarrow> (case msg_content_of (Some body) of None \<Rightarrow> True | Some c \<Rightarrow> full_head c))"
      if "t = Event0x2DC"
      using that dc \<open>pm_content_head body = Some ch\<close> by (auto simp: returns_0x2dc_iff needs_head_iff)
    have nh: "needs_head body \<Longrightarrow> t = Event0x2DC"
      using dc \<open>pm_content_head body = Some ch\<close> by (auto simp: needs_head_def)
    have "returns (PushMessage_parse env pc bs ctx)"
      if "list_all (\<lambda>e. \<not> bad_part env e) (rich_elems body)"
        "needs_head body \<longrightarrow> (case msg_content_of (Some body) of None \<Rightarrow> True | Some c \<Rightarrow> full_head c)"
    proof -
      have ch: "returns (parse_chain env ctx body)"
        using that(1) by (intro returns_parse_chain returns_from_elems)
      obtain c0 r0 where "process_event_0x210 (pc_friend pc) (pc_text pc) ctx (Some body) = Some (c0, r0)"
        using returns_0x210 [of "pc_friend pc" "pc_text pc" ctx "Some body"] by (auto simp: returns_iff)
      then show ?thesis
        unfolding parse
        using ch returns_private_file [OF ch] returns_plain [of t pc "Some body"] head that(2)
        by (auto simp: returns_results)
    qed
    moreover have "\<not> returns (PushMessage_parse env pc bs ctx)"
      if "needs_head body" "msg_content_of (Some body) = Some c" "\<not> full_head c" for c
      using that nh head unfolding parse
      by (auto simp: returns_results is_chat_def plain_notice_def)
    ultimately show ?thesis unfolding returns_def by blast
  qed
qed


section \<open>Witnesses\<close>

definition demo_notify_codec :: notify_codec where
  "demo_notify_codec = \<lparr>nc_invitation = (\<lambda>_. None), nc_join = (\<lambda>bs. Some (of_be bs, [65])),
     nc_invite = (\<lambda>_. None), nc_admin = (\<lambda>_. None), nc_change = (\<lambda>_. None),
     nc_operator = (\<lambda>_. None), nc_mute = (\<lambda>_. None), nc_notify = (\<lambda>_. None),
     nc_special_title = (\<lambda>_. None), nc_name_change = (\<lambda>_. None)\<rparr>"

definition demo_friend_codec :: friend_codec where
  "demo_friend_codec = \<lparr>nc_self_rename = (\<lambda>_. None), nc_friend_request = (\<lambda>_. None),
     nc_member_enter = (\<lambda>_. None), nc_sub39 = (\<lambda>_. None), nc_friend_recall = (\<lambda>_. None),
     nc_gray_tip = (\<lambda>_. None), nc_new_friend = (\<lambda>_. None)\<rparr>"

definition demo_text_codec :: text_codec where
  "demo_text_codec = \<lparr>tc_captures = (\<lambda>_. []), tc_user_info = (\<lambda>_. None), tc_medal_info = (\<lambda>_. None),
     tc_primitive_debug = (\<lambda>_. []), tc_primitive_display = (\<lambda>_. []), tc_utf8_error = (\<lambda>_. [])\<rparr>"

text \<open>A packet is its type, its sub-type and its content.\<close>

definition demo_push_codec :: push_codec where
  "demo_push_codec = \<lparr>pc_push_msg = (\<lambda>bs. case bs of
       t # s # content \<Rightarrow> Some (Some \<lparr>pm_response_head = None,
         pm_content_head = Some (ContentHead_default\<lparr>ch_type := (if t = 0 then 0x2DC else ucast t),
           ch_sub_type := Some (ucast s)\<rparr>),
         pm_body = Some \<lparr>mb_rich_text = None, mb_msg_content = Some content\<rparr>\<rparr>)
     | _ \<Rightarrow> None), pc_file_extra = (\<lambda>_. Inl []), pc_notify = demo_notify_codec,
     pc_friend = demo_friend_codec, pc_text = demo_text_codec\<rparr>"

lemma demo_join:
  "PushMessage_parse demo_msg_env demo_push_codec [84, 0, 7] demo_context
     = Some (demo_context, Inr (EvPushMessage None,
         Some [EvRequestJoin \<lparr>gsrj_target_uid = [65], gsrj_group_uin = 7\<rparr>]))"
  by (simp add: PushMessage_parse_def demo_push_codec_def PkgType_try_from_def is_chat_def
      plain_notice_def with_stable_def extract_stable_msg_content_def msg_content_of_def
      request_join_def demo_notify_codec_def decoded_def notice_result_def)

lemma push_message_shape_witness:
  "push_shape demo_context demo_context (EvPushMessage None,
     Some [EvRequestJoin \<lparr>gsrj_target_uid = [65], gsrj_group_uin = 7\<rparr>])"
  using push_message_shape [OF demo_join] by simp

lemma push_message_returns_witness:
  "PushMessage_parse demo_msg_env demo_push_codec [0, 20, 1, 2, 3] demo_context = None
    \<and> PushMessage_parse demo_msg_env demo_push_codec [84, 0, 7] demo_context \<noteq> None"
proof -
  let ?body = "\<lambda>t s content. \<lparr>pm_response_head = None,
    pm_content_head = Some (ContentHead_default\<lparr>ch_type := t, ch_sub_type := Some s\<rparr>),
    pm_body = Some \<lparr>mb_rich_text = None, mb_msg_content = Some content\<rparr>\<rparr>"
  have "pc_push_msg demo_push_codec [0, 20, 1, 2, 3] = Some (Some (?body 0x2DC 20 [1, 2, 3]))"
    and "pc_push_msg demo_push_codec [84, 0, 7] = Some (Some (?body 84 0 [7]))"
    by (simp_all add: demo_push_codec_def)
  note both = this [THEN push_message_returns, of demo_msg_env demo_context]
  then show ?thesis
    by (simp add: needs_head_def msg_content_of_def full_head_def rich_elems_def)
qed

end
