(* ===== verification/Common_Op.thy ===== *)
theory Common_Op
  imports Message_Packer
begin

text \<open>
  The download operations of \<open>mania/src/core/operation/common_op.rs\<close>: each sends one event and gives
  back one field of the reply. \<open>media_server\<close> says what sending the event with these fields gives: an
  error, or the field of the reply, \<open>None\<close> if the reply is an event of another type. An operation that
  expects the account's own uid panics without it (\<open>None\<close>).
\<close>

record media_server =
  sv_group_image :: "u32 \<Rightarrow> IndexNode \<Rightarrow> ManiaError + rstring option"
  sv_c2c_image :: "rstring \<Rightarrow> IndexNode \<Rightarrow> ManiaError + rstring option"
  sv_multi_msg :: "rstring option \<Rightarrow> rstring option \<Rightarrow> ManiaError + MessageChain list option option"
  sv_group_file :: "u32 \<Rightarrow> rstring \<Rightarrow> ManiaError + rstring option"
  sv_c2c_file :: "rstring option \<Rightarrow> rstring option \<Rightarrow> rstring option \<Rightarrow> rstring option
    \<Rightarrow> ManiaError + rstring option"
  sv_group_record :: "u32 \<Rightarrow> IndexNode option \<Rightarrow> rstring \<Rightarrow> ManiaError + rstring option"
  sv_c2c_record :: "rstring \<Rightarrow> IndexNode option \<Rightarrow> rstring \<Rightarrow> ManiaError + rstring option"
  sv_c2c_video :: "rstring \<Rightarrow> rstring \<Rightarrow> rstring \<Rightarrow> rstring option \<Rightarrow> IndexNode option \<Rightarrow> bool
    \<Rightarrow> ManiaError + rstring option"
  sv_group_video :: "u32 \<Rightarrow> rstring \<Rightarrow> rstring \<Rightarrow> rstring \<Rightarrow> rstring option \<Rightarrow> IndexNode option
    \<Rightarrow> ManiaError + rstring option"

text \<open>\<open>downcast_major_event(..).ok_or(InternalEventDowncastError)\<close>.\<close>

definition downcast_reply :: "ManiaError + 'a option \<Rightarrow> ManiaError + 'a" where
  "downcast_reply r =
     (case r of Inl e \<Rightarrow> Inl e | Inr v \<Rightarrow> ok_or InternalEventDowncastError v)"

definition self_uid :: "Context \<Rightarrow> rstring option" where
  "self_uid ctx = ks_uid (ctx_key_store ctx)"

definition download_group_image ::
    "media_server \<Rightarrow> u32 \<Rightarrow> IndexNode \<Rightarrow> ManiaError + rstring" where
  "download_group_image sv group_uin index_node = downcast_reply (sv_group_image sv group_uin index_node)"

definition download_c2c_image ::
    "media_server \<Rightarrow> Context \<Rightarrow> IndexNode \<Rightarrow> (ManiaError + rstring) option" where
  "download_c2c_image sv ctx index_node =
     do { uid \<leftarrow> self_uid ctx; Some (downcast_reply (sv_c2c_image sv uid index_node)) }"

definition multi_msg_download ::
    "media_server \<Rightarrow> rstring \<Rightarrow> rstring \<Rightarrow> ManiaError + MessageChain list option" where
  "multi_msg_download sv uid res_id = downcast_reply (sv_multi_msg sv (Some uid) (Some res_id))"

definition download_group_file :: "media_server \<Rightarrow> u32 \<Rightarrow> rstring \<Rightarrow> ManiaError + rstring" where
  "download_group_file sv group_uin file_id = downcast_reply (sv_group_file sv group_uin file_id)"

definition download_c2c_file ::
    "media_server \<Rightarrow> Context \<Rightarrow> rstring option \<Rightarrow> rstring option \<Rightarrow> rstring option
      \<Rightarrow> ManiaError + rstring" where
  "download_c2c_file sv ctx file_uuid file_hash sender_uid =
     downcast_reply (sv_c2c_file sv file_uuid file_hash sender_uid (self_uid ctx))"

definition download_group_record_inner ::
    "media_server \<Rightarrow> u32 \<Rightarrow> IndexNode option \<Rightarrow> rstring option \<Rightarrow> ManiaError + rstring" where
  "download_group_record_inner sv group_uin node audio_uuid =
     downcast_reply (sv_group_record sv group_uin node (or_empty audio_uuid))"

definition download_group_record_by_node ::
    "media_server \<Rightarrow> u32 \<Rightarrow> IndexNode option \<Rightarrow> ManiaError + rstring" where
  "download_group_record_by_node sv group_uin node = download_group_record_inner sv group_uin node None"

definition download_group_record_by_uuid ::
    "media_server \<Rightarrow> u32 \<Rightarrow> rstring option \<Rightarrow> ManiaError + rstring" where
  "download_group_record_by_uuid sv group_uin audio_uuid =
     download_group_record_inner sv group_uin None audio_uuid"

definition download_c2c_record_inner ::
    "media_server \<Rightarrow> Context \<Rightarrow> IndexNode option \<Rightarrow> rstring option \<Rightarrow> (ManiaError + rstring) option" where
  "download_c2c_record_inner sv ctx node audio_uuid =
     do { uid \<leftarrow> self_uid ctx;
          Some (downcast_reply (sv_c2c_record sv uid node (or_empty audio_uuid))) }"

definition download_c2c_record_by_node ::
    "media_server \<Rightarrow> Context \<Rightarrow> IndexNode option \<Rightarrow> (ManiaError + rstring) option" where
  "download_c2c_record_by_node sv ctx node = download_c2c_record_inner sv ctx node None"

definition download_c2c_record_by_uuid ::
    "media_server \<Rightarrow> Context \<Rightarrow> rstring option \<Rightarrow> (ManiaError + rstring) option" where
  "download_c2c_record_by_uuid sv ctx audio_uuid = download_c2c_record_inner sv ctx None audio_uuid"

definition download_video ::
    "media_server \<Rightarrow> rstring \<Rightarrow> rstring \<Rightarrow> rstring \<Rightarrow> rstring option \<Rightarrow> IndexNode option \<Rightarrow> bool
      \<Rightarrow> ManiaError + rstring" where
  "download_video sv uid file_name file_md5 file_sha1 node grp =
     downcast_reply (sv_c2c_video sv uid file_name file_md5 file_sha1 node grp)"

definition download_group_video ::
    "media_server \<Rightarrow> Context \<Rightarrow> u32 \<Rightarrow> rstring \<Rightarrow> rstring \<Rightarrow> rstring option \<Rightarrow> IndexNode option
      \<Rightarrow> (ManiaError + rstring) option" where
  "download_group_video sv ctx group_uin file_name file_md5 file_sha1 node =
     do { uid \<leftarrow> self_uid ctx;
          Some (downcast_reply (sv_group_video sv group_uin uid file_name file_md5 file_sha1 node)) }"

end
