(* ===== verification/Upload_Results.thy ===== *)
theory Upload_Results
  imports Highway_Op
begin

text \<open>
  What a successful upload of \<open>core/operation/highway_op.rs\<close> has done: which digests and sizes it
  announced to the server, what it stored in the entity, and what it transferred; the digests of a video,
  the videos and thumbnails that are streams, the length of a record; and an example of each.
\<close>

section \<open>Successful uploads\<close>

lemma set_stream_pos_twice [simp]: "set_stream_pos st q (set_stream_pos st p s) = set_stream_pos st q s"
  by (cases st) (simp_all add: set_stream_pos_def)

lemma stream_pos_cong: "hwy_user_pos t = hwy_user_pos s \<Longrightarrow> stream_pos env t st = stream_pos env s st"
  by (cases st) (simp_all add: stream_pos_def)

text \<open>What is left of a stream.\<close>

definition stream_rest :: "highway_env \<Rightarrow> Highway \<Rightarrow> stream \<Rightarrow> bytes" where
  "stream_rest env s st = drop (stream_pos env s st) (stream_bytes env st)"

lemma pipeline_Inr:
  "pipeline env st s = Some (t, Inr (p, chunks)) \<Longrightarrow>
     t = set_stream_pos st p s \<and> concat chunks = stream_rest env s st"
  by (auto simp: pipeline_def stream_rest_def split: prod.splits sum.splits dest: stream_pipeline_rest)

lemma resolve_image_file_Inr:
  assumes "resolve_image_file env st s = Some (t, Inr (iv, sha1, md5))"
  shows "\<exists>p. t = set_stream_pos st p s \<and> sha1 = hwe_sha1 env (stream_rest env s st)
    \<and> md5 = hwe_md5 env (stream_rest env s st)"
proof -
  obtain u p chunks where u: "pipeline env st s = Some (u, Inr (p, chunks))"
    and c: "do { (q, r) \<leftarrow> resolve_image_metadata (stream_bytes env st) p;
            let s = set_stream_pos st q u;
            (case r of
               Inl e \<Rightarrow> Some (s, Inl (GenericError (str ''Resolve image error: '' @ hwe_debug_image env e)))
             | Inr iv \<Rightarrow> Some (s, Inr (iv, hwe_sha1 env (concat chunks), hwe_md5 env (concat chunks)))) }
        = Some (t, Inr (iv, sha1, md5))"
    using assms unfolding resolve_image_file_def try_op_Inr by fastforce
  note p = pipeline_Inr [OF u]
  from c obtain q r where q: "resolve_image_metadata (stream_bytes env st) p = Some (q, r)"
    by (auto simp: bind_eq_Some_conv)
  show ?thesis using c p q by (cases r) (auto simp: Let_def)
qed

lemma ask_Inr:
  "ask f s = Some (t, Inr v) \<longleftrightarrow> t = s\<lparr>hwy_events := hwy_events s + 1\<rparr> \<and> f (hwy_events s) = Inr (Some v)"
  by (auto simp: ask_def ok_or_def split: sum.split_asm option.split_asm)

text \<open>The number of the first event after the preparation.\<close>

definition next_event :: "Highway \<Rightarrow> nat" where
  "next_event s = hwy_events s + (if hwy_sig_session s = None then 1 else 0)"

lemma prepare_Inr:
  assumes "prepare_highway env s = Some (t, Inr u)"
  shows "hwy_transfers t = hwy_transfers s \<and> hwy_user_pos t = hwy_user_pos s
    \<and> hwy_events t = next_event s \<and> (\<exists>sig. hwy_sig_session t = Some sig)"
  using assms
  by (cases "hwy_sig_session s")
    (auto simp: prepare_highway_def fetch_sig_session_def try_op_Inr ask_Inr next_event_def)

lemma send_media_Inr:
  assumes "send_media env cmd k u_key hashes res st d fsize s = Some (t, Inr ())"
  shows "case u_key of
      None \<Rightarrow> t = s
    | Some key \<Rightarrow> \<exists>index info hs x. body_index k (ulr_msg_info res) = Inr (index, info)
        \<and> (case hashes of
             Some given \<Rightarrow> hs = given
           | None \<Rightarrow> \<exists>h. hwe_unhex env (fi_file_sha1 info) = Some h \<and> hs = [h])
        \<and> hwy_transfers t = hwy_transfers s @ [x] \<and> transfer_whole x
        \<and> trf_cmd x = cmd \<and> trf_size x = fsize \<and> hs_data (trf_state x) = d
        \<and> hwe_unhex env (fi_file_hash info) = Some (trf_md5 x)
        \<and> trf_ext x = extend_info env index key res hs"
proof (cases u_key)
  case (Some key)
  then obtain index info hs md5 where
      b: "body_index k (ulr_msg_info res) = Inr (index, info)"
    and h: "(case hashes of Some hs \<Rightarrow> Inr hs
            | None \<Rightarrow> map_sum id (\<lambda>h. [h]) (unhex_file env (fi_file_sha1 info))) = Inr hs"
    and m: "unhex_file env (fi_file_hash info) = Inr md5"
    and t: "transfer_bytes env cmd st d fsize md5 (extend_info env index key res hs) s = Some (t, Inr ())"
    using assms Some by (auto simp: send_media_def try_op_Inr cong: option.case_cong intro: that)
  from transfer_bytes_Some [OF t] obtain x where x: "hwy_transfers t = hwy_transfers s @ [x]"
    "trf_cmd x = cmd" "trf_size x = fsize" "trf_md5 x = md5"
    "trf_ext x = extend_info env index key res hs" "hs_data (trf_state x) = d"
    "Inr () = map_sum HighWayError id (trf_result x)" "trf_result x = Inr () \<longrightarrow> transfer_whole x"
    by blast
  have "trf_result x = Inr ()" using x(7) by (cases "trf_result x") auto
  moreover have "hwe_unhex env (fi_file_hash info) = Some md5"
    using m by (auto simp: unhex_file_def ok_or_def split: option.split_asm)
  moreover have "case hashes of Some given \<Rightarrow> hs = given
      | None \<Rightarrow> \<exists>h. hwe_unhex env (fi_file_sha1 info) = Some h \<and> hs = [h]"
    using h by (auto simp: unhex_file_def ok_or_def split: option.split_asm)
  ultimately show ?thesis
    using b x Some by (auto split: option.split_asm)
qed (use assms in \<open>simp add: send_media_def\<close>)

text \<open>The media of a successful upload, for the reply \<open>res\<close>: nothing, or one whole transfer.\<close>

definition media_sent ::
    "highway_env \<Rightarrow> u32 \<Rightarrow> bytes \<Rightarrow> u32 \<Rightarrow> 'c UploadRes \<Rightarrow> transfer list \<Rightarrow> bool" where
  "media_sent env cmd d fsize res ts \<longleftrightarrow>
     (case ulr_u_key res of
        None \<Rightarrow> ts = []
      | Some key \<Rightarrow> \<exists>index info h x. ts = [x] \<and> transfer_whole x \<and> trf_cmd x = cmd \<and> trf_size x = fsize
          \<and> hs_data (trf_state x) = d \<and> body_index 0 (ulr_msg_info res) = Inr (index, info)
          \<and> hwe_unhex env (fi_file_hash info) = Some (trf_md5 x)
          \<and> hwe_unhex env (fi_file_sha1 info) = Some h
          \<and> trf_ext x = extend_info env index key res [h])"

lemma send_media_sent:
  assumes "send_media env cmd 0 (ulr_u_key res) None res st d fsize s = Some (t, Inr ())"
  shows "\<exists>ts. hwy_transfers t = hwy_transfers s @ ts \<and> media_sent env cmd d fsize res ts"
proof (cases "ulr_u_key res")
  case None
  then show ?thesis using send_media_Inr [OF assms] by (simp add: media_sent_def)
next
  case (Some key)
  with send_media_Inr [OF assms] show ?thesis by (fastforce simp: media_sent_def)
qed

lemma image_uploaded:
  assumes "upload_image_with env cmd answer keep im s = Some (t, im', Inr ())"
  shows "\<exists>st im1 iv res ts. image_resolve_stream (file_len env) im = (im1, Some st)
    \<and> answer (next_event s) (image_args env im1 iv (hwe_sha1 env (stream_rest env s st))
        (hwe_md5 env (stream_rest env s st))) = Inr (Some res)
    \<and> im' = keep (ulr_compat res) (im1\<lparr>im_msg_info := Some (ulr_msg_info res)\<rparr>)
    \<and> hwy_transfers t = hwy_transfers s @ ts
    \<and> media_sent env cmd (stream_bytes env st) (im_size im1) res ts"
proof -
  obtain im1 o1 where st: "image_resolve_stream (file_len env) im = (im1, o1)"
    by (cases "image_resolve_stream (file_len env) im")
  obtain u st' where u: "prepare_highway env s = Some (u, Inr ())" and o1: "o1 = Some st'"
    and c: "finish_upload im1 (\<lambda>res im. keep (ulr_compat res) (im\<lparr>im_msg_info := Some (ulr_msg_info res)\<rparr>))
             (try_op (resolve_image_file env st' u) (\<lambda>s (iv, sha1, md5).
              try_op (ask (\<lambda>n. answer n (image_args env im1 iv sha1 md5)) s) (\<lambda>s res.
              try_op (send_media env cmd 0 (ulr_u_key res) None res (Some st') (stream_bytes env st')
                  (im_size im1) s) (\<lambda>s _. Some (s, Inr res))))) = Some (t, im', Inr ())"
    using then_media_Some [OF assms [unfolded upload_image_with_def st]] by (auto split: option.split_asm)
  from finish_upload_Some [OF c] obtain res where
      r: "try_op (resolve_image_file env st' u) (\<lambda>s (iv, sha1, md5).
              try_op (ask (\<lambda>n. answer n (image_args env im1 iv sha1 md5)) s) (\<lambda>s res.
              try_op (send_media env cmd 0 (ulr_u_key res) None res (Some st') (stream_bytes env st')
                  (im_size im1) s) (\<lambda>s _. Some (s, Inr res)))) = Some (t, Inr res)"
    and i: "im' = keep (ulr_compat res) (im1\<lparr>im_msg_info := Some (ulr_msg_info res)\<rparr>)" by auto
  then obtain v iv sha1 md5 where v: "resolve_image_file env st' u = Some (v, Inr (iv, sha1, md5))"
    and a: "answer (hwy_events v) (image_args env im1 iv sha1 md5) = Inr (Some res)"
    and m: "send_media env cmd 0 (ulr_u_key res) None res (Some st') (stream_bytes env st') (im_size im1)
        (v\<lparr>hwy_events := hwy_events v + 1\<rparr>) = Some (t, Inr ())"
    unfolding try_op_Inr ask_Inr by (fastforce simp: try_op_Inr ask_Inr)
  have "stream_rest env u st' = stream_rest env s st'"
    using prepare_Inr [OF u] stream_pos_cong [of u s env st'] by (simp add: stream_rest_def)
  then show ?thesis
    using st o1 i a prepare_Inr [OF u] resolve_image_file_Inr [OF v] send_media_sent [OF m]
    by (intro exI [of _ st'] exI [of _ im1] exI [of _ iv] exI [of _ res]) auto
qed

text \<open>The files an upload request announces: size, MD5 and SHA-1.\<close>

definition announced :: "Ntv2RichMediaReq \<Rightarrow> (u32 \<times> rstring \<times> rstring) list" where
  "announced req =
     (case nrq_upload req of
        None \<Rightarrow> []
      | Some u \<Rightarrow> map (\<lambda>i. let f = upi_file_info i in (fi_file_size f, fi_file_hash f, fi_file_sha1 f))
          (upq_upload_info u))"

lemmas request_defs = ImageGroupUpload_request_def ImageC2CUpload_request_def VideoGroupUpload_request_def
  VideoC2CUpload_request_def RecordGroupUpload_request_def RecordC2CUpload_request_def upload_req_def
  image_file_info_def video_file_infos_def record_file_info_def

lemma announced_image:
  "announced (ImageGroupUpload_request codec rnd g (image_args env im iv sha1 md5)) =
     [(im_size im, mdc_hex codec md5, mdc_hex codec sha1)]"
  "announced (ImageC2CUpload_request codec rnd uid (image_args env im iv sha1 md5)) =
     [(im_size im, mdc_hex codec md5, mdc_hex codec md5)]"
  by (simp_all add: announced_def request_defs image_args_def split: prod.split)

text \<open>
  C12: A picture sent to a group is announced and stored as it is. A successful \<open>upload_group_image\<close> has
  opened the picture, announced its size, and MD5 and SHA-1 of what was left of the stream, and got
  a reply, whose media information and custom face are in the entity. Without an upload key nothing was
  transferred; with one, there was one transfer, of all bytes if the size is right, under the MD5 the
  reply names, with the extension built from the reply's first file.
\<close>

theorem group_image_uploaded:
  assumes "upload_group_image env g im s = Some (t, im', Inr ())"
  shows "\<exists>st im1 a res ts. image_resolve_stream (file_len env) im = (im1, Some st)
    \<and> announced (ImageGroupUpload_request codec rnd g a) =
        [(im_size im1, mdc_hex codec (hwe_md5 env (stream_rest env s st)),
          mdc_hex codec (hwe_sha1 env (stream_rest env s st)))]
    \<and> usv_group_image (hwe_server env) (next_event s) g a = Inr (Some res)
    \<and> im' = im1\<lparr>im_msg_info := Some (ulr_msg_info res), im_custom_face := ulr_compat res\<rparr>
    \<and> hwy_transfers t = hwy_transfers s @ ts
    \<and> media_sent env 1004 (stream_bytes env st) (im_size im1) res ts"
proof -
  from image_uploaded [OF assms [unfolded upload_group_image_def]] obtain st im1 iv res ts where
      "image_resolve_stream (file_len env) im = (im1, Some st)"
      "usv_group_image (hwe_server env) (next_event s) g (image_args env im1 iv
        (hwe_sha1 env (stream_rest env s st)) (hwe_md5 env (stream_rest env s st))) = Inr (Some res)"
      "im' = im1\<lparr>im_msg_info := Some (ulr_msg_info res), im_custom_face := ulr_compat res\<rparr>"
      "hwy_transfers t = hwy_transfers s @ ts" "media_sent env 1004 (stream_bytes env st) (im_size im1) res ts"
    by blast
  then show ?thesis
    by (intro exI [of _ st] exI [of _ im1] exI [of _ res] exI [of _ ts]
        exI [of _ "image_args env im1 iv (hwe_sha1 env (stream_rest env s st)) (hwe_md5 env (stream_rest env s st))"])
      (simp add: announced_image)
qed

text \<open>
  C13: A picture sent to a user is announced with its MD5 in place of its SHA-1. The same holds for
  \<open>upload_c2c_image\<close>, with the transfer 1003 and the picture of a private message, but the request
  has the MD5 in both digest fields.
\<close>

theorem c2c_image_uploaded:
  assumes "upload_c2c_image env uid im s = Some (t, im', Inr ())"
  shows "\<exists>st im1 a res ts. image_resolve_stream (file_len env) im = (im1, Some st)
    \<and> announced (ImageC2CUpload_request codec rnd uid a) =
        [(im_size im1, mdc_hex codec (hwe_md5 env (stream_rest env s st)),
          mdc_hex codec (hwe_md5 env (stream_rest env s st)))]
    \<and> usv_c2c_image (hwe_server env) (next_event s) uid a = Inr (Some res)
    \<and> im' = im1\<lparr>im_msg_info := Some (ulr_msg_info res), im_not_online_image := ulr_compat res\<rparr>
    \<and> hwy_transfers t = hwy_transfers s @ ts
    \<and> media_sent env 1003 (stream_bytes env st) (im_size im1) res ts"
proof -
  from image_uploaded [OF assms [unfolded upload_c2c_image_def]] obtain st im1 iv res ts where
      "image_resolve_stream (file_len env) im = (im1, Some st)"
      "usv_c2c_image (hwe_server env) (next_event s) uid (image_args env im1 iv
        (hwe_sha1 env (stream_rest env s st)) (hwe_md5 env (stream_rest env s st))) = Inr (Some res)"
      "im' = im1\<lparr>im_msg_info := Some (ulr_msg_info res), im_not_online_image := ulr_compat res\<rparr>"
      "hwy_transfers t = hwy_transfers s @ ts" "media_sent env 1003 (stream_bytes env st) (im_size im1) res ts"
    by blast
  then show ?thesis
    by (intro exI [of _ st] exI [of _ im1] exI [of _ res] exI [of _ ts]
        exI [of _ "image_args env im1 iv (hwe_sha1 env (stream_rest env s st)) (hwe_md5 env (stream_rest env s st))"])
      (simp add: announced_image)
qed

section \<open>Videos\<close>

lemma stream_rest_memory [simp]:
  "stream_rest env s (MemoryStream d) = drop (hwe_thumb_pos env d) d"
  by (simp add: stream_rest_def stream_pos_def stream_bytes_def)

lemma resolve_video_files_Inr:
  assumes "resolve_video_files env vs th s = Some (t, Inr (file_md5, file_sha1, hs, thumb_md5, thumb_sha1))"
  shows "\<exists>p q chunks ss. t = set_stream_pos th q (set_stream_pos vs p s)
    \<and> file_md5 = hwe_md5 env (stream_rest env s vs) \<and> file_sha1 = hwe_sha1 env (stream_rest env s vs)
    \<and> concat chunks = stream_rest env s vs
    \<and> update_all (StreamSha1_update (hwe_sha1_stream env)) chunks StreamSha1_new = Some ss
    \<and> hs = StreamSha1_finalize (hwe_sha1_stream env) ss
    \<and> thumb_md5 = hwe_md5 env (stream_rest env (set_stream_pos vs p s) th)
    \<and> thumb_sha1 = hwe_sha1 env (stream_rest env (set_stream_pos vs p s) th)"
proof -
  obtain u p chunks where u: "pipeline env vs s = Some (u, Inr (p, chunks))"
    and c: "do { stream_sha1 \<leftarrow> update_all (StreamSha1_update (hwe_sha1_stream env)) chunks StreamSha1_new;
            let file = concat chunks;
            try_op (pipeline env th u) (\<lambda>s (_, chunks).
              Some (s, Inr (hwe_md5 env file, hwe_sha1 env file,
                StreamSha1_finalize (hwe_sha1_stream env) stream_sha1,
                hwe_md5 env (concat chunks), hwe_sha1 env (concat chunks)))) }
        = Some (t, Inr (file_md5, file_sha1, hs, thumb_md5, thumb_sha1))"
    using assms unfolding resolve_video_files_def try_op_Inr by fastforce
  then obtain ss v q ch where ss: "update_all (StreamSha1_update (hwe_sha1_stream env)) chunks StreamSha1_new = Some ss"
    and v: "pipeline env th u = Some (v, Inr (q, ch))"
    and e: "t = v" "file_md5 = hwe_md5 env (concat chunks)" "file_sha1 = hwe_sha1 env (concat chunks)"
      "hs = StreamSha1_finalize (hwe_sha1_stream env) ss" "thumb_md5 = hwe_md5 env (concat ch)"
      "thumb_sha1 = hwe_sha1 env (concat ch)"
    by (auto simp: bind_eq_Some_conv Let_def try_op_Inr)
  show ?thesis
    using pipeline_Inr [OF u] pipeline_Inr [OF v] ss e
    by (intro exI [of _ p] exI [of _ q] exI [of _ chunks] exI [of _ ss]) simp
qed

text \<open>
  C11: However the reads are cut, the digests of a video are those of its bytes. For every result
  \<open>resolve_video\<close> returns, MD5 and SHA-1 are those of what was left of the stream, and the list is
  the one computed on the whole file: the SHA-1 chaining value after each MiB, then the SHA-1.
\<close>

theorem video_digests:
  assumes "resolve_video_files env vs th s = Some (t, Inr (file_md5, file_sha1, hs, thumb_md5, thumb_sha1))"
    and "eager_buffer (sha_digest_blocks (hwe_sha1_stream env))"
  shows "(let d = stream_rest env s vs; e = hwe_sha1_stream env in
    file_md5 = hwe_md5 env d \<and> file_sha1 = hwe_sha1 env d
    \<and> hs = map (\<lambda>i. core_hash (core_update e (take (i * 1048576) d) StreamSha1Core_default))
          [1..<Suc (length d div 1048576)]
        @ [core_finalize e (core_update e d StreamSha1Core_default)])"
proof -
  let ?e = "hwe_sha1_stream env"
  from resolve_video_files_Inr [OF assms(1)] obtain chunks ss where
      md: "file_md5 = hwe_md5 env (stream_rest env s vs)" "file_sha1 = hwe_sha1 env (stream_rest env s vs)"
      "concat chunks = stream_rest env s vs"
    and ss: "update_all (StreamSha1_update ?e) chunks StreamSha1_new = Some ss"
      "hs = StreamSha1_finalize ?e ss" by blast
  have "ss = state_of ?e (1024 * 1024) (concat chunks)"
    using ss(1) update_all_new [OF assms(2), of "1024 * 1024" chunks] by (simp add: StreamSha1_new_def)
  then show ?thesis
    using md ss(2) by (simp add: StreamSha1_finalize_def state_of_def block_digests_def Let_def)
qed

lemma video_uploaded:
  assumes "upload_video_with env video_cmd thumb_cmd answer v s = Some (t, v', Inr ())"
  shows "\<exists>vs th v1 p hs res ts1 ts2. video_streams env v = Some (v1, Inr (vs, th))
    \<and> answer (next_event s) (video_args env v1 (hwe_md5 env (stream_rest env s vs))
        (hwe_sha1 env (stream_rest env s vs))
        (hwe_md5 env (stream_rest env (set_stream_pos vs p s) th))
        (hwe_sha1 env (stream_rest env (set_stream_pos vs p s) th))) = Inr (Some res)
    \<and> v' = v1\<lparr>vd_msg_info := Some (ulr_msg_info res), vd_compat := Some (ulr_compat res)\<rparr>
    \<and> hwy_transfers t = hwy_transfers s @ ts1 @ ts2
    \<and> (case ulr_u_key res of None \<Rightarrow> ts1 = []
       | Some key \<Rightarrow> \<exists>index info x. ts1 = [x] \<and> transfer_whole x \<and> trf_cmd x = video_cmd
           \<and> trf_size x = vd_video_size v1 \<and> hs_data (trf_state x) = stream_bytes env vs
           \<and> body_index 0 (ulr_msg_info res) = Inr (index, info)
           \<and> trf_ext x = extend_info env index key res hs)
    \<and> (case thumb_key res of None \<Rightarrow> ts2 = []
       | Some key \<Rightarrow> \<exists>index info h x. ts2 = [x] \<and> transfer_whole x \<and> trf_cmd x = thumb_cmd
           \<and> trf_size x = vd_thumb_size v1 \<and> hs_data (trf_state x) = stream_bytes env th
           \<and> body_index 1 (ulr_msg_info res) = Inr (index, info)
           \<and> trf_ext x = extend_info env index key res [h])"
proof -
  obtain u v1 q where u: "prepare_highway env s = Some (u, Inr ())"
    and v1: "video_streams env v = Some (v1, q)"
    and c: "(case q of Inl e \<Rightarrow> Some (u, v1, Inl e)
             | Inr (vs, th) \<Rightarrow>
                 finish_upload v1
                   (\<lambda>res v. v\<lparr>vd_msg_info := Some (ulr_msg_info res), vd_compat := Some (ulr_compat res)\<rparr>)
                   (try_op (resolve_video_files env vs th u)
                     (\<lambda>s (file_md5, file_sha1, stream_sha1, thumb_md5, thumb_sha1).
                    try_op (ask (\<lambda>n. answer n
                        (video_args env v1 file_md5 file_sha1 thumb_md5 thumb_sha1)) s) (\<lambda>s res.
                      send_video env video_cmd thumb_cmd v1 vs th stream_sha1 res s)))) = Some (t, v', Inr ())"
    using then_media_Some [OF assms [unfolded upload_video_with_def]] by (auto simp: bind_eq_Some_conv)
  obtain vs th where q: "q = Inr (vs, th)" using c by (cases q) auto
  from finish_upload_Some [OF c [unfolded q sum.case prod.case]] obtain res where
      r: "try_op (resolve_video_files env vs th u)
            (\<lambda>s (file_md5, file_sha1, stream_sha1, thumb_md5, thumb_sha1).
              try_op (ask (\<lambda>n. answer n (video_args env v1 file_md5 file_sha1 thumb_md5 thumb_sha1)) s)
                (\<lambda>s res. send_video env video_cmd thumb_cmd v1 vs th stream_sha1 res s)) = Some (t, Inr res)"
    and e: "v' = v1\<lparr>vd_msg_info := Some (ulr_msg_info res), vd_compat := Some (ulr_compat res)\<rparr>"
    by auto
  then obtain w a b hs d f where
      w: "resolve_video_files env vs th u = Some (w, Inr (a, b, hs, d, f))"
    and r2: "try_op (ask (\<lambda>n. answer n (video_args env v1 a b d f)) w)
        (\<lambda>s res. send_video env video_cmd thumb_cmd v1 vs th hs res s) = Some (t, Inr res)"
    unfolding try_op_Inr [of "resolve_video_files env vs th u"] by fastforce
  then obtain res' where an: "answer (hwy_events w) (video_args env v1 a b d f) = Inr (Some res')"
    and sv: "send_video env video_cmd thumb_cmd v1 vs th hs res' (w\<lparr>hwy_events := hwy_events w + 1\<rparr>)
        = Some (t, Inr res)"
    by (auto simp: try_op_Inr ask_Inr)
  then obtain x where same: "res' = res"
    and m1: "send_media env video_cmd 0 (ulr_u_key res) (Some hs) res (Some vs) (stream_bytes env vs)
        (vd_video_size v1) (w\<lparr>hwy_events := hwy_events w + 1\<rparr>) = Some (x, Inr ())"
    and m2: "send_media env thumb_cmd 1 (thumb_key res) None res (Some th) (stream_bytes env th)
        (vd_thumb_size v1) x = Some (t, Inr ())"
    by (auto simp: send_video_def try_op_Inr)
  have rest: "stream_rest env u st = stream_rest env s st"
      "stream_rest env (set_stream_pos vs p u) st = stream_rest env (set_stream_pos vs p s) st" for st p
    using prepare_Inr [OF u]
    by (auto simp: stream_rest_def stream_pos_def set_stream_pos_def split: stream.split)
  from resolve_video_files_Inr [OF w] obtain p y where
      ps: "w = set_stream_pos th y (set_stream_pos vs p u)" "a = hwe_md5 env (stream_rest env s vs)"
      "b = hwe_sha1 env (stream_rest env s vs)"
      "d = hwe_md5 env (stream_rest env (set_stream_pos vs p s) th)"
      "f = hwe_sha1 env (stream_rest env (set_stream_pos vs p s) th)"
    unfolding rest by blast
  have ans: "answer (next_event s) (video_args env v1 (hwe_md5 env (stream_rest env s vs))
        (hwe_sha1 env (stream_rest env s vs))
        (hwe_md5 env (stream_rest env (set_stream_pos vs p s) th))
        (hwe_sha1 env (stream_rest env (set_stream_pos vs p s) th))) = Inr (Some res)"
    using an same ps prepare_Inr [OF u] by simp
  have base: "hwy_transfers w = hwy_transfers s" using ps prepare_Inr [OF u] by simp
  obtain ts1 where t1: "hwy_transfers x = hwy_transfers s @ ts1"
    and k1: "case ulr_u_key res of None \<Rightarrow> ts1 = []
       | Some key \<Rightarrow> \<exists>index info x. ts1 = [x] \<and> transfer_whole x \<and> trf_cmd x = video_cmd
           \<and> trf_size x = vd_video_size v1 \<and> hs_data (trf_state x) = stream_bytes env vs
           \<and> body_index 0 (ulr_msg_info res) = Inr (index, info)
           \<and> trf_ext x = extend_info env index key res hs"
    using send_media_Inr [OF m1] base
    by (cases "ulr_u_key res") fastforce+
  obtain ts2 where t2: "hwy_transfers t = hwy_transfers x @ ts2"
    and k2: "case thumb_key res of None \<Rightarrow> ts2 = []
       | Some key \<Rightarrow> \<exists>index info h x. ts2 = [x] \<and> transfer_whole x \<and> trf_cmd x = thumb_cmd
           \<and> trf_size x = vd_thumb_size v1 \<and> hs_data (trf_state x) = stream_bytes env th
           \<and> body_index 1 (ulr_msg_info res) = Inr (index, info)
           \<and> trf_ext x = extend_info env index key res [h]"
    using send_media_Inr [OF m2]
    by (cases "thumb_key res") fastforce+
  show ?thesis
    using v1 q ans e t1 t2 k1 k2
    by (intro exI [of _ vs] exI [of _ th] exI [of _ v1] exI [of _ p] exI [of _ hs] exI [of _ res]
        exI [of _ ts1] exI [of _ ts2]) simp
qed

text \<open>
  C14: A video handed in as a stream is not sent, and its generated thumbnail is announced as empty. The
  builder leaves the size of such a video at zero: after a successful \<open>upload_group_video\<close> the size
  announced is zero, and the transfer for the upload key sent no frame, whatever the stream holds. The
  thumbnail is generated into a cursor, which is then at its end: the digests announced for it are
  those of no bytes, beside its true size.
\<close>

theorem video_from_stream:
  assumes "built_entity (AddVideoStream n len) = EVideo v"
    and "hwe_thumbnail env = Inr (Some d)" and "hwe_thumb_pos env d = length d"
    and "upload_group_video env g v s = Some (t, v', Inr ())"
  shows "\<exists>a res ts1 ts2. usv_group_video (hwe_server env) (next_event s) g a = Inr (Some res)
    \<and> vua_video_size a = 0 \<and> vua_thumb_size a = of_nat (length d)
    \<and> vua_thumb_md5 a = hwe_md5 env [] \<and> vua_thumb_sha1 a = hwe_sha1 env []
    \<and> hwy_transfers t = hwy_transfers s @ ts1 @ ts2
    \<and> (ulr_u_key res \<noteq> None \<longrightarrow> ts1 \<noteq> [])
    \<and> (\<forall>x \<in> set ts1. trf_cmd x = 1005 \<and> trf_result x = Inr () \<and> hs_data (trf_state x) = hwe_user env n
         \<and> hs_tcp (trf_state x) = [] \<and> hs_http (trf_state x) = [])"
proof -
  have v: "vd_path v = None" "vd_stream v = Some (UserStream n)" "vd_thumb_path v = None"
      "vd_thumb_stream v = None" "vd_video_size v = 0"
    using assms(1) by (auto simp: VideoEntity_default_def)
  from video_uploaded [OF assms(4) [unfolded upload_group_video_def]]
  obtain vs th v1 p hs res ts1 ts2 where
      vs: "video_streams env v = Some (v1, Inr (vs, th))"
    and a: "usv_group_video (hwe_server env) (next_event s) g
        (video_args env v1 (hwe_md5 env (stream_rest env s vs)) (hwe_sha1 env (stream_rest env s vs))
          (hwe_md5 env (stream_rest env (set_stream_pos vs p s) th))
          (hwe_sha1 env (stream_rest env (set_stream_pos vs p s) th))) = Inr (Some res)"
    and ts: "hwy_transfers t = hwy_transfers s @ ts1 @ ts2"
    and k: "case ulr_u_key res of None \<Rightarrow> ts1 = []
       | Some key \<Rightarrow> \<exists>index info x. ts1 = [x] \<and> transfer_whole x \<and> trf_cmd x = 1005
           \<and> trf_size x = vd_video_size v1 \<and> hs_data (trf_state x) = stream_bytes env vs
           \<and> body_index 0 (ulr_msg_info res) = Inr (index, info)
           \<and> trf_ext x = extend_info env index key res hs"
    by blast
  have s1: "v1 = v\<lparr>vd_thumb_size := of_nat (length d)\<rparr>" "vs = UserStream n" "th = MemoryStream d"
    using vs v assms(2) by (auto simp: video_streams_def video_resolve_stream_def)
  then have z: "vd_video_size v1 = 0" "stream_bytes env vs = hwe_user env n"
    using v by (simp_all add: stream_bytes_def)
  have "\<forall>x \<in> set ts1. trf_cmd x = 1005 \<and> trf_result x = Inr () \<and> hs_data (trf_state x) = hwe_user env n
         \<and> hs_tcp (trf_state x) = [] \<and> hs_http (trf_state x) = []"
    "ulr_u_key res \<noteq> None \<longrightarrow> ts1 \<noteq> []"
    using k z by (cases "ulr_u_key res"; auto simp: transfer_whole_def)+
  then show ?thesis
    using a ts s1 z assms(3)
    by (intro exI [of _ "video_args env v1 (hwe_md5 env (stream_rest env s vs))
          (hwe_sha1 env (stream_rest env s vs)) (hwe_md5 env (stream_rest env (set_stream_pos vs p s) th))
          (hwe_sha1 env (stream_rest env (set_stream_pos vs p s) th))"]
        exI [of _ res] exI [of _ ts1] exI [of _ ts2]) (simp add: video_args_def)
qed

section \<open>The length of a record\<close>

lemma silk_blocks_count:
  assumes "\<forall>b \<in> set bs. length b < 2 ^ 16" and "length rest < 2"
  shows "silk_blocks (p @ concat (map silk_block bs) @ rest) (length p) = length bs"
  using assms(1)
proof (induction bs arbitrary: p)
  case Nil
  then show ?case using assms(2) by (simp add: silk_blocks.simps)
next
  case (Cons b bs)
  let ?d = "p @ concat (map silk_block (b # bs)) @ rest"
  have l: "unat (of_nat (length b) :: u16) = length b"
    using Cons.prems by (simp add: unat_of_nat take_bit_nat_eq_self)
  have "slice (length p) (length p + 2) ?d = le16_bytes (of_nat (length b))"
    by (simp add: slice_def silk_block_def)
  then have step: "silk_blocks ?d (length p) = Suc (silk_blocks ?d (length p + 2 + length b))"
    using l by (subst silk_blocks.simps) (simp add: silk_block_def)
  have d: "?d = (p @ silk_block b) @ concat (map silk_block bs) @ rest" by simp
  have l2: "length p + 2 + length b = length (p @ silk_block b)" by (simp add: silk_block_def)
  have "silk_blocks ?d (length p + 2 + length b) = length bs"
    unfolding d l2 by (rule Cons.IH) (use Cons.prems in simp)
  then show ?case using step by simp
qed

text \<open>The steps of a successful conversion.\<close>

lemma resolve_audio_steps:
  assumes "resolve_audio_file env st s = Some (t, Inr (silk, fsize, time, sha1, md5))"
  shows "\<exists>u p chunks. pipeline env st s = Some (u, Inr (p, chunks))
    \<and> silk_task (hwe_audio env) (concat chunks) = Some (Inr silk) \<and> fsize = of_nat (length silk)
    \<and> time = silk_seconds silk \<and> sha1 = hwe_sha1 env silk \<and> md5 = hwe_md5 env silk"
proof -
  obtain u p chunks where u: "pipeline env st s = Some (u, Inr (p, chunks))"
    and c: "do { r \<leftarrow> silk_task (hwe_audio env) (concat chunks);
            Some (set_stream_pos st 0 u, map_sum id (\<lambda>silk. (silk, of_nat (length silk), silk_seconds silk,
              hwe_sha1 env silk, hwe_md5 env silk)) r) } = Some (t, Inr (silk, fsize, time, sha1, md5))"
    using assms unfolding resolve_audio_file_def try_op_Inr by (fastforce simp: Let_def)
  then obtain r where r: "silk_task (hwe_audio env) (concat chunks) = Some r"
    by (auto simp: bind_eq_Some_conv)
  show ?thesis using u c r by (cases r) auto
qed

lemma silk_task_Inr:
  assumes "silk_task env d = Some (Inr silk)"
  shows "\<exists>pcm samples out. SymphoniaDecoder_decode (aue_symphonia env) d = Inr pcm
    \<and> RubatoResampler_resample env 48000 pcm = Some (Inr samples)
    \<and> SilkEncoder_encode env 30000 samples = Inr out \<and> silk = aes_stream out"
proof -
  obtain pcm where d: "SymphoniaDecoder_decode (aue_symphonia env) d = Inr pcm"
    using assms by (auto simp: silk_task_def split: sum.split_asm)
  then obtain r where r: "RubatoResampler_resample env 48000 pcm = Some r"
    using assms by (auto simp: silk_task_def bind_eq_Some_conv)
  then obtain samples where s: "r = Inr samples"
    using assms d by (cases r) (auto simp: silk_task_def)
  then obtain out where "SilkEncoder_encode env 30000 samples = Inr out" "silk = aes_stream out"
    using assms d r by (cases "SilkEncoder_encode env 30000 samples") (auto simp: silk_task_def)
  then show ?thesis using d r s by blast
qed

lemma case_Inr_iff:
  "(case x of Inl e \<Rightarrow> Inl (g e) | Inr y \<Rightarrow> Inr (f y)) = Inr b \<longleftrightarrow> (\<exists>y. x = Inr y \<and> b = f y)"
  by (cases x) auto

lemma resampled_rate:
  assumes "RubatoResampler_resample env rate input = Some (Inr out)"
  shows "ai_sample_rate (ars_info out) = rate"
proof (cases "aue_rubato env (unat (ai_sample_rate (ars_info input))) (unat rate)")
  case (Inr rub)
  then show ?thesis
    using assms
    by (auto simp: RubatoResampler_resample_def AudioInfo_new_def Let_def bind_eq_Some_conv case_Inr_iff
        split: if_split_asm)
qed (use assms in \<open>auto simp: RubatoResampler_resample_def Let_def split: if_split_asm\<close>)

lemma silk_seconds_unat: "unat (silk_seconds d) = min (silk_blocks d 10 div 50) (2 ^ 32 - 1)"
  by (simp add: silk_seconds_def unat_of_nat take_bit_nat_eq_self min_less_iff_disj)

text \<open>
  C26: The announced length of a record is that of its audio. What \<open>resolve_audio\<close> returns comes from the
  samples that decoding and resampling what was left of the stream gives: silk data with a block for
  every 960 of them, whose blocks \<open>get_ten_silk_time\<close> counts. The length in seconds is the number of samples
  divided by 48000, rounded down (below \<open>2^32\<close>), and size and digests are those of the silk data.
\<close>

theorem record_length:
  assumes "resolve_audio_file env st s = Some (t, Inr (silk, fsize, time, sha1, md5))"
  shows "\<exists>pcm samples bs.
    SymphoniaDecoder_decode (aue_symphonia (hwe_audio env)) (stream_rest env s st) = Inr pcm
    \<and> RubatoResampler_resample (hwe_audio env) 48000 pcm = Some (Inr samples)
    \<and> silk = SILK_HEADER @ concat (map silk_block bs) \<and> length bs = length (ars_stream samples) div 960
    \<and> silk_blocks silk 10 = length bs
    \<and> unat time = min (length (ars_stream samples) div 48000) (2 ^ 32 - 1)
    \<and> fsize = of_nat (length silk) \<and> sha1 = hwe_sha1 env silk \<and> md5 = hwe_md5 env silk"
proof -
  let ?a = "hwe_audio env"
  obtain u p chunks where u: "pipeline env st s = Some (u, Inr (p, chunks))"
    and c: "silk_task ?a (concat chunks) = Some (Inr silk)" "fsize = of_nat (length silk)"
      "time = silk_seconds silk" "sha1 = hwe_sha1 env silk" "md5 = hwe_md5 env silk"
    using resolve_audio_steps [OF assms] by blast
  have rest: "concat chunks = stream_rest env s st" using pipeline_Inr [OF u] by simp
  obtain pcm samples out where d: "SymphoniaDecoder_decode (aue_symphonia ?a) (stream_rest env s st) = Inr pcm"
    and r: "RubatoResampler_resample ?a 48000 pcm = Some (Inr samples)"
    and e: "SilkEncoder_encode ?a 30000 samples = Inr out" "silk = aes_stream out"
    using silk_task_Inr [OF c(1)] rest by auto
  have "unat (ai_sample_rate (ars_info samples)) div 1000 * 20 = 960"
    using resampled_rate [OF r] by simp
  then obtain bs where bs: "silk = SILK_HEADER @ concat (map silk_block bs)" "\<forall>b \<in> set bs. length b \<le> 1250"
      "length bs = length (ars_stream samples) div 960"
    using encode_layout [OF e(1)] e(2) by auto
  have "length SILK_HEADER = 10" by (simp add: SILK_HEADER_def str_def)
  moreover have "\<forall>b \<in> set bs. length b < 2 ^ 16" using bs(2) by fastforce
  ultimately have k: "silk_blocks silk 10 = length bs"
    using silk_blocks_count [of bs "[]" SILK_HEADER] bs(1) by simp
  have "unat time = min (length (ars_stream samples) div 48000) (2 ^ 32 - 1)"
    using k bs(3) c(3) by (simp add: silk_seconds_unat div_mult2_eq [symmetric])
  then show ?thesis using d r bs k c by blast
qed

section \<open>An example\<close>

text \<open>
  A server that answers every upload with two files and their keys, a network without TCP, a GIF
  picture as the stream 0 and five bytes as the stream 1.
\<close>

definition demo_gif :: bytes where
  "demo_gif = str ''GIF89a'' @ le16_bytes 3 @ le16_bytes 2 @ replicate 22 0"

definition demo_file :: MsgInfoBody where
  "demo_file = \<lparr>mib_index = Some \<lparr>in_info = Some \<lparr>fi_file_size = 0, fi_file_hash = [1], fi_file_sha1 = [2],
       fi_file_name = [], fi_type = None, fi_width = 0, fi_height = 0, fi_time = 0, fi_original = 0\<rparr>,
     in_file_uuid = [9], in_store_id = 0, in_upload_time = 0, in_ttl = 0, in_sub_type = 0\<rparr>,
   mib_troop_group_uin = None\<rparr>"

definition demo_upload_res :: "'c \<Rightarrow> 'c UploadRes" where
  "demo_upload_res c = \<lparr>ulr_msg_info = \<lparr>mi_bodies = [demo_file, demo_file], mi_ext_biz_info = None\<rparr>,
     ulr_compat = c, ulr_sub_file_info = [\<lparr>sfi_sub_type = 0, sfi_u_key = [5], sfi_ipv4s = []\<rparr>],
     ulr_u_key = Some [4], ulr_ipv4s = []\<rparr>"

definition demo_upload_server :: "VideoFile \<Rightarrow> upload_server" where
  "demo_upload_server vf =
     \<lparr>usv_ticket = \<lambda>_. Inr (Some [6]),
      usv_group_image = \<lambda>_ _ _. Inr (Some (demo_upload_res CustomFace_default)),
      usv_c2c_image = \<lambda>_ _ _. Inr (Some (demo_upload_res NotOnlineImage_default)),
      usv_group_video = \<lambda>_ _ _. Inr (Some (demo_upload_res vf)),
      usv_c2c_video = \<lambda>_ _ _. Inr (Some (demo_upload_res vf)),
      usv_group_record = \<lambda>_ _ _. Inr (Some (demo_upload_res [])),
      usv_c2c_record = \<lambda>_ _ _. Inr (Some (demo_upload_res []))\<rparr>"

text \<open>An audio file of one second at 48 kHz in one packet, and an encoder that writes three bytes a block.\<close>

definition demo_pcm :: "f32 list" where
  "demo_pcm = replicate 48000 0"

definition demo_audio :: audio_env where
  "demo_audio =
     \<lparr>aue_symphonia = \<lparr>sym_probe = \<lambda>_. Inr (Some \<lparr>stk_id = 1, stk_params = Some (Some (Some 48000))\<rparr>,
          [Inr \<lparr>spk_track = 1, spk_decoded = Inr [demo_pcm]\<rparr>]), sym_decoder = \<lambda>_. None\<rparr>,
      aue_rubato = \<lambda>_ _. Inr \<lparr>rub_frames_next = \<lambda>_. 50000, rub_process = \<lambda>_ xs. Inr (1024, take 1024 xs),
          rub_partial = \<lambda>_ xs. Inr xs\<rparr>,
      aue_to_i16 = \<lambda>x. Some (ucast x), aue_silk_size = (0, 8), aue_silk_init = 0,
      aue_silk_encode = \<lambda>_ _ _ _. (0, 3, \<lambda>_. 7), aue_debug_decode = \<lambda>_. [], aue_debug_resample = \<lambda>_. [],
      aue_debug_encode = \<lambda>_. [], aue_debug_join = []\<rparr>"

definition demo_video_file :: VideoFile where
  "demo_video_file = \<lparr>vf_file_uuid = [], vf_file_md5 = [], vf_file_size = 0, vf_file_width = 0,
     vf_file_height = 0\<rparr>"

definition demo_highway_env :: "VideoFile \<Rightarrow> highway_env" where
  "demo_highway_env vf =
     \<lparr>hwe_server = demo_upload_server vf, hwe_net = \<lambda>_. demo_hw_env (Inl InvalidFrame),
      hwe_context = demo_context, hwe_files = \<lambda>_. None,
      hwe_user = \<lambda>n. if n = 0 then demo_gif else [1, 2, 3, 4, 5],
      hwe_thumbnail = Inr (Some [7, 8]), hwe_thumb_pos = length, hwe_read = \<lambda>_ _. Inr 8192,
      hwe_md5 = \<lambda>d. 16 # d, hwe_sha1 = \<lambda>d. 20 # d, hwe_sha1_stream = demo_sha1_env,
      hwe_hex = \<lambda>d. d, hwe_unhex = Some, hwe_enc_ext = \<lambda>_. [], hwe_audio = demo_audio,
      hwe_debug_image = \<lambda>_. [], hwe_debug_str = id\<rparr>"

definition demo_highway :: Highway where
  "demo_highway = \<lparr>hwy_sig_session = None, hwy_client = demo_client, hwy_events = 0,
     hwy_user_pos = \<lambda>_. 0, hwy_transfers = []\<rparr>"

definition demo_media_codec :: media_codec where
  "demo_media_codec = \<lparr>mdc_oidb = \<lambda>_. [], mdc_request = \<lambda>_. [],
     mdc_reply = \<lparr>oc_base = \<lambda>_. None, oc_body = \<lambda>_. None\<rparr>, mdc_custom_face = \<lambda>_. None,
     mdc_not_online_image = \<lambda>_. None, mdc_rich_text = \<lambda>_. None, mdc_video_file = \<lambda>_. None, mdc_hex = id\<rparr>"

definition demo_image :: ImageEntity where
  "demo_image = ImageEntity_default\<lparr>im_stream := Some (UserStream 0), im_size := 32\<rparr>"

lemma small_pipeline:
  "pos < length d \<Longrightarrow> length d \<le> 8192 \<Longrightarrow> stream_pipeline (\<lambda>_. Inr 8192) d pos = (length d, Inr [drop pos d])"
  "length d \<le> pos \<Longrightarrow> stream_pipeline (\<lambda>_. Inr 8192) d pos = (pos, Inr [])"
proof -
  show e: "length d \<le> pos \<Longrightarrow> stream_pipeline (\<lambda>_. Inr 8192) d pos = (pos, Inr [])" for pos
    by (subst stream_pipeline.simps) simp
  show "stream_pipeline (\<lambda>_. Inr 8192) d pos = (length d, Inr [drop pos d])"
    if "pos < length d" "length d \<le> 8192"
  proof -
    have "min (min 8192 (max 1 8192)) (length d - pos) = length d - pos" "length d - pos \<noteq> 0"
      using that by simp_all
    then show ?thesis
      using that e [of "length d"] by (subst stream_pipeline.simps) (simp del: min.bounded_iff max_def)
  qed
qed

lemma demo_transfer:
  assumes "0 < hc_chunk_size (hwy_client s)" and "hwe_net env = (\<lambda>_. demo_hw_env (Inl InvalidFrame))"
  shows "\<exists>t. transfer_bytes env cmd st d fsize md5 ext s = Some (t, Inr ())
    \<and> hwy_client t = hwy_client s"
proof -
  obtain t where t: "upload_file (demo_hw_env (Inl InvalidFrame)) (hwy_client s) cmd fsize md5 ext (hw_start d)
      = Some (t, Inr ())"
    using demo_upload_any [OF assms(1)] by blast
  show ?thesis using assms(2) t by (cases st) (auto simp: transfer_bytes_def Let_def)
qed

lemma demo_send:
  assumes "0 < hc_chunk_size (hwy_client s)" and "k < 2"
  shows "\<exists>t. send_media (demo_highway_env vf) cmd k (Some key) hashes (demo_upload_res c) st d fsize s = Some (t, Inr ())
    \<and> hwy_client t = hwy_client s"
proof -
  have "body_index k (ulr_msg_info (demo_upload_res c)) = Inr (the (mib_index demo_file), the (in_info (the (mib_index demo_file))))"
    using assms(2) by (auto simp: body_index_def demo_upload_res_def demo_file_def less_Suc_eq numeral_2_eq_2)
  then show ?thesis
    using demo_transfer [OF assms(1), of "demo_highway_env vf"]
    by (auto simp: send_media_def unhex_file_def demo_highway_env_def ok_or_def demo_file_def split: option.split)
qed

lemma demo_sent:
  assumes "0 < hc_chunk_size (hwy_client s)" and "k < 2"
  shows "\<exists>t. send_media (demo_highway_env vf) cmd k (Some key) hashes (demo_upload_res c) st d fsize s = Some (t, Inr ())"
  using demo_send [OF assms] by fast

lemma demo_prepare:
  "prepare_highway (demo_highway_env vf) demo_highway =
     Some (demo_highway\<lparr>hwy_events := 1, hwy_sig_session := Some [6],
       hwy_client := HighwayClient_new (str ''htdata3.qq.com:80'') 60 [6] 10001 1048576\<rparr>, Inr ())"
  by (simp add: prepare_highway_def fetch_sig_session_def ask_def demo_highway_def demo_highway_env_def
      demo_upload_server_def ok_or_def self_uin_def chuck_size_def demo_context_def ClientConfig_default_def)

lemma demo_gif_resolved:
  "resolve_image_metadata demo_gif p = Some (p, Inr (Gif, 3, 2))" "length demo_gif = 32"
  using gif_resolved [of "str ''GIF89a''" "replicate 22 0" 3 2 p] by (simp_all add: demo_gif_def str_def)

lemma upload_image_steps:
  assumes "prepare_highway env s = Some (u, Inr ())"
    and "image_resolve_stream (file_len env) im = (im1, Some st)"
    and "resolve_image_file env st u = Some (v, Inr (iv, sha1, md5))"
    and "answer (hwy_events v) (image_args env im1 iv sha1 md5) = Inr (Some res)"
    and "send_media env cmd 0 (ulr_u_key res) None res (Some st) (stream_bytes env st) (im_size im1)
      (v\<lparr>hwy_events := hwy_events v + 1\<rparr>) = Some (t, Inr ())"
  shows "upload_image_with env cmd answer keep im s =
    Some (t, keep (ulr_compat res) (im1\<lparr>im_msg_info := Some (ulr_msg_info res)\<rparr>), Inr ())"
  using assms by (simp add: upload_image_with_def then_media_def finish_upload_def ask_def ok_or_def)

lemma demo_image_uploaded:
  assumes "\<And>n a. answer n a = Inr (Some (demo_upload_res c))"
  shows "\<exists>t im'. upload_image_with (demo_highway_env vf) cmd answer keep demo_image demo_highway = Some (t, im', Inr ())"
proof -
  let ?e = "demo_highway_env vf"
  obtain u where u: "prepare_highway ?e demo_highway = Some (u, Inr ())" "hwy_user_pos u = (\<lambda>_. 0)"
      "hc_chunk_size (hwy_client u) = 1048576"
    using demo_prepare [of vf] by (simp add: demo_highway_def HighwayClient_new_def)
  have st: "image_resolve_stream (file_len ?e) demo_image = (demo_image, Some (UserStream 0))"
    by (simp add: image_resolve_stream_def demo_image_def ImageEntity_default_def)
  define v where "v = set_stream_pos (UserStream 0) 32 u"
  have "stream_pipeline (\<lambda>_. Inr 8192) demo_gif 0 = (32, Inr [demo_gif])"
    using small_pipeline(1) [of 0 demo_gif] demo_gif_resolved(2) by simp
  then have "pipeline ?e (UserStream 0) u = Some (v, Inr (32, [demo_gif]))"
    using u(2) by (simp add: pipeline_def stream_bytes_def stream_pos_def demo_highway_env_def v_def)
  then have v: "resolve_image_file ?e (UserStream 0) u = Some (v, Inr ((Gif, 3, 2), 20 # demo_gif, 16 # demo_gif))"
    by (simp add: resolve_image_file_def demo_gif_resolved stream_bytes_def demo_highway_env_def v_def)
  have "\<exists>t. send_media ?e cmd 0 (ulr_u_key (demo_upload_res c)) None (demo_upload_res c) (Some (UserStream 0))
      (stream_bytes ?e (UserStream 0)) (im_size demo_image) (v\<lparr>hwy_events := hwy_events v + 1\<rparr>)
      = Some (t, Inr ())"
    unfolding demo_upload_res_def [of c, THEN arg_cong [of _ _ ulr_u_key], simplified]
    by (rule demo_sent) (simp_all add: v_def u)
  then show ?thesis
    using upload_image_steps [OF u(1) st v, of answer "demo_upload_res c", OF assms] by blast
qed

theorem group_image_uploaded_witness:
  "\<exists>t im' a. upload_group_image (demo_highway_env demo_video_file) 7 demo_image demo_highway = Some (t, im', Inr ())
    \<and> announced (ImageGroupUpload_request demo_media_codec 0 7 a) = [(32, 16 # demo_gif, 20 # demo_gif)]"
proof -
  have "\<exists>t im'. upload_group_image (demo_highway_env demo_video_file) 7 demo_image demo_highway = Some (t, im', Inr ())"
    unfolding upload_group_image_def
    by (rule demo_image_uploaded) (simp add: demo_highway_env_def demo_upload_server_def)
  then obtain t im' where u: "upload_group_image (demo_highway_env demo_video_file) 7 demo_image demo_highway = Some (t, im', Inr ())"
    by blast
  from group_image_uploaded [OF u, of demo_media_codec 0] u show ?thesis
    by (auto simp: image_resolve_stream_def demo_image_def ImageEntity_default_def stream_rest_def
        stream_pos_def stream_bytes_def demo_highway_env_def demo_highway_def demo_media_codec_def)
qed

theorem c2c_image_uploaded_witness:
  "\<exists>t im' a. upload_c2c_image (demo_highway_env demo_video_file) [8] demo_image demo_highway = Some (t, im', Inr ())
    \<and> announced (ImageC2CUpload_request demo_media_codec 0 [8] a) = [(32, 16 # demo_gif, 16 # demo_gif)]"
proof -
  have "\<exists>t im'. upload_c2c_image (demo_highway_env demo_video_file) [8] demo_image demo_highway = Some (t, im', Inr ())"
    unfolding upload_c2c_image_def
    by (rule demo_image_uploaded) (simp add: demo_highway_env_def demo_upload_server_def)
  then obtain t im' where u: "upload_c2c_image (demo_highway_env demo_video_file) [8] demo_image demo_highway = Some (t, im', Inr ())"
    by blast
  from c2c_image_uploaded [OF u, of demo_media_codec 0] u show ?thesis
    by (auto simp: image_resolve_stream_def demo_image_def ImageEntity_default_def stream_rest_def
        stream_pos_def stream_bytes_def demo_highway_env_def demo_highway_def demo_media_codec_def)
qed

lemma user_pipeline:
  assumes "stream_bytes env st = d" and "stream_pos env s st = p" and "hwe_read env st = (\<lambda>_. Inr 8192)"
    and "p \<le> length d" and "length d \<le> 8192"
  shows "\<exists>chunks. pipeline env st s = Some (set_stream_pos st (length d) s, Inr (length d, chunks))
    \<and> concat chunks = drop p d"
  using assms small_pipeline(1) [of p d] small_pipeline(2) [of d p] by (cases "p < length d") (auto simp: pipeline_def)

lemma demo_video_resolved:
  assumes "hwy_user_pos s = (\<lambda>_. 0)"
  shows "\<exists>t ds. resolve_video_files (demo_highway_env vf) (UserStream 1) (MemoryStream [7, 8]) s
      = Some (t, Inr ds) \<and> hwy_client t = hwy_client s"
proof -
  let ?e = "demo_highway_env vf"
  obtain a p u where a: "pipeline ?e (UserStream 1) s = Some (u, Inr (p, a))" "hwy_client u = hwy_client s"
    using user_pipeline [of ?e "UserStream 1" "[1, 2, 3, 4, 5]" s 0] assms
    by (fastforce simp: stream_bytes_def stream_pos_def demo_highway_env_def)
  obtain b q v where b: "pipeline ?e (MemoryStream [7, 8]) u = Some (v, Inr (q, b))" "hwy_client v = hwy_client u"
    using user_pipeline [of ?e "MemoryStream [7, 8]" "[7, 8]" u 2]
    by (fastforce simp: stream_bytes_def stream_pos_def demo_highway_env_def)
  have e: "eager_buffer (sha_digest_blocks demo_sha1_env)" "hwe_sha1_stream ?e = demo_sha1_env"
    by (simp_all add: demo_sha1_env_def cut64_eager demo_highway_env_def)
  show ?thesis
    using a b update_all_new [OF e(1), of "1024 * 1024" a]
    by (simp add: resolve_video_files_def e(2) StreamSha1_new_def Let_def)
qed

theorem video_digests_witness:
  "\<exists>t hs md5 sha1. resolve_video_files (demo_highway_env demo_video_file) (UserStream 1) (MemoryStream [7, 8]) demo_highway
      = Some (t, Inr ([16, 1, 2, 3, 4, 5], [20, 1, 2, 3, 4, 5], hs, md5, sha1)) \<and> length hs = 1"
proof -
  have e: "eager_buffer (sha_digest_blocks (hwe_sha1_stream (demo_highway_env demo_video_file)))"
    by (simp add: demo_sha1_env_def cut64_eager demo_highway_env_def)
  obtain t a b hs md5 sha1 where r: "resolve_video_files (demo_highway_env demo_video_file) (UserStream 1) (MemoryStream [7, 8]) demo_highway
      = Some (t, Inr (a, b, hs, md5, sha1))"
    using demo_video_resolved [of demo_highway demo_video_file] by (auto simp: demo_highway_def)
  from video_digests [OF r e] r show ?thesis
    by (simp add: Let_def stream_rest_def stream_pos_def stream_bytes_def demo_highway_env_def demo_highway_def)
qed

definition demo_video :: VideoEntity where
  "demo_video = VideoEntity_default\<lparr>vd_stream := Some (UserStream 1), vd_video_length := 9\<rparr>"

lemma upload_video_steps:
  assumes "prepare_highway env s = Some (u, Inr ())"
    and "video_streams env v = Some (v1, Inr (vs, th))"
    and "resolve_video_files env vs th u = Some (w, Inr (a, b, hs, c, d))"
    and "answer (hwy_events w) (video_args env v1 a b c d) = Inr (Some res)"
    and "send_media env video_cmd 0 (ulr_u_key res) (Some hs) res (Some vs) (stream_bytes env vs)
      (vd_video_size v1) (w\<lparr>hwy_events := hwy_events w + 1\<rparr>) = Some (x, Inr ())"
    and "send_media env thumb_cmd 1 (thumb_key res) None res (Some th) (stream_bytes env th)
      (vd_thumb_size v1) x = Some (t, Inr ())"
  shows "\<exists>v'. upload_video_with env video_cmd thumb_cmd answer v s = Some (t, v', Inr ())"
  using assms
  by (simp add: upload_video_with_def then_media_def finish_upload_def ask_def ok_or_def send_video_def)

lemma demo_video_uploaded:
  "\<exists>t v'. upload_group_video (demo_highway_env vf) 7 demo_video demo_highway = Some (t, v', Inr ())"
proof -
  let ?e = "demo_highway_env vf" and ?r = "demo_upload_res vf"
  let ?v = "demo_video\<lparr>vd_thumb_size := 2\<rparr>"
  obtain u where u: "prepare_highway ?e demo_highway = Some (u, Inr ())" "hwy_user_pos u = (\<lambda>_. 0)"
      "hc_chunk_size (hwy_client u) = 1048576"
    using demo_prepare [of vf] by (simp add: demo_highway_def HighwayClient_new_def)
  have st: "video_streams ?e demo_video = Some (?v, Inr (UserStream 1, MemoryStream [7, 8]))"
    by (simp add: video_streams_def video_resolve_stream_def demo_video_def VideoEntity_default_def
        demo_highway_env_def)
  obtain w a b hs c d where w: "resolve_video_files ?e (UserStream 1) (MemoryStream [7, 8]) u
      = Some (w, Inr (a, b, hs, c, d))" "hwy_client w = hwy_client u"
    using demo_video_resolved [OF u(2)] by (metis prod_cases5)
  let ?w = "w\<lparr>hwy_events := hwy_events w + 1\<rparr>"
  have k: "ulr_u_key ?r = Some [4]" "thumb_key ?r = Some [5]"
    by (simp_all add: demo_upload_res_def thumb_key_def)
  have "\<exists>x. send_media ?e 1005 0 (Some [4]) (Some hs) ?r (Some (UserStream 1))
      (stream_bytes ?e (UserStream 1)) (vd_video_size ?v) ?w = Some (x, Inr ()) \<and> hwy_client x = hwy_client ?w"
    by (rule demo_send) (simp_all add: w u)
  then obtain x where x: "send_media ?e 1005 0 (Some [4]) (Some hs) ?r (Some (UserStream 1))
      (stream_bytes ?e (UserStream 1)) (vd_video_size ?v) ?w = Some (x, Inr ())" "hwy_client x = hwy_client w"
    by auto
  have "\<exists>t. send_media ?e 1006 1 (Some [5]) None ?r (Some (MemoryStream [7, 8]))
      (stream_bytes ?e (MemoryStream [7, 8])) (vd_thumb_size ?v) x = Some (t, Inr ())"
    by (rule demo_sent) (simp_all add: x w u)
  then obtain t where t: "send_media ?e 1006 1 (Some [5]) None ?r (Some (MemoryStream [7, 8]))
      (stream_bytes ?e (MemoryStream [7, 8])) (vd_thumb_size ?v) x = Some (t, Inr ())" by blast
  have "usv_group_video (hwe_server ?e) n 7 args = Inr (Some ?r)" for n args
    by (simp add: demo_highway_env_def demo_upload_server_def)
  then show ?thesis
    unfolding upload_group_video_def
    using upload_video_steps [OF u(1) st w(1) _ x(1) [folded k(1)] t [folded k(2)],
        of "\<lambda>n. usv_group_video (hwe_server ?e) n 7"] by blast
qed

theorem video_from_stream_witness:
  "\<exists>t v' ts1 ts2. upload_group_video (demo_highway_env demo_video_file) 7 demo_video demo_highway = Some (t, v', Inr ())
    \<and> hwy_transfers t = ts1 @ ts2 \<and> ts1 \<noteq> []
    \<and> (\<forall>x \<in> set ts1. hs_data (trf_state x) = [1, 2, 3, 4, 5] \<and> hs_http (trf_state x) = [])"
proof -
  obtain t v' where u: "upload_group_video (demo_highway_env demo_video_file) 7 demo_video demo_highway = Some (t, v', Inr ())"
    using demo_video_uploaded by blast
  have b: "built_entity (AddVideoStream 1 9) = EVideo demo_video" by (simp add: demo_video_def)
  have "hwe_thumbnail (demo_highway_env demo_video_file) = Inr (Some [7, 8])"
    "hwe_thumb_pos (demo_highway_env demo_video_file) [7, 8] = length [7, 8 :: u8]"
    by (simp_all add: demo_highway_env_def)
  from video_from_stream [OF b this u] u show ?thesis
    by (auto simp: demo_highway_env_def demo_upload_server_def demo_upload_res_def demo_highway_def)
qed

lemma encode_chunks_ok:
  assumes "\<And>h c. \<exists>size buf. enc h c = (0, size, buf) \<and> unat size \<le> 1250"
  shows "\<exists>r. encode_chunks enc n hist cs = Inr r"
proof (induction cs arbitrary: hist)
  case (Cons c cs)
  obtain size buf where "enc hist c = (0, size, buf)" "unat size \<le> 1250" using assms by blast
  moreover obtain r where "encode_chunks enc n (hist @ [c]) cs = Inr r" using Cons by blast
  ultimately show ?case by simp
qed simp

lemma demo_pcm_length: "length demo_pcm = 48000"
  by (simp add: demo_pcm_def)

lemma map_filter_total: "List.map_filter (\<lambda>x. Some (f x)) xs = map f xs"
  by (induction xs) (simp_all add: List.map_filter_simps)

lemma demo_decoded:
  "SymphoniaDecoder_decode (aue_symphonia demo_audio) d =
     Inr \<lparr>ars_stream = demo_pcm, ars_info = AudioInfo_new 48000 1\<rparr>"
  by (simp add: SymphoniaDecoder_decode_def demo_audio_def conv_plane_def)

lemma demo_resampled:
  "RubatoResampler_resample demo_audio 48000 \<lparr>ars_stream = demo_pcm, ars_info = AudioInfo_new 48000 1\<rparr> =
     Some (Inr \<lparr>ars_stream = map ucast demo_pcm, ars_info = AudioInfo_new 48000 1\<rparr>)"
proof -
  have "resample_loop rub demo_pcm 0 [] = Some (Inr (0, [], []))" if "rub_frames_next rub [] = 50000" for rub
    using that demo_pcm_length by (subst resample_loop.simps) simp
  moreover have "demo_pcm \<noteq> []" using demo_pcm_length by fastforce
  ultimately show ?thesis
    using demo_pcm_length
    by (simp add: RubatoResampler_resample_def demo_audio_def Let_def AudioInfo_new_def map_filter_total)
qed

lemma demo_encoded:
  "\<exists>out. SilkEncoder_encode demo_audio 30000 \<lparr>ars_stream = xs, ars_info = AudioInfo_new 48000 1\<rparr> = Inr out"
proof -
  have "\<exists>r. encode_chunks (\<lambda>_ _. (0, 3, \<lambda>_. 7)) n hist cs = Inr r" for n hist cs
    by (rule encode_chunks_ok) simp
  then obtain r where "encode_chunks (\<lambda>_ _. (0, 3, \<lambda>_. 7)) 1920 []
      (std_chunks 1920 (concat (map le16_bytes xs))) = Inr r" by blast
  then show ?thesis by (simp add: SilkEncoder_encode_def demo_audio_def AudioInfo_new_def Let_def)
qed

theorem record_length_witness:
  "\<exists>t silk fsize sha1 md5. resolve_audio_file (demo_highway_env demo_video_file) (UserStream 1) demo_highway
      = Some (t, Inr (silk, fsize, 1, sha1, md5)) \<and> silk_blocks silk 10 = 50"
proof -
  let ?e = "demo_highway_env demo_video_file"
  have "hwe_audio ?e = demo_audio" by (simp add: demo_highway_env_def)
  moreover obtain out where "SilkEncoder_encode demo_audio 30000
      \<lparr>ars_stream = map ucast demo_pcm, ars_info = AudioInfo_new 48000 1\<rparr> = Inr out"
    using demo_encoded by blast
  ultimately have task: "silk_task (hwe_audio ?e) d = Some (Inr (aes_stream out))" for d
    by (simp add: silk_task_def demo_decoded demo_resampled)
  obtain u q ch where "pipeline ?e (UserStream 1) demo_highway = Some (u, Inr (q, ch))"
    using user_pipeline [of ?e "UserStream 1" "[1, 2, 3, 4, 5]" demo_highway 0]
    by (fastforce simp: stream_bytes_def stream_pos_def demo_highway_env_def demo_highway_def)
  then obtain t fsize time sha1 md5 where
      r: "resolve_audio_file ?e (UserStream 1) demo_highway = Some (t, Inr (aes_stream out, fsize, time, sha1, md5))"
    by (simp add: resolve_audio_file_def task Let_def)
  from record_length [OF r] have "silk_blocks (aes_stream out) 10 = 50 \<and> unat time = 1"
    by (auto simp: \<open>hwe_audio ?e = demo_audio\<close> demo_decoded demo_resampled demo_pcm_length)
  moreover from this have "time = 1" by (metis unat_1 word_unat_eq_iff)
  ultimately show ?thesis using r by blast
qed

end
