(* ===== verification/Messaging_Logic.thy ===== *)
theory Messaging_Logic
  imports Event_Logic Common_Op
begin

text \<open>
  \<open>messaging_logic\<close> (\<open>mania/src/core/business/messaging_logic.rs\<close>). Incoming: the chain of a pushed
  message is completed (links of media, the sender's data) and published; a notification is
  published with the uids in it translated into account numbers. Outgoing: the receiver's data and
  the uploads of the media of a message to be sent.

  \<open>logic_server\<close> is what the operations get from outside: the contact server, what
  \<open>FetchUserInfoEvent\<close> says of a uid, the two lists of group requests, the media server, and the
  environment of the uploads of \<open>highway_op.rs\<close> (its context is the one of the world). \<open>None\<close> is a panic or a request loop that does not end.
\<close>

record logic_server =
  ls_contacts :: contact_server
  ls_stranger :: "rstring \<Rightarrow> ManiaError + u32"
  ls_requests :: "ManiaError + FetchGroupRequests list"
  ls_filtered :: "ManiaError + FetchGroupRequests list"
  ls_media :: media_server
  ls_highway :: highway_env
  ls_error_text :: "ManiaError \<Rightarrow> rstring"

section \<open>Looking up in the world\<close>

definition world_uin ::
    "logic_server \<Rightarrow> rstring \<Rightarrow> u32 option \<Rightarrow> logic_world \<Rightarrow> (logic_world \<times> (ManiaError + u32)) option" where
  "world_uin sv uid group_uin w =
     do { (c, r) \<leftarrow> uid2uin (ls_contacts sv) uid group_uin (lw_contacts w);
          Some (w\<lparr>lw_contacts := c\<rparr>, r) }"

definition world_uin_fast ::
    "logic_server \<Rightarrow> rstring \<Rightarrow> u32 option \<Rightarrow> logic_world \<Rightarrow> (logic_world \<times> u32) option" where
  "world_uin_fast sv uid group_uin w =
     do { (c, uin) \<leftarrow> uid2uin_fast (ls_contacts sv) uid group_uin (lw_contacts w);
          Some (w\<lparr>lw_contacts := c\<rparr>, uin) }"

definition stranger_fast :: "logic_server \<Rightarrow> rstring \<Rightarrow> u32" where
  "stranger_fast sv uid = stranger_uid2uin_fast (ls_stranger sv) uid"

definition publish_group :: "GroupEvent \<Rightarrow> logic_world \<Rightarrow> logic_world" where
  "publish_group e w = w\<lparr>lw_group := watch_send (Some e) (lw_group w)\<rparr>"

definition publish_friend :: "FriendEvent \<Rightarrow> logic_world \<Rightarrow> logic_world" where
  "publish_friend e w = w\<lparr>lw_friend := watch_send (Some e) (lw_friend w)\<rparr>"

definition publish_system :: "SystemEvent \<Rightarrow> logic_world \<Rightarrow> logic_world" where
  "publish_system e w = w\<lparr>lw_system := watch_send (Some e) (lw_system w)\<rparr>"

section \<open>Completing an incoming chain\<close>

definition first_index :: "MsgInfo option \<Rightarrow> IndexNode option" where
  "first_index info =
     do { i \<leftarrow> info; body \<leftarrow> (case mi_bodies i of [] \<Rightarrow> None | b # _ \<Rightarrow> Some b); mib_index body }"

definition resolve_image ::
    "logic_server \<Rightarrow> Context \<Rightarrow> MessageType \<Rightarrow> ImageEntity \<Rightarrow> ImageEntity option" where
  "resolve_image sv ctx typ im =
     (if sublist (str ''&rkey='') (im_url im) then Some im
      else case first_index (im_msg_info im) of
        None \<Rightarrow> Some im
      | Some index_node \<Rightarrow>
          do { download \<leftarrow> (case typ of
                   MsgGroup grp \<Rightarrow>
                     Some (Some (download_group_image (ls_media sv) (gm_group_uin grp) index_node))
                 | MsgNone \<Rightarrow> Some None
                 | _ \<Rightarrow> map_option Some (download_c2c_image (ls_media sv) ctx index_node));
               Some (case download of Some (Inr url) \<Rightarrow> im\<lparr>im_url := url\<rparr> | _ \<Rightarrow> im) })"

definition resolve_multi ::
    "logic_server \<Rightarrow> rstring \<Rightarrow> rstring \<Rightarrow> MessageChain list \<Rightarrow> MessageChain list" where
  "resolve_multi sv uid res_id cs =
     (if cs = [] then
        (case multi_msg_download (ls_media sv) uid res_id of
           Inr (Some cs) \<Rightarrow> cs
         | _ \<Rightarrow> cs)
      else cs)"

definition ok_of :: "'e + 'a \<Rightarrow> 'a option" where
  "ok_of r = (case r of Inl _ \<Rightarrow> None | Inr a \<Rightarrow> Some a)"

definition resolve_file ::
    "logic_server \<Rightarrow> Context \<Rightarrow> MessageType \<Rightarrow> rstring \<Rightarrow> FileEntity \<Rightarrow> FileEntity" where
  "resolve_file sv ctx typ uid file =
     (case fl_extra file of
        Some (GroupFile file_id) \<Rightarrow>
          (case (typ, file_id) of
             (MsgGroup grp, Some i) \<Rightarrow>
               file\<lparr>fl_file_url := ok_of (download_group_file (ls_media sv) (gm_group_uin grp) i)\<rparr>
           | _ \<Rightarrow> file)
      | Some (C2CFile file_uuid file_hash) \<Rightarrow>
          file\<lparr>fl_file_url := ok_of (download_c2c_file (ls_media sv) ctx file_uuid file_hash (Some uid))\<rparr>
      | None \<Rightarrow> file\<lparr>fl_file_url := None\<rparr>)"

definition resolve_record ::
    "logic_server \<Rightarrow> Context \<Rightarrow> MessageType \<Rightarrow> RecordEntity \<Rightarrow> RecordEntity option" where
  "resolve_record sv ctx typ r =
     do { url_result \<leftarrow>
            (case (rc_msg_info r, rc_audio_uuid r) of
               (Some _, _) \<Rightarrow>
                 (case typ of
                    MsgGroup grp \<Rightarrow> Some (Some (download_group_record_by_node (ls_media sv)
                      (gm_group_uin grp) (first_index (rc_msg_info r))))
                  | MsgNone \<Rightarrow> Some None
                  | _ \<Rightarrow> map_option Some
                      (download_c2c_record_by_node (ls_media sv) ctx (first_index (rc_msg_info r))))
             | (None, Some uuid) \<Rightarrow>
                 (case typ of
                    MsgGroup grp \<Rightarrow> Some (Some (download_group_record_by_uuid (ls_media sv)
                      (gm_group_uin grp) (Some uuid)))
                  | MsgNone \<Rightarrow> Some None
                  | _ \<Rightarrow> map_option Some (download_c2c_record_by_uuid (ls_media sv) ctx (Some uuid)))
             | _ \<Rightarrow> Some None);
          Some (case url_result of Some (Inr url) \<Rightarrow> r\<lparr>rc_audio_url := url\<rparr> | _ \<Rightarrow> r) }"

definition resolve_video ::
    "logic_server \<Rightarrow> MessageChain \<Rightarrow> VideoEntity \<Rightarrow> logic_world \<Rightarrow> (logic_world \<times> VideoEntity) option" where
  "resolve_video sv c v w =
     (let finish = (\<lambda>r. case r of Inr url \<Rightarrow> v\<lparr>vd_url := url\<rparr> | Inl _ \<Rightarrow> v) in
      case mc_typ c of
        MsgGroup grp \<Rightarrow>
          do { (s, uid) \<leftarrow> uin2uid_fast (ls_contacts sv) (mc_friend_uin c) (Some (gm_group_uin grp)) (lw_contacts w);
               r \<leftarrow> (case download_video (ls_media sv) uid (vd_file_name v) [] (Some []) (vd_node v) True of
                   Inr url \<Rightarrow> Some (Inr url)
                 | Inl _ \<Rightarrow> download_group_video (ls_media sv) (lw_context w) (gm_group_uin grp)
                     (vd_file_name v) [] (Some []) (vd_node v));
               Some (w\<lparr>lw_contacts := s\<rparr>, finish r) }
      | MsgNone \<Rightarrow> Some (w, v)
      | _ \<Rightarrow> Some (w, finish
          (download_video (ls_media sv) (mc_uid c) (vd_file_name v) [] (Some []) (vd_node v) False)))"

definition resolve_entity ::
    "logic_server \<Rightarrow> MessageChain \<Rightarrow> Entity \<Rightarrow> logic_world \<Rightarrow> (logic_world \<times> Entity) option" where
  "resolve_entity sv c e w =
     (case e of
        EImage im \<Rightarrow>
          map_option (\<lambda>im. (w, EImage im)) (resolve_image sv (lw_context w) (mc_typ c) im)
      | EMultiMsg res_id cs \<Rightarrow>
          Some (w, EMultiMsg res_id (resolve_multi sv (mc_uid c) res_id cs))
      | EFile file \<Rightarrow> Some (w, EFile (resolve_file sv (lw_context w) (mc_typ c) (mc_uid c) file))
      | ERecord r \<Rightarrow>
          map_option (\<lambda>r. (w, ERecord r)) (resolve_record sv (lw_context w) (mc_typ c) r)
      | EVideo v \<Rightarrow> map_option (\<lambda>(w, v). (w, EVideo v)) (resolve_video sv c v w)
      | _ \<Rightarrow> Some (w, e))"

fun resolve_entities ::
    "logic_server \<Rightarrow> MessageChain \<Rightarrow> Entity list \<Rightarrow> logic_world \<Rightarrow> (logic_world \<times> Entity list) option" where
  "resolve_entities sv c [] w = Some (w, [])"
| "resolve_entities sv c (e # es) w =
     do { (w, e) \<leftarrow> resolve_entity sv c e w;
          (w, es) \<leftarrow> resolve_entities sv c es w;
          Some (w, e # es) }"

definition resolve_incoming_chain ::
    "logic_server \<Rightarrow> MessageChain \<Rightarrow> logic_world \<Rightarrow> (logic_world \<times> MessageChain) option" where
  "resolve_incoming_chain sv c w =
     do { (w, es) \<leftarrow> resolve_entities sv c (mc_entities c) w; Some (w, set_entities es c) }"

section \<open>The sender and the group of a chain\<close>

definition chain_metadata_group ::
    "logic_server \<Rightarrow> GroupMessageUniqueElem \<Rightarrow> MessageChain \<Rightarrow> logic_world
      \<Rightarrow> (logic_world \<times> MessageChain) option" where
  "chain_metadata_group sv grp c w =
     do { (s, r) \<leftarrow> fetch_maybe_cached_group_members (ls_contacts sv) (gm_group_uin grp)
            (\<lambda>mm. case mm (gm_group_uin grp) of None \<Rightarrow> [] | Some ms \<Rightarrow> ms) False (lw_contacts w);
          let members = (case r of Inl _ \<Rightarrow> [] | Inr ms \<Rightarrow> ms);
          let lookup_uin = (if mc_friend_uin c = 0 then ks_uin (ctx_key_store (lw_context w))
                            else mc_friend_uin c);
          let info = find (\<lambda>m. bgm_uin m = lookup_uin) members;
          let c = set_typ (MsgGroup (grp\<lparr>gm_group_member_info := info\<rparr>)) c;
          Some (w\<lparr>lw_contacts := s\<rparr>,
                case info of
                  Some m \<Rightarrow> if mc_uid c = [] then set_uid (bgm_uid m) c else c
                | None \<Rightarrow> c) }"

definition chain_metadata_friend ::
    "logic_server \<Rightarrow> FriendMessageUniqueElem \<Rightarrow> MessageChain \<Rightarrow> logic_world
      \<Rightarrow> (logic_world \<times> MessageChain) option" where
  "chain_metadata_friend sv friend_elem c w =
     do { (s, r) \<leftarrow> fetch_maybe_cached_friends (ls_contacts sv) (Some (mc_friend_uin c))
            (\<lambda>fm. List.map_filter fm (co_order (ls_contacts sv) fm)) False (lw_contacts w);
          let friends = (case r of Inl _ \<Rightarrow> [] | Inr fs \<Rightarrow> fs);
          Some (w\<lparr>lw_contacts := s\<rparr>,
                case find (\<lambda>f. bf_uin f = mc_friend_uin c) friends of
                  Some f \<Rightarrow>
                    (let c = set_typ (MsgFriend (friend_elem\<lparr>fm_friend_info := Some f\<rparr>)) c in
                     if mc_uid c = [] then set_uid (bf_uid f) c else c)
                | None \<Rightarrow> c) }"

definition resolve_chain_metadata ::
    "logic_server \<Rightarrow> MessageChain \<Rightarrow> logic_world \<Rightarrow> (logic_world \<times> MessageChain) option" where
  "resolve_chain_metadata sv c w =
     (case mc_typ c of
        MsgGroup grp \<Rightarrow>
          (if cfg_fetch_group_member_strategy (ctx_config (lw_context w)) = StrategyFull
           then chain_metadata_group sv grp c w else Some (w, c))
      | MsgFriend friend_elem \<Rightarrow> chain_metadata_friend sv friend_elem c w
      | _ \<Rightarrow> Some (w, c))"

section \<open>Incoming events\<close>

text \<open>
  One definition per branch of \<open>messaging_logic_incoming\<close>. The code publishes to one of the three
  channels (which never fails: the handle keeps a listener of its own); \<open>std::mem::take\<close> leaves the default in the event, which matters to the handlers that
  come after.
\<close>

type_synonym logic_step = "logic_world \<Rightarrow> (logic_world \<times> logic_event) option"

definition publish_chain :: "MessageChain \<Rightarrow> logic_world \<Rightarrow> logic_world" where
  "publish_chain c w =
     (case mc_typ c of
        MsgGroup _ \<Rightarrow> publish_group (GroupMessage c) w
      | MsgFriend _ \<Rightarrow> publish_friend (FriendMessage c) w
      | MsgTemp \<Rightarrow> publish_system (SysTempMessage c) w
      | MsgNone \<Rightarrow> w)"

definition on_push_message :: "logic_server \<Rightarrow> MessageChain option \<Rightarrow> logic_step" where
  "on_push_message sv msg_chain w =
     (case msg_chain of
        None \<Rightarrow> Some (w, EvPushMessage None)
      | Some c \<Rightarrow>
          do { (w, c) \<leftarrow> resolve_incoming_chain sv c w;
               (w, c) \<leftarrow> resolve_chain_metadata sv c w;
               Some (publish_chain c w, EvPushMessage None) })"

definition server_requests :: "logic_server \<Rightarrow> ManiaError + BotGroupRequest list" where
  "server_requests sv = fetch_group_requests (ls_requests sv) (ls_filtered sv) (ls_stranger sv)"

definition on_request_join :: "logic_server \<Rightarrow> GroupSysRequestJoinEvent \<Rightarrow> logic_world \<Rightarrow> logic_world" where
  "on_request_join sv req w =
     (case ls_stranger sv (gsrj_target_uid req) of
        Inl _ \<Rightarrow> w
      | Inr target_uin \<Rightarrow>
          (case server_requests sv of
             Inl _ \<Rightarrow> w
           | Inr requests \<Rightarrow>
               (case find (\<lambda>r. bgr_group_uin r = gsrj_group_uin req \<and> bgr_target_member_uin r = target_uin)
                       requests of
                  None \<Rightarrow> w
                | Some r \<Rightarrow> publish_group (GroupJoinRequest
                    \<lparr>gjr_group_uin = gsrj_group_uin req, gjr_target_uin = target_uin,
                     gjr_target_nickname = bgr_target_member_card r,
                     gjr_invitor_uin = or_zero (bgr_invitor_member_uin r),
                     gjr_answer = or_empty (bgr_comment r), gjr_request_seq = bgr_sequence r\<rparr>) w)))"

definition on_invite :: "logic_server \<Rightarrow> GroupSysInviteEvent \<Rightarrow> logic_world \<Rightarrow> logic_world" where
  "on_invite sv invite w =
     publish_group (GroupInvitation
       \<lparr>giv_group_uin = gsv_group_uin invite,
        giv_invitor_uin = stranger_fast sv (gsv_invitor_uid invite), giv_sequence = None\<rparr>) w"

definition on_admin :: "logic_server \<Rightarrow> GroupSysAdminEvent \<Rightarrow> logic_world \<Rightarrow> logic_world option" where
  "on_admin sv change w =
     do { let group_uin = gsa_group_uin change;
          (w, admin_uin) \<leftarrow> world_uin_fast sv (gsa_uid change) (Some group_uin) w;
          Some (publish_group (GroupAdminChanged
            \<lparr>gac_group_uin = group_uin, gac_admin_uin = admin_uin,
             gac_is_promote = gsa_is_promoted change\<rparr>) w) }"

definition on_poke :: "GroupSysPokeEvent \<Rightarrow> logic_world \<Rightarrow> logic_world" where
  "on_poke poke w =
     publish_group (GroupPoke
       \<lparr>gpk_group_uin = gsp_group_uin poke, gpk_operator_uin = gsp_operator_uin poke,
        gpk_target_uin = gsp_target_uin poke, gpk_action = gsp_action poke,
        gpk_suffix = gsp_suffix poke, gpk_action_img_url = gsp_action_img_url poke\<rparr>) w"

text \<open>\<open>uid2uin(..).map(Some).unwrap_or_else(..)\<close>.\<close>

definition world_uin_opt ::
    "logic_server \<Rightarrow> rstring option \<Rightarrow> u32 \<Rightarrow> logic_world \<Rightarrow> (logic_world \<times> u32 option) option" where
  "world_uin_opt sv uid group_uin w =
     do { (w, r) \<leftarrow> world_uin sv (or_empty uid) (Some group_uin) w; Some (w, ok_of r) }"

definition on_increase :: "logic_server \<Rightarrow> GroupSysIncreaseEvent \<Rightarrow> logic_step" where
  "on_increase sv join w =
     do { let member_uin = stranger_fast sv (gsi_member_uid join);
          (w, invitor_uin) \<leftarrow> world_uin_opt sv (gsi_invitor_uid join) (gsi_group_uin join) w;
          Some (publish_group (GroupMemberIncrease
            \<lparr>gmi_group_uin = gsi_group_uin join, gmi_member_uin = member_uin,
             gmi_invitor_uin = invitor_uin, gmi_event_type = gsi_event_type join\<rparr>) w,
            EvIncrease (join\<lparr>gsi_event_type := IncreaseUnknown\<rparr>)) }"

definition on_decrease :: "logic_server \<Rightarrow> GroupSysDecreaseEvent \<Rightarrow> logic_step" where
  "on_decrease sv leave w =
     do { let member_uin = stranger_fast sv (gsd_member_uid leave);
          (w, operator_uin) \<leftarrow> world_uin_opt sv (gsd_operator_uid leave) (gsd_group_uin leave) w;
          Some (publish_group (GroupMemberDecrease
            \<lparr>gmd_group_uin = gsd_group_uin leave, gmd_member_uin = member_uin,
             gmd_operator_uin = operator_uin, gmd_event_type = gsd_event_type leave\<rparr>) w,
            EvDecrease (leave\<lparr>gsd_event_type := DecreaseUnknown\<rparr>)) }"

definition on_mute :: "logic_server \<Rightarrow> GroupSysMuteEvent \<Rightarrow> logic_world \<Rightarrow> logic_world option" where
  "on_mute sv sys_mute w =
     do { let group_uin = gsmu_group_uin sys_mute;
          (w, operator_uin) \<leftarrow> world_uin_fast sv (or_empty (gsmu_operator_uid sys_mute)) (Some group_uin) w;
          Some (publish_group (GroupMute
            \<lparr>gmu_group_uin = group_uin, gmu_operator_uin = Some operator_uin,
             gmu_is_muted = gsmu_is_muted sys_mute\<rparr>) w) }"

text \<open>The operator of a member mute and of a recall: no uid is not looked up.\<close>

definition world_uin_of ::
    "logic_server \<Rightarrow> rstring option \<Rightarrow> u32 \<Rightarrow> logic_world \<Rightarrow> (logic_world \<times> u32 option) option" where
  "world_uin_of sv uid group_uin w =
     (case uid of
        None \<Rightarrow> Some (w, None)
      | Some uid \<Rightarrow> do { (w, uin) \<leftarrow> world_uin_fast sv uid (Some group_uin) w; Some (w, Some uin) })"

definition on_member_mute :: "logic_server \<Rightarrow> GroupSysMemberMuteEvent \<Rightarrow> logic_world \<Rightarrow> logic_world option" where
  "on_member_mute sv member_mute w =
     do { let group_uin = gsmm_group_uin member_mute;
          (w, operator_uin) \<leftarrow> world_uin_of sv (gsmm_operator_uid member_mute) group_uin w;
          let target_uin = stranger_fast sv (gsmm_target_uid member_mute);
          Some (publish_group (GroupMemberMute
            \<lparr>gmm_group_uin = group_uin, gmm_target_uin = target_uin,
             gmm_operator_uin = operator_uin, gmm_duration = gsmm_duration member_mute\<rparr>) w) }"

definition on_name_change :: "GroupSysNameChangeEvent \<Rightarrow> logic_world \<Rightarrow> logic_world" where
  "on_name_change name_change w =
     publish_group (GroupNameChange
       \<lparr>gnc_group_uin = gsn_group_uin name_change, gnc_name = gsn_name name_change\<rparr>) w"

definition on_todo :: "logic_server \<Rightarrow> GroupSysTodoEvent \<Rightarrow> logic_world \<Rightarrow> logic_world option" where
  "on_todo sv todo w =
     do { (w, operator_uin) \<leftarrow> world_uin_fast sv (gst_operator_uid todo) (Some (gst_group_uin todo)) w;
          Some (publish_group (GroupTodo
            \<lparr>gtd_group_uin = gst_group_uin todo, gtd_operator_uin = operator_uin\<rparr>) w) }"

definition on_reaction :: "logic_server \<Rightarrow> GroupSysReactionEvent \<Rightarrow> logic_world \<Rightarrow> logic_world option" where
  "on_reaction sv reaction w =
     do { (w, operator_uin) \<leftarrow> world_uin_fast sv (gsr_operator_uid reaction)
            (Some (gsr_target_group_uin reaction)) w;
          Some (publish_group (GroupReaction
            \<lparr>grx_target_group_uin = gsr_target_group_uin reaction,
             grx_target_sequence = gsr_target_sequence reaction, grx_operator_uin = operator_uin,
             grx_is_add = gsr_is_add reaction, grx_code = gsr_code reaction,
             grx_count = gsr_count reaction\<rparr>) w) }"

definition on_recall :: "logic_server \<Rightarrow> GroupSysRecallEvent \<Rightarrow> logic_world \<Rightarrow> logic_world option" where
  "on_recall sv recall w =
     do { (w, author_uin) \<leftarrow> world_uin_fast sv (gsrc_author_uid recall) (Some (gsrc_group_uin recall)) w;
          (w, operator_uin) \<leftarrow> world_uin_of sv (gsrc_operator_uid recall) (gsrc_group_uin recall) w;
          Some (publish_group (GroupRecall
            \<lparr>grl_group_uin = gsrc_group_uin recall, grl_author_uin = author_uin,
             grl_operator_uin = or_zero operator_uin, grl_sequence = gsrc_sequence recall,
             grl_time = gsrc_time recall, grl_random = gsrc_random recall,
             grl_tip = gsrc_tip recall\<rparr>) w) }"

definition on_essence :: "GroupSysEssenceEvent \<Rightarrow> logic_world \<Rightarrow> logic_world \<times> logic_event" where
  "on_essence essence w =
     (publish_group (GroupEssence
        \<lparr>ges_group_uin = gse_group_uin essence, ges_sequence = gse_sequence essence,
         ges_random = gse_random essence, ges_is_set = gse_set_flag essence,
         ges_from_uin = gse_from_uin essence, ges_operator_uin = gse_operator_uin essence\<rparr>) w,
      EvEssence (essence\<lparr>gse_set_flag := EssenceUnknown\<rparr>))"

definition on_special_title :: "GroupSysSpecialTitleEvent \<Rightarrow> logic_world \<Rightarrow> logic_world" where
  "on_special_title st w =
     publish_group (GroupSpecialTitle
       \<lparr>gtl_target_uin = gsst_target_uin st, gtl_target_nickname = gsst_target_nickname st,
        gtl_special_title = gsst_special_title st,
        gtl_special_title_detail_url = gsst_special_title_detail_url st,
        gtl_group_uin = gsst_group_uin st\<rparr>) w"

definition on_member_enter :: "GroupSysMemberEnterEvent \<Rightarrow> logic_world \<Rightarrow> logic_world" where
  "on_member_enter enter w =
     publish_group (GroupMemberEnter
       \<lparr>gme_group_uin = gsme_group_uin enter, gme_group_member_uin = gsme_group_member_uin enter,
        gme_style_id = gsme_style_id enter\<rparr>) w"

definition on_request_invitation ::
    "logic_server \<Rightarrow> GroupSysRequestInvitationEvent \<Rightarrow> logic_world \<Rightarrow> logic_world option" where
  "on_request_invitation sv invite w =
     do { let target_uin = stranger_fast sv (gsri_target_uid invite);
          (w, invitor_uin) \<leftarrow> world_uin_fast sv (gsri_invitor_uid invite) (Some (gsri_group_uin invite)) w;
          Some (publish_group (GroupInvitationRequest
            \<lparr>gir_group_uin = gsri_group_uin invite, gir_target_uin = target_uin,
             gir_invitor_uin = invitor_uin\<rparr>) w) }"

definition on_friend_recall :: "logic_server \<Rightarrow> FriendSysRecallEvent \<Rightarrow> logic_world \<Rightarrow> logic_world option" where
  "on_friend_recall sv recall w =
     do { (w, friend_uin) \<leftarrow> world_uin_fast sv (fsr_from_uid recall) None w;
          Some (publish_friend (FriendRecall
            \<lparr>frl_friend_uin = friend_uin, frl_client_sequence = fsr_client_sequence recall,
             frl_time = fsr_time recall, frl_random = fsr_random recall,
             frl_tip = fsr_tip recall\<rparr>) w) }"

definition on_pin_change :: "logic_server \<Rightarrow> GroupSysPinChangeEvent \<Rightarrow> logic_world \<Rightarrow> logic_world option" where
  "on_pin_change sv pin w =
     do { (w, uin) \<leftarrow> world_uin_fast sv (gspc_uid pin) (gspc_group_uin pin) w;
          Some (publish_group (GroupPinChanged
            \<lparr>pce_chat_type = (case gspc_group_uin pin of Some _ \<Rightarrow> ChatGroup | None \<Rightarrow> ChatFriend),
             pce_uin = uin, pce_is_pin = gspc_is_pin pin\<rparr>) w) }"

definition on_friend_poke :: "FriendSysPokeEvent \<Rightarrow> logic_world \<Rightarrow> logic_world" where
  "on_friend_poke poke w =
     publish_friend (FriendPoke
       \<lparr>fpk_operator_uin = fsp_operator_uin poke, fpk_target_uin = fsp_target_uin poke,
        fpk_action = fsp_action poke, fpk_suffix = fsp_suffix poke,
        fpk_action_url = fsp_action_img_url poke\<rparr>) w"

definition on_friend_new :: "logic_server \<Rightarrow> FriendSysNewEvent \<Rightarrow> logic_world \<Rightarrow> logic_world option" where
  "on_friend_new sv friend_new w =
     do { (w, from_uin) \<leftarrow> world_uin_fast sv (fsn_from_uid friend_new) None w;
          Some (publish_friend (FriendNew
            \<lparr>fnw_from_uin = from_uin, fnw_from_nickname = fsn_from_nickname friend_new,
             fnw_msg = fsn_msg friend_new\<rparr>) w) }"

definition on_friend_rename :: "logic_server \<Rightarrow> FriendSysRenameEvent \<Rightarrow> logic_world \<Rightarrow> logic_world option" where
  "on_friend_rename sv rename w =
     do { (w, uin) \<leftarrow> world_uin_fast sv (fsm_uid rename) None w;
          Some (publish_friend (FriendRename
            \<lparr>frn_uin = uin, frn_nickname = fsm_nickname rename\<rparr>) w) }"

definition on_friend_request :: "logic_server \<Rightarrow> FriendSysRequestEvent \<Rightarrow> logic_world \<Rightarrow> logic_world option" where
  "on_friend_request sv request w =
     do { (w, source_uin) \<leftarrow> world_uin_fast sv (fsq_source_uid request) None w;
          Some (publish_friend (FriendRequest
            \<lparr>frq_source_uin = source_uin, frq_message = fsq_message request,
             frq_source = fsq_source request\<rparr>) w) }"

definition on_bot_rename :: "BotSysRenameEvent \<Rightarrow> logic_world \<Rightarrow> logic_world" where
  "on_bot_rename rename w =
     publish_system (SysBotRename \<lparr>bre_nickname = brn_nickname rename\<rparr>) w"

definition keeping :: "logic_event \<Rightarrow> logic_world option \<Rightarrow> (logic_world \<times> logic_event) option" where
  "keeping event w = map_option (\<lambda>w. (w, event)) w"

fun messaging_logic_incoming :: "logic_server \<Rightarrow> logic_event \<Rightarrow> logic_step" where
  "messaging_logic_incoming sv (EvPushMessage c) w = on_push_message sv c w"
| "messaging_logic_incoming sv (EvRequestJoin e) w = Some (on_request_join sv e w, EvRequestJoin e)"
| "messaging_logic_incoming sv (EvInvite e) w = Some (on_invite sv e w, EvInvite e)"
| "messaging_logic_incoming sv (EvAdmin e) w = keeping (EvAdmin e) (on_admin sv e w)"
| "messaging_logic_incoming sv (EvPoke e) w = Some (on_poke e w, EvPoke e)"
| "messaging_logic_incoming sv (EvIncrease e) w = on_increase sv e w"
| "messaging_logic_incoming sv (EvDecrease e) w = on_decrease sv e w"
| "messaging_logic_incoming sv (EvMute e) w = keeping (EvMute e) (on_mute sv e w)"
| "messaging_logic_incoming sv (EvMemberMute e) w = keeping (EvMemberMute e) (on_member_mute sv e w)"
| "messaging_logic_incoming sv (EvNameChange e) w = Some (on_name_change e w, EvNameChange e)"
| "messaging_logic_incoming sv (EvTodo e) w = keeping (EvTodo e) (on_todo sv e w)"
| "messaging_logic_incoming sv (EvReaction e) w = keeping (EvReaction e) (on_reaction sv e w)"
| "messaging_logic_incoming sv (EvRecall e) w = keeping (EvRecall e) (on_recall sv e w)"
| "messaging_logic_incoming sv (EvEssence e) w = Some (on_essence e w)"
| "messaging_logic_incoming sv (EvSpecialTitle e) w = Some (on_special_title e w, EvSpecialTitle e)"
| "messaging_logic_incoming sv (EvMemberEnter e) w = Some (on_member_enter e w, EvMemberEnter e)"
| "messaging_logic_incoming sv (EvRequestInvitation e) w =
     keeping (EvRequestInvitation e) (on_request_invitation sv e w)"
| "messaging_logic_incoming sv (EvFriendRecall e) w = keeping (EvFriendRecall e) (on_friend_recall sv e w)"
| "messaging_logic_incoming sv (EvPinChange e) w = keeping (EvPinChange e) (on_pin_change sv e w)"
| "messaging_logic_incoming sv (EvFriendPoke e) w = Some (on_friend_poke e w, EvFriendPoke e)"
| "messaging_logic_incoming sv (EvFriendNew e) w = keeping (EvFriendNew e) (on_friend_new sv e w)"
| "messaging_logic_incoming sv (EvFriendRename e) w = keeping (EvFriendRename e) (on_friend_rename sv e w)"
| "messaging_logic_incoming sv (EvFriendRequest e) w = keeping (EvFriendRequest e) (on_friend_request sv e w)"
| "messaging_logic_incoming sv (EvBotRename e) w = Some (on_bot_rename e w, EvBotRename e)"
| "messaging_logic_incoming sv event w = Some (w, event)"

section \<open>Outgoing messages\<close>

text \<open>Nothing is uploaded for a chain without a place.\<close>

definition upload_with ::
    "(u32 \<Rightarrow> 'a \<Rightarrow> Highway \<Rightarrow> 'a media_op) \<Rightarrow> (rstring \<Rightarrow> 'a \<Rightarrow> Highway \<Rightarrow> 'a media_op) \<Rightarrow> MessageType
      \<Rightarrow> rstring \<Rightarrow> 'a \<Rightarrow> Highway \<Rightarrow> 'a media_op" where
  "upload_with up_group up_c2c typ uid x h =
     (case typ of
        MsgGroup grp \<Rightarrow> up_group (gm_group_uin grp) x h
      | MsgNone \<Rightarrow> Some (h, x, Inr ())
      | _ \<Rightarrow> up_c2c uid x h)"

definition map_entity :: "('a \<Rightarrow> 'b) \<Rightarrow> 'a media_op \<Rightarrow> 'b media_op" where
  "map_entity f r = map_option (\<lambda>(h, x, r). (h, f x, r)) r"

definition upload_entity ::
    "highway_env \<Rightarrow> MessageType \<Rightarrow> rstring \<Rightarrow> Entity \<Rightarrow> Highway \<Rightarrow> Entity media_op" where
  "upload_entity env typ uid e h =
     (case e of
        EImage im \<Rightarrow>
          map_entity EImage (upload_with (upload_group_image env) (upload_c2c_image env) typ uid im h)
      | EVideo v \<Rightarrow>
          map_entity EVideo (upload_with (upload_group_video env) (upload_c2c_video env) typ uid v h)
      | ERecord r \<Rightarrow>
          map_entity ERecord (upload_with (upload_group_record env) (upload_c2c_record env) typ uid r h)
      | _ \<Rightarrow> Some (h, e, Inr ()))"

definition upload_entities ::
    "highway_env \<Rightarrow> MessageType \<Rightarrow> rstring \<Rightarrow> Entity list \<Rightarrow> Highway \<Rightarrow> Entity list media_op" where
  "upload_entities env typ uid = upload_each (upload_entity env typ uid)"

definition world_highway :: "logic_server \<Rightarrow> logic_world \<Rightarrow> highway_env" where
  "world_highway sv w = (ls_highway sv)\<lparr>hwe_context := lw_context w\<rparr>"

definition resolve_outgoing_chain ::
    "logic_server \<Rightarrow> MessageChain \<Rightarrow> logic_world
      \<Rightarrow> (logic_world \<times> MessageChain \<times> (BusinessError + unit)) option" where
  "resolve_outgoing_chain sv c w =
     do { (h, es, r) \<leftarrow> upload_entities (world_highway sv w) (mc_typ c) (mc_uid c) (mc_entities c)
            (lw_highway w);
          Some (w\<lparr>lw_highway := h\<rparr>, set_entities es c, (case r of
            Inl err \<Rightarrow> Inl (BusinessGenericError (ls_error_text sv err)) | Inr _ \<Rightarrow> Inr ())) }"

definition messaging_logic_outgoing ::
    "logic_server \<Rightarrow> logic_event \<Rightarrow> logic_world \<Rightarrow> (logic_world \<times> logic_event \<times> (BusinessError + unit)) option" where
  "messaging_logic_outgoing sv event w =
     (case event of
        EvSendMessage c result \<Rightarrow>
          do { (w, c) \<leftarrow> resolve_chain_metadata sv c w;
               (w, c, r) \<leftarrow> resolve_outgoing_chain sv c w;
               Some (w, EvSendMessage c result, r) }
      | _ \<Rightarrow> Some (w, event, Inr ()))"

definition messaging_logic :: "logic_server \<Rightarrow> logic_handler" where
  "messaging_logic sv w event flow =
     (case flow of
        InComing \<Rightarrow>
          map_option (\<lambda>(w, event). (w, event, Inr ())) (messaging_logic_incoming sv event w)
      | OutGoing \<Rightarrow> messaging_logic_outgoing sv event w)"

text \<open>The types \<open>handle_event\<close> registers it for.\<close>

definition registered_messaging :: "logic_server \<Rightarrow> (event_tag \<times> logic_handler) list" where
  "registered_messaging sv = map (\<lambda>tag. (tag, messaging_logic sv))
     [TagSendMessage, TagPushMessage, TagRequestJoin, TagInvite, TagAdmin, TagPoke, TagReaction,
      TagRecall, TagEssence, TagIncrease, TagDecrease, TagMute, TagMemberMute, TagNameChange,
      TagTodo, TagSpecialTitle, TagMemberEnter, TagPinChange, TagRequestInvitation, TagFriendRecall,
      TagFriendPoke, TagFriendNew, TagFriendRename, TagFriendRequest, TagBotRename]"

section \<open>The contract of the uploads of a chain\<close>

text \<open>The media of a chain that has a place; what the upload of an entity stores.\<close>

definition is_media :: "Entity \<Rightarrow> bool" where
  "is_media e = (case e of EImage _ \<Rightarrow> True | EVideo _ \<Rightarrow> True | ERecord _ \<Rightarrow> True | _ \<Rightarrow> False)"

definition media_info :: "Entity \<Rightarrow> MsgInfo option" where
  "media_info e =
     (case e of
        EImage im \<Rightarrow> im_msg_info im | EVideo v \<Rightarrow> vd_msg_info v | ERecord r \<Rightarrow> rc_msg_info r
      | _ \<Rightarrow> None)"

lemma upload_with_uploader:
  assumes "\<And>g. uploader (up_group g) (\<lambda>_. True) info" and "\<And>uid. uploader (up_c2c uid) (\<lambda>_. True) info"
  shows "uploader (upload_with up_group up_c2c place uid) (\<lambda>_. place \<noteq> MsgNone) info"
proof -
  note u = assms [THEN uploader.failed] assms [THEN uploader.stored] assms [THEN uploader.grown]
  show ?thesis
    by unfold_locales (cases place; (use u in \<open>fastforce simp: upload_with_def\<close>))+
qed

lemmas media_with =
  upload_with_uploader [OF group_image.uploader_axioms c2c_image.uploader_axioms]
  upload_with_uploader [OF group_video.uploader_axioms c2c_video.uploader_axioms]
  upload_with_uploader [OF group_record.uploader_axioms c2c_record.uploader_axioms]

lemma map_entity_Some:
  "map_entity f m = Some (t, e', r) \<longleftrightarrow> (\<exists>x. m = Some (t, x, r) \<and> e' = f x)"
  by (auto simp: map_entity_def)

interpretation entity: uploader "upload_entity env place uid" "\<lambda>e. place \<noteq> MsgNone \<and> is_media e" media_info
  for env place uid
proof
  fix e e' s t err
  show "(place \<noteq> MsgNone \<and> is_media e') = (place \<noteq> MsgNone \<and> is_media e) \<and> media_info e' = media_info e"
    if "upload_entity env place uid e s = Some (t, e', Inl err)"
    using that media_with [THEN uploader.failed]
    by (cases e) (auto simp: upload_entity_def map_entity_Some is_media_def media_info_def)
  show "(place \<noteq> MsgNone \<and> is_media e') = (place \<noteq> MsgNone \<and> is_media e)
      \<and> (place \<noteq> MsgNone \<and> is_media e \<longrightarrow> media_info e' \<noteq> None)"
    if "upload_entity env place uid e s = Some (t, e', Inr ())"
    using that media_with [THEN uploader.stored]
    by (cases e) (fastforce simp: upload_entity_def map_entity_Some is_media_def media_info_def)+
next
  fix e s
  have m: "sound_media s (map_entity f m)" if "sound_media s m" for f :: "'x \<Rightarrow> Entity" and m
    using that by (auto simp: sound_media_def map_entity_Some)
  show "sound_media s (upload_entity env place uid e s)"
    using media_with [THEN uploader.grown]
    by (cases e) (auto simp: upload_entity_def intro!: m)
qed

end
