(* ===== verification/Message_Delivery.thy ===== *)
theory Message_Delivery
  imports Messaging_Logic Push_Msg Upload_Results "HOL-Library.Multiset"
begin

text \<open>
  What \<open>messaging_logic\<close> delivers: the account numbers in the notifications it publishes, what it
  completes of a chain, and the way of a message from the sender's chain to a listener of the
  receiver.
\<close>

section \<open>Sources of account numbers\<close>

text \<open>
  The contract between the logic handlers and the operations that translate a uid: whatever
  happens, the state stays good and all of it but the contacts stays the same; an answer is true.
\<close>

locale uin_source =
  fixes look :: "rstring \<Rightarrow> u32 option \<Rightarrow> 's \<Rightarrow> ('s \<times> ('e + u32)) option"
    and good :: "'s \<Rightarrow> bool"
    and same :: "'s \<Rightarrow> 's \<Rightarrow> bool"
    and ids :: "u32 \<Rightarrow> rstring \<Rightarrow> bool"
  assumes keeps: "look uid g s = Some (t, r) \<Longrightarrow> good s \<Longrightarrow> good t \<and> same s t"
    and tells: "look uid g s = Some (t, Inr uin) \<Longrightarrow> good s \<Longrightarrow> ids uin uid"
begin

lemma or_zero:
  assumes "map_option (\<lambda>(s, r). (s, case r of Inr uin \<Rightarrow> uin | Inl _ \<Rightarrow> 0)) (look uid g s) = Some (t, uin)"
    and "good s"
  shows "good t \<and> same s t \<and> (uin = 0 \<or> ids uin uid)"
proof -
  obtain r where r: "look uid g s = Some (t, r)" "uin = (case r of Inr uin \<Rightarrow> uin | Inl _ \<Rightarrow> 0)"
    using assms(1) by auto
  then show ?thesis using keeps [OF r(1) assms(2)] tells assms(2) by (cases r) auto
qed

lemma or_none:
  assumes "map_option (\<lambda>(s, r). (s, ok_of r)) (look uid g s) = Some (t, v)" and "good s"
  shows "good t \<and> same s t \<and> (\<forall>uin. v = Some uin \<longrightarrow> ids uin uid)"
proof -
  obtain r where r: "look uid g s = Some (t, r)" "v = ok_of r"
    using assms(1) by auto
  then show ?thesis using keeps [OF r(1) assms(2)] tells assms(2) by (cases r) (auto simp: ok_of_def)
qed

end

text \<open>The world with true contacts, and what a lookup leaves of it.\<close>

definition world_good :: "(u32 \<Rightarrow> rstring \<Rightarrow> bool) \<Rightarrow> logic_server \<Rightarrow> logic_world \<Rightarrow> bool" where
  "world_good ids sv w \<longleftrightarrow>
     server_true ids (ls_contacts sv) \<and> good_cache ids (cs_cache (lw_contacts w)) \<and>
     (\<forall>uid uin. ls_stranger sv uid = Inr uin \<longrightarrow> ids uin uid)"

definition contacts_only :: "logic_world \<Rightarrow> logic_world \<Rightarrow> bool" where
  "contacts_only w w' \<longleftrightarrow> (\<exists>c. w' = w\<lparr>lw_contacts := c\<rparr>)"

lemma contacts_only_intros [intro, simp]:
  "contacts_only w w" "contacts_only w (w\<lparr>lw_contacts := c\<rparr>)"
  by (auto simp: contacts_only_def intro: exI [of _ "lw_contacts w"])

lemma contacts_only_trans: "contacts_only u v \<Longrightarrow> contacts_only v w \<Longrightarrow> contacts_only u w"
  by (auto simp: contacts_only_def)

interpretation world: uin_source "world_uin sv" "world_good ids sv" contacts_only ids
  for sv ids
proof unfold_locales
  fix uid g w w' r
  assume look: "world_uin sv uid g w = Some (w', r)" and good: "world_good ids sv w"
  then obtain c where "uid2uin (ls_contacts sv) uid g (lw_contacts w) = Some (c, r)"
      "w' = w\<lparr>lw_contacts := c\<rparr>"
    by (auto simp: world_uin_def bind_eq_Some_conv)
  then show "world_good ids sv w' \<and> contacts_only w w'"
    using uid2uin_good good by (auto simp: world_good_def)
next
  fix uid g w w' uin
  assume "world_uin sv uid g w = Some (w', Inr uin)" and "world_good ids sv w"
  then show "ids uin uid"
    by (auto simp: world_uin_def world_good_def bind_eq_Some_conv dest: uid2uin_good)
qed

lemma world_fast_is_or_zero:
  "world_uin_fast sv uid g w
     = map_option (\<lambda>(s, r). (s, case r of Inr uin \<Rightarrow> uin | Inl _ \<Rightarrow> 0)) (world_uin sv uid g w)"
  by (cases "uid2uin (ls_contacts sv) uid g (lw_contacts w)")
    (auto simp: world_uin_fast_def uid2uin_fast_def world_uin_def split: prod.splits)

lemma world_opt_is_or_none:
  "world_uin_opt sv uid g w = map_option (\<lambda>(s, r). (s, ok_of r)) (world_uin sv (or_empty uid) (Some g) w)"
  by (cases "world_uin sv (or_empty uid) (Some g) w") (auto simp: world_uin_opt_def split: prod.splits)

lemma uin_fast_good:
  "world_uin_fast sv uid g w = Some (w', uin) \<Longrightarrow> world_good ids sv w \<Longrightarrow>
     world_good ids sv w' \<and> contacts_only w w' \<and> (uin = 0 \<or> ids uin uid)"
  unfolding world_fast_is_or_zero by (rule world.or_zero)

lemma uin_opt_good:
  "world_uin_opt sv uid g w = Some (w', v) \<Longrightarrow> world_good ids sv w \<Longrightarrow>
     world_good ids sv w' \<and> contacts_only w w' \<and> (\<forall>uin. v = Some uin \<longrightarrow> ids uin (or_empty uid))"
  unfolding world_opt_is_or_none by (rule world.or_none)

lemma uin_of_good:
  assumes "world_uin_of sv uid g w = Some (w', v)" "world_good ids sv w"
  shows "world_good ids sv w' \<and> contacts_only w w' \<and> (\<forall>uin. v = Some uin \<longrightarrow> uin = 0 \<or> ids uin (or_empty uid))"
  using assms
  by (cases uid) (auto simp: world_uin_of_def bind_eq_Some_conv or_empty_def dest!: uin_fast_good)

lemma stranger_fast_good:
  "world_good ids sv w \<Longrightarrow> stranger_fast sv uid = 0 \<or> ids (stranger_fast sv uid) uid"
  by (auto simp: stranger_fast_def stranger_uid2uin_fast_def world_good_def split: sum.split)

lemma stranger_fast_untrue:
  "world_good ids sv w \<Longrightarrow> \<not> ids (stranger_fast sv uid) uid \<Longrightarrow> stranger_fast sv uid = 0"
  using stranger_fast_good by blast

section \<open>What a notification says\<close>

datatype notice = NoNotice | ToGroup GroupEvent | ToFriend FriendEvent | ToSystem SystemEvent

fun publish :: "notice \<Rightarrow> logic_world \<Rightarrow> logic_world" where
  "publish NoNotice w = w"
| "publish (ToGroup e) w = publish_group e w"
| "publish (ToFriend e) w = publish_friend e w"
| "publish (ToSystem e) w = publish_system e w"

lemma publish_good [simp]: "world_good ids sv (publish n w) = world_good ids sv w"
  by (cases n) (simp_all add: publish_group_def publish_friend_def publish_system_def world_good_def)

text \<open>
  \<open>claims e n\<close>: the account numbers in the notification \<open>n\<close>, each with the uid of the event \<open>e\<close> it
  stands for; \<open>None\<close> if \<open>n\<close> is not a notification of \<open>e\<close>: of another kind, or of another group.
\<close>

definition claim :: "bool \<Rightarrow> 'a list \<Rightarrow> 'a list option" where
  "claim b ps = (if b then Some ps else None)"

definition claim_opt :: "u32 option \<Rightarrow> rstring option \<Rightarrow> (u32 \<times> rstring) list" where
  "claim_opt uin uid = (case uin of None \<Rightarrow> [] | Some u \<Rightarrow> [(u, or_empty uid)])"

definition is_friend :: "MessageChain \<Rightarrow> bool" where
  "is_friend c = (case mc_typ c of MsgFriend _ \<Rightarrow> True | _ \<Rightarrow> False)"

definition claim_chain ::
    "(MessageChain \<Rightarrow> bool) \<Rightarrow> MessageChain option \<Rightarrow> MessageChain \<Rightarrow> (u32 \<times> rstring) list option" where
  "claim_chain p mc d = claim (case mc of None \<Rightarrow> False | Some c \<Rightarrow> p c \<and> p d) []"

fun claims :: "logic_event \<Rightarrow> notice \<Rightarrow> (u32 \<times> rstring) list option" where
  "claims (EvPushMessage mc) n =
     (case n of
        NoNotice \<Rightarrow>
          claim (case mc of None \<Rightarrow> True | Some c \<Rightarrow> mc_typ c = MsgNone)
            []
      | ToGroup (GroupMessage d) \<Rightarrow> claim_chain is_group mc d
      | ToFriend (FriendMessage d) \<Rightarrow> claim_chain is_friend mc d
      | ToSystem (SysTempMessage d) \<Rightarrow> claim_chain (\<lambda>c. mc_typ c = MsgTemp) mc d
      | _ \<Rightarrow> None)"
| "claims (EvRequestJoin e) n =
     (case n of
        NoNotice \<Rightarrow> Some []
      | ToGroup (GroupJoinRequest m) \<Rightarrow>
          claim (gjr_group_uin m = gsrj_group_uin e) [(gjr_target_uin m, gsrj_target_uid e)]
      | _ \<Rightarrow> None)"
| "claims (EvInvite e) n =
     (case n of
        ToGroup (GroupInvitation m) \<Rightarrow>
          claim (giv_group_uin m = gsv_group_uin e) [(giv_invitor_uin m, gsv_invitor_uid e)]
      | _ \<Rightarrow> None)"
| "claims (EvAdmin e) n =
     (case n of
        ToGroup (GroupAdminChanged m) \<Rightarrow>
          claim (gac_group_uin m = gsa_group_uin e) [(gac_admin_uin m, gsa_uid e)]
      | _ \<Rightarrow> None)"
| "claims (EvPoke e) n =
     (case n of
        ToGroup (GroupPoke m) \<Rightarrow> claim (gpk_group_uin m = gsp_group_uin e) []
      | _ \<Rightarrow> None)"
| "claims (EvIncrease e) n =
     (case n of
        ToGroup (GroupMemberIncrease m) \<Rightarrow>
          claim (gmi_group_uin m = gsi_group_uin e \<and> gmi_event_type m = gsi_event_type e)
            ((gmi_member_uin m, gsi_member_uid e) # claim_opt (gmi_invitor_uin m) (gsi_invitor_uid e))
      | _ \<Rightarrow> None)"
| "claims (EvDecrease e) n =
     (case n of
        ToGroup (GroupMemberDecrease m) \<Rightarrow>
          claim (gmd_group_uin m = gsd_group_uin e \<and> gmd_event_type m = gsd_event_type e)
            ((gmd_member_uin m, gsd_member_uid e) # claim_opt (gmd_operator_uin m) (gsd_operator_uid e))
      | _ \<Rightarrow> None)"
| "claims (EvMute e) n =
     (case n of
        ToGroup (GroupMute m) \<Rightarrow>
          claim (gmu_group_uin m = gsmu_group_uin e \<and> gmu_is_muted m = gsmu_is_muted e)
            (claim_opt (gmu_operator_uin m) (gsmu_operator_uid e))
      | _ \<Rightarrow> None)"
| "claims (EvMemberMute e) n =
     (case n of
        ToGroup (GroupMemberMute m) \<Rightarrow>
          claim (gmm_group_uin m = gsmm_group_uin e \<and> gmm_duration m = gsmm_duration e)
            ((gmm_target_uin m, gsmm_target_uid e) # claim_opt (gmm_operator_uin m) (gsmm_operator_uid e))
      | _ \<Rightarrow> None)"
| "claims (EvNameChange e) n =
     (case n of
        ToGroup (GroupNameChange m) \<Rightarrow> claim (gnc_group_uin m = gsn_group_uin e) []
      | _ \<Rightarrow> None)"
| "claims (EvTodo e) n =
     (case n of
        ToGroup (GroupTodo m) \<Rightarrow>
          claim (gtd_group_uin m = gst_group_uin e) [(gtd_operator_uin m, gst_operator_uid e)]
      | _ \<Rightarrow> None)"
| "claims (EvReaction e) n =
     (case n of
        ToGroup (GroupReaction m) \<Rightarrow>
          claim (grx_target_group_uin m = gsr_target_group_uin e)
            [(grx_operator_uin m, gsr_operator_uid e)]
      | _ \<Rightarrow> None)"
| "claims (EvRecall e) n =
     (case n of
        ToGroup (GroupRecall m) \<Rightarrow>
          claim (grl_group_uin m = gsrc_group_uin e \<and> grl_sequence m = gsrc_sequence e)
            [(grl_author_uin m, gsrc_author_uid e), (grl_operator_uin m, or_empty (gsrc_operator_uid e))]
      | _ \<Rightarrow> None)"
| "claims (EvEssence e) n =
     (case n of
        ToGroup (GroupEssence m) \<Rightarrow>
          claim (ges_group_uin m = gse_group_uin e \<and> ges_is_set m = gse_set_flag e) []
      | _ \<Rightarrow> None)"
| "claims (EvSpecialTitle e) n =
     (case n of
        ToGroup (GroupSpecialTitle m) \<Rightarrow> claim (gtl_group_uin m = gsst_group_uin e) []
      | _ \<Rightarrow> None)"
| "claims (EvMemberEnter e) n =
     (case n of
        ToGroup (GroupMemberEnter m) \<Rightarrow> claim (gme_group_uin m = gsme_group_uin e) []
      | _ \<Rightarrow> None)"
| "claims (EvRequestInvitation e) n =
     (case n of
        ToGroup (GroupInvitationRequest m) \<Rightarrow>
          claim (gir_group_uin m = gsri_group_uin e)
            [(gir_target_uin m, gsri_target_uid e), (gir_invitor_uin m, gsri_invitor_uid e)]
      | _ \<Rightarrow> None)"
| "claims (EvPinChange e) n =
     (case n of
        ToGroup (GroupPinChanged m) \<Rightarrow>
          claim (pce_is_pin m = gspc_is_pin e) [(pce_uin m, gspc_uid e)]
      | _ \<Rightarrow> None)"
| "claims (EvFriendRecall e) n =
     (case n of
        ToFriend (FriendRecall m) \<Rightarrow>
          claim (frl_client_sequence m = fsr_client_sequence e)
            [(frl_friend_uin m, fsr_from_uid e)]
      | _ \<Rightarrow> None)"
| "claims (EvFriendPoke e) n =
     (case n of
        ToFriend (FriendPoke m) \<Rightarrow> Some []
      | _ \<Rightarrow> None)"
| "claims (EvFriendNew e) n =
     (case n of
        ToFriend (FriendNew m) \<Rightarrow>
          claim (fnw_msg m = fsn_msg e) [(fnw_from_uin m, fsn_from_uid e)]
      | _ \<Rightarrow> None)"
| "claims (EvFriendRename e) n =
     (case n of
        ToFriend (FriendRename m) \<Rightarrow>
          claim (frn_nickname m = fsm_nickname e) [(frn_uin m, fsm_uid e)]
      | _ \<Rightarrow> None)"
| "claims (EvFriendRequest e) n =
     (case n of
        ToFriend (FriendRequest m) \<Rightarrow>
          claim (frq_message m = fsq_message e) [(frq_source_uin m, fsq_source_uid e)]
      | _ \<Rightarrow> None)"
| "claims (EvBotRename e) n =
     (case n of
        ToSystem (SysBotRename m) \<Rightarrow> claim (bre_nickname m = brn_nickname e) []
      | _ \<Rightarrow> None)"
| "claims (EvSendMessage _ _) n = claim (n = NoNotice) []"
| "claims (EvKick _) n = claim (n = NoNotice) []"
| "claims EvOther n = claim (n = NoNotice) []"


section \<open>What the lookups of the chain leave\<close>

lemma fetch_members_good:
  assumes "fetch_maybe_cached_group_members sv g f False s = Some (t, r)"
    and sv: "server_true ids sv" and c: "good_cache ids (cs_cache s)"
  shows "good_cache ids (cs_cache t) \<and>
    (\<forall>ms. r = Inr ms \<longrightarrow> (\<exists>tab. ms = f tab \<and> (\<forall>k ns. tab k = Some ns \<longrightarrow> list_all (member_true ids) ns)))"
proof (cases "ca_mode (cs_cache s) = NoCache")
  case True
  obtain n m q where it: "iter_fetch_group sv g
      (\<lambda>event m. (m(g \<mapsto> fme_group_members event), Inr (None :: unit option))) (cs_reqs s) (\<lambda>_. None)
        = Some (n, m, q)"
    using assms(1) True by (auto simp: fetch_maybe_cached_group_members_def bind_eq_Some_conv Let_def)
  have "(\<forall>k ns. m k = Some ns \<longrightarrow> list_all (member_true ids) ns) \<and> (\<forall>v. q = Inr (Some v) \<longrightarrow> True)"
    by (rule iter_fetch_inv [OF it [unfolded iter_fetch_group_def]])
      (use sv in \<open>auto simp: server_true_def split: if_split_asm\<close>)
  then show ?thesis
    using assms(1) True it c
    by (cases q) (auto simp: fetch_maybe_cached_group_members_def Let_def)
next
  case False
  then show ?thesis
    using assms(1) load_group_good [OF _ sv c]
    by (auto simp: fetch_maybe_cached_group_members_def then_op_Some bind_eq_Some_conv good_cache_def
        cache_true_def)
qed

lemma fetch_friends_good:
  assumes "fetch_maybe_cached_friends sv u f False s = Some (t, r)"
    and sv: "server_true ids sv" and c: "good_cache ids (cs_cache s)"
  shows "good_cache ids (cs_cache t) \<and>
    (\<forall>fs. r = Inr fs \<longrightarrow> (\<exists>tab. fs = f tab \<and> friends_true ids tab))"
proof (cases "ca_mode (cs_cache s) = NoCache")
  case True
  obtain n m q where it: "iter_fetch_friends sv
      (\<lambda>event m. (fold (\<lambda>f m. m(bf_uin f \<mapsto> f)) (ffe_friends event) m, Inr (None :: unit option)))
        (cs_reqs s) (\<lambda>_. None) = Some (n, m, q)"
    using assms(1) True by (auto simp: fetch_maybe_cached_friends_def bind_eq_Some_conv Let_def)
  have add: "friends_true ids (fold (\<lambda>f m. m(bf_uin f \<mapsto> f)) fs m)"
    if "list_all (friend_true ids) fs" "friends_true ids m" for fs m
    using that
  proof (induction fs arbitrary: m)
    case (Cons f fs)
    have "friends_true ids (m(bf_uin f \<mapsto> f))"
      using Cons.prems by (simp add: friends_true_def)
    then show ?case using Cons.IH Cons.prems(1) by (simp del: fun_upd_apply)
  qed simp
  have "friends_true ids m \<and> (\<forall>v. q = Inr (Some v) \<longrightarrow> True)"
  proof (rule iter_fetch_inv [OF it [unfolded iter_fetch_friends_def]])
    show "friends_true ids (\<lambda>_. None)" by (simp add: friends_true_def)
    fix n k e m m' and q :: "ManiaError + unit option"
    assume "co_friends sv n k = Inr (Some e)" "friends_true ids m"
      "(fold (\<lambda>f m. m(bf_uin f \<mapsto> f)) (ffe_friends e) m, Inr None) = (m', q)"
    then show "friends_true ids m' \<and> (\<forall>v. q = Inr (Some v) \<longrightarrow> True)"
      using add sv unfolding server_true_def by blast
  qed
  then show ?thesis
    using assms(1) True it c
    by (cases q) (auto simp: fetch_maybe_cached_friends_def Let_def)
next
  case False
  let ?load = "case u of None \<Rightarrow> Some (s, Inr ())
    | Some u \<Rightarrow> do { t \<leftarrow> ca_friends (cs_cache s);
        if t u = None then refresh_friends_cache sv s else Some (s, Inr ()) }"
  have load: "good_cache ids (cs_cache b)" if "?load = Some (b, q)" for b q
    using that refresh_friends_good [OF _ sv c] c
    by (auto simp: bind_eq_Some_conv split: option.split_asm if_split_asm)
  have "then_op ?load (\<lambda>s _. do { t \<leftarrow> ca_friends (cs_cache s); Some (s, Inr (f t)) }) = Some (t, r)"
    using assms(1) False by (simp add: fetch_maybe_cached_friends_def then_op_def)
  then consider e where "?load = Some (t, Inl e)" "r = Inl e"
    | tab where "?load = Some (t, Inr ())" "ca_friends (cs_cache t) = Some tab" "r = Inr (f tab)"
    by (auto simp: then_op_Some bind_eq_Some_conv)
  then show ?thesis
    using load by cases (auto simp: good_cache_def cache_true_def friends_true_def)
qed


section \<open>What completing a chain changes\<close>

text \<open>Only the links (and the records of a forwarded message that has none).\<close>

fun completed :: "Entity \<Rightarrow> Entity \<Rightarrow> bool" where
  "completed (EImage im) e \<longleftrightarrow>
     (\<exists>url. e = EImage (im\<lparr>im_url := url\<rparr>) \<and> (sublist (str ''&rkey='') (im_url im) \<longrightarrow> url = im_url im))"
| "completed (EMultiMsg r cs) e \<longleftrightarrow> (\<exists>ds. e = EMultiMsg r ds \<and> (cs \<noteq> [] \<longrightarrow> ds = cs))"
| "completed (EFile f) e \<longleftrightarrow> (\<exists>url. e = EFile (f\<lparr>fl_file_url := url\<rparr>))"
| "completed (ERecord r) e \<longleftrightarrow> (\<exists>url. e = ERecord (r\<lparr>rc_audio_url := url\<rparr>))"
| "completed (EVideo v) e \<longleftrightarrow> (\<exists>url. e = EVideo (v\<lparr>vd_url := url\<rparr>))"
| "completed e e' \<longleftrightarrow> e' = e"

lemma image_same_url [simp]: "im\<lparr>im_url := im_url im\<rparr> = im" by simp
lemma file_same_url [simp]: "f\<lparr>fl_file_url := fl_file_url f\<rparr> = f" by simp
lemma record_same_url [simp]: "r\<lparr>rc_audio_url := rc_audio_url r\<rparr> = r" by simp
lemma video_same_url [simp]: "v\<lparr>vd_url := vd_url v\<rparr> = v" by simp

lemma set_or_keep:
  assumes "Option.bind x (\<lambda>r. Some (case r of Some (Inr u) \<Rightarrow> f u | _ \<Rightarrow> k)) = Some z" and "k = f u0"
  shows "\<exists>u. z = f u"
  using assms by (cases x) (auto split: option.split_asm sum.split_asm)

lemma image_completed:
  assumes "resolve_image sv ctx typ im = Some im'"
  shows "completed (EImage im) (EImage im')"
proof (cases "sublist (str ''&rkey='') (im_url im) \<or> first_index (im_msg_info im) = None")
  case True
  then show ?thesis
    using assms by (auto simp: resolve_image_def intro: exI [of _ "im_url im"] split: if_split_asm)
next
  case False
  then obtain ix where ix: "first_index (im_msg_info im) = Some ix" by auto
  have keep: "im = im\<lparr>im_url := im_url im\<rparr>" by simp
  have "\<exists>url. im' = im\<lparr>im_url := url\<rparr>"
    by (rule set_or_keep [where f = "\<lambda>url. im\<lparr>im_url := url\<rparr>", OF _ keep])
      (use assms False ix in \<open>simp add: resolve_image_def\<close>)
  then show ?thesis using False by simp
qed

lemma file_completed: "completed (EFile f) (EFile (resolve_file sv ctx typ uid f))"
  by (auto simp: resolve_file_def split: option.split FileUnique.split MessageType.split
      intro: exI [of _ "fl_file_url f"])

lemma record_completed:
  assumes "resolve_record sv ctx typ r = Some r'"
  shows "completed (ERecord r) (ERecord r')"
  using set_or_keep [OF assms [unfolded resolve_record_def] record_same_url [symmetric]] by simp

lemma video_completed:
  assumes res: "resolve_video sv c v w = Some (w', v')" and good: "world_good ids sv w"
  shows "world_good ids sv w' \<and> contacts_only w w' \<and> completed (EVideo v) (EVideo v')"
proof -
  define finish where "finish = (\<lambda>r :: ManiaError + rstring. case r of Inr url \<Rightarrow> v\<lparr>vd_url := url\<rparr> | Inl _ \<Rightarrow> v)"
  have fin: "completed (EVideo v) (EVideo (finish r))" for r
    by (auto simp: finish_def split: sum.split intro: exI [of _ "vd_url v"])
  have keep: "completed (EVideo v) (EVideo v)" by (auto intro: exI [of _ "vd_url v"])
  show ?thesis
  proof (cases "mc_typ c")
    case (MsgGroup grp)
    then obtain s uid r where u: "uin2uid_fast (ls_contacts sv) (mc_friend_uin c) (Some (gm_group_uin grp))
          (lw_contacts w) = Some (s, uid)" and w': "w' = w\<lparr>lw_contacts := s\<rparr>" and v': "v' = finish r"
      using res unfolding resolve_video_def Let_def finish_def [symmetric]
      by (auto simp: bind_eq_Some_conv)
    have "good_cache ids (cs_cache s)"
      using u good by (auto simp: uin2uid_fast_def world_good_def dest: uin2uid_good)
    then show ?thesis using w' v' fin good by (simp add: world_good_def)
  qed (use res good fin keep in \<open>auto simp: resolve_video_def finish_def simp del: completed.simps\<close>)
qed

lemma entity_completed:
  assumes "resolve_entity sv c e w = Some (w', e')" and "world_good ids sv w"
  shows "world_good ids sv w' \<and> contacts_only w w' \<and> completed e e'"
proof (cases e)
  case (EImage im)
  then show ?thesis using assms by (auto simp: resolve_entity_def dest: image_completed)
next
  case (EFile f)
  then show ?thesis using assms file_completed by (auto simp: resolve_entity_def)
next
  case (ERecord r)
  then show ?thesis using assms by (auto simp: resolve_entity_def dest: record_completed)
next
  case (EVideo v)
  then show ?thesis using assms by (auto simp: resolve_entity_def dest: video_completed)
next
  case (EMultiMsg r cs)
  then show ?thesis using assms by (auto simp: resolve_entity_def resolve_multi_def split: sum.split option.split)
qed (use assms in \<open>auto simp: resolve_entity_def\<close>)

lemma entities_completed:
  "resolve_entities sv c es w = Some (w', es') \<Longrightarrow> world_good ids sv w \<Longrightarrow>
     world_good ids sv w' \<and> contacts_only w w' \<and> list_all2 completed es es'"
proof (induction es arbitrary: w es')
  case (Cons e es)
  then obtain u e' fs where "resolve_entity sv c e w = Some (u, e')"
    "resolve_entities sv c es u = Some (w', fs)" "es' = e' # fs"
    by (auto simp: bind_eq_Some_conv)
  then show ?case
    using entity_completed [of sv c e w u e'] Cons.IH [of u fs] Cons.prems(2) contacts_only_trans by auto
qed simp


lemma incoming_completed:
  assumes "resolve_incoming_chain sv c w = Some (w', c')" and "world_good ids sv w"
  shows "world_good ids sv w' \<and> contacts_only w w' \<and>
    (\<exists>es. c' = set_entities es c \<and> list_all2 completed (mc_entities c) es)"
  using assms by (auto simp: resolve_incoming_chain_def bind_eq_Some_conv dest: entities_completed)

text \<open>
  What \<open>resolve_chain_metadata\<close> changes: the information on the member or friend, and an empty uid;
  both are true of the one who is looked up.
\<close>

definition chain_peer :: "logic_world \<Rightarrow> MessageChain \<Rightarrow> u32" where
  "chain_peer w c =
     (if is_group c \<and> mc_friend_uin c = 0 then ks_uin (ctx_key_store (lw_context w)) else mc_friend_uin c)"

definition same_place :: "MessageType \<Rightarrow> MessageType \<Rightarrow> bool" where
  "same_place s t \<longleftrightarrow>
     (case (s, t) of
        (MsgGroup g, MsgGroup h) \<Rightarrow> gm_group_uin g = gm_group_uin h
      | (MsgFriend f, MsgFriend g) \<Rightarrow> fm_client_sequence f = fm_client_sequence g
      | _ \<Rightarrow> s = t)"

definition described ::
    "(u32 \<Rightarrow> rstring \<Rightarrow> bool) \<Rightarrow> u32 \<Rightarrow> MessageChain \<Rightarrow> MessageChain \<Rightarrow> bool" where
  "described ids peer c d \<longleftrightarrow>
     (\<exists>typ uid. d = set_typ typ (set_uid uid c) \<and> same_place (mc_typ c) typ \<and>
        (uid = mc_uid c \<or> mc_uid c = [] \<and> ids peer uid))"

lemma set_same [simp]: "set_typ (mc_typ c) c = c" "set_uid (mc_uid c) c = c"
  by (cases c; simp)+

lemma set_uid_typ: "set_uid u (set_typ t c) = set_typ t (set_uid u c)"
  by (cases c) simp

lemma described_typ: "same_place (mc_typ c) t \<Longrightarrow> described ids peer c (set_typ t c)"
  unfolding described_def by (rule exI [of _ t], rule exI [of _ "mc_uid c"]) simp

lemma described_uid:
  "same_place (mc_typ c) t \<Longrightarrow> mc_uid c = [] \<Longrightarrow> ids peer uid \<Longrightarrow>
     described ids peer c (set_uid uid (set_typ t c))"
  unfolding described_def by (rule exI [of _ t], rule exI [of _ uid]) (simp add: set_uid_typ)

lemma described_refl [simp]: "described ids peer c c"
  using described_typ [of c "mc_typ c"] by (simp add: same_place_def split: MessageType.split)

lemma metadata_group:
  assumes "chain_metadata_group sv grp c w = Some (w', d)" and good: "world_good ids sv w"
    and place: "mc_typ c = MsgGroup grp"
  shows "world_good ids sv w' \<and> contacts_only w w' \<and> described ids (chain_peer w c) c d"
proof -
  let ?f = "\<lambda>mm. case mm (gm_group_uin grp) of None \<Rightarrow> [] | Some ms \<Rightarrow> ms"
  define uin where "uin = (if mc_friend_uin c = 0 then ks_uin (ctx_key_store (lw_context w)) else mc_friend_uin c)"
  define info where "info = (\<lambda>r :: ManiaError + BotGroupMember list.
    find (\<lambda>m. bgm_uin m = uin) (case r of Inl _ \<Rightarrow> [] | Inr ms \<Rightarrow> ms))"
  let ?t = "\<lambda>r. MsgGroup (grp\<lparr>gm_group_member_info := info r\<rparr>)"
  obtain s r where
    f: "fetch_maybe_cached_group_members (ls_contacts sv) (gm_group_uin grp) ?f False (lw_contacts w) = Some (s, r)"
    and w': "w' = w\<lparr>lw_contacts := s\<rparr>"
    and d: "d = (case info r of Some m \<Rightarrow> if mc_uid c = [] then set_uid (bgm_uid m) (set_typ (?t r) c)
          else set_typ (?t r) c | None \<Rightarrow> set_typ (?t r) c)"
    using assms(1) unfolding chain_metadata_group_def Let_def uin_def [symmetric] set_typ_simps
      info_def bind_eq_Some_conv by auto
  have sv: "server_true ids (ls_contacts sv)" and cache: "good_cache ids (cs_cache (lw_contacts w))"
    using good by (simp_all add: world_good_def)
  note g = fetch_members_good [OF f sv cache]
  have peer: "chain_peer w c = uin" using place by (simp add: chain_peer_def is_group_def uin_def)
  have "ids uin (bgm_uid m)" if "info r = Some m" for m
  proof (cases r)
    case (Inr ms)
    then have "list_all (member_true ids) ms" using g by (auto split: option.splits)
    then show ?thesis using that Inr by (auto simp: info_def member_true_def dest!: find_true)
  qed (use that in \<open>simp add: info_def\<close>)
  moreover have "same_place (mc_typ c) (?t r)" by (simp add: place same_place_def)
  ultimately have "described ids uin c d"
    unfolding d by (auto split: option.split intro: described_uid described_typ)
  then show ?thesis using g w' good peer by (simp add: world_good_def)
qed

lemma metadata_friend:
  assumes "chain_metadata_friend sv fr c w = Some (w', d)" and good: "world_good ids sv w"
    and place: "mc_typ c = MsgFriend fr"
  shows "world_good ids sv w' \<and> contacts_only w w' \<and> described ids (chain_peer w c) c d"
proof -
  let ?f = "\<lambda>fm. List.map_filter fm (co_order (ls_contacts sv) fm)"
  define info where "info = (\<lambda>r :: ManiaError + BotFriend list.
    find (\<lambda>f. bf_uin f = mc_friend_uin c) (case r of Inl _ \<Rightarrow> [] | Inr fs \<Rightarrow> fs))"
  let ?t = "\<lambda>f. MsgFriend (fr\<lparr>fm_friend_info := Some f\<rparr>)"
  obtain s r where
    f: "fetch_maybe_cached_friends (ls_contacts sv) (Some (mc_friend_uin c)) ?f False (lw_contacts w) = Some (s, r)"
    and w': "w' = w\<lparr>lw_contacts := s\<rparr>"
    and d: "d = (case info r of Some f \<Rightarrow> if mc_uid c = [] then set_uid (bf_uid f) (set_typ (?t f) c)
          else set_typ (?t f) c | None \<Rightarrow> c)"
    using assms(1) unfolding chain_metadata_friend_def Let_def set_typ_simps
    by (auto simp: bind_eq_Some_conv info_def)
  have sv: "server_true ids (ls_contacts sv)" and cache: "good_cache ids (cs_cache (lw_contacts w))"
    using good by (simp_all add: world_good_def)
  note g = fetch_friends_good [OF f sv cache]
  have peer: "chain_peer w c = mc_friend_uin c" using place by (simp add: chain_peer_def is_group_def)
  have "ids (mc_friend_uin c) (bf_uid f)" if "info r = Some f" for f
  proof (cases r)
    case (Inr fs)
    then have "list_all (friend_true ids) fs"
      using g by (auto simp: friends_true_def map_filter_def list_all_iff)
    then show ?thesis using that Inr by (auto simp: info_def friend_true_def dest!: find_true)
  qed (use that in \<open>simp add: info_def\<close>)
  moreover have "same_place (mc_typ c) (?t f)" for f by (simp add: place same_place_def)
  ultimately have "described ids (mc_friend_uin c) c d"
    unfolding d by (auto split: option.split intro: described_uid described_typ)
  then show ?thesis using g w' good peer by (simp add: world_good_def)
qed

lemma metadata_described:
  assumes "resolve_chain_metadata sv c w = Some (w', d)" and "world_good ids sv w"
  shows "world_good ids sv w' \<and> contacts_only w w' \<and> described ids (chain_peer w c) c d"
  using assms metadata_group metadata_friend
  by (cases "mc_typ c") (auto simp: resolve_chain_metadata_def split: if_split_asm)


section \<open>The notifications\<close>

text \<open>One event gives at most one notification, of its own kind, whose account numbers are true.\<close>

definition notified ::
    "(u32 \<Rightarrow> rstring \<Rightarrow> bool) \<Rightarrow> logic_server \<Rightarrow> logic_event \<Rightarrow> logic_world \<Rightarrow> logic_world \<Rightarrow> bool" where
  "notified ids sv event w w' \<longleftrightarrow>
     world_good ids sv w' \<and>
     (\<exists>v n ps. contacts_only w v \<and> w' = publish n v \<and> claims event n = Some ps \<and>
        (\<forall>(uin, uid) \<in> set ps. uin = 0 \<or> ids uin uid))"

lemma notifiedI:
  assumes "world_good ids sv v \<and> contacts_only w v" "w' = publish n v" "claims event n = Some ps"
    and "\<forall>(uin, uid) \<in> set ps. uin = 0 \<or> ids uin uid"
  shows "notified ids sv event w w'"
  unfolding notified_def using assms by (intro conjI exI [of _ v] exI [of _ n] exI [of _ ps]) auto

lemma claim_simps [simp]: "claim True ps = Some ps" "claim False ps = None"
  by (simp_all add: claim_def)

named_theorems notices "a published notification is one of its event"

lemma notified_publish [notices]:
  assumes "world_good ids sv v" "contacts_only w v"
  shows "claims event (ToGroup g) = Some ps \<Longrightarrow> \<forall>(uin, uid) \<in> set ps. uin = 0 \<or> ids uin uid \<Longrightarrow>
      notified ids sv event w (publish_group g v)"
    and "claims event (ToFriend f) = Some ps \<Longrightarrow> \<forall>(uin, uid) \<in> set ps. uin = 0 \<or> ids uin uid \<Longrightarrow>
      notified ids sv event w (publish_friend f v)"
    and "claims event (ToSystem s) = Some ps \<Longrightarrow> \<forall>(uin, uid) \<in> set ps. uin = 0 \<or> ids uin uid \<Longrightarrow>
      notified ids sv event w (publish_system s v)"
  using assms notifiedI [of ids sv v w _ "ToGroup g"] notifiedI [of ids sv v w _ "ToFriend f"]
    notifiedI [of ids sv v w _ "ToSystem s"]
  by auto

lemma notified_nothing: "world_good ids sv w \<Longrightarrow> claims event NoNotice = Some [] \<Longrightarrow> notified ids sv event w w"
  using notifiedI [of ids sv w w w NoNotice] by auto

lemmas simple_notices = on_invite_def on_poke_def on_name_change_def on_essence_def
  on_special_title_def on_member_enter_def on_friend_poke_def on_bot_rename_def

lemmas looked_up_notices = on_admin_def on_increase_def on_decrease_def on_mute_def on_member_mute_def
  on_todo_def on_reaction_def on_recall_def on_request_invitation_def on_friend_recall_def
  on_pin_change_def on_friend_new_def on_friend_rename_def on_friend_request_def keeping_def

lemma member_change_notified:
  assumes good: "world_good ids sv w"
  shows "on_increase sv i w = Some (w', e') \<Longrightarrow> notified ids sv (EvIncrease i) w w'"
    and "on_decrease sv d w = Some (w', e') \<Longrightarrow> notified ids sv (EvDecrease d) w w'"
    and "on_member_mute sv m w = Some w' \<Longrightarrow> notified ids sv (EvMemberMute m) w w'"
    and "on_request_invitation sv r w = Some w' \<Longrightarrow> notified ids sv (EvRequestInvitation r) w w'"
  using good
  by (auto simp: looked_up_notices bind_eq_Some_conv Let_def claim_opt_def split: option.splits
      dest!: uin_opt_good uin_of_good uin_fast_good intro!: notices dest: stranger_fast_untrue)

lemma lookup_notified:
  assumes good: "world_good ids sv w"
  shows "on_admin sv a w = Some w' \<Longrightarrow> notified ids sv (EvAdmin a) w w'"
    and "on_mute sv m w = Some w' \<Longrightarrow> notified ids sv (EvMute m) w w'"
    and "on_todo sv t w = Some w' \<Longrightarrow> notified ids sv (EvTodo t) w w'"
    and "on_reaction sv x w = Some w' \<Longrightarrow> notified ids sv (EvReaction x) w w'"
    and "on_pin_change sv p w = Some w' \<Longrightarrow> notified ids sv (EvPinChange p) w w'"
    and "on_friend_recall sv fr w = Some w' \<Longrightarrow> notified ids sv (EvFriendRecall fr) w w'"
    and "on_friend_new sv fn w = Some w' \<Longrightarrow> notified ids sv (EvFriendNew fn) w w'"
    and "on_friend_rename sv fm w = Some w' \<Longrightarrow> notified ids sv (EvFriendRename fm) w w'"
    and "on_friend_request sv fq w = Some w' \<Longrightarrow> notified ids sv (EvFriendRequest fq) w w'"
  by (auto simp: looked_up_notices bind_eq_Some_conv Let_def claim_opt_def
      dest!: uin_fast_good [OF _ good] intro!: notices)

lemma recall_notified:
  assumes "on_recall sv r w = Some w'" and good: "world_good ids sv w"
  shows "notified ids sv (EvRecall r) w w'"
proof -
  obtain u v author_uin operator_uin where
    u: "world_uin_fast sv (gsrc_author_uid r) (Some (gsrc_group_uin r)) w = Some (u, author_uin)" and
    v: "world_uin_of sv (gsrc_operator_uid r) (gsrc_group_uin r) u = Some (v, operator_uin)" and
    w': "w' = publish_group (GroupRecall
            \<lparr>grl_group_uin = gsrc_group_uin r, grl_author_uin = author_uin,
             grl_operator_uin = or_zero operator_uin, grl_sequence = gsrc_sequence r,
             grl_time = gsrc_time r, grl_random = gsrc_random r, grl_tip = gsrc_tip r\<rparr>) v"
    using assms(1) by (auto simp: on_recall_def bind_eq_Some_conv)
  note 1 = uin_fast_good [OF u good]
  note 2 = uin_of_good [OF v conjunct1 [OF 1]]
  then have "contacts_only w v" using 1 contacts_only_trans by blast
  then show ?thesis
    unfolding w' using 1 2 by (intro notices) (auto simp: or_zero_def split: option.split)
qed

lemma join_notified:
  assumes good: "world_good ids sv w"
  shows "notified ids sv (EvRequestJoin e) w (on_request_join sv e w)"
  using good
  by (auto simp: on_request_join_def world_good_def split: sum.split option.split
      intro!: notified_nothing notices)

lemma plain_notified:
  assumes good: "world_good ids sv w"
  shows "notified ids sv (EvInvite i) w (on_invite sv i w)"
    "notified ids sv (EvPoke p) w (on_poke p w)"
    "notified ids sv (EvNameChange n) w (on_name_change n w)"
    "on_essence e w = (w', e') \<Longrightarrow> notified ids sv (EvEssence e) w w'"
    "notified ids sv (EvSpecialTitle t) w (on_special_title t w)"
    "notified ids sv (EvMemberEnter m) w (on_member_enter m w)"
    "notified ids sv (EvFriendPoke fp) w (on_friend_poke fp w)"
    "notified ids sv (EvBotRename b) w (on_bot_rename b w)"
  using good
  by (auto simp: simple_notices intro!: notices dest: stranger_fast_untrue)

lemma chain_notice:
  assumes "same_place (mc_typ c) (mc_typ d)"
  shows "\<exists>n. publish_chain d w = publish n w \<and> claims (EvPushMessage (Some c)) n = Some []"
proof (cases "mc_typ d")
  case (MsgGroup g)
  then have "is_group c" "is_group d"
    using assms by (auto simp: same_place_def is_group_def split: MessageType.split_asm)
  then show ?thesis
    using MsgGroup by (intro exI [of _ "ToGroup (GroupMessage d)"]) (simp add: publish_chain_def claim_chain_def)
next
  case (MsgFriend f)
  then have "is_friend c" "is_friend d"
    using assms by (auto simp: same_place_def is_friend_def split: MessageType.split_asm)
  then show ?thesis
    using MsgFriend by (intro exI [of _ "ToFriend (FriendMessage d)"]) (simp add: publish_chain_def claim_chain_def)
next
  case MsgTemp
  then have "mc_typ c = MsgTemp" using assms by (simp add: same_place_def split: MessageType.split_asm)
  then show ?thesis
    using MsgTemp by (intro exI [of _ "ToSystem (SysTempMessage d)"]) (simp add: publish_chain_def claim_chain_def)
next
  case MsgNone
  then have "mc_typ c = MsgNone" using assms by (simp add: same_place_def split: MessageType.split_asm)
  then show ?thesis using MsgNone by (intro exI [of _ NoNotice]) (simp add: publish_chain_def)
qed

lemma push_notified:
  assumes "on_push_message sv mc w = Some (w', e')" and good: "world_good ids sv w"
  shows "notified ids sv (EvPushMessage mc) w w' \<and> e' = EvPushMessage None"
proof (cases mc)
  case None
  then show ?thesis
    using assms by (auto simp: on_push_message_def intro!: notifiedI [where n = NoNotice])
next
  case (Some c)
  then obtain u v c1 d where u: "resolve_incoming_chain sv c w = Some (u, c1)"
    and v: "resolve_chain_metadata sv c1 u = Some (v, d)" and w': "w' = publish_chain d v"
    and e': "e' = EvPushMessage None"
    using assms(1) by (auto simp: on_push_message_def bind_eq_Some_conv)
  note 1 = incoming_completed [OF u good]
  note 2 = metadata_described [OF v conjunct1 [OF 1]]
  have v': "world_good ids sv v \<and> contacts_only w v" using 1 2 contacts_only_trans by blast
  have "same_place (mc_typ c) (mc_typ d)" using 1 2 by (auto simp: described_def)
  then obtain n where "w' = publish n v" "claims (EvPushMessage (Some c)) n = Some []"
    using chain_notice w' by blast
  then show ?thesis using notifiedI [OF v'] Some e' by simp
qed


text \<open>
  C9: What the listeners are told is true. Let the server say only true things about which account
  number belongs to which uid, and let the cache be true. Then, when \<open>messaging_logic\<close> has handled an
  incoming event, the cache is still true, and apart from the contacts the world differs by at most one
  notification: of the event's kind and group, with the account number 0 or the number that belongs to
  the uid in the event for each uid it translates.
\<close>

theorem notifications_true:
  assumes "messaging_logic_incoming sv event w = Some (w', event')" and "world_good ids sv w"
  shows "notified ids sv event w w'"
  using assms plain_notified [OF assms(2)] lookup_notified [OF assms(2)] member_change_notified [OF assms(2)]
    recall_notified join_notified [OF assms(2)] push_notified [OF _ assms(2)] notified_nothing [OF assms(2)]
  by (cases event) (auto simp: keeping_def)


text \<open>
  C15: Only links, information and an empty uid are completed. When a pushed chain is handled, the
  chain that is published has the same entities in the same order, each at most with another link (an
  image that has a key in its link keeps it, and only a forwarded record without chains gets some); it
  is in the same place; its uid is the one it had or, if it had none, one that belongs to the peer;
  all other fields are the same. The event is left without its chain.
\<close>

theorem pushed_chain_completed:
  assumes "on_push_message sv (Some c) w = Some (w', event')" and "world_good ids sv w"
  shows "event' = EvPushMessage None \<and>
    (\<exists>v es d. contacts_only w v \<and> w' = publish_chain d v \<and> list_all2 completed (mc_entities c) es \<and>
       described ids (chain_peer w c) (set_entities es c) d)"
proof -
  obtain u v c1 d where u: "resolve_incoming_chain sv c w = Some (u, c1)"
    and v: "resolve_chain_metadata sv c1 u = Some (v, d)" and w': "w' = publish_chain d v"
    and e': "event' = EvPushMessage None"
    using assms(1) by (auto simp: on_push_message_def bind_eq_Some_conv)
  note 1 = incoming_completed [OF u assms(2)]
  note 2 = metadata_described [OF v conjunct1 [OF 1]]
  obtain es where es: "c1 = set_entities es c" "list_all2 completed (mc_entities c) es" using 1 by blast
  have "chain_peer u c1 = chain_peer w c"
    using 1 es(1) by (auto simp: chain_peer_def is_group_def contacts_only_def)
  then show ?thesis using 1 2 es w' e' contacts_only_trans by metis
qed

section \<open>From the sender to the listeners\<close>

text \<open>
  The registries with the parser of pushed messages and all three logic handlers. \<open>inventory\<close> leaves
  the order of the registrations open: \<open>items\<close> are those of \<open>client_items\<close>, in some order.
\<close>

definition client_items :: "logic_server \<Rightarrow> (event_tag \<times> logic_handler) list" where
  "client_items sv = registered_logic (ls_contacts sv) @ registered_messaging sv"

definition PUSH_COMMAND :: rstring where
  "PUSH_COMMAND = str ''trpc.msg.olpush.OlPushService.MsgPush''"

definition push_parser ::
    "msg_env \<Rightarrow> push_codec \<Rightarrow> bytes \<Rightarrow> logic_world
      \<Rightarrow> (logic_world \<times> (EventError + logic_event ce_parse)) option" where
  "push_parser env pc bs w =
     do { (ctx, r) \<leftarrow> PushMessage_parse env pc bs (lw_context w); Some (w\<lparr>lw_context := ctx\<rparr>, r) }"

definition client_env ::
    "(event_tag \<times> logic_handler) list \<Rightarrow> msg_env \<Rightarrow> push_codec
      \<Rightarrow> (rstring \<rightharpoonup> (bytes \<Rightarrow> logic_world \<Rightarrow> (logic_world \<times> (EventError + logic_event ce_parse)) option))
      \<Rightarrow> (logic_event, logic_world) logic_env" where
  "client_env items env pc parsers =
     \<lparr>EVENT_MAP = parsers(PUSH_COMMAND \<mapsto> push_parser env pc),
      LOGIC_MAP = (\<lambda>e. logic_map items (tag_of e))\<rparr>"

text \<open>Entities with nothing to fetch.\<close>

fun plain_entity :: "Entity \<Rightarrow> bool" where
  "plain_entity (EImage _) = False"
| "plain_entity (EMultiMsg _ _) = False"
| "plain_entity (EFile _) = False"
| "plain_entity (ERecord _) = False"
| "plain_entity (EVideo _) = False"
| "plain_entity _ = True"

lemma resolve_plain: "list_all plain_entity es \<Longrightarrow> resolve_entities sv c es w = Some (w, es)"
proof (induction es)
  case (Cons e es)
  then have "resolve_entity sv c e w = Some (w, e)" by (cases e) (simp_all add: resolve_entity_def)
  then show ?case using Cons by simp
qed simp

lemma set_same_entities [simp]: "set_entities (mc_entities c) c = c"
  by (cases c) simp

text \<open>\<open>LOGIC_MAP\<close> has, for each type, the handlers registered for it, in order.\<close>

lemma logic_map_filter:
  "logic_map items tid = (case map snd (filter (\<lambda>(t, h). t = tid) items) of [] \<Rightarrow> None | hs \<Rightarrow> Some hs)"
proof (induction items)
  case (Cons item items)
  then show ?case by (cases item) (auto split: list.split)
qed simp

lemma mset_one: "mset xs = {#a#} \<longleftrightarrow> xs = [a]"
  by auto

lemma mset_two: "mset xs = {#a, b#} \<Longrightarrow> xs = [a, b] \<or> xs = [b, a]"
  by (cases xs) (auto simp: add_eq_conv_ex mset_one)

text \<open>The handlers of a type, up to their order.\<close>

definition handlers_for :: "(event_tag \<times> logic_handler) list \<Rightarrow> event_tag \<Rightarrow> logic_handler list" where
  "handlers_for items tid = map snd (filter (\<lambda>(t, h). t = tid) items)"

lemma logic_map_handlers:
  "handlers_for items tid = h # hs \<Longrightarrow> logic_map items tid = Some (h # hs)"
  by (simp add: logic_map_filter handlers_for_def del: logic_map.simps)

lemma mset_handlers:
  "mset items = mset items' \<Longrightarrow> mset (handlers_for items tid) = mset (handlers_for items' tid)"
  by (simp add: handlers_for_def)

lemma client_item_handlers:
  "handlers_for (client_items sv) TagPushMessage = [messaging_logic sv]"
  "handlers_for (client_items sv) TagSendMessage = [messaging_logic sv]"
  "handlers_for (client_items sv) TagIncrease = [caching_logic (ls_contacts sv), messaging_logic sv]"
  by (simp_all add: handlers_for_def client_items_def registered_logic_def registered_messaging_def)

lemma client_handlers:
  assumes "mset items = mset (client_items sv)"
  shows "LOGIC_MAP (client_env items env pc parsers) (EvPushMessage c) = Some [messaging_logic sv]"
    and "LOGIC_MAP (client_env items env pc parsers) (EvSendMessage m r) = Some [messaging_logic sv]"
    and "logic_map items TagIncrease = Some [caching_logic (ls_contacts sv), messaging_logic sv]
      \<or> logic_map items TagIncrease = Some [messaging_logic sv, caching_logic (ls_contacts sv)]"
proof -
  note * = mset_handlers [OF assms]
  have "handlers_for items TagPushMessage = [messaging_logic sv]"
    "handlers_for items TagSendMessage = [messaging_logic sv]"
    using * [of TagPushMessage] * [of TagSendMessage] by (simp_all add: client_item_handlers)
  then show "LOGIC_MAP (client_env items env pc parsers) (EvPushMessage c) = Some [messaging_logic sv]"
    "LOGIC_MAP (client_env items env pc parsers) (EvSendMessage m r) = Some [messaging_logic sv]"
    by (simp_all add: client_env_def logic_map_handlers del: logic_map.simps)
  have "mset (handlers_for items TagIncrease) = {#caching_logic (ls_contacts sv), messaging_logic sv#}"
    using * [of TagIncrease] by (simp add: client_item_handlers)
  then show "logic_map items TagIncrease = Some [caching_logic (ls_contacts sv), messaging_logic sv]
      \<or> logic_map items TagIncrease = Some [messaging_logic sv, caching_logic (ls_contacts sv)]"
    using mset_two logic_map_handlers by metis
qed

lemma client_parser: "EVENT_MAP (client_env items env pc parsers) PUSH_COMMAND = Some (push_parser env pc)"
  by (simp add: client_env_def)

lemma sso_command_sequence [simp]: "sso_command (with_sequence ty command q payload) = command"
  by (simp add: with_sequence_def)

lemma dispatch_push:
  assumes "mset items = mset (client_items sv)"
  shows "dispatch_logic (client_env items env pc parsers) InComing w (EvPushMessage c)
     = map_option (\<lambda>(w, event). (w, event, Inr ())) (on_push_message sv c w)"
  by (cases "on_push_message sv c w")
    (auto simp: dispatch_logic_def client_handlers [OF assms] messaging_logic_def)

lemma parse_group_chain:
  assumes "from_elems env (rich_elems body) = Some es"
    and "pm_response_head body = Some rh" "pm_content_head body = Some ch" "re_grp rh = Some grp"
  shows "\<exists>c member. parse_chain env ctx body = Some (Inr c) \<and> mc_entities c = es
    \<and> mc_typ c = MsgGroup \<lparr>gm_group_uin = ucast (or_zero (rg_group_code grp)), gm_group_member_info = member\<rparr>
    \<and> mc_friend_uin c = re_from_uin rh \<and> mc_sequence c = or_zero (ch_sequence ch)"
proof -
  obtain ex where "extras_of (rich_elems body) = Some ex" using extras_of_total by blast
  then show ?thesis
    using assms
    by (cases "cfg_fetch_group_member_strategy (ctx_config ctx)") (auto simp: parse_chain_def Let_def)
qed

text \<open>
  C5: A message reaches the listeners of the other side. Take a chain that can be sent and read back
  into entities with nothing to fetch, and let the server push the body that is built for it as a
  message in a group. When the receiver, who does not look up the members of groups, processes the
  packet, its group listeners get the message: with the entities as they read back, the group, the
  sender's number and the sequence of the packet's heads; nothing else in its world changes, and the
  event that remains has no chain.
\<close>

theorem group_message_delivered:
  assumes registered: "mset items = mset (client_items sv)"
    and "list_all (codecs_work env) (mc_entities c)"
    and "sequence (map (read_back env) (mc_entities c)) = Some bs" and "list_all plain_entity (concat bs)"
    and "message_build env now c = Some msg"
    and "pc_push_msg pc d = Some (Some body)" and "fits32 d"
    and "pm_body body = ms_body msg" and "pm_response_head body = Some rh"
    and "pm_content_head body = Some ch" and "ch_type ch = 82" and "re_grp rh = Some grp"
    and "cfg_fetch_group_member_strategy (ctx_config (lw_context w)) = StrategySimple"
  shows "\<exists>c' member. process_packet (client_env items env pc parsers) (with_sequence T12 PUSH_COMMAND q (frame32 d)) w
      = Some (publish_group (GroupMessage c') w, Inr (EvPushMessage None, None))
    \<and> watch_poll (lw_group (publish_group (GroupMessage c') w)) (wch_version (lw_group w))
      = Some (wch_version (lw_group w) + 1, Some (GroupMessage c'))
    \<and> mc_entities c' = concat bs \<and> mc_friend_uin c' = re_from_uin rh \<and> mc_sequence c' = or_zero (ch_sequence ch)
    \<and> mc_typ c' = MsgGroup \<lparr>gm_group_uin = ucast (or_zero (rg_group_code grp)), gm_group_member_info = member\<rparr>"
proof -
  obtain elems where el: "pack_elements env (mc_entities c) = Some elems"
    and rb: "from_elems env elems = Some (concat bs)" and fc: "first_content (mc_entities c) = Some None"
    using entities_read_back [OF assms(2,3)] by blast
  have "ms_body msg = Some \<lparr>mb_rich_text = Some elems, mb_msg_content = None\<rparr>"
    using assms(5) el fc by (auto simp: message_build_def build_packet_base_def)
  then have "from_elems env (rich_elems body) = Some (concat bs)" using assms(8) rb by (simp add: rich_elems_def)
  from parse_group_chain [OF this assms(9,10,12), of "lw_context w"] obtain c' member
    where c': "parse_chain env (lw_context w) body = Some (Inr c')" "mc_entities c' = concat bs"
      "mc_typ c' = MsgGroup \<lparr>gm_group_uin = ucast (or_zero (rg_group_code grp)), gm_group_member_info = member\<rparr>"
      "mc_friend_uin c' = re_from_uin rh" "mc_sequence c' = or_zero (ch_sequence ch)" by blast
  have "PushMessage_parse env pc d (lw_context w) = Some (lw_context w, Inr (EvPushMessage (Some c'), None))"
    using assms(6,10,11) c'(1)
    by (simp add: PushMessage_parse_def PkgType_try_from_def is_chat_def chain_result_def)
  then have parse: "push_parser env pc d w = Some (w, Inr (EvPushMessage (Some c'), None))"
    by (simp add: push_parser_def)
  have "set_entities (concat bs) c' = c'" using set_same_entities [of c'] c'(2) by simp
  then have "on_push_message sv (Some c') w = Some (publish_group (GroupMessage c') w, EvPushMessage None)"
    using resolve_plain [OF assms(4), of sv c' w] c' assms(13)
    by (simp add: on_push_message_def resolve_incoming_chain_def resolve_chain_metadata_def
        publish_chain_def)
  then have "process_packet (client_env items env pc parsers) (with_sequence T12 PUSH_COMMAND q (frame32 d)) w
      = Some (publish_group (GroupMessage c') w, Inr (EvPushMessage None, None))"
    using parse event_payload_frame32 [OF assms(7), of T12 PUSH_COMMAND q]
    by (simp add: process_packet_def resolve_event_def dispatch_push [OF registered] event_err_def client_parser)
  then show ?thesis
    using c' by (auto simp: watch_poll_def publish_group_def watch_send_def)
qed


text \<open>The handlers of a member who joined: the cache and the notification, in either order.\<close>

lemma refresh_half:
  assumes "refresh_group_members_cache sv g s = Some (t, r)" and "ca_mode (cs_cache s) = Half"
  shows "ca_mode (cs_cache t) = Half \<and> ca_uid2uin (cs_cache t) = ca_uid2uin (cs_cache s)"
proof -
  obtain n ms q where "iter_fetch_group sv g members_process (cs_reqs s) [] = Some (n, ms, q)"
    using assms by (auto simp: refresh_group_members_cache_def bind_eq_Some_conv)
  then show ?thesis
    using assms by (cases q) (auto simp: refresh_group_members_cache_def bind_eq_Some_conv Let_def)
qed

lemma refresh_wf:
  assumes "refresh_group_members_cache sv g s = Some (t, r)"
    and "cache_wf (cs_cache s)" and "ca_mode (cs_cache s) = Half"
  shows "cache_wf (cs_cache t)"
proof -
  obtain n ms q where "iter_fetch_group sv g members_process (cs_reqs s) [] = Some (n, ms, q)"
    using assms by (auto simp: refresh_group_members_cache_def bind_eq_Some_conv)
  then show ?thesis
    using assms
    by (cases q) (auto simp: refresh_group_members_cache_def bind_eq_Some_conv Let_def cache_wf_def)
qed

lemma half_lookup:
  assumes "ca_mode (cs_cache s) = Half" "ca_uid2uin (cs_cache s) = None"
    and "ca_members (cs_cache s) = Some m" "m g = Some ms"
  shows "uid2uin sv uid (Some g) s = Some (s, ok_or (generic ''Member not found'')
    (map_option bgm_uin (find (\<lambda>m. bgm_uid m = uid) ms)))"
  using assms
  by (simp add: uid2uin_def then_op_def load_group_def group_missing_def resolve_uid2uin_within_cache_def)

lemma ok_of_ok_or [simp]: "ok_of (ok_or e x) = x"
  by (cases x) (simp_all add: ok_of_def)

lemma notice_processed:
  assumes registered: "mset items = mset (client_items sv)" and "fits32 d"
    and "PushMessage_parse env pc d (lw_context w) = Some (lw_context w, Inr (EvPushMessage None, Some [e]))"
    and "dispatch_logic (client_env items env pc parsers) InComing w e = Some (w', e', Inr ())"
  shows "process_packet (client_env items env pc parsers) (with_sequence T12 PUSH_COMMAND q (frame32 d)) w
    = Some (w', Inr (EvPushMessage None, Some [e']))"
proof -
  have "push_parser env pc d w = Some (w, Inr (EvPushMessage None, Some [e]))"
    using assms(3) by (simp add: push_parser_def)
  then show ?thesis
    using event_payload_frame32 [OF assms(2), of T12 PUSH_COMMAND q] assms(4)
    by (simp add: process_packet_def resolve_event_def dispatch_push [OF registered] event_err_def client_parser on_push_message_def)
qed

text \<open>The members on a sequence of pages.\<close>

abbreviation page_members :: "FetchMembersEvent list \<Rightarrow> BotGroupMember list" where
  "page_members es \<equiv> concat (map fme_group_members es)"

text \<open>The inviter is looked up in the group as it is cached, or else as it is loaded for this.\<close>

lemma increase_step:
  assumes "cache_wf (cs_cache s)" and "ca_mode (cs_cache s) = Half"
    and "\<And>n. serves (co_members (ls_contacts sv) (gsi_group_uin i)) fme_token None n (pages n)"
    and "ca_members (cs_cache s) = Some m"
  shows "\<exists>t. on_increase sv i (w\<lparr>lw_contacts := s\<rparr>) = Some (publish_group (GroupMemberIncrease
          \<lparr>gmi_group_uin = gsi_group_uin i, gmi_member_uin = stranger_fast sv (gsi_member_uid i),
           gmi_invitor_uin = map_option bgm_uin (find (\<lambda>m. bgm_uid m = or_empty (gsi_invitor_uid i))
             (case m (gsi_group_uin i) of Some ms \<Rightarrow> ms | None \<Rightarrow> page_members (pages (cs_reqs s)))),
           gmi_event_type = gsi_event_type i\<rparr>) (w\<lparr>lw_contacts := t\<rparr>),
        EvIncrease (i\<lparr>gsi_event_type := IncreaseUnknown\<rparr>))
    \<and> (case m (gsi_group_uin i) of Some ms \<Rightarrow> t = s | None \<Rightarrow> cache_wf (cs_cache t) \<and> ca_mode (cs_cache t) = Half
        \<and> cs_reqs t = cs_reqs s + length (pages (cs_reqs s))
        \<and> ca_members (cs_cache t) = Some (m(gsi_group_uin i \<mapsto> page_members (pages (cs_reqs s)))))"
proof -
  let ?g = "gsi_group_uin i"
  have u: "ca_uid2uin (cs_cache s) = None" using assms(1,2) by (auto simp: cache_wf_def)
  show ?thesis
  proof (cases "m ?g")
    case (Some ms)
    then show ?thesis
      using half_lookup [OF assms(2) u assms(4)] by (simp add: on_increase_def world_uin_opt_def world_uin_def)
  next
    case None
    obtain t where t: "refresh_group_members_cache (ls_contacts sv) ?g s = Some (t, Inr ())"
      "cs_reqs t = cs_reqs s + length (pages (cs_reqs s))"
      "ca_members (cs_cache t) = Some (m(?g \<mapsto> page_members (pages (cs_reqs s))))"
      using refresh_members_exact [OF assms(1) _ assms(3)] assms(2,4) by auto
    note half = refresh_half [OF t(1) assms(2)]
    have "uid2uin (ls_contacts sv) uid (Some ?g) s = uid2uin (ls_contacts sv) uid (Some ?g) t" for uid
      using t None assms(2,4) half u
      by (simp add: uid2uin_def then_op_def load_group_def group_missing_def)
    then have "uid2uin (ls_contacts sv) uid (Some ?g) s = Some (t, ok_or (generic ''Member not found'')
        (map_option bgm_uin (find (\<lambda>m. bgm_uid m = uid) (page_members (pages (cs_reqs s))))))" for uid
      using half_lookup [OF conjunct1 [OF half] _ t(3)] half u by simp
    then show ?thesis
      using None t refresh_wf [OF t(1) assms(1,2)] half
      by (intro exI [of _ t]) (simp add: on_increase_def world_uin_opt_def world_uin_def)
  qed
qed

text \<open>
  C16: Somebody joins a group. Let a pushed packet be the notification of a new member, the cache hold
  the contacts without the table of identities, and the server answer every request for the group's
  members with a sequence of pages. In whatever order the handlers are registered, processing the packet
  caches the members of all pages and tells the group listeners the group, the number of the new member (0
  if it is not found), the kind of the change and the number of the inviter; what is left of the event
  has no kind. The inviter is looked up among the members just loaded if \<open>caching_logic\<close> comes first; if
  \<open>messaging_logic\<close> does, among the members that were cached before, and only if there were none the
  members are loaded for it (and then once more for the cache).
\<close>

theorem join_notice_delivered:
  assumes "mset items = mset (client_items sv)" and "fits32 d"
    and "PushMessage_parse env pc d (lw_context w) = Some (lw_context w, Inr (EvPushMessage None, Some [EvIncrease i]))"
    and "cache_wf (cs_cache (lw_contacts w))" and "ca_mode (cs_cache (lw_contacts w)) = Half"
    and "\<And>n. serves (co_members (ls_contacts sv) (gsi_group_uin i)) fme_token None n (pages n)"
  shows "\<exists>t m seen n. process_packet (client_env items env pc parsers) (with_sequence T12 PUSH_COMMAND q (frame32 d)) w
      = Some (publish_group (GroupMemberIncrease
          \<lparr>gmi_group_uin = gsi_group_uin i, gmi_member_uin = stranger_fast sv (gsi_member_uid i),
           gmi_invitor_uin = map_option bgm_uin (find (\<lambda>m. bgm_uid m = or_empty (gsi_invitor_uid i)) seen),
           gmi_event_type = gsi_event_type i\<rparr>) (w\<lparr>lw_contacts := t\<rparr>),
        Inr (EvPushMessage None, Some [EvIncrease (i\<lparr>gsi_event_type := IncreaseUnknown\<rparr>)]))
    \<and> ca_members (cs_cache (lw_contacts w)) = Some m
    \<and> ca_members (cs_cache t) = Some (m(gsi_group_uin i \<mapsto> page_members (pages n)))
    \<and> (let first = cs_reqs (lw_contacts w) in
       logic_map items TagIncrease = Some [caching_logic (ls_contacts sv), messaging_logic sv]
         \<and> seen = page_members (pages n) \<and> n = first
       \<or> logic_map items TagIncrease = Some [messaging_logic sv, caching_logic (ls_contacts sv)]
         \<and> (case m (gsi_group_uin i) of
              Some old \<Rightarrow> seen = old \<and> n = first
            | None \<Rightarrow> seen = page_members (pages first) \<and> n = first + length (pages first)))"
proof -
  let ?g = "gsi_group_uin i" and ?s = "lw_contacts w"
  let ?c = "caching_logic (ls_contacts sv)" and ?m = "messaging_logic sv"
  let ?env = "client_env items env pc parsers"
  note steps = dispatch_logic_def client_env_def caching_logic_def caching_logic_incoming_def
    refresh_logged_def messaging_logic_def
  obtain m where m: "ca_members (cs_cache ?s) = Some m" using assms(4,5) by (auto simp: cache_wf_def)
  from client_handlers(3) [OF assms(1)] show ?thesis
  proof
    assume order: "logic_map items TagIncrease = Some [?c, ?m]"
    obtain t where t: "refresh_group_members_cache (ls_contacts sv) ?g ?s = Some (t, Inr ())"
      "ca_members (cs_cache t) = Some (m(?g \<mapsto> page_members (pages (cs_reqs ?s))))"
      using refresh_members_exact [OF assms(4) _ assms(6)] assms(5) m by auto
    from increase_step [OF refresh_wf [OF t(1) assms(4,5)] conjunct1 [OF refresh_half [OF t(1) assms(5)]] assms(6) t(2), of w]
    have "dispatch_logic ?env InComing w (EvIncrease i) = Some (publish_group (GroupMemberIncrease
          \<lparr>gmi_group_uin = ?g, gmi_member_uin = stranger_fast sv (gsi_member_uid i),
           gmi_invitor_uin = map_option bgm_uin (find (\<lambda>m. bgm_uid m = or_empty (gsi_invitor_uid i))
             (page_members (pages (cs_reqs ?s)))),
           gmi_event_type = gsi_event_type i\<rparr>) (w\<lparr>lw_contacts := t\<rparr>),
        EvIncrease (i\<lparr>gsi_event_type := IncreaseUnknown\<rparr>), Inr ())"
      using t order by (auto simp: steps)
    from notice_processed [OF assms(1,2,3) this] show ?thesis
      unfolding Let_def using m t(2) order by blast
  next
    assume order: "logic_map items TagIncrease = Some [?m, ?c]"
    let ?seen = "case m ?g of Some ms \<Rightarrow> ms | None \<Rightarrow> page_members (pages (cs_reqs ?s))"
    let ?n = "case m ?g of Some _ \<Rightarrow> cs_reqs ?s | None \<Rightarrow> cs_reqs ?s + length (pages (cs_reqs ?s))"
    obtain u where inc: "on_increase sv i w = Some (publish_group (GroupMemberIncrease
          \<lparr>gmi_group_uin = ?g, gmi_member_uin = stranger_fast sv (gsi_member_uid i),
           gmi_invitor_uin = map_option bgm_uin (find (\<lambda>m. bgm_uid m = or_empty (gsi_invitor_uid i)) ?seen),
           gmi_event_type = gsi_event_type i\<rparr>) (w\<lparr>lw_contacts := u\<rparr>),
        EvIncrease (i\<lparr>gsi_event_type := IncreaseUnknown\<rparr>))"
      and u: "case m ?g of Some ms \<Rightarrow> u = ?s | None \<Rightarrow> cache_wf (cs_cache u) \<and> ca_mode (cs_cache u) = Half
        \<and> cs_reqs u = cs_reqs ?s + length (pages (cs_reqs ?s))
        \<and> ca_members (cs_cache u) = Some (m(?g \<mapsto> page_members (pages (cs_reqs ?s))))"
      using increase_step [OF assms(4,5,6) m, of w] by auto
    have wf: "cache_wf (cs_cache u)" "ca_mode (cs_cache u) = Half" "cs_reqs u = ?n"
      using u assms(4,5) by (auto split: option.splits)
    obtain t where t: "refresh_group_members_cache (ls_contacts sv) ?g u = Some (t, Inr ())"
      "ca_members (cs_cache t) = Some (m(?g \<mapsto> page_members (pages ?n)))"
      using refresh_members_exact [OF wf(1) _ assms(6)] wf u m by (auto split: option.splits)
    have "dispatch_logic ?env InComing w (EvIncrease i) = Some (publish_group (GroupMemberIncrease
          \<lparr>gmi_group_uin = ?g, gmi_member_uin = stranger_fast sv (gsi_member_uid i),
           gmi_invitor_uin = map_option bgm_uin (find (\<lambda>m. bgm_uid m = or_empty (gsi_invitor_uid i)) ?seen),
           gmi_event_type = gsi_event_type i\<rparr>) (w\<lparr>lw_contacts := t\<rparr>),
        EvIncrease (i\<lparr>gsi_event_type := IncreaseUnknown\<rparr>), Inr ())"
      using t order inc by (auto simp: steps publish_group_def)
    note p = notice_processed [OF assms(1,2,3) this]
    show ?thesis
      unfolding Let_def using p m t(2) order
      by (intro exI [of _ t] exI [of _ m] exI [of _ ?seen] exI [of _ ?n]) (simp split: option.split)
  qed
qed


section \<open>Sending\<close>

lemma dispatch_send:
  assumes "mset items = mset (client_items sv)"
  shows "dispatch_logic (client_env items env pc parsers) OutGoing w (EvSendMessage c res)
     = messaging_logic_outgoing sv (EvSendMessage c res) w"
proof (cases "messaging_logic_outgoing sv (EvSendMessage c res) w")
  case (Some x)
  then show ?thesis
    by (cases x) (auto simp: dispatch_logic_def client_handlers [OF assms] messaging_logic_def split: sum.split)
qed (simp add: dispatch_logic_def client_handlers [OF assms] messaging_logic_def)

lemma outgoing_chain:
  assumes "messaging_logic_outgoing sv (EvSendMessage c res) w = Some (w', event', r)"
  shows "\<exists>v d h es q. resolve_chain_metadata sv c w = Some (v, d)
    \<and> upload_entities (world_highway sv v) (mc_typ d) (mc_uid d) (mc_entities d) (lw_highway v) = Some (h, es, q)
    \<and> w' = v\<lparr>lw_highway := h\<rparr> \<and> event' = EvSendMessage (set_entities es d) res
    \<and> r = (case q of Inl err \<Rightarrow> Inl (BusinessGenericError (ls_error_text sv err)) | Inr _ \<Rightarrow> Inr ())"
  using assms by (auto simp: messaging_logic_outgoing_def resolve_outgoing_chain_def bind_eq_Some_conv)

text \<open>What \<open>send_event\<close> does with a message after the handler.\<close>

lemma send_message_outcome:
  assumes registered: "mset items = mset (client_items sv)"
    and "send_event (client_env items env pc parsers) build rid q posted (EvSendMessage c res) s
      = Some (s', event', r)"
  obtains w1 r1 where "messaging_logic_outgoing sv (EvSendMessage c res) (bz_world s) = Some (w1, event', r1)"
    and "case r1 of Inl e \<Rightarrow> s' = s\<lparr>bz_world := w1\<rparr> \<and> r = Inl e
      | Inr _ \<Rightarrow> \<exists>w p. build w1 event' = Some (w, p) \<and>
             (s', r) = (case event_err p of
                Inl e \<Rightarrow> (s\<lparr>bz_world := w\<rparr>, Inl e)
              | Inr _ \<Rightarrow> (send_packet rid q posted (s\<lparr>bz_world := w\<rparr>), post_result posted))"
proof -
  obtain w1 e1 r1 where o: "messaging_logic_outgoing sv (EvSendMessage c res) (bz_world s) = Some (w1, e1, r1)"
    using assms(2) by (auto simp: send_event_def dispatch_send [OF registered] bind_eq_Some_conv)
  show ?thesis
  proof (cases r1)
    case (Inl e)
    then show ?thesis using that [of w1 r1] o assms(2) by (auto simp: send_event_def dispatch_send [OF registered])
  next
    case (Inr x)
    then obtain w p where b: "build w1 e1 = Some (w, p)"
      and c: "(case event_err p of
              Inl e \<Rightarrow> Some (s\<lparr>bz_world := w\<rparr>, e1, Inl e)
            | Inr _ \<Rightarrow> Some (send_packet rid q posted (s\<lparr>bz_world := w\<rparr>), e1, post_result posted))
          = Some (s', event', r)"
      using o assms(2) by (auto simp: send_event_def dispatch_send [OF registered] bind_eq_Some_conv)
    from c have "e1 = event'" "(s', r) = (case event_err p of
              Inl e \<Rightarrow> (s\<lparr>bz_world := w\<rparr>, Inl e)
            | Inr _ \<Rightarrow> (send_packet rid q posted (s\<lparr>bz_world := w\<rparr>), post_result posted))"
      by (cases "event_err p"; simp)+
    then show ?thesis using that [of w1 r1] b o Inr by auto
  qed
qed

text \<open>
  C10: A message is sent only when all its media are uploaded. When \<open>send_event\<close> returns for a message,
  the chain is described first (information on the peer, and an empty uid filled with one of the
  peer's). Then either every entity was uploaded, in order, for this place and uid: each medium of a
  chain with a place carries its media information, every new transfer went well (it sent the whole file,
  if its size is the one announced), and what follows is what \<open>send_event\<close> does with the built packet. Or one upload failed: those before it are
  done, it has no new media information, those after it are as they were, the caller gets the text of
  its error, and no packet is built or posted.
\<close>

theorem sent_after_uploads:
  assumes registered: "mset items = mset (client_items sv)"
    and "send_event (client_env items env pc parsers) build rid q posted (EvSendMessage c res) s
      = Some (s', event', r)"
    and "world_good ids sv (bz_world s)"
  shows "\<exists>v d h es. contacts_only (bz_world s) v \<and> world_good ids sv v
    \<and> described ids (chain_peer (bz_world s) c) c d \<and> event' = EvSendMessage (set_entities es d) res
    \<and> (let upload = upload_entity (world_highway sv v) (mc_typ d) (mc_uid d) in
       (upload_each upload (mc_entities c) (lw_highway v) = Some (h, es, Inr ())
        \<and> list_all2 (\<lambda>e e'. mc_typ d \<noteq> MsgNone \<and> is_media e \<longrightarrow> media_info e' \<noteq> None) (mc_entities c) es
        \<and> grows True (lw_highway v) h
        \<and> (\<exists>w p. build (v\<lparr>lw_highway := h\<rparr>) event' = Some (w, p) \<and>
             (s', r) = (case event_err p of
                Inl e \<Rightarrow> (s\<lparr>bz_world := w\<rparr>, Inl e)
              | Inr _ \<Rightarrow> (send_packet rid q posted (s\<lparr>bz_world := w\<rparr>), post_result posted))))
       \<or> (\<exists>ok e rest ok' e' u err. mc_entities c = ok @ e # rest \<and> es = ok' @ e' # rest
        \<and> upload_each upload ok (lw_highway v) = Some (u, ok', Inr ())
        \<and> upload e u = Some (h, e', Inl err) \<and> media_info e' = media_info e
        \<and> grows False (lw_highway v) h
        \<and> r = Inl (BusinessGenericError (ls_error_text sv err)) \<and> s' = s\<lparr>bz_world := v\<lparr>lw_highway := h\<rparr>\<rparr>))"
proof -
  obtain w1 r1 where out: "messaging_logic_outgoing sv (EvSendMessage c res) (bz_world s) = Some (w1, event', r1)"
    and rest: "case r1 of Inl e \<Rightarrow> s' = s\<lparr>bz_world := w1\<rparr> \<and> r = Inl e
      | Inr _ \<Rightarrow> \<exists>w p. build w1 event' = Some (w, p) \<and>
             (s', r) = (case event_err p of
                Inl e \<Rightarrow> (s\<lparr>bz_world := w\<rparr>, Inl e)
              | Inr _ \<Rightarrow> (send_packet rid q posted (s\<lparr>bz_world := w\<rparr>), post_result posted))"
    using send_message_outcome [OF assms(1,2)] by blast
  from outgoing_chain [OF out] obtain v d h es x where
      d: "resolve_chain_metadata sv c (bz_world s) = Some (v, d)"
    and up: "upload_entities (world_highway sv v) (mc_typ d) (mc_uid d) (mc_entities d) (lw_highway v)
        = Some (h, es, x)"
    and w1: "w1 = v\<lparr>lw_highway := h\<rparr>" and ev: "event' = EvSendMessage (set_entities es d) res"
    and r1: "r1 = (case x of Inl err \<Rightarrow> Inl (BusinessGenericError (ls_error_text sv err)) | Inr _ \<Rightarrow> Inr ())"
    by blast
  note desc = metadata_described [OF d assms(3)]
  let ?up = "upload_entity (world_highway sv v) (mc_typ d) (mc_uid d)"
  have each: "upload_each ?up (mc_entities c) (lw_highway v) = Some (h, es, x)"
    using up desc by (auto simp: upload_entities_def described_def)
  have g: "grows (\<not> isl x) (lw_highway v) h"
    using entity.each_grown each by (fastforce simp: sound_media_def)
  show ?thesis
  proof (cases x)
    case (Inr y)
    then have e: "upload_each ?up (mc_entities c) (lw_highway v) = Some (h, es, Inr ())" using each by simp
    have "list_all2 (\<lambda>e e'. mc_typ d \<noteq> MsgNone \<and> is_media e \<longrightarrow> media_info e' \<noteq> None) (mc_entities c) es"
      using entity.each_stored [OF e] by (rule list_all2_mono) blast
    then show ?thesis
      using desc ev e g Inr r1 rest w1
      by (intro exI [of _ v] exI [of _ d] exI [of _ h] exI [of _ es]) simp
  next
    case (Inl err)
    then have e: "upload_each ?up (mc_entities c) (lw_highway v) = Some (h, es, Inl err)" using each by simp
    from entity.each_error [OF e] obtain ok y tail ok' y' u where
      f: "mc_entities c = ok @ y # tail" "es = ok' @ y' # tail"
        "upload_each ?up ok (lw_highway v) = Some (u, ok', Inr ())" "?up y u = Some (h, y', Inl err)" by blast
    then have "media_info y' = media_info y" using entity.failed by blast
    then show ?thesis
      using desc ev f g Inl r1 rest w1
      unfolding Let_def
      by (intro exI [of _ v] exI [of _ d] exI [of _ h] exI [of _ es] conjI disjI2 exI [of _ ok] exI [of _ y]
          exI [of _ tail] exI [of _ ok'] exI [of _ y'] exI [of _ u] exI [of _ err]) simp_all
  qed
qed


section \<open>Witnesses\<close>

definition demo_ids :: "u32 \<Rightarrow> rstring \<Rightarrow> bool" where
  "demo_ids uin uid \<longleftrightarrow> (uin, uid) \<in> {(10, [7]), (11, [8])}"

definition demo_media_server :: media_server where
  "demo_media_server = (let e = Inl InternalEventDowncastError in
     \<lparr>sv_group_image = (\<lambda>_ _. e), sv_c2c_image = (\<lambda>_ _. e),
      sv_multi_msg = (\<lambda>_ _. Inl InternalEventDowncastError), sv_group_file = (\<lambda>_ _. e),
      sv_c2c_file = (\<lambda>_ _ _ _. Inr (Some [47])), sv_group_record = (\<lambda>_ _ _. e),
      sv_c2c_record = (\<lambda>_ _ _. e), sv_c2c_video = (\<lambda>_ _ _ _ _ _. e),
      sv_group_video = (\<lambda>_ _ _ _ _ _. e)\<rparr>)"

definition demo_sending :: highway_env where
  "demo_sending = demo_highway_env demo_video_file"

definition demo_logic_server :: logic_server where
  "demo_logic_server = \<lparr>ls_contacts = demo_server\<lparr>co_order := (\<lambda>_. [10])\<rparr>,
     ls_stranger = (\<lambda>uid. if uid = [8] then Inr 11 else Inl InternalEventDowncastError),
     ls_requests = Inr [], ls_filtered = Inr [], ls_media = demo_media_server,
     ls_highway = demo_sending, ls_error_text = (\<lambda>_. [101])\<rparr>"

definition demo_world :: "CacheMode \<Rightarrow> logic_world" where
  "demo_world mode = \<lparr>lw_contacts = \<lparr>cs_cache = Cache_new mode, cs_reqs = 0\<rparr>, lw_context = demo_context,
     lw_group = watch_channel None, lw_friend = watch_channel None, lw_system = watch_channel None,
     lw_highway = demo_highway\<rparr>"

lemma demo_world_good: "world_good demo_ids demo_logic_server (demo_world mode)"
  by (auto simp: world_good_def server_true_def demo_logic_server_def demo_server_def demo_pages_def
      demo_friend_def demo_member_def BotFriend_new_def friend_true_def member_true_def demo_ids_def
      demo_world_def good_cache_def cache_wf_new cache_true_new split: if_split_asm)

text \<open>A friend changes the name.\<close>

lemma notifications_true_witness:
  "\<exists>w'. messaging_logic_incoming demo_logic_server (EvFriendRename \<lparr>fsm_uid = [7], fsm_nickname = [65]\<rparr>)
      (demo_world NoCache) = Some (w', EvFriendRename \<lparr>fsm_uid = [7], fsm_nickname = [65]\<rparr>)
    \<and> wch_value (lw_friend w') = Some (FriendRename \<lparr>frn_uin = 10, frn_nickname = [65]\<rparr>)
    \<and> notified demo_ids demo_logic_server (EvFriendRename \<lparr>fsm_uid = [7], fsm_nickname = [65]\<rparr>)
        (demo_world NoCache) w'"
proof -
  let ?e = "EvFriendRename \<lparr>fsm_uid = [7], fsm_nickname = [65]\<rparr>"
  obtain w' where w': "messaging_logic_incoming demo_logic_server ?e (demo_world NoCache) = Some (w', ?e)"
      "wch_value (lw_friend w') = Some (FriendRename \<lparr>frn_uin = 10, frn_nickname = [65]\<rparr>)"
    by (simp add: keeping_def on_friend_rename_def world_uin_fast_def uid2uin_fast_def uid2uin_def
        demo_world_def Cache_none_def fast_fetch_friends_uin_def fast_fetch_friends_def
        iter_fetch_friends_def iter_fetch.simps demo_logic_server_def demo_server_def demo_friend_def
        BotFriend_new_def publish_friend_def watch_send_def)
  from notifications_true [OF w'(1) demo_world_good] w' show ?thesis by blast
qed

text \<open>A friend sends a file; the chain has no uid.\<close>

definition demo_file_chain :: MessageChain where
  "demo_file_chain = set_entities [EFile (FileEntity_default\<lparr>fl_extra := Some (C2CFile None None)\<rparr>)]
     (chain_friend demo_msg_env 10 [] [])"

lemma pushed_chain_completed_witness:
  "\<exists>w'. on_push_message demo_logic_server (Some demo_file_chain) (demo_world NoCache)
      = Some (w', EvPushMessage None)
    \<and> (\<exists>v es d. contacts_only (demo_world NoCache) v \<and> w' = publish_chain d v
        \<and> list_all2 completed (mc_entities demo_file_chain) es
        \<and> described demo_ids (chain_peer (demo_world NoCache) demo_file_chain)
            (set_entities es demo_file_chain) d)"
proof -
  have "\<exists>w' ev. on_push_message demo_logic_server (Some demo_file_chain) (demo_world NoCache) = Some (w', ev)"
    by (simp add: on_push_message_def demo_file_chain_def chain_friend_def resolve_incoming_chain_def
        resolve_entity_def resolve_chain_metadata_def chain_metadata_friend_def fetch_maybe_cached_friends_def
        demo_world_def Cache_none_def iter_fetch_friends_def iter_fetch.simps demo_logic_server_def
        demo_server_def Let_def)
  then obtain w' ev where w': "on_push_message demo_logic_server (Some demo_file_chain) (demo_world NoCache)
      = Some (w', ev)" by blast
  from pushed_chain_completed [OF this demo_world_good] show ?thesis using w' by simp
qed

text \<open>The text "hi" in a group.\<close>

definition demo_group_chain :: MessageChain where
  "demo_group_chain = set_entities [EText [104, 105]] (chain_group demo_msg_env 5)"

definition demo_group_head :: ResponseHead where
  "demo_group_head = \<lparr>re_from_uin = 10, re_from_uid = None, re_to_uin = 0, re_to_uid = None,
     re_grp = Some \<lparr>rg_group_code = Some 5, rg_group_card = None\<rparr>\<rparr>"

definition demo_group_body :: PushMsgBody where
  "demo_group_body = \<lparr>pm_response_head = Some demo_group_head,
     pm_content_head = Some (ContentHead_default\<lparr>ch_type := 82, ch_sequence := Some 3\<rparr>),
     pm_body = Some \<lparr>mb_rich_text = Some [text_part (Some [104, 105]) None], mb_msg_content = None\<rparr>\<rparr>"

lemma group_message_delivered_witness:
  "\<exists>c'. process_packet (client_env (client_items demo_logic_server) demo_msg_env
        (demo_push_codec\<lparr>pc_push_msg := (\<lambda>_. Some (Some demo_group_body))\<rparr>) Map.empty)
      (with_sequence T12 PUSH_COMMAND 1 (frame32 [])) (demo_world NoCache)
    = Some (publish_group (GroupMessage c') (demo_world NoCache), Inr (EvPushMessage None, None))
    \<and> mc_entities c' = [EText [104, 105]] \<and> mc_friend_uin c' = 10 \<and> mc_sequence c' = 3"
proof -
  obtain msg where msg: "message_build demo_msg_env 0 demo_group_chain = Some msg"
    "ms_body msg = Some \<lparr>mb_rich_text = Some [text_part (Some [104, 105]) None], mb_msg_content = None\<rparr>"
    by (simp add: message_build_def build_packet_base_def pack_elements_def demo_group_chain_def)
  have "\<exists>c' member. process_packet (client_env (client_items demo_logic_server) demo_msg_env
        (demo_push_codec\<lparr>pc_push_msg := (\<lambda>_. Some (Some demo_group_body))\<rparr>) Map.empty)
      (with_sequence T12 PUSH_COMMAND 1 (frame32 [])) (demo_world NoCache)
    = Some (publish_group (GroupMessage c') (demo_world NoCache), Inr (EvPushMessage None, None))
    \<and> watch_poll (lw_group (publish_group (GroupMessage c') (demo_world NoCache)))
        (wch_version (lw_group (demo_world NoCache)))
      = Some (wch_version (lw_group (demo_world NoCache)) + 1, Some (GroupMessage c'))
    \<and> mc_entities c' = concat [[EText [104, 105]]] \<and> mc_friend_uin c' = re_from_uin demo_group_head
    \<and> mc_sequence c' = or_zero (ch_sequence (ContentHead_default\<lparr>ch_type := 82, ch_sequence := Some 3\<rparr>))
    \<and> mc_typ c' = MsgGroup \<lparr>gm_group_uin = ucast (or_zero (rg_group_code
        \<lparr>rg_group_code = Some 5, rg_group_card = None\<rparr>)), gm_group_member_info = member\<rparr>"
    by (rule group_message_delivered [OF refl _ _ _ msg(1), where body = demo_group_body])
      (simp_all add: demo_group_chain_def demo_group_body_def demo_group_head_def fits32_def msg(2)
        demo_world_def demo_context_def ClientConfig_default_def)
  then show ?thesis by (auto simp: demo_group_head_def or_zero_def)
qed

text \<open>
  The member 11 joins the group 5, brought in by 10; \<open>messaging_logic\<close> is registered first, and 12 is the
  only member in the cache.
\<close>

definition demo_join_codec :: push_codec where
  "demo_join_codec = demo_push_codec\<lparr>pc_notify := demo_notify_codec\<lparr>nc_change := (\<lambda>_. Some
     \<lparr>gch_group_uin = 5, gch_member_uid = [8], gch_decrease_type = 131, gch_operator = Some [7]\<rparr>)\<rparr>\<rparr>"

definition demo_stale_world :: logic_world where
  "demo_stale_world = (demo_world Half)\<lparr>lw_contacts :=
     \<lparr>cs_cache = (Cache_new Half)\<lparr>ca_members := Some [5 \<mapsto> [demo_member 12 [9]]]\<rparr>, cs_reqs = 0\<rparr>\<rparr>"

lemma caching_not_messaging: "caching_logic cs \<noteq> messaging_logic sv"
proof
  assume eq: "caching_logic cs = messaging_logic sv"
  have "caching_logic cs (demo_world Half) (EvPoke p) InComing
      = messaging_logic sv (demo_world Half) (EvPoke p) InComing" for p
    by (simp add: eq)
  then have "wch_version (lw_group (on_poke p (demo_world Half))) = wch_version (lw_group (demo_world Half))" for p
    by (simp add: caching_logic_def caching_logic_incoming_def messaging_logic_def)
  then show False by (simp add: on_poke_def publish_group_def watch_send_def)
qed

lemma join_notice_delivered_witness:
  "\<exists>t. process_packet (client_env (rev (client_items demo_logic_server)) demo_msg_env demo_join_codec Map.empty)
      (with_sequence T12 PUSH_COMMAND 1 (frame32 [33, 0])) demo_stale_world
    = Some (publish_group (GroupMemberIncrease \<lparr>gmi_group_uin = 5, gmi_member_uin = 11,
          gmi_invitor_uin = None, gmi_event_type = IncreaseInvite\<rparr>) (demo_stale_world\<lparr>lw_contacts := t\<rparr>),
        Inr (EvPushMessage None, Some [EvIncrease \<lparr>gsi_group_uin = 5, gsi_member_uid = [8],
          gsi_invitor_uid = Some [7], gsi_event_type = IncreaseUnknown\<rparr>]))
    \<and> ca_members (cs_cache t) = Some [5 \<mapsto> [demo_member 10 [7], demo_member 11 [8]]]"
proof -
  let ?i = "\<lparr>gsi_group_uin = 5, gsi_member_uid = [8], gsi_invitor_uid = Some [7],
    gsi_event_type = IncreaseInvite\<rparr>"
  let ?items = "rev (client_items demo_logic_server)"
  let ?c = "caching_logic (ls_contacts demo_logic_server)" and ?m = "messaging_logic demo_logic_server"
  have utf8: "from_utf8 [7] = Some [7]" 
    by (simp add: from_utf8_def valid_utf8_ascii utf8_head_def byte_at_def)
  have parse: "PushMessage_parse demo_msg_env demo_join_codec [33, 0] (lw_context demo_stale_world)
      = Some (lw_context demo_stale_world, Inr (EvPushMessage None, Some [EvIncrease ?i]))"
    by (simp add: PushMessage_parse_def demo_join_codec_def demo_push_codec_def PkgType_try_from_def
        is_chat_def plain_notice_def with_stable_def extract_stable_msg_content_def msg_content_of_def
        member_increase_def decoded_def notice_result_def utf8 GroupMemberIncreaseEventType_try_from_def)
  have cache: "cache_wf (cs_cache (lw_contacts demo_stale_world))"
    "ca_mode (cs_cache (lw_contacts demo_stale_world)) = Half"
    using cache_wf_new [of Half] by (simp_all add: demo_stale_world_def demo_world_def Cache_half_def cache_wf_def)
  have pages: "serves (co_members (ls_contacts demo_logic_server) (gsi_group_uin ?i)) fme_token None n demo_pages" for n
    using demo_serves(2) by (simp add: demo_logic_server_def)
  have "handlers_for ?items TagIncrease = [?m, ?c]"
    using client_item_handlers(3) [of demo_logic_server] by (simp add: handlers_for_def flip: rev_filter rev_map)
  then have order: "logic_map ?items TagIncrease = Some [?m, ?c]" by (rule logic_map_handlers)
  have cached: "ca_members (cs_cache (lw_contacts demo_stale_world)) = Some [5 \<mapsto> [demo_member 12 [9]]]"
    by (simp add: demo_stale_world_def)
  have stranger: "stranger_fast demo_logic_server [8] = 11"
    by (simp add: stranger_fast_def stranger_uid2uin_fast_def demo_logic_server_def)
  have members: "concat (map fme_group_members demo_pages) = [demo_member 10 [7], demo_member 11 [8]]"
    by (simp add: demo_pages_def)
  have absent: "bgm_uid (demo_member 12 [9]) = [9]"
    by (simp add: demo_member_def)
  from join_notice_delivered [where items = ?items and pages = "\<lambda>_. demo_pages",
      OF _ _ parse cache pages, of Map.empty 1] show ?thesis
    by (auto simp: order caching_not_messaging caching_not_messaging [symmetric] cached Let_def fits32_def
        stranger members absent or_empty_def)
qed

text \<open>A text and a picture without data to a stranger: the picture cannot be uploaded.\<close>

definition demo_media_chain :: MessageChain where
  "demo_media_chain = set_typ MsgTemp (set_entities
     [EText [65], EImage ImageEntity_default] (chain_friend demo_msg_env 10 [7] []))"

lemma demo_upload_fails:
  "\<exists>h es. upload_entities (world_highway demo_logic_server (demo_world NoCache)) MsgTemp [7]
      [EText [65], EImage ImageEntity_default] (lw_highway (demo_world NoCache))
    = Some (h, es, Inl (generic ''No image stream found''))"
proof -
  have "world_highway demo_logic_server (demo_world NoCache) = demo_sending"
    by (simp add: world_highway_def demo_logic_server_def demo_world_def demo_sending_def demo_highway_env_def)
  moreover obtain h where "upload_c2c_image demo_sending [7] ImageEntity_default demo_highway
      = Some (h, ImageEntity_default, Inl (generic ''No image stream found''))"
    by (simp add: upload_c2c_image_def upload_image_with_def demo_sending_def demo_prepare then_media_def
        image_resolve_stream_def) (simp add: ImageEntity_default_def)
  ultimately show ?thesis
    by (simp add: upload_entities_def upload_entity_def upload_with_def map_entity_def demo_world_def)
qed

definition demo_result :: MessageResult where
  "demo_result = \<lparr>mr_message_id = 0, mr_sequence = None, mr_result = 0, mr_timestamp = 0,
     mr_client_sequence = 0\<rparr>"

lemma sent_after_uploads_witness:
  "\<exists>s' event'. send_event (client_env (client_items demo_logic_server) demo_msg_env demo_push_codec Map.empty)
      (\<lambda>w e. Some (w, Inr [])) 1 1 True (EvSendMessage demo_media_chain demo_result)
      (business_init (demo_world NoCache)) = Some (s', event', Inl (BusinessGenericError [101]))
    \<and> (\<exists>v d es. event' = EvSendMessage (set_entities es d) demo_result
        \<and> described demo_ids (chain_peer (demo_world NoCache) demo_media_chain) demo_media_chain d)"
proof -
  let ?s = "business_init (demo_world NoCache) :: (logic_event, logic_world) business"
  have good: "world_good demo_ids demo_logic_server (bz_world ?s)"
    using demo_world_good by (simp add: business_init_def)
  have c: "mc_typ demo_media_chain = MsgTemp" "mc_uid demo_media_chain = [7]"
      "mc_entities demo_media_chain = [EText [65], EImage ImageEntity_default]"
    by (simp_all add: demo_media_chain_def chain_friend_def)
  obtain h es where up: "upload_entities (world_highway demo_logic_server (demo_world NoCache)) MsgTemp [7]
      [EText [65], EImage ImageEntity_default] (lw_highway (demo_world NoCache))
    = Some (h, es, Inl (generic ''No image stream found''))"
    using demo_upload_fails by blast
  have "ls_error_text demo_logic_server = (\<lambda>_. [101])" by (simp add: demo_logic_server_def)
  then have "messaging_logic_outgoing demo_logic_server (EvSendMessage demo_media_chain demo_result) (demo_world NoCache)
      = Some ((demo_world NoCache)\<lparr>lw_highway := h\<rparr>, EvSendMessage (set_entities es demo_media_chain) demo_result,
          Inl (BusinessGenericError [101]))"
    by (simp add: messaging_logic_outgoing_def resolve_chain_metadata_def c resolve_outgoing_chain_def up)
  then obtain s' event' where s': "send_event (client_env (client_items demo_logic_server) demo_msg_env demo_push_codec Map.empty)
      (\<lambda>w e. Some (w, Inr [])) 1 1 True (EvSendMessage demo_media_chain demo_result) ?s
      = Some (s', event', Inl (BusinessGenericError [101]))"
    by (simp add: send_event_def dispatch_send [OF refl] business_init_def)
  from sent_after_uploads [OF refl s' good] show ?thesis using s' by (auto simp: business_init_def Let_def)
qed

end
