(* ===== verification/Server_Choice.thy ===== *)
theory Server_Choice
  imports Mania_Prelude "HOL-Library.Multiset"
begin

text \<open>
  The choice of the server: \<open>mania/src/core/connect.rs\<close> and \<open>core/ping.rs\<close>. What the network does is a
  parameter: the addresses of the DNS, how long a ping or a connection takes (\<open>None\<close>: it fails or takes too
  long), and the order in which the tasks of a \<open>JoinSet\<close> end. Durations are in nanoseconds. \<open>None\<close> is a panic.
\<close>

record SocketAddr =
  sad_ip :: rstring
  sad_port :: nat

record ping_env =
  pge_dns :: "bool \<Rightarrow> rstring + SocketAddr list"
  pge_icmp_client :: "rstring option"              \<comment> \<open>why there is no client\<close>
  pge_icmp :: "SocketAddr \<Rightarrow> nat option"
  pge_connect :: "SocketAddr \<Rightarrow> nat option"       \<comment> \<open>within one second\<close>
  pge_order :: "(SocketAddr \<times> nat) list \<Rightarrow> (SocketAddr \<times> nat) list"
  pge_join :: "SocketAddr \<Rightarrow> rstring option"       \<comment> \<open>why its task did not end\<close>

definition Duration_MAX :: nat where
  "Duration_MAX = (2 ^ 64 - 1) * 10 ^ 9 + (10 ^ 9 - 1)"

text \<open>\<open>result?\<close> in the order of completion: the first task that failed ends the loop.\<close>

fun join_results :: "ping_env \<Rightarrow> (SocketAddr \<times> nat) list \<Rightarrow> rstring + (SocketAddr \<times> nat) list" where
  "join_results env [] = Inr []"
| "join_results env (x # xs) =
     (case pge_join env (fst x) of
        Some e \<Rightarrow> Inl e
      | None \<Rightarrow> map_sum id (\<lambda>rs. x # rs) (join_results env xs))"

definition latency :: "(SocketAddr \<Rightarrow> nat option) \<Rightarrow> SocketAddr \<Rightarrow> nat" where
  "latency probe addr = (case probe addr of None \<Rightarrow> Duration_MAX | Some d \<Rightarrow> d)"

definition ping_with ::
    "ping_env \<Rightarrow> (SocketAddr \<Rightarrow> nat option) \<Rightarrow> SocketAddr list \<Rightarrow> rstring + (SocketAddr \<times> nat) list" where
  "ping_with env probe addrs =
     join_results env (pge_order env (map (\<lambda>addr. (addr, latency probe addr)) addrs))"

definition ping_probe :: "ping_env \<Rightarrow> SocketAddr \<Rightarrow> nat option" where
  "ping_probe env = (case pge_icmp_client env of None \<Rightarrow> pge_icmp env | Some _ \<Rightarrow> pge_connect env)"

definition ping :: "ping_env \<Rightarrow> SocketAddr list \<Rightarrow> rstring + (SocketAddr \<times> nat) list" where
  "ping env addrs = ping_with env (ping_probe env) addrs"

text \<open>The three addresses of the code; the one for IPv6 is a host name, and no \<open>SocketAddr\<close>.\<close>

definition FIXED_SERVERS :: "SocketAddr list" where
  "FIXED_SERVERS =
     [\<lparr>sad_ip = str ''183.47.102.193'', sad_port = 8080\<rparr>, \<lparr>sad_ip = str ''14.22.9.84'', sad_port = 8080\<rparr>,
      \<lparr>sad_ip = str ''119.147.190.138'', sad_port = 8080\<rparr>]"

definition optimum_server :: "ping_env \<Rightarrow> bool \<Rightarrow> bool \<Rightarrow> (rstring + SocketAddr) option" where
  "optimum_server env request_msf ipv6 =
     (if \<not> request_msf \<and> ipv6 then None
      else case (if request_msf then pge_dns env ipv6 else Inr FIXED_SERVERS) of
        Inl e \<Rightarrow> Some (Inl e)
      | Inr addrs \<Rightarrow>
          (case ping env addrs of
             Inl e \<Rightarrow> Some (Inl e)
           | Inr results \<Rightarrow>
               (case sort_key snd results of
                  [] \<Rightarrow> None
                | (addr, _) # _ \<Rightarrow> Some (Inr addr))))"

section \<open>The server chosen\<close>

lemma join_results_Inr: "join_results env xs = Inr ys \<Longrightarrow> ys = xs"
  by (induction xs arbitrary: ys) (auto simp: map_sum_def split: option.split_asm sum.split_asm)

text \<open>
  Whatever the order in which the pings end, the server chosen is one of the candidates, and no
  candidate answered faster. It may be one that did not answer at all: if none did, all count the same.
\<close>

theorem optimum_server_fastest:
  assumes "optimum_server env request_msf ipv6 = Some (Inr addr)"
    and "\<And>xs. mset (pge_order env xs) = mset xs"
  shows "\<exists>addrs. (if request_msf then pge_dns env ipv6 = Inr addrs else addrs = FIXED_SERVERS)
    \<and> addr \<in> set addrs
    \<and> (\<forall>other \<in> set addrs. latency (ping_probe env) addr \<le> latency (ping_probe env) other)"
proof -
  obtain addrs where a: "(if request_msf then pge_dns env ipv6 else Inr FIXED_SERVERS) = Inr addrs"
    using assms(1) by (auto simp: optimum_server_def split: if_split_asm sum.split_asm)
  obtain rs where r: "ping env addrs = Inr rs"
    using assms(1) a by (auto simp: optimum_server_def split: if_split_asm sum.split_asm)
  obtain d rest where s: "sort_key snd rs = (addr, d) # rest"
    using assms(1) a r by (auto simp: optimum_server_def split: if_split_asm list.split_asm)
  have "rs = pge_order env (map (\<lambda>x. (x, latency (ping_probe env) x)) addrs)"
    using join_results_Inr r by (simp add: ping_def ping_with_def)
  then have m: "set rs = (\<lambda>x. (x, latency (ping_probe env) x)) ` set addrs"
    using assms(2) by (metis list.set_map mset_eq_setD)
  have mem: "(addr, d) \<in> set rs" using s by (metis list.set_intros(1) set_sort)
  then have ad: "addr \<in> set addrs" "d = latency (ping_probe env) addr" using m by auto
  have "d \<le> latency (ping_probe env) other" if "other \<in> set addrs" for other
  proof -
    have "(other, latency (ping_probe env) other) \<in> set ((addr, d) # rest)"
      using that m s by (metis image_eqI set_sort)
    moreover have "sorted (map snd ((addr, d) # rest))" using s by (metis sorted_sort_key)
    ultimately show ?thesis by auto
  qed
  then show ?thesis using a ad by (intro exI [of _ addrs]) (auto split: if_split_asm)
qed

text \<open>Without the DNS there is no server for IPv6: the address in the code does not parse.\<close>

lemma no_fixed_ipv6_server: "optimum_server env False True = None"
  by (simp add: optimum_server_def)

end
