(* ===== verification/Online_Op.thy ===== *)
theory Online_Op
  imports Wt_Op Common_Op Event_Logic
begin

text \<open>
  Going online: \<open>InfoSyncEvent\<close> (\<open>event/system/info_sync.rs\<close>), \<open>online\<close> with its heartbeat task
  (\<open>operation/wt_op.rs\<close>), and the operations of \<open>operation/common_op.rs\<close> that only send an event, with
  \<open>FetchRKeyEvent\<close> (\<open>event/system/fetch_rkey.rs\<close>). The heartbeat is a step relation: time passes, and each
  of its timers may fire when it is due.
\<close>

section \<open>Events\<close>

record RegisterInfo =
  rgi_guid :: rstring
  rgi_kick_pc :: i32
  rgi_current_version :: rstring
  rgi_is_first_register_proxy_online :: i32
  rgi_locale_id :: i32
  rgi_device :: "rstring \<times> rstring \<times> rstring \<times> rstring \<times> rstring"
    \<comment> \<open>user, os, version of the os, vendor, os in lower case\<close>
  rgi_set_mute :: i32
  rgi_register_vendor_type :: i32
  rgi_reg_type :: i32
  rgi_business_info :: "u32 \<times> u32"
  rgi_battery_status :: i32
  rgi_field12 :: u32

text \<open>The times of the last messages are all zero, and the last three parts are defaults.\<close>

record SsoInfoSyncRequest =
  isr_sync_flag :: u32
  isr_req_random :: u32
  isr_cur_active_status :: u32
  isr_last_times :: "u64 \<times> u64 \<times> u64 \<times> u64"
  isr_register_info :: RegisterInfo

definition InfoSync_request :: "(bytes \<Rightarrow> rstring) \<Rightarrow> u32 \<Rightarrow> Context \<Rightarrow> SsoInfoSyncRequest" where
  "InfoSync_request hex rnd ctx =
     \<lparr>isr_sync_flag = 735, isr_req_random = rnd, isr_cur_active_status = 2, isr_last_times = (0, 0, 0, 0),
      isr_register_info =
        \<lparr>rgi_guid = hex (dev_uuid (ctx_device ctx)), rgi_kick_pc = 0,
         rgi_current_version = ai_current_version (ctx_app_info ctx),
         rgi_is_first_register_proxy_online = 1, rgi_locale_id = 2052,
         rgi_device = (dev_device_name (ctx_device ctx), ai_kernel (ctx_app_info ctx),
           dev_system_kernel (ctx_device ctx), [], ai_vendor_os (ctx_app_info ctx)),
         rgi_set_mute = 0, rgi_register_vendor_type = 6, rgi_reg_type = 0, rgi_business_info = (1, 1),
         rgi_battery_status = 0, rgi_field12 = 1\<rparr>\<rparr>"

definition InfoSync_build ::
    "(SsoInfoSyncRequest \<Rightarrow> bytes) \<Rightarrow> (bytes \<Rightarrow> rstring) \<Rightarrow> u32 \<Rightarrow> Context \<Rightarrow> bytes" where
  "InfoSync_build encode hex rnd ctx = encode (InfoSync_request hex rnd ctx)"

definition InfoSync_parse :: "bytes \<Rightarrow> EventError + unit" where
  "InfoSync_parse packet = Inr ()"

text \<open>Request id, command, request type, business type, scene type, agent type, and the kinds of keys.\<close>

type_synonym rkey_request = "(u32 \<times> u32) \<times> (u32 \<times> u32 \<times> u32) \<times> u32 \<times> i32 list"

definition FetchRKey_build :: "(OidbSvcTrpcTcpBase \<Rightarrow> bytes) \<Rightarrow> (rkey_request \<Rightarrow> bytes) \<Rightarrow> bytes" where
  "FetchRKey_build encode encode_body =
     oidb_request encode encode_body 0x9067 202 ((1, 202), (2, 1, 0), 2, [10, 20]) False True"

definition FetchRKey_parse :: "bytes \<Rightarrow> EventError + unit" where
  "FetchRKey_parse packet = Inr ()"

section \<open>Operations that send one event\<close>

text \<open>\<open>send\<close> is \<open>send_event\<close> for the event, on any state.\<close>

definition fetch_rkey ::
    "('s \<Rightarrow> 's \<times> (BusinessError + 'r)) \<Rightarrow> 's \<Rightarrow> 's \<times> (ManiaError + unit)" where
  "fetch_rkey send s = (let (s, r) = send s in (s, map_sum id (\<lambda>_. ()) (business_err r)))"

definition send_message ::
    "(logic_event \<Rightarrow> 's \<Rightarrow> 's \<times> (BusinessError + 'r)) \<Rightarrow> MessageChain \<Rightarrow> 's \<Rightarrow> 's \<times> (ManiaError + unit)" where
  "send_message send message s =
     (let (s, r) = send (EvSendMessage message \<lparr>mr_message_id = 0, mr_sequence = None, mr_result = 0,
        mr_timestamp = 0, mr_client_sequence = 0\<rparr>) s in (s, map_sum id (\<lambda>_. ()) (business_err r)))"

definition resolve_stranger_uid2uin ::
    "(u32 \<Rightarrow> rstring option \<Rightarrow> BusinessError + FetchUserInfoEvent option) \<Rightarrow> rstring \<Rightarrow> ManiaError + u32" where
  "resolve_stranger_uid2uin user_info stranger_uid =
     map_sum id fui_uin (downcast_reply (business_err (user_info 0 (Some stranger_uid))))"

section \<open>The heartbeat\<close>

datatype beat = Alive | NtSsoAlive

text \<open>Times in milliseconds; a timer of \<open>tokio\<close> fires at once, and then every period after it was due.\<close>

record heartbeat =
  hbt_now :: nat
  hbt_next :: nat
  hbt_nt_next :: nat
  hbt_running :: bool
  hbt_pushed :: "(nat \<times> beat) list"

definition heartbeat_start :: "nat \<Rightarrow> heartbeat" where
  "heartbeat_start now = \<lparr>hbt_now = now, hbt_next = now, hbt_nt_next = now, hbt_running = True, hbt_pushed = []\<rparr>"

text \<open>
  The task waits, or pushes an event: an error of \<open>push_event\<close> is logged only, and the time it takes passes.
  It stops when the sender is used or dropped. Which of two branches that are ready is taken is open.
\<close>

inductive heartbeat_step :: "heartbeat \<Rightarrow> heartbeat \<Rightarrow> bool" where
  pass: "heartbeat_step h (h\<lparr>hbt_now := hbt_now h + d\<rparr>)"
| alive: "hbt_running h \<Longrightarrow> hbt_next h \<le> hbt_now h \<Longrightarrow>
    heartbeat_step h (h\<lparr>hbt_next := hbt_next h + 10000, hbt_pushed := hbt_pushed h @ [(hbt_now h, Alive)]\<rparr>)"
| nt_alive: "hbt_running h \<Longrightarrow> hbt_nt_next h \<le> hbt_now h \<Longrightarrow>
    heartbeat_step h (h\<lparr>hbt_nt_next := hbt_nt_next h + 270000,
      hbt_pushed := hbt_pushed h @ [(hbt_now h, NtSsoAlive)]\<rparr>)"
| stopped: "hbt_running h \<Longrightarrow> heartbeat_step h (h\<lparr>hbt_running := False\<rparr>)"

inductive_cases heartbeat_stepE: "heartbeat_step g h"

text \<open>
  \<open>online\<close>: after the answer the listeners are told, and the heartbeat runs until the sender that is
  returned goes away.
\<close>

definition online ::
    "wt_server \<Rightarrow> (SsoInfoSyncRequest \<Rightarrow> bytes) \<Rightarrow> (bytes \<Rightarrow> rstring) \<Rightarrow> u32 \<Rightarrow> nat option \<Rightarrow> nat \<Rightarrow> Context
      \<Rightarrow> SystemEvent option watch \<Rightarrow> SystemEvent option watch \<times> heartbeat run" where
  "online srv encode hex rnd deadline now ctx listeners =
     (case request srv (\<lambda>ctx. Some (ctx, InfoSync_build encode hex rnd ctx))
         (\<lambda>ctx packet. Some (ctx, InfoSync_parse packet)) deadline now ctx of
        Returns now ctx (Inr _) \<Rightarrow>
          (watch_send (Some (SysBotOnline \<lparr>bon_reason = None\<rparr>)) listeners,
           Returns now ctx (Inr (heartbeat_start now)))
      | Returns now ctx (Inl e) \<Rightarrow> (listeners, Returns now ctx (Inl e))
      | Waits now ctx \<Rightarrow> (listeners, Waits now ctx)
      | Panics \<Rightarrow> (listeners, Panics)
      | Hangs \<Rightarrow> (listeners, Hangs))"

section \<open>How often it beats\<close>

definition beats :: "beat \<Rightarrow> heartbeat \<Rightarrow> nat list" where
  "beats b h = map fst (filter (\<lambda>(_, c). c = b) (hbt_pushed h))"

text \<open>The timers after so many beats, and when each beat was pushed at the earliest.\<close>

definition beating :: "nat \<Rightarrow> heartbeat \<Rightarrow> bool" where
  "beating start h \<longleftrightarrow> start \<le> hbt_now h
     \<and> hbt_next h = start + 10000 * length (beats Alive h)
     \<and> hbt_nt_next h = start + 270000 * length (beats NtSsoAlive h)
     \<and> (beats Alive h \<noteq> [] \<longrightarrow> hbt_next h \<le> hbt_now h + 10000)
     \<and> (beats NtSsoAlive h \<noteq> [] \<longrightarrow> hbt_nt_next h \<le> hbt_now h + 270000)"

lemma beats_simps [simp]:
  "beats b (h\<lparr>hbt_now := n\<rparr>) = beats b h" "beats b (h\<lparr>hbt_running := r\<rparr>) = beats b h"
  "beats b (h\<lparr>hbt_next := m, hbt_pushed := hbt_pushed h @ [(t, c)]\<rparr>) =
     beats b h @ (if c = b then [t] else [])"
  "beats b (h\<lparr>hbt_nt_next := m, hbt_pushed := hbt_pushed h @ [(t, c)]\<rparr>) =
     beats b h @ (if c = b then [t] else [])"
  by (simp_all add: beats_def)

lemma beating_step: "heartbeat_step g h \<Longrightarrow> beating start g \<Longrightarrow> beating start h"
  by (erule heartbeat_stepE) (auto simp: beating_def)

lemma beating_reachable: "heartbeat_step\<^sup>*\<^sup>* (heartbeat_start now) h \<Longrightarrow> beating now h"
proof (induction rule: rtranclp_induct)
  case base
  show ?case by (simp add: beating_def heartbeat_start_def beats_def)
qed (rule beating_step)

text \<open>
  Until any moment there was at most one heartbeat for every ten seconds begun, and one of the other
  kind for every 270; when no timer is due, there were exactly as many.
\<close>

theorem heartbeat_rate:
  assumes "heartbeat_step\<^sup>*\<^sup>* (heartbeat_start start) h"
  shows "length (beats Alive h) \<le> (hbt_now h - start) div 10000 + 1
    \<and> length (beats NtSsoAlive h) \<le> (hbt_now h - start) div 270000 + 1
    \<and> (hbt_now h < hbt_next h \<longrightarrow> length (beats Alive h) = (hbt_now h - start) div 10000 + 1)
    \<and> (hbt_now h < hbt_nt_next h \<longrightarrow> length (beats NtSsoAlive h) = (hbt_now h - start) div 270000 + 1)"
proof -
  have b: "beating start h" by (rule beating_reachable [OF assms])
  have count: "n \<le> (now - start) div p + 1 \<and> (now < start + p * n \<longrightarrow> n = (now - start) div p + 1)"
    if "0 < p" "start \<le> now" "n = 0 \<or> start + p * n \<le> now + p" for n p now :: nat
  proof (cases n)
    case (Suc m)
    then have "p * m \<le> now - start" using that by simp
    then have le: "m \<le> (now - start) div p"
      using that(1) by (metis div_le_mono nonzero_mult_div_cancel_left less_numeral_extra(3))
    have "now < start + p * n \<Longrightarrow> (now - start) div p < n"
      using that by (simp add: less_mult_imp_div_less mult.commute less_diff_conv2)
    then show ?thesis using Suc le by auto
  qed (use that in auto)
  have "length (beats Alive h) = 0 \<or> start + 10000 * length (beats Alive h) \<le> hbt_now h + 10000"
    "length (beats NtSsoAlive h) = 0 \<or> start + 270000 * length (beats NtSsoAlive h) \<le> hbt_now h + 270000"
    using b by (auto simp: beating_def)
  then show ?thesis
    using b count [of 10000 "hbt_now h"] count [of 270000 "hbt_now h"] by (auto simp: beating_def)
qed

end
