(* ===== verification/Spec2Isabelle.thy ===== *)
theory Spec2Isabelle
  imports Mania_Prelude Tea Packet_Builder Packet_Reader Mania_Context Sso_Packet Tlv_Ser Tlv_De
    Highway_Frame Highway_Client Chunk_Hash Sso_Sequence Id_Cache Cache_Op Errors Wt_Login Ecdh Wt_Op
    Socket Business Event_Logic Image_Resolver System_Events Message_Elems Message_Entity Message_Packer
    Notify_Events Push_Protos Push_Msg Common_Op Media_Events Audio_Codec Highway_Op Upload_Results
    Messaging_Logic Message_Delivery Server_Choice Online_Op
begin

text \<open>
  Mania (\<open>src/mania\<close>) is a client of the NTQQ protocol in Rust. This library models its protocol core.

  The way of a packet. A caller hands an event to the business handle (\<open>core/business.rs\<close>), which runs
  the logic handlers registered for its type, builds the event's body, puts it into an SSO packet with a
  fresh sequence number (\<open>core/packet.rs\<close>), enters the request in the table of pending requests, and gives the
  packet to the socket loops (\<open>core/socket.rs\<close>). The receive loop cuts the byte stream into packets;
  each is decrypted and parsed, its command selects the parser of an event, the logic handlers run on
  the event and on the extra events it carries, and the result goes to the waiting caller. The handlers
  keep the contact cache, and publish events to listeners over watch channels. The media of a message
  are announced to the server and uploaded over separate "highway" connections before it is built.

  Conventions (Mania_Prelude). Machine integers are words of their width, byte strings and UTF-8
  strings are lists of bytes. A panic, or not returning, is \<open>None\<close>; a \<open>Result\<close> is a sum with the error on
  the left; both together are \<open>(error + 'a) option\<close>. Shared state is passed explicitly; an \<open>async\<close> function is the
  sequence of its steps, and where steps of several tasks interleave there is a step relation or a
  list of events (Sso_Sequence, Business). Protobuf codecs (generated at build time), zlib, MD5, SHA-1's
  compression function, elliptic curves, HTTP, regular expressions, clocks and random numbers are
  parameters, gathered in records (\<open>sso_env\<close>, \<open>tlv_env\<close>, \<open>wt_env\<close>, \<open>msg_env\<close>, \<open>hw_env\<close>, \<open>push_codec\<close>,
  \<open>media_codec\<close>, \<open>highway_env\<close>); what a
  property needs of them is one of its hypotheses. What the server answers is a parameter too (\<open>contact_server\<close>,
  \<open>wt_server\<close>, \<open>media_server\<close>, \<open>upload_server\<close>, \<open>logic_server\<close>), arbitrary unless a property says otherwise.

  Theories, by layer:

  \<^item> Tea (\<open>crypto/tea.rs\<close>), Ecdh (\<open>crypto/ecdh.rs\<close>), Chunk_Hash (\<open>crypto/tri_sha1.rs\<close>,
    \<open>stream_sha1.rs\<close>): round trip and domain of the cipher; the digests do not depend on how a file is cut.
  \<^item> Packet_Builder and Packet_Reader (\<open>core/packet.rs\<close>): the locales there state what a builder
    appends and what a reader returns on it; Sso_Packet: layout of the packets built, all outcomes of parsing
    a response, OIDB round trip; Sso_Sequence: uniqueness of sequence numbers under interleaving.
  \<^item> Mania_Context (\<open>core/context.rs\<close>, \<open>key_store.rs\<close>, \<open>session.rs\<close>, \<open>sign.rs\<close>): the shared state.
  \<^item> Tlv_Ser, Tlv_De (\<open>core/tlv.rs\<close>, \<open>core/tlv/\<close>): every TLV in both directions and the registries.
  \<^item> Wt_Login (\<open>event/login/\<close>) and Wt_Op (\<open>operation/wt_op.rs\<close>): login requests and replies; the polling
    loop of a login by QR code, which makes at most 61 polls in its 120 seconds (so its definition terminates),
    and longer only while the signing server is waited for.
  \<^item> Highway_Frame, Highway_Client (\<open>core/highway/\<close>): frame codec, chunked upload with fallback.
  \<^item> Id_Cache, Cache_Op (\<open>core/cache.rs\<close>, \<open>operation/cache_op.rs\<close>): the contact cache in its three
    modes and the translation of identities. The paged request loop is a \<open>partial_function\<close>: it returns on a
    server with a last page (\<open>serves\<close>), and what its pages preserve, it preserves (\<open>iter_fetch_inv\<close>).
  \<^item> System_Events (\<open>event/system/\<close>), Common_Op (\<open>operation/common_op.rs\<close>), Image_Resolver
    (\<open>utility/image_resolver.rs\<close>).
  \<^item> Socket, Business (\<open>core/socket.rs\<close>, \<open>core/business.rs\<close>, \<open>core/event.rs\<close>): the loops
    terminate because every round consumes bytes; the table of pending requests refines one mailbox per
    request.
  \<^item> Message_Elems, Message_Entity, Message_Packer (\<open>message/\<close>): entities, chains, and their protobuf
    form in both directions.
  \<^item> Notify_Events, Push_Protos, Push_Msg (\<open>event/notify/\<close>, \<open>event/message/push_msg.rs\<close>, \<open>src/event/\<close>): what is
    pushed by the server, and the events for the listeners.
  \<^item> Media_Events (\<open>event/message/\<close>): requests and replies of uploads, downloads, forwarded records and
    sent messages. Highway_Op (\<open>operation/highway_op.rs\<close>, \<open>utility/stream_helper.rs\<close>): the six uploads on the state
    \<open>Highway\<close>, with a log of the transfers; what every upload keeps of state and entity is the locale
    \<open>uploader\<close>. Upload_Results: what a successful upload announced, stored and sent. The loops over a stream
    and over the blocks of a record terminate because every round advances the position. Audio_Codec
    (\<open>mania-codec\<close>): decoding, resampling and encoding of a record; the resampling loop is a
    \<open>partial_function\<close>, which returns if every call reads a frame (\<open>resampler_returns\<close>).
  \<^item> Event_Logic, Messaging_Logic (\<open>core/business/\<close>, \<open>event/mod.rs\<close>): the three logic handlers; Message_Delivery:
    what they tell the listeners is true, and messages and notifications from the wire to a listener, with the
    handlers registered in any order.
  \<^item> Server_Choice (\<open>core/connect.rs\<close>, \<open>core/ping.rs\<close>): the server chosen is a fastest candidate. Online_Op
    (\<open>online\<close> of \<open>operation/wt_op.rs\<close>, \<open>event/system/info_sync.rs\<close>, \<open>fetch_rkey.rs\<close>): going online, and how
    often the heartbeat task beats, as an invariant of its step relation.

  Interfaces. The locales are stated where a component relies on another: what a builder step appends and
  a reader step returns (Packet_Builder, Packet_Reader), the state a digest may reach (Chunk_Hash), the
  uploads of an entity (Highway_Op, and for the entities of a chain Messaging_Logic), a source of account
  numbers (Message_Delivery). Each is interpreted on the model's own definitions.

  Not modelled: files on disk and the HTTP exchange with the signing server; ICMP, DNS and TCP themselves
  and \<open>Business::new\<close>; task scheduling; the libraries behind the parameters (protobuf, compression, digests,
  curves, audio and image codecs); \<open>Debug\<close> output; the macros that derive boilerplate; example programs
  and the build script.
\<close>

end
